(* ===== verification/Prelude.thy ===== *)
theory Prelude
  imports
    Complex_Main
    "HOL-Library.AList"
    "HOL-Library.Char_ord"
    "HOL-Library.List_Lexorder"
    "HOL-Library.Product_Lexorder"
begin

text \<open>
  Shared vocabulary of the development: results that may be an exception, the
  state-and-exception monad in which the stateful Python code is translated, a calculus
  of preserved invariants for it, insertion-ordered dictionaries, and the Python string
  operations that the program uses (decimal formatting, prefix tests, blank tests,
  case folding, joining).

  A Python \<open>str\<close> is modelled by its UTF-8 bytes, one \<open>char\<close> per byte.  Byte-wise
  lexicographic order on UTF-8 agrees with code-point order, which is what
  \<open>sorted\<close> compares strings by.
\<close>

named_theorems keeps "an operation preserves an invariant"
named_theorems model_defs "definitions unfolded by the component proofs"

section \<open>Results\<close>

text \<open>\<open>Inl\<close> is a raised exception, \<open>Inr\<close> a returned value.\<close>

definition bindR :: "'e + 'a \<Rightarrow> ('a \<Rightarrow> 'e + 'b) \<Rightarrow> 'e + 'b" where
  "bindR r f = (case r of Inl e \<Rightarrow> Inl e | Inr a \<Rightarrow> f a)"

lemma bindR_simps [simp]:
  "bindR (Inl e) f = Inl e"
  "bindR (Inr a) f = f a"
  by (simp_all add: bindR_def)

lemma bindR_eq_Inr [simp]:
  "bindR r f = Inr b \<longleftrightarrow> (\<exists>a. r = Inr a \<and> f a = Inr b)"
  by (cases r) auto

lemma bindR_eq_Inl:
  "bindR r f = Inl e \<longleftrightarrow> r = Inl e \<or> (\<exists>a. r = Inr a \<and> f a = Inl e)"
  by (cases r) auto

fun seqR :: "('e + 'a) list \<Rightarrow> 'e + 'a list" where
  "seqR [] = Inr []"
| "seqR (r # rs) = bindR r (\<lambda>a. bindR (seqR rs) (\<lambda>as. Inr (a # as)))"

lemma seqR_Inr_iff: "seqR rs = Inr as \<longleftrightarrow> rs = map Inr as"
  by (induction rs arbitrary: as) auto

fun seq_items :: "('k \<times> ('e + 'a)) list \<Rightarrow> 'e + ('k \<times> 'a) list" where
  "seq_items [] = Inr []"
| "seq_items (p # ps) =
     bindR (snd p) (\<lambda>a. bindR (seq_items ps) (\<lambda>as. Inr ((fst p, a) # as)))"

lemma seq_items_Inr_iff: "seq_items ps = Inr as \<longleftrightarrow> ps = map (map_prod id Inr) as"
proof (induction ps arbitrary: as)
  case Nil
  then show ?case by auto
next
  case (Cons p ps)
  obtain k r where p: "p = (k, r)" by (cases p)
  show ?case
    by (cases as) (auto simp: p Cons.IH)
qed

lemma seqR_map_elem:
  "seqR (map f xs) = Inr ys \<Longrightarrow> y \<in> set ys \<Longrightarrow> \<exists>x \<in> set xs. f x = Inr y"
  by (induction xs arbitrary: ys) auto

lemma seq_items_map_elem:
  "seq_items (map (map_prod id f) kvs) = Inr d \<Longrightarrow> p \<in> set d \<Longrightarrow>
   \<exists>v. (fst p, v) \<in> set kvs \<and> f v = Inr (snd p)"
  by (induction kvs arbitrary: d) force+

section \<open>The state-and-exception monad\<close>

text \<open>
  A Python method that mutates objects and may raise is a function from the state to an
  outcome together with the state it leaves.  The state is returned with an exception as
  well: what was mutated before a \<open>raise\<close> stays mutated.
\<close>

type_synonym ('s, 'e, 'a) SE = "'s \<Rightarrow> ('e + 'a) \<times> 's"

definition returnM :: "'a \<Rightarrow> ('s, 'e, 'a) SE" where
  "returnM a = (\<lambda>s. (Inr a, s))"

definition raiseM :: "'e \<Rightarrow> ('s, 'e, 'a) SE" where
  "raiseM e = (\<lambda>s. (Inl e, s))"

definition bindM :: "('s, 'e, 'a) SE \<Rightarrow> ('a \<Rightarrow> ('s, 'e, 'b) SE) \<Rightarrow> ('s, 'e, 'b) SE" where
  "bindM m f = (\<lambda>s. case m s of (Inl e, t) \<Rightarrow> (Inl e, t) | (Inr a, t) \<Rightarrow> f a t)"

definition thenM :: "('s, 'e, 'a) SE \<Rightarrow> ('s, 'e, 'b) SE \<Rightarrow> ('s, 'e, 'b) SE" where
  "thenM m k = bindM m (\<lambda>_. k)"

definition getM :: "('s \<Rightarrow> 'a) \<Rightarrow> ('s, 'e, 'a) SE" where
  "getM f = (\<lambda>s. (Inr (f s), s))"

definition updM :: "('s \<Rightarrow> 's) \<Rightarrow> ('s, 'e, unit) SE" where
  "updM f = (\<lambda>s. (Inr (), f s))"

definition liftR :: "'e + 'a \<Rightarrow> ('s, 'e, 'a) SE" where
  "liftR r = (\<lambda>s. (r, s))"

text \<open>\<open>try: m except exc: handler(exc)\<close>; a handler that does not match re-raises.\<close>

definition catchM :: "('s, 'e, 'a) SE \<Rightarrow> ('e \<Rightarrow> ('s, 'e, 'a) SE) \<Rightarrow> ('s, 'e, 'a) SE" where
  "catchM m h = (\<lambda>s. case m s of (Inl e, t) \<Rightarrow> h e t | (Inr a, t) \<Rightarrow> (Inr a, t))"

lemmas monad_defs =
  returnM_def raiseM_def bindM_def thenM_def getM_def updM_def liftR_def catchM_def

lemma monad_run [simp]:
  "returnM a s = (Inr a, s)"
  "raiseM e s = (Inl e, s)"
  "getM f s = (Inr (f s), s)"
  "updM g s = (Inr (), g s)"
  "liftR r s = (r, s)"
  by (simp_all add: monad_defs)

lemma bindM_run:
  "m s = (Inr a, t) \<Longrightarrow> bindM m f s = f a t"
  "m s = (Inl e, t) \<Longrightarrow> bindM m f s = (Inl e, t)"
  by (simp_all add: bindM_def)

lemma thenM_run:
  "m s = (Inr a, t) \<Longrightarrow> thenM m k s = k t"
  "m s = (Inl e, t) \<Longrightarrow> thenM m k s = (Inl e, t)"
  by (simp_all add: thenM_def bindM_def)

lemma bindM_simps [simp]:
  "bindM (returnM a) f s = f a s"
  "bindM (raiseM e) f1 s = (Inl e, s)"
  "bindM (getM g) f2 s = f2 (g s) s"
  "bindM (updM u) f3 s = f3 () (u s)"
  "bindM (liftR (Inr a')) f4 s = f4 a' s"
  "bindM (liftR (Inl e)) f5 s = (Inl e, s)"
  by (simp_all add: monad_defs)

lemma thenM_simps [simp]:
  "thenM (returnM a) k s = k s"
  "thenM (raiseM e) k s = (Inl e, s)"
  "thenM (updM u) k s = k (u s)"
  by (simp_all add: monad_defs)

lemma bindM_Inr:
  "bindM m f s = (Inr b, u) \<longleftrightarrow> (\<exists>a t. m s = (Inr a, t) \<and> f a t = (Inr b, u))"
  by (auto simp: bindM_def split: prod.splits sum.splits)

lemma thenM_Inr:
  "thenM m k s = (Inr b, u) \<longleftrightarrow> (\<exists>a t. m s = (Inr a, t) \<and> k t = (Inr b, u))"
  by (auto simp: thenM_def bindM_Inr)

lemma bindM_Inl:
  "bindM m f s = (Inl e, u) \<longleftrightarrow>
     m s = (Inl e, u) \<or> (\<exists>a t. m s = (Inr a, t) \<and> f a t = (Inl e, u))"
  by (auto simp: bindM_def split: prod.splits sum.splits)

lemma thenM_Inl:
  "thenM m k s = (Inl e, u) \<longleftrightarrow>
     m s = (Inl e, u) \<or> (\<exists>a t. m s = (Inr a, t) \<and> k t = (Inl e, u))"
  by (auto simp: thenM_def bindM_Inl)

lemma bindM_InrE:
  assumes "bindM m f s = (Inr b, u)"
  obtains a t where "m s = (Inr a, t)" and "f a t = (Inr b, u)"
  using assms by (auto simp: bindM_Inr)

lemma thenM_InrE:
  assumes "thenM m k s = (Inr b, u)"
  obtains a t where "m s = (Inr a, t)" and "k t = (Inr b, u)"
  using assms by (auto simp: thenM_Inr)

section \<open>Preserved relations\<close>

text \<open>
  \<open>keepsR R m\<close>: whatever the outcome, the state left by \<open>m\<close> is related to the one it
  started in.  For a preorder \<open>R\<close> the relation composes along \<open>bindM\<close>, so that a
  frame condition or an invariant of a long handler follows from one lemma per call.
\<close>

definition keepsR :: "('s \<Rightarrow> 's \<Rightarrow> bool) \<Rightarrow> ('s, 'e, 'a) SE \<Rightarrow> bool" where
  "keepsR R m \<longleftrightarrow> (\<forall>s. R s (snd (m s)))"

definition keepsI :: "('s \<Rightarrow> bool) \<Rightarrow> ('s, 'e, 'a) SE \<Rightarrow> bool" where
  "keepsI I m \<longleftrightarrow> (\<forall>s. I s \<longrightarrow> I (snd (m s)))"

lemma keepsID: "keepsI I m \<Longrightarrow> I s \<Longrightarrow> m s = (r, t) \<Longrightarrow> I t"
  by (metis keepsI_def snd_conv)

lemma keepsII: "(\<And>s r t. I s \<Longrightarrow> m s = (r, t) \<Longrightarrow> I t) \<Longrightarrow> keepsI I m"
  by (auto simp: keepsI_def) (metis prod.collapse)

lemma keepsI_basic [keeps]:
  "keepsI I (returnM a)"
  "keepsI I (raiseM e)"
  "keepsI I (getM f)"
  "keepsI I (liftR r)"
  by (simp_all add: keepsI_def)

lemma keepsI_updM: "(\<And>s. I s \<Longrightarrow> I (f s)) \<Longrightarrow> keepsI I (updM f)"
  by (simp add: keepsI_def)

lemma keepsI_bindM [keeps]:
  "keepsI I m \<Longrightarrow> (\<And>a. keepsI I (f a)) \<Longrightarrow> keepsI I (bindM m f)"
  by (force simp: keepsI_def bindM_def split: prod.splits sum.splits)

lemma keepsI_thenM [keeps]:
  "keepsI I m \<Longrightarrow> keepsI I k \<Longrightarrow> keepsI I (thenM m k)"
  by (simp add: thenM_def keepsI_bindM)

lemma keepsI_catchM [keeps]:
  "keepsI I m \<Longrightarrow> (\<And>e. keepsI I (h e)) \<Longrightarrow> keepsI I (catchM m h)"
  by (force simp: keepsI_def catchM_def split: prod.splits sum.splits)

lemma keepsI_if [keeps]:
  "(b \<Longrightarrow> keepsI I m) \<Longrightarrow> (\<not> b \<Longrightarrow> keepsI I n) \<Longrightarrow> keepsI I (if b then m else n)"
  by simp

lemma keepsI_case_option [keeps]:
  "keepsI I m \<Longrightarrow> (\<And>a. keepsI I (f a)) \<Longrightarrow>
   keepsI I (case x of None \<Rightarrow> m | Some a \<Rightarrow> f a)"
  by (simp split: option.split)

lemma keepsI_case_sum [keeps]:
  "(\<And>e. keepsI I (g e)) \<Longrightarrow> (\<And>a. keepsI I (f a)) \<Longrightarrow>
   keepsI I (case x of Inl e \<Rightarrow> g e | Inr a \<Rightarrow> f a)"
  by (simp split: sum.split)

lemma keepsI_let [keeps]: "(\<And>x. keepsI I (f x)) \<Longrightarrow> keepsI I (Let v f)"
  by simp

lemma keepsRD: "keepsR R m \<Longrightarrow> m s = (r, t) \<Longrightarrow> R s t"
  by (metis keepsR_def snd_conv)

lemma keepsR_as_I:
  assumes "\<And>s0. keepsI (R s0) m" and "\<And>s. R s s"
  shows "keepsR R m"
  using assms by (auto simp: keepsR_def keepsI_def)

section \<open>Insertion-ordered dictionaries\<close>

text \<open>
  A Python \<open>dict\<close> is an association list with \<open>map_of\<close> as lookup.  \<open>AList.update\<close>
  overwrites in place or appends at the end, which is Python's insertion order.
\<close>

type_synonym ('k, 'v) dict = "('k \<times> 'v) list"

abbreviation dget :: "('k, 'v) dict \<Rightarrow> 'k \<Rightarrow> 'v option" where
  "dget \<equiv> map_of"

abbreviation dput :: "'k \<Rightarrow> 'v \<Rightarrow> ('k, 'v) dict \<Rightarrow> ('k, 'v) dict" where
  "dput \<equiv> AList.update"

abbreviation dvalues :: "('k, 'v) dict \<Rightarrow> 'v list" where
  "dvalues d \<equiv> map snd d"

definition dpop :: "'k \<Rightarrow> ('k, 'v) dict \<Rightarrow> ('k, 'v) dict" where
  "dpop k d = filter (\<lambda>p. fst p \<noteq> k) d"

definition dmember :: "'k \<Rightarrow> ('k, 'v) dict \<Rightarrow> bool" where
  "dmember k d \<longleftrightarrow> dget d k \<noteq> None"

lemma dget_dput [simp]: "dget (dput k v d) k' = (if k' = k then Some v else dget d k')"
  by (simp add: update_conv')

lemma dget_dpop [simp]: "dget (dpop k d) k' = (if k' = k then None else dget d k')"
  by (induction d) (auto simp: dpop_def)

lemma dkeys_dput: "fst ` set (dput k v d) = insert k (fst ` set d)"
  by (simp add: dom_update)

lemma dput_distinct: "distinct (map fst d) \<Longrightarrow> distinct (map fst (dput k v d))"
  by (rule distinct_update)

lemma dput_append: "dget d k = None \<Longrightarrow> dput k v d = d @ [(k, v)]"
  by (induction d) (auto split: if_splits)

lemma dput_same: "dget d k = Some v \<Longrightarrow> dput k v d = d"
  by (induction d) (auto split: if_splits)

section \<open>Strings\<close>

definition starts_with :: "string \<Rightarrow> string \<Rightarrow> bool" where
  "starts_with p s \<longleftrightarrow> take (length p) s = p"

definition removeprefix :: "string \<Rightarrow> string \<Rightarrow> string" where
  "removeprefix p s = (if starts_with p s then drop (length p) s else s)"

lemma starts_with_append [simp]: "starts_with p (p @ s)"
  by (simp add: starts_with_def)

lemma starts_withE:
  assumes "starts_with p s"
  obtains t where "s = p @ t"
  using assms by (metis append_take_drop_id starts_with_def)

fun join :: "string \<Rightarrow> string list \<Rightarrow> string" where
  "join sep [] = []"
| "join sep [x] = x"
| "join sep (x # y # xs) = x @ sep @ join sep (y # xs)"

text \<open>Decimal digits of a natural number, as \<open>str(n)\<close> prints them.\<close>

definition digit_char :: "nat \<Rightarrow> char" where
  "digit_char d = ''0123456789'' ! d"

fun show_nat :: "nat \<Rightarrow> string" where
  "show_nat n =
     (if n < 10 then [digit_char n] else show_nat (n div 10) @ [digit_char (n mod 10)])"

declare show_nat.simps [simp del]

definition show_int :: "int \<Rightarrow> string" where
  "show_int i = (if i < 0 then ''-'' @ show_nat (nat (- i)) else show_nat (nat i))"

definition is_digit :: "char \<Rightarrow> bool" where
  "is_digit c \<longleftrightarrow> 48 \<le> (of_char c :: nat) \<and> (of_char c :: nat) \<le> 57"

definition digit_val :: "char \<Rightarrow> nat" where
  "digit_val c = of_char c - 48"

fun read_digits :: "nat \<Rightarrow> string \<Rightarrow> nat" where
  "read_digits acc [] = acc"
| "read_digits acc (c # cs) = read_digits (10 * acc + digit_val c) cs"

lemma less_10_cases: "(d :: nat) < 10 \<Longrightarrow> d \<in> {0, 1, 2, 3, 4, 5, 6, 7, 8, 9}"
  by auto

lemma digit_char_val [simp]: "d < 10 \<Longrightarrow> digit_val (digit_char d) = d"
  by (drule less_10_cases) (auto simp: digit_val_def digit_char_def)

lemma digit_char_is_digit [simp]: "d < 10 \<Longrightarrow> is_digit (digit_char d)"
  by (drule less_10_cases) (auto simp: is_digit_def digit_char_def)

lemma read_digits_append: "read_digits a (xs @ ys) = read_digits (read_digits a xs) ys"
  by (induction xs arbitrary: a) auto

lemma read_show_nat: "read_digits 0 (show_nat n) = n"
proof (induction n rule: show_nat.induct)
  case (1 n)
  then show ?case
    by (simp add: show_nat.simps [of n] read_digits_append)
qed

lemma show_nat_digits: "list_all is_digit (show_nat n)"
proof (induction n rule: show_nat.induct)
  case (1 n)
  then show ?case
    by (simp add: show_nat.simps [of n])
qed

lemma show_nat_nonempty [simp]: "show_nat n \<noteq> []"
  by (simp add: show_nat.simps [of n])

lemma show_nat_inj: "show_nat m = show_nat n \<Longrightarrow> m = n"
  by (metis read_show_nat)

lemma minus_not_digit [simp]: "\<not> is_digit (CHR ''-'')"
  by (simp add: is_digit_def)

lemma show_nat_no_minus: "show_nat n \<noteq> CHR ''-'' # cs"
  using show_nat_digits [of n] by auto

lemma show_int_inj: "show_int i = show_int j \<Longrightarrow> i = j"
  by (auto simp: show_int_def show_nat_no_minus show_nat_no_minus [symmetric]
      dest: show_nat_inj split: if_splits)

text \<open>\<open>f"{n:0<w>d}"\<close>: zero padding to a minimal width, for a non-negative number.\<close>

definition zfill :: "nat \<Rightarrow> string \<Rightarrow> string" where
  "zfill w s = replicate (w - length s) (CHR ''0'') @ s"

text \<open>
  A string is blank when \<open>s.strip()\<close> is empty: every character is white space, i.e. one of
  U+0009--U+000D, U+001C--U+0020, U+0085, U+00A0, U+1680, U+2000--U+200A, U+2028, U+2029,
  U+202F, U+205F, U+3000, here recognised in their UTF-8 form.
\<close>

definition ascii_space :: "char \<Rightarrow> bool" where
  "ascii_space c \<longleftrightarrow>
     (let n = (of_char c :: nat) in (9 \<le> n \<and> n \<le> 13) \<or> (28 \<le> n \<and> n \<le> 32))"

definition space2 :: "char \<Rightarrow> char \<Rightarrow> bool" where
  "space2 a b \<longleftrightarrow> (of_char a :: nat) = 194 \<and> (of_char b :: nat) \<in> {133, 160}"

definition space3 :: "char \<Rightarrow> char \<Rightarrow> char \<Rightarrow> bool" where
  "space3 a b c \<longleftrightarrow>
     (let x = (of_char a :: nat); y = (of_char b :: nat); z = (of_char c :: nat) in
        (x = 225 \<and> y = 154 \<and> z = 128) \<or>
        (x = 226 \<and> y = 128 \<and> ((128 \<le> z \<and> z \<le> 138) \<or> z \<in> {168, 169, 175})) \<or>
        (x = 226 \<and> y = 129 \<and> z = 159) \<or>
        (x = 227 \<and> y = 128 \<and> z = 128))"

fun blank :: "string \<Rightarrow> bool" where
  "blank [] = True"
| "blank (a # b # c # s) =
     (if ascii_space a then blank (b # c # s)
      else if space2 a b then blank (c # s)
      else space3 a b c \<and> blank s)"
| "blank [a, b] = (if ascii_space a then blank [b] else space2 a b)"
| "blank [a] = ascii_space a"

text \<open>
  \<open>str.casefold\<close>, as far as a comparison with a lower-case ASCII string can observe it:
  ASCII letters are lowered and the code points whose folding is made of ASCII letters only
  (long s, the Kelvin sign, sharp s and the Latin ligatures) are replaced by it.  Every other
  code point folds to a string with a non-ASCII character, as it does here.
\<close>

definition lower_char :: "char \<Rightarrow> char" where
  "lower_char c =
     (let n = (of_char c :: nat) in if 65 \<le> n \<and> n \<le> 90 then char_of (n + 32) else c)"

fun casefold :: "string \<Rightarrow> string" where
  "casefold [] = []"
| "casefold (a # s) =
     (let x = (of_char a :: nat) in
      case s of
        b # t \<Rightarrow>
          (let y = (of_char b :: nat) in
           if x = 197 \<and> y = 191 then ''s'' @ casefold t
           else if x = 195 \<and> y = 159 then ''ss'' @ casefold t
           else
             (case t of
                c # u \<Rightarrow>
                  (let z = (of_char c :: nat) in
                   if x = 226 \<and> y = 132 \<and> z = 170 then ''k'' @ casefold u
                   else if x = 225 \<and> y = 186 \<and> z = 158 then ''ss'' @ casefold u
                   else if x = 239 \<and> y = 172 \<and> z = 128 then ''ff'' @ casefold u
                   else if x = 239 \<and> y = 172 \<and> z = 129 then ''fi'' @ casefold u
                   else if x = 239 \<and> y = 172 \<and> z = 130 then ''fl'' @ casefold u
                   else if x = 239 \<and> y = 172 \<and> z = 131 then ''ffi'' @ casefold u
                   else if x = 239 \<and> y = 172 \<and> z = 132 then ''ffl'' @ casefold u
                   else if x = 239 \<and> y = 172 \<and> z \<in> {133, 134} then ''st'' @ casefold u
                   else lower_char a # casefold s)
              | [] \<Rightarrow> lower_char a # casefold s))
      | [] \<Rightarrow> [lower_char a])"

definition contains_char :: "char \<Rightarrow> string \<Rightarrow> bool" where
  "contains_char c s \<longleftrightarrow> c \<in> set s"

end
