(* ===== verification/Domain_Base.thy ===== *)
theory Domain_Base
  imports Prelude
begin

text \<open>
  \<open>packages/domain/enums.py\<close> and \<open>packages/domain/errors.py\<close>: the string enumerations, with
  the look-up by value that \<open>Enum(value)\<close> performs, and the error classes with their codes
  and their inheritance.
\<close>

section \<open>Enumerations\<close>

datatype agent_name =
    INVENTORY
  | DISPATCH
  | CARRIER
  | CUSTOMER_COMMUNICATIONS

primrec agent_name_value :: "agent_name \<Rightarrow> string" where
  "agent_name_value INVENTORY = ''inventory''"
| "agent_name_value DISPATCH = ''dispatch''"
| "agent_name_value CARRIER = ''carrier''"
| "agent_name_value CUSTOMER_COMMUNICATIONS = ''customer_communications''"

definition agent_name_members :: "agent_name list" where
  "agent_name_members =
    [INVENTORY, DISPATCH, CARRIER, CUSTOMER_COMMUNICATIONS]"

definition agent_name_of :: "string \<Rightarrow> agent_name option" where
  "agent_name_of s = find (\<lambda>m. agent_name_value m = s) agent_name_members"

datatype effect_class =
    EC_READ
  | EC_REVERSIBLE_WRITE
  | EC_FINANCIAL_COMMIT
  | EC_PHYSICAL_COMMIT
  | EC_EXTERNAL_DISCLOSURE

primrec effect_class_value :: "effect_class \<Rightarrow> string" where
  "effect_class_value EC_READ = ''read''"
| "effect_class_value EC_REVERSIBLE_WRITE = ''reversible_write''"
| "effect_class_value EC_FINANCIAL_COMMIT = ''financial_commit''"
| "effect_class_value EC_PHYSICAL_COMMIT = ''physical_commit''"
| "effect_class_value EC_EXTERNAL_DISCLOSURE = ''external_disclosure''"

definition effect_class_members :: "effect_class list" where
  "effect_class_members =
    [EC_READ, EC_REVERSIBLE_WRITE, EC_FINANCIAL_COMMIT, EC_PHYSICAL_COMMIT, EC_EXTERNAL_DISCLOSURE]"

definition effect_class_of :: "string \<Rightarrow> effect_class option" where
  "effect_class_of s = find (\<lambda>m. effect_class_value m = s) effect_class_members"

datatype run_status =
    RS_PENDING
  | RS_RUNNING
  | RS_COMPLETED
  | RS_BLOCKED
  | RS_PENDING_APPROVAL
  | RS_CANCELLED
  | RS_FAILED

primrec run_status_value :: "run_status \<Rightarrow> string" where
  "run_status_value RS_PENDING = ''pending''"
| "run_status_value RS_RUNNING = ''running''"
| "run_status_value RS_COMPLETED = ''completed''"
| "run_status_value RS_BLOCKED = ''blocked''"
| "run_status_value RS_PENDING_APPROVAL = ''pending_approval''"
| "run_status_value RS_CANCELLED = ''cancelled''"
| "run_status_value RS_FAILED = ''failed''"

definition run_status_members :: "run_status list" where
  "run_status_members =
    [RS_PENDING, RS_RUNNING, RS_COMPLETED, RS_BLOCKED, RS_PENDING_APPROVAL, RS_CANCELLED, RS_FAILED]"

definition run_status_of :: "string \<Rightarrow> run_status option" where
  "run_status_of s = find (\<lambda>m. run_status_value m = s) run_status_members"

datatype governance_mode =
    GM_SHADOW
  | GM_ENFORCE

primrec governance_mode_value :: "governance_mode \<Rightarrow> string" where
  "governance_mode_value GM_SHADOW = ''shadow''"
| "governance_mode_value GM_ENFORCE = ''enforce''"

definition governance_mode_members :: "governance_mode list" where
  "governance_mode_members =
    [GM_SHADOW, GM_ENFORCE]"

definition governance_mode_of :: "string \<Rightarrow> governance_mode option" where
  "governance_mode_of s = find (\<lambda>m. governance_mode_value m = s) governance_mode_members"

datatype scenario_name =
    SN_BENIGN
  | SN_ADVERSARIAL

primrec scenario_name_value :: "scenario_name \<Rightarrow> string" where
  "scenario_name_value SN_BENIGN = ''benign''"
| "scenario_name_value SN_ADVERSARIAL = ''adversarial''"

definition scenario_name_members :: "scenario_name list" where
  "scenario_name_members =
    [SN_BENIGN, SN_ADVERSARIAL]"

definition scenario_name_of :: "string \<Rightarrow> scenario_name option" where
  "scenario_name_of s = find (\<lambda>m. scenario_name_value m = s) scenario_name_members"

datatype decision_outcome =
    DO_ALLOW
  | DO_GUIDE
  | DO_BLOCK
  | DO_ESCALATE

primrec decision_outcome_value :: "decision_outcome \<Rightarrow> string" where
  "decision_outcome_value DO_ALLOW = ''allow''"
| "decision_outcome_value DO_GUIDE = ''guide''"
| "decision_outcome_value DO_BLOCK = ''block''"
| "decision_outcome_value DO_ESCALATE = ''escalate''"

definition decision_outcome_members :: "decision_outcome list" where
  "decision_outcome_members =
    [DO_ALLOW, DO_GUIDE, DO_BLOCK, DO_ESCALATE]"

definition decision_outcome_of :: "string \<Rightarrow> decision_outcome option" where
  "decision_outcome_of s = find (\<lambda>m. decision_outcome_value m = s) decision_outcome_members"

datatype commitment_status =
    CS_PREPARED
  | CS_PENDING_APPROVAL
  | CS_APPROVED
  | CS_REJECTED
  | CS_CONFIRMED
  | CS_CANCELLED
  | CS_EXPIRED

primrec commitment_status_value :: "commitment_status \<Rightarrow> string" where
  "commitment_status_value CS_PREPARED = ''prepared''"
| "commitment_status_value CS_PENDING_APPROVAL = ''pending_approval''"
| "commitment_status_value CS_APPROVED = ''approved''"
| "commitment_status_value CS_REJECTED = ''rejected''"
| "commitment_status_value CS_CONFIRMED = ''confirmed''"
| "commitment_status_value CS_CANCELLED = ''cancelled''"
| "commitment_status_value CS_EXPIRED = ''expired''"

definition commitment_status_members :: "commitment_status list" where
  "commitment_status_members =
    [CS_PREPARED, CS_PENDING_APPROVAL, CS_APPROVED, CS_REJECTED, CS_CONFIRMED, CS_CANCELLED, CS_EXPIRED]"

definition commitment_status_of :: "string \<Rightarrow> commitment_status option" where
  "commitment_status_of s = find (\<lambda>m. commitment_status_value m = s) commitment_status_members"

datatype approval_decision =
    AD_APPROVE
  | AD_REJECT

primrec approval_decision_value :: "approval_decision \<Rightarrow> string" where
  "approval_decision_value AD_APPROVE = ''approve''"
| "approval_decision_value AD_REJECT = ''reject''"

definition approval_decision_members :: "approval_decision list" where
  "approval_decision_members =
    [AD_APPROVE, AD_REJECT]"

definition approval_decision_of :: "string \<Rightarrow> approval_decision option" where
  "approval_decision_of s = find (\<lambda>m. approval_decision_value m = s) approval_decision_members"

datatype approval_status =
    AS_PENDING_APPROVAL
  | AS_APPROVED
  | AS_REJECTED
  | AS_EXPIRED

primrec approval_status_value :: "approval_status \<Rightarrow> string" where
  "approval_status_value AS_PENDING_APPROVAL = ''pending_approval''"
| "approval_status_value AS_APPROVED = ''approved''"
| "approval_status_value AS_REJECTED = ''rejected''"
| "approval_status_value AS_EXPIRED = ''expired''"

definition approval_status_members :: "approval_status list" where
  "approval_status_members =
    [AS_PENDING_APPROVAL, AS_APPROVED, AS_REJECTED, AS_EXPIRED]"

definition approval_status_of :: "string \<Rightarrow> approval_status option" where
  "approval_status_of s = find (\<lambda>m. approval_status_value m = s) approval_status_members"

datatype workflow_stage =
    WS_STARTED
  | WS_INVENTORY_COMPLETE
  | WS_DISPATCH_COMPLETE
  | WS_BOOKING_PREPARED
  | WS_AWAITING_APPROVAL
  | WS_BOOKING_CONFIRMED
  | WS_NOTIFICATION_SENT
  | WS_COMPLETE
  | WS_CANCELLED
  | WS_BLOCKED
  | WS_FAILED

primrec workflow_stage_value :: "workflow_stage \<Rightarrow> string" where
  "workflow_stage_value WS_STARTED = ''started''"
| "workflow_stage_value WS_INVENTORY_COMPLETE = ''inventory_complete''"
| "workflow_stage_value WS_DISPATCH_COMPLETE = ''dispatch_complete''"
| "workflow_stage_value WS_BOOKING_PREPARED = ''booking_prepared''"
| "workflow_stage_value WS_AWAITING_APPROVAL = ''awaiting_approval''"
| "workflow_stage_value WS_BOOKING_CONFIRMED = ''booking_confirmed''"
| "workflow_stage_value WS_NOTIFICATION_SENT = ''notification_sent''"
| "workflow_stage_value WS_COMPLETE = ''complete''"
| "workflow_stage_value WS_CANCELLED = ''cancelled''"
| "workflow_stage_value WS_BLOCKED = ''blocked''"
| "workflow_stage_value WS_FAILED = ''failed''"

definition workflow_stage_members :: "workflow_stage list" where
  "workflow_stage_members =
    [WS_STARTED, WS_INVENTORY_COMPLETE, WS_DISPATCH_COMPLETE, WS_BOOKING_PREPARED, WS_AWAITING_APPROVAL, WS_BOOKING_CONFIRMED, WS_NOTIFICATION_SENT, WS_COMPLETE, WS_CANCELLED, WS_BLOCKED, WS_FAILED]"

definition workflow_stage_of :: "string \<Rightarrow> workflow_stage option" where
  "workflow_stage_of s = find (\<lambda>m. workflow_stage_value m = s) workflow_stage_members"

datatype (plugins only: code size) event_type =
    ET_RUN_STARTED
  | ET_AGENT_STARTED
  | ET_TOOL_ATTEMPTED
  | ET_GOVERNANCE_OBSERVED
  | ET_POLICY_DECIDED
  | ET_TOOL_GUIDED
  | ET_TOOL_BLOCKED
  | ET_APPROVAL_REQUIRED
  | ET_RUN_PAUSED
  | ET_TOOL_SUCCEEDED
  | ET_TOOL_FAILED
  | ET_AGENT_COMPLETED
  | ET_AGENT_MODEL_COMPLETED
  | ET_AGENT_PAUSED
  | ET_AGENT_RESUMED
  | ET_APPROVAL_APPROVED
  | ET_APPROVAL_REJECTED
  | ET_APPROVAL_EXPIRED
  | ET_RUN_RESUMED
  | ET_RUN_CANCELLED
  | ET_RUN_COMPLETED
  | ET_RUN_FAILED

primrec event_type_value :: "event_type \<Rightarrow> string" where
  "event_type_value ET_RUN_STARTED = ''run_started''"
| "event_type_value ET_AGENT_STARTED = ''agent_started''"
| "event_type_value ET_TOOL_ATTEMPTED = ''tool_attempted''"
| "event_type_value ET_GOVERNANCE_OBSERVED = ''governance_observed''"
| "event_type_value ET_POLICY_DECIDED = ''policy_decided''"
| "event_type_value ET_TOOL_GUIDED = ''tool_guided''"
| "event_type_value ET_TOOL_BLOCKED = ''tool_blocked''"
| "event_type_value ET_APPROVAL_REQUIRED = ''approval_required''"
| "event_type_value ET_RUN_PAUSED = ''run_paused''"
| "event_type_value ET_TOOL_SUCCEEDED = ''tool_succeeded''"
| "event_type_value ET_TOOL_FAILED = ''tool_failed''"
| "event_type_value ET_AGENT_COMPLETED = ''agent_completed''"
| "event_type_value ET_AGENT_MODEL_COMPLETED = ''agent_model_completed''"
| "event_type_value ET_AGENT_PAUSED = ''agent_paused''"
| "event_type_value ET_AGENT_RESUMED = ''agent_resumed''"
| "event_type_value ET_APPROVAL_APPROVED = ''approval_approved''"
| "event_type_value ET_APPROVAL_REJECTED = ''approval_rejected''"
| "event_type_value ET_APPROVAL_EXPIRED = ''approval_expired''"
| "event_type_value ET_RUN_RESUMED = ''run_resumed''"
| "event_type_value ET_RUN_CANCELLED = ''run_cancelled''"
| "event_type_value ET_RUN_COMPLETED = ''run_completed''"
| "event_type_value ET_RUN_FAILED = ''run_failed''"

definition event_type_members :: "event_type list" where
  "event_type_members =
    [ET_RUN_STARTED, ET_AGENT_STARTED, ET_TOOL_ATTEMPTED, ET_GOVERNANCE_OBSERVED, ET_POLICY_DECIDED, ET_TOOL_GUIDED, ET_TOOL_BLOCKED, ET_APPROVAL_REQUIRED, ET_RUN_PAUSED, ET_TOOL_SUCCEEDED, ET_TOOL_FAILED, ET_AGENT_COMPLETED, ET_AGENT_MODEL_COMPLETED, ET_AGENT_PAUSED, ET_AGENT_RESUMED, ET_APPROVAL_APPROVED, ET_APPROVAL_REJECTED, ET_APPROVAL_EXPIRED, ET_RUN_RESUMED, ET_RUN_CANCELLED, ET_RUN_COMPLETED, ET_RUN_FAILED]"

definition event_type_of :: "string \<Rightarrow> event_type option" where
  "event_type_of s = find (\<lambda>m. event_type_value m = s) event_type_members"

lemmas enum_members_defs =
  agent_name_members_def agent_name_of_def
  effect_class_members_def effect_class_of_def
  run_status_members_def run_status_of_def
  governance_mode_members_def governance_mode_of_def
  scenario_name_members_def scenario_name_of_def
  decision_outcome_members_def decision_outcome_of_def
  commitment_status_members_def commitment_status_of_def
  approval_decision_members_def approval_decision_of_def
  approval_status_members_def approval_status_of_def
  workflow_stage_members_def workflow_stage_of_def
  event_type_members_def event_type_of_def

text \<open>
  \<open>Enum(member.value)\<close> gives the member back: the values of one enumeration are distinct and
  its list of members is complete.
\<close>

lemma agent_name_of_value [simp]: "agent_name_of (agent_name_value x) = Some x"
  by (cases x) (simp_all add: enum_members_defs)

lemma effect_class_of_value [simp]: "effect_class_of (effect_class_value x) = Some x"
  by (cases x) (simp_all add: enum_members_defs)

lemma run_status_of_value [simp]: "run_status_of (run_status_value x) = Some x"
  by (cases x) (simp_all add: enum_members_defs)

lemma governance_mode_of_value [simp]: "governance_mode_of (governance_mode_value x) = Some x"
  by (cases x) (simp_all add: enum_members_defs)

lemma scenario_name_of_value [simp]: "scenario_name_of (scenario_name_value x) = Some x"
  by (cases x) (simp_all add: enum_members_defs)

lemma decision_outcome_of_value [simp]: "decision_outcome_of (decision_outcome_value x) = Some x"
  by (cases x) (simp_all add: enum_members_defs)

lemma commitment_status_of_value [simp]: "commitment_status_of (commitment_status_value x) = Some x"
  by (cases x) (simp_all add: enum_members_defs)

lemma approval_decision_of_value [simp]: "approval_decision_of (approval_decision_value x) = Some x"
  by (cases x) (simp_all add: enum_members_defs)

lemma approval_status_of_value [simp]: "approval_status_of (approval_status_value x) = Some x"
  by (cases x) (simp_all add: enum_members_defs)

lemma workflow_stage_of_value [simp]: "workflow_stage_of (workflow_stage_value x) = Some x"
  by (cases x) (simp_all add: enum_members_defs)

lemma event_type_of_value [simp]: "event_type_of (event_type_value x) = Some x"
  by (cases x) (simp_all add: enum_members_defs)

text \<open>Hence comparing values is comparing members.\<close>

lemma agent_name_value_inj [simp]: "agent_name_value a = agent_name_value b \<longleftrightarrow> a = b"
  by (metis agent_name_of_value option.inject)

lemma effect_class_value_inj [simp]: "effect_class_value a = effect_class_value b \<longleftrightarrow> a = b"
  by (metis effect_class_of_value option.inject)

lemma run_status_value_inj [simp]: "run_status_value a = run_status_value b \<longleftrightarrow> a = b"
  by (metis run_status_of_value option.inject)

lemma governance_mode_value_inj [simp]: "governance_mode_value a = governance_mode_value b \<longleftrightarrow> a = b"
  by (metis governance_mode_of_value option.inject)

lemma scenario_name_value_inj [simp]: "scenario_name_value a = scenario_name_value b \<longleftrightarrow> a = b"
  by (metis scenario_name_of_value option.inject)

lemma decision_outcome_value_inj [simp]: "decision_outcome_value a = decision_outcome_value b \<longleftrightarrow> a = b"
  by (metis decision_outcome_of_value option.inject)

lemma commitment_status_value_inj [simp]: "commitment_status_value a = commitment_status_value b \<longleftrightarrow> a = b"
  by (metis commitment_status_of_value option.inject)

lemma approval_decision_value_inj [simp]: "approval_decision_value a = approval_decision_value b \<longleftrightarrow> a = b"
  by (metis approval_decision_of_value option.inject)

lemma approval_status_value_inj [simp]: "approval_status_value a = approval_status_value b \<longleftrightarrow> a = b"
  by (metis approval_status_of_value option.inject)

lemma workflow_stage_value_inj [simp]: "workflow_stage_value a = workflow_stage_value b \<longleftrightarrow> a = b"
  by (metis workflow_stage_of_value option.inject)

lemma event_type_value_inj [simp]: "event_type_value a = event_type_value b \<longleftrightarrow> a = b"
  by (metis event_type_of_value option.inject)

section \<open>Errors\<close>

datatype (plugins only: code size) manifest_error =
    ManifestError
  | FixtureError
  | OrderNotFoundError
  | UnknownToolError
  | ToolOwnershipError
  | TraceNotFoundError
  | TraceSequenceError
  | NoSuitableVehicleError
  | NoSuitableCarrierError
  | ToolExecutionError
  | AgentRuntimeError
  | RuntimeConfigurationError
  | ProviderConfigurationError
  | ProviderError
  | ProviderAuthenticationError
  | ProviderBillingError
  | ProviderModelUnavailableError
  | ProviderRateLimitError
  | ProviderTimeoutError
  | ProviderUnavailableError
  | AgentIncompleteError
  | UnsupportedModeError
  | UnsupportedScenarioError
  | PolicyConfigurationError
  | IdempotencyConflictError
  | PolicyBlockedError
  | ApprovalNotFoundError
  | ApprovalNotPendingError
  | ApprovalVersionConflictError
  | ApprovalIdempotencyConflictError
  | ApprovalExpiredError
  | ApprovalBindingError
  | ApprovalActionMismatchError
  | ApprovalStateMismatchError
  | ApprovalPolicyMismatchError
  | ApproverConflictError
  | ApproverUnauthorizedError
  | ApprovalAuthNotConfiguredError
  | DemoAccessNotConfiguredError
  | DemoAccessUnauthorizedError
  | LedgerError
  | LedgerAppendError
  | LedgerIdempotencyConflictError
  | LedgerTamperDisabledError
  | LedgerTamperUnauthorizedError
  | LedgerTamperValidationError
  | StorageError
  | StorageConfigurationError
  | StorageUnavailableError
  | TraceRevisionConflictError
  | TracePersistenceError
  | ApprovalPersistenceConflictError
  | EffectReceiptConflictError
  | SerializationVersionError
  | ItemSizeLimitError

text \<open>The class attribute \<open>code\<close>.\<close>

primrec error_code :: "manifest_error \<Rightarrow> string" where
  "error_code ManifestError = ''MANIFEST_ERROR''"
| "error_code FixtureError = ''FIXTURE_ERROR''"
| "error_code OrderNotFoundError = ''ORDER_NOT_FOUND''"
| "error_code UnknownToolError = ''UNKNOWN_TOOL''"
| "error_code ToolOwnershipError = ''TOOL_OWNERSHIP_ERROR''"
| "error_code TraceNotFoundError = ''TRACE_NOT_FOUND''"
| "error_code TraceSequenceError = ''TRACE_SEQUENCE_ERROR''"
| "error_code NoSuitableVehicleError = ''NO_SUITABLE_VEHICLE''"
| "error_code NoSuitableCarrierError = ''NO_SUITABLE_CARRIER''"
| "error_code ToolExecutionError = ''TOOL_EXECUTION_ERROR''"
| "error_code AgentRuntimeError = ''AGENT_RUNTIME_ERROR''"
| "error_code RuntimeConfigurationError = ''RUNTIME_CONFIGURATION_ERROR''"
| "error_code ProviderConfigurationError = ''PROVIDER_CONFIGURATION_ERROR''"
| "error_code ProviderError = ''PROVIDER_ERROR''"
| "error_code ProviderAuthenticationError = ''PROVIDER_AUTHENTICATION_ERROR''"
| "error_code ProviderBillingError = ''PROVIDER_BILLING_ERROR''"
| "error_code ProviderModelUnavailableError = ''PROVIDER_MODEL_UNAVAILABLE''"
| "error_code ProviderRateLimitError = ''PROVIDER_RATE_LIMITED''"
| "error_code ProviderTimeoutError = ''PROVIDER_TIMEOUT''"
| "error_code ProviderUnavailableError = ''PROVIDER_UNAVAILABLE''"
| "error_code AgentIncompleteError = ''AGENT_INCOMPLETE''"
| "error_code UnsupportedModeError = ''UNSUPPORTED_MODE''"
| "error_code UnsupportedScenarioError = ''UNSUPPORTED_SCENARIO''"
| "error_code PolicyConfigurationError = ''POLICY_CONFIGURATION_ERROR''"
| "error_code IdempotencyConflictError = ''IDEMPOTENCY_CONFLICT''"
| "error_code PolicyBlockedError = ''POLICY_BLOCKED''"
| "error_code ApprovalNotFoundError = ''APPROVAL_NOT_FOUND''"
| "error_code ApprovalNotPendingError = ''APPROVAL_NOT_PENDING''"
| "error_code ApprovalVersionConflictError = ''APPROVAL_VERSION_CONFLICT''"
| "error_code ApprovalIdempotencyConflictError = ''APPROVAL_IDEMPOTENCY_CONFLICT''"
| "error_code ApprovalExpiredError = ''APPROVAL_EXPIRED''"
| "error_code ApprovalBindingError = ''APPROVAL_BINDING_ERROR''"
| "error_code ApprovalActionMismatchError = ''APPROVAL_ACTION_MISMATCH''"
| "error_code ApprovalStateMismatchError = ''APPROVAL_STATE_MISMATCH''"
| "error_code ApprovalPolicyMismatchError = ''APPROVAL_POLICY_MISMATCH''"
| "error_code ApproverConflictError = ''APPROVER_CONFLICT''"
| "error_code ApproverUnauthorizedError = ''APPROVER_UNAUTHORIZED''"
| "error_code ApprovalAuthNotConfiguredError = ''APPROVAL_AUTH_NOT_CONFIGURED''"
| "error_code DemoAccessNotConfiguredError = ''DEMO_ACCESS_NOT_CONFIGURED''"
| "error_code DemoAccessUnauthorizedError = ''DEMO_ACCESS_UNAUTHORIZED''"
| "error_code LedgerError = ''LEDGER_ERROR''"
| "error_code LedgerAppendError = ''LEDGER_APPEND_ERROR''"
| "error_code LedgerIdempotencyConflictError = ''LEDGER_IDEMPOTENCY_CONFLICT''"
| "error_code LedgerTamperDisabledError = ''LEDGER_TAMPER_DISABLED''"
| "error_code LedgerTamperUnauthorizedError = ''LEDGER_TAMPER_UNAUTHORIZED''"
| "error_code LedgerTamperValidationError = ''LEDGER_TAMPER_VALIDATION_ERROR''"
| "error_code StorageError = ''STORAGE_ERROR''"
| "error_code StorageConfigurationError = ''STORAGE_CONFIGURATION_ERROR''"
| "error_code StorageUnavailableError = ''STORAGE_UNAVAILABLE''"
| "error_code TraceRevisionConflictError = ''TRACE_REVISION_CONFLICT''"
| "error_code TracePersistenceError = ''TRACE_PERSISTENCE_ERROR''"
| "error_code ApprovalPersistenceConflictError = ''APPROVAL_PERSISTENCE_CONFLICT''"
| "error_code EffectReceiptConflictError = ''EFFECT_RECEIPT_CONFLICT''"
| "error_code SerializationVersionError = ''SERIALIZATION_VERSION_ERROR''"
| "error_code ItemSizeLimitError = ''ITEM_SIZE_LIMIT_ERROR''"

text \<open>The base class; \<open>ManifestError\<close> itself derives from \<open>Exception\<close>.\<close>

definition error_base :: "manifest_error \<Rightarrow> manifest_error option" where
  "error_base c =
    (if c = ManifestError then None
     else if c \<in> {ProviderConfigurationError}
       then Some RuntimeConfigurationError
     else if c \<in> {ProviderError, AgentIncompleteError}
       then Some AgentRuntimeError
     else if c \<in> {ProviderAuthenticationError,
         ProviderBillingError,
         ProviderModelUnavailableError,
         ProviderRateLimitError,
         ProviderTimeoutError,
         ProviderUnavailableError}
       then Some ProviderError
     else if c \<in> {ApprovalActionMismatchError,
         ApprovalStateMismatchError,
         ApprovalPolicyMismatchError}
       then Some ApprovalBindingError
     else if c \<in> {LedgerAppendError,
         LedgerIdempotencyConflictError,
         LedgerTamperDisabledError,
         LedgerTamperUnauthorizedError,
         LedgerTamperValidationError}
       then Some LedgerError
     else if c \<in> {StorageConfigurationError,
         StorageUnavailableError,
         TraceRevisionConflictError,
         TracePersistenceError,
         ApprovalPersistenceConflictError,
         EffectReceiptConflictError,
         SerializationVersionError,
         ItemSizeLimitError}
       then Some StorageError
     else Some ManifestError)"

text \<open>
  \<open>isinstance(exc, cls)\<close>: the class itself or one of its ancestors.  The longest chain of
  the hierarchy has three links above a class.
\<close>

definition isinstance :: "manifest_error \<Rightarrow> manifest_error \<Rightarrow> bool" where
  "isinstance c cls \<longleftrightarrow>
     cls = c \<or> error_base c = Some cls \<or>
     Option.bind (error_base c) error_base = Some cls \<or>
     Option.bind (Option.bind (error_base c) error_base) error_base = Some cls"

text \<open>Exceptions of the language that the code can raise or catch.\<close>

datatype py_exc =
    ValueError | TypeError | KeyError | AttributeError | OverflowError | RuntimeError

datatype exc =
    Manifest manifest_error string
  | PyExc py_exc string

definition manifest_exc :: "exc \<Rightarrow> bool" where
  "manifest_exc e \<longleftrightarrow> (case e of Manifest _ _ \<Rightarrow> True | PyExc _ _ \<Rightarrow> False)"

definition exc_message :: "exc \<Rightarrow> string" where
  "exc_message e = (case e of Manifest _ m \<Rightarrow> m | PyExc _ m \<Rightarrow> m)"

type_synonym 'a result = "exc + 'a"

lemma manifest_exc_simps [simp]:
  "manifest_exc (Manifest c m)" "\<not> manifest_exc (PyExc k m)"
  by (simp_all add: manifest_exc_def)

text \<open>The hierarchy is well-founded within the depth that \<open>isinstance\<close> unfolds.\<close>

lemma isinstance_ManifestError [simp]: "isinstance c ManifestError"
  by (cases c) (simp_all add: isinstance_def error_base_def)

end
