(* ===== verification/PyValue.thy ===== *)
theory PyValue
  imports Domain_Base
begin

text \<open>
  The dynamically typed values (\<open>Any\<close>) that the program passes as tool arguments, event
  details and policy context, and the language operations it applies to them: truth value,
  equality, \<open>str\<close>, \<open>repr\<close>, \<open>int\<close>, dictionary look-up by an arbitrary key, \<open>isoformat\<close>, and
  \<open>to_primitive\<close> of \<open>packages/domain/models.py\<close>.

  A finite float is its exact value together with its \<open>repr\<close>; an instant is the number of
  microseconds since the epoch in UTC.  A dictionary has string keys: no other key type
  occurs in the program.
\<close>

section \<open>Values\<close>

datatype pyfloat = FFinite rat string | FNan | FInf bool

datatype pydatetime = Aware int | Naive int

datatype pyval =
    PNone
  | PBool bool
  | PInt int
  | PFloat pyfloat
  | PStr string
  | PEnum string string  \<comment> \<open>class-qualified member name, value\<close>
  | PDatetime pydatetime
  | PList "pyval list"
  | PTuple "pyval list"
  | PSet "pyval list"  \<comment> \<open>in iteration order\<close>
  | PDict "(string \<times> pyval) list"
  | PObj string "(string \<times> pyval) list"  \<comment> \<open>a dataclass instance and its fields\<close>

type_synonym pydict = "(string, pyval) dict"

text \<open>An optional field as a value.\<close>

definition opt_val :: "('a \<Rightarrow> pyval) \<Rightarrow> 'a option \<Rightarrow> pyval" where
  "opt_val f x = (case x of None \<Rightarrow> PNone | Some a \<Rightarrow> f a)"

abbreviation opt_str :: "string option \<Rightarrow> pyval" where
  "opt_str \<equiv> opt_val PStr"

lemma opt_val_simps [simp]: "opt_val f None = PNone" "opt_val f (Some a) = f a"
  by (simp_all add: opt_val_def)

lemma opt_str_inj [simp]: "opt_str x = opt_str y \<longleftrightarrow> x = y"
  by (cases x; cases y) simp_all

section \<open>Instants\<close>

text \<open>
  The proleptic Gregorian date of a day number (days since 1970-01-01), computed as
  \<open>datetime.date.fromordinal\<close> does: cycles of 400, 100, 4 and 1 years, then an estimate of the
  month.
\<close>

definition month_days :: "int \<Rightarrow> int" where
  "month_days m = [0, 31, 28, 31, 30, 31, 30, 31, 31, 30, 31, 30, 31] ! nat m"

definition month_start :: "int \<Rightarrow> int" where
  "month_start m = [0, 0, 31, 59, 90, 120, 151, 181, 212, 243, 273, 304, 334] ! nat m"

definition month_and_day :: "bool \<Rightarrow> int \<Rightarrow> int \<times> int" where
  "month_and_day leap n =
     (let month = (n + 50) div 32;
          preceding = month_start month + (if month > 2 \<and> leap then 1 else 0)
      in if preceding > n
         then (month - 1,
               n - (preceding - (month_days (month - 1) + (if month - 1 = 2 \<and> leap then 1 else 0))) + 1)
         else (month, n - preceding + 1))"

definition civil_from_days :: "int \<Rightarrow> int \<times> int \<times> int" where
  "civil_from_days days =
     (let n = days + 719162;
          n400 = n div 146097; n = n mod 146097;
          n100 = n div 36524; n = n mod 36524;
          n4 = n div 1461; n = n mod 1461;
          n1 = n div 365; n = n mod 365;
          year = n400 * 400 + 1 + n100 * 100 + n4 * 4 + n1
      in if n1 = 4 \<or> n100 = 4 then (year - 1, 12, 31)
         else case month_and_day (n1 = 3 \<and> (n4 \<noteq> 24 \<or> n100 = 3)) n of (m, d) \<Rightarrow> (year, m, d))"

definition pad :: "nat \<Rightarrow> int \<Rightarrow> string" where
  "pad w i = zfill w (show_nat (nat i))"

definition iso_date :: "int \<Rightarrow> string" where
  "iso_date days =
     (case civil_from_days days of
        (y, m, d) \<Rightarrow> pad 4 y @ ''-'' @ pad 2 m @ ''-'' @ pad 2 d)"

text \<open>Date, separator and time of day to the second.\<close>

definition iso_seconds :: "string \<Rightarrow> int \<Rightarrow> string" where
  "iso_seconds sep t =
     (let s = t div 1000000; r = s mod 86400
      in iso_date (s div 86400) @ sep @ pad 2 (r div 3600) @ '':''
           @ pad 2 (r mod 3600 div 60) @ '':'' @ pad 2 (r mod 60))"

text \<open>\<open>value.isoformat(timespec="microseconds").replace("+00:00", "Z")\<close> of a UTC instant.\<close>

definition iso_micro :: "int \<Rightarrow> string" where
  "iso_micro t = iso_seconds ''T'' t @ ''.'' @ pad 6 (t mod 1000000) @ ''Z''"

text \<open>\<open>isoformat\<close> without a time specification leaves the fraction out when it is zero.\<close>

definition iso_fraction :: "int \<Rightarrow> string" where
  "iso_fraction t = (if t mod 1000000 = 0 then [] else ''.'' @ pad 6 (t mod 1000000))"

definition iso_auto :: "pydatetime \<Rightarrow> string" where
  "iso_auto dt =
     (case dt of
        Aware t \<Rightarrow> iso_seconds ''T'' t @ iso_fraction t @ ''Z''
      | Naive t \<Rightarrow> iso_seconds ''T'' t @ iso_fraction t)"

definition str_datetime :: "pydatetime \<Rightarrow> string" where
  "str_datetime dt =
     (case dt of
        Aware t \<Rightarrow> iso_seconds '' '' t @ iso_fraction t @ ''+00:00''
      | Naive t \<Rightarrow> iso_seconds '' '' t @ iso_fraction t)"

definition repr_datetime :: "pydatetime \<Rightarrow> string" where
  "repr_datetime dt =
     (let t = (case dt of Aware t \<Rightarrow> t | Naive t \<Rightarrow> t);
          s = t div 1000000; r = s mod 86400; us = t mod 1000000
      in case civil_from_days (s div 86400) of (y, m, d) \<Rightarrow>
           ''datetime.datetime('' @
           join '', ''
             (map show_int ([y, m, d, r div 3600, r mod 3600 div 60] @
               (if us \<noteq> 0 then [r mod 60, us] else if r mod 60 \<noteq> 0 then [r mod 60] else [])) @
              (case dt of Aware _ \<Rightarrow> [''tzinfo=datetime.timezone.utc''] | Naive _ \<Rightarrow> [])) @
           '')'')"

section \<open>Truth, equality, text\<close>

primrec truthy :: "pyval \<Rightarrow> bool" where
  "truthy PNone = False"
| "truthy (PBool b) = b"
| "truthy (PInt i) = (i \<noteq> 0)"
| "truthy (PFloat f) = (case f of FFinite q _ \<Rightarrow> q \<noteq> 0 | _ \<Rightarrow> True)"
| "truthy (PStr s) = (s \<noteq> [])"
| "truthy (PEnum l v) = (v \<noteq> [])"
| "truthy (PDatetime t) = True"
| "truthy (PList xs) = (xs \<noteq> [])"
| "truthy (PTuple xs) = (xs \<noteq> [])"
| "truthy (PSet xs) = (xs \<noteq> [])"
| "truthy (PDict kvs) = (kvs \<noteq> [])"
| "truthy (PObj c kvs) = True"

text \<open>
  A normal form that identifies what \<open>==\<close> identifies: numbers of all types by value, a
  string enumeration member with its value, dictionaries up to order.
\<close>

definition num_form :: "rat \<Rightarrow> pyval" where
  "num_form q = PFloat (FFinite q [])"

primrec eq_form :: "pyval \<Rightarrow> pyval" where
  "eq_form PNone = PNone"
| "eq_form (PBool b) = num_form (if b then 1 else 0)"
| "eq_form (PInt i) = num_form (of_int i)"
| "eq_form (PFloat f) = (case f of FFinite q _ \<Rightarrow> num_form q | _ \<Rightarrow> PFloat f)"
| "eq_form (PStr s) = PStr s"
| "eq_form (PEnum l v) = PStr v"
| "eq_form (PDatetime t) = PDatetime t"
| "eq_form (PList xs) = PList (map eq_form xs)"
| "eq_form (PTuple xs) = PTuple (map eq_form xs)"
| "eq_form (PSet xs) = PSet (map eq_form xs)"
| "eq_form (PDict kvs) = PDict (sort_key fst (map (map_prod id eq_form) kvs))"
| "eq_form (PObj c kvs) = PObj c (map (map_prod id eq_form) kvs)"

definition py_eq :: "pyval \<Rightarrow> pyval \<Rightarrow> bool" where
  "py_eq v w \<longleftrightarrow> v \<noteq> PFloat FNan \<and> eq_form v = eq_form w"

text \<open>\<open>repr\<close> of a string: single quotes, unless the text has one and no double quote.\<close>

definition hex_digit :: "nat \<Rightarrow> char" where
  "hex_digit n = ''0123456789abcdef'' ! n"

definition backslash :: char where "backslash = CHR 0x5C"

definition repr_char :: "char \<Rightarrow> char \<Rightarrow> string" where
  "repr_char q c =
     (let n = (of_char c :: nat) in
      if c = q \<or> n = 92 then [backslash, c]
      else if n = 9 then [backslash, CHR ''t'']
      else if n = 10 then [backslash, CHR ''n'']
      else if n = 13 then [backslash, CHR ''r'']
      else if n < 32 \<or> n = 127
        then [backslash, CHR ''x'', hex_digit (n div 16), hex_digit (n mod 16)]
      else [c])"

definition squote :: char where "squote = CHR 0x27"

definition dquote :: char where "dquote = CHR 0x22"

definition repr_str :: "string \<Rightarrow> string" where
  "repr_str s =
     (let q = (if squote \<in> set s \<and> dquote \<notin> set s then dquote else squote)
      in [q] @ concat (map (repr_char q) s) @ [q])"

definition float_repr :: "pyfloat \<Rightarrow> string" where
  "float_repr f =
     (case f of FFinite _ r \<Rightarrow> r | FNan \<Rightarrow> ''nan'' | FInf pos \<Rightarrow> if pos then ''inf'' else ''-inf'')"

primrec py_repr :: "pyval \<Rightarrow> string" where
  "py_repr PNone = ''None''"
| "py_repr (PBool b) = (if b then ''True'' else ''False'')"
| "py_repr (PInt i) = show_int i"
| "py_repr (PFloat f) = float_repr f"
| "py_repr (PStr s) = repr_str s"
| "py_repr (PEnum l v) = ''<'' @ l @ '': '' @ repr_str v @ ''>''"
| "py_repr (PDatetime t) = repr_datetime t"
| "py_repr (PList xs) = ''['' @ join '', '' (map py_repr xs) @ '']''"
| "py_repr (PTuple xs) =
     ''('' @ join '', '' (map py_repr xs) @ (if length xs = 1 then '',)'' else '')'')"
| "py_repr (PSet xs) =
     (if xs = [] then ''set()'' else ''{'' @ join '', '' (map py_repr xs) @ ''}'')"
| "py_repr (PDict kvs) =
     ''{'' @ join '', ''
       (map (\<lambda>p. repr_str (fst p) @ '': '' @ snd p) (map (map_prod id py_repr) kvs)) @ ''}''"
| "py_repr (PObj c kvs) =
     c @ ''('' @ join '', ''
       (map (\<lambda>p. fst p @ ''='' @ snd p) (map (map_prod id py_repr) kvs)) @ '')''"

definition py_str :: "pyval \<Rightarrow> string" where
  "py_str v =
     (case v of
        PStr s \<Rightarrow> s
      | PEnum l _ \<Rightarrow> l
      | PDatetime t \<Rightarrow> str_datetime t
      | _ \<Rightarrow> py_repr v)"

section \<open>Conversions\<close>

text \<open>
  \<open>int(text)\<close>: surrounding white space, an optional sign, decimal digits with single
  underscores between them.
\<close>

fun read_underscored :: "bool \<Rightarrow> nat \<Rightarrow> string \<Rightarrow> nat option" where
  "read_underscored after acc [] = (if after then Some acc else None)"
| "read_underscored after acc (c # cs) =
     (if is_digit c then read_underscored True (10 * acc + digit_val c) cs
      else if c = CHR ''_'' \<and> after then read_underscored False acc cs
      else None)"

definition strip_ascii :: "string \<Rightarrow> string" where
  "strip_ascii s = rev (dropWhile ascii_space (rev (dropWhile ascii_space s)))"

definition read_int :: "string \<Rightarrow> int option" where
  "read_int s =
     (case strip_ascii s of
        [] \<Rightarrow> None
      | c # cs \<Rightarrow>
          if c = CHR ''-'' then map_option (\<lambda>n. - int n) (read_underscored False 0 cs)
          else if c = CHR ''+'' then map_option int (read_underscored False 0 cs)
          else map_option int (read_underscored False 0 (c # cs)))"

definition trunc_rat :: "rat \<Rightarrow> int" where
  "trunc_rat q = (if q < 0 then \<lceil>q\<rceil> else \<lfloor>q\<rfloor>)"

definition py_int :: "pyval \<Rightarrow> int result" where
  "py_int v =
     (case v of
        PInt i \<Rightarrow> Inr i
      | PBool b \<Rightarrow> Inr (if b then 1 else 0)
      | PFloat f \<Rightarrow>
          (case f of
             FFinite q _ \<Rightarrow> Inr (trunc_rat q)
           | FNan \<Rightarrow> Inl (PyExc ValueError ''cannot convert float NaN to integer'')
           | FInf _ \<Rightarrow> Inl (PyExc OverflowError ''cannot convert float infinity to integer''))
      | PStr s \<Rightarrow>
          (case read_int s of
             Some i \<Rightarrow> Inr i
           | None \<Rightarrow> Inl (PyExc ValueError ''invalid literal for int()''))
      | PEnum _ s \<Rightarrow>
          (case read_int s of
             Some i \<Rightarrow> Inr i
           | None \<Rightarrow> Inl (PyExc ValueError ''invalid literal for int()''))
      | _ \<Rightarrow> Inl (PyExc TypeError ''int() argument must be a string or a number''))"

text \<open>
  A value used as a key of a dictionary with string keys: a string or a string enumeration
  member can be present, another hashable value never is, and an unhashable one raises.
\<close>

definition as_key :: "pyval \<Rightarrow> string option result" where
  "as_key v =
     (case v of
        PStr s \<Rightarrow> Inr (Some s)
      | PEnum _ s \<Rightarrow> Inr (Some s)
      | PList _ \<Rightarrow> Inl (PyExc TypeError ''unhashable type: list'')
      | PDict _ \<Rightarrow> Inl (PyExc TypeError ''unhashable type: dict'')
      | PSet _ \<Rightarrow> Inl (PyExc TypeError ''unhashable type: set'')
      | _ \<Rightarrow> Inr None)"

definition dict_get :: "(string, 'v) dict \<Rightarrow> pyval \<Rightarrow> 'v option result" where
  "dict_get d v =
     bindR (as_key v) (\<lambda>k. Inr (case k of None \<Rightarrow> None | Some s \<Rightarrow> dget d s))"

text \<open>\<open>d.get(key, default)\<close> with a literal key.\<close>

definition get_or :: "pydict \<Rightarrow> string \<Rightarrow> pyval \<Rightarrow> pyval" where
  "get_or d k dflt = (case dget d k of None \<Rightarrow> dflt | Some v \<Rightarrow> v)"

abbreviation get_none :: "pydict \<Rightarrow> string \<Rightarrow> pyval" where
  "get_none d k \<equiv> get_or d k PNone"

definition is_int :: "pyval \<Rightarrow> bool" where
  "is_int v \<longleftrightarrow> (case v of PInt _ \<Rightarrow> True | _ \<Rightarrow> False)"

primrec to_primitive :: "pyval \<Rightarrow> pyval" where
  "to_primitive PNone = PNone"
| "to_primitive (PBool b) = PBool b"
| "to_primitive (PInt i) = PInt i"
| "to_primitive (PFloat f) = PFloat f"
| "to_primitive (PStr s) = PStr s"
| "to_primitive (PEnum l v) = PStr v"
| "to_primitive (PDatetime t) = PStr (iso_auto t)"
| "to_primitive (PList xs) = PList (map to_primitive xs)"
| "to_primitive (PTuple xs) = PList (map to_primitive xs)"
| "to_primitive (PSet xs) = PList (map to_primitive xs)"
| "to_primitive (PDict kvs) = PDict (map (map_prod id to_primitive) kvs)"
| "to_primitive (PObj c kvs) = PDict (map (map_prod id to_primitive) kvs)"

abbreviation primitive_dict :: "pydict \<Rightarrow> pydict" where
  "primitive_dict d \<equiv> map (map_prod id to_primitive) d"

section \<open>Facts\<close>

lemma get_or_simps [simp]:
  "get_or [] k d = d"
  "get_or ((k', v) # kvs) k d = (if k = k' then v else get_or kvs k d)"
  by (auto simp: get_or_def)

lemma py_eq_refl: "v \<noteq> PFloat FNan \<Longrightarrow> py_eq v v"
  by (simp add: py_eq_def)

lemma py_eq_int_iff: "py_eq (PInt i) (PInt j) \<longleftrightarrow> i = j"
  by (simp add: py_eq_def num_form_def)

lemma py_eq_str_iff: "py_eq (PStr s) (PStr t) \<longleftrightarrow> s = t"
  by (simp add: py_eq_def)

lemma py_eq_None_iff: "py_eq v PNone \<longleftrightarrow> v = PNone"
  by (cases v) (auto simp: py_eq_def num_form_def split: pyfloat.splits)

lemma py_eq_None_iff': "py_eq PNone v \<longleftrightarrow> v = PNone"
  by (cases v) (auto simp: py_eq_def num_form_def split: pyfloat.splits)

lemma py_eq_str_int: "\<not> py_eq (PStr s) (PInt i)" "\<not> py_eq (PInt i) (PStr s)"
  by (simp_all add: py_eq_def num_form_def)

lemmas py_eq_simps [simp] =
  py_eq_int_iff py_eq_str_iff py_eq_None_iff py_eq_None_iff' py_eq_str_int

text \<open>The primitive values are those that \<open>json\<close> can represent.\<close>

primrec primitive :: "pyval \<Rightarrow> bool" where
  "primitive PNone = True"
| "primitive (PBool b) = True"
| "primitive (PInt i) = True"
| "primitive (PFloat f) = True"
| "primitive (PStr s) = True"
| "primitive (PEnum l v) = False"
| "primitive (PDatetime t) = False"
| "primitive (PList xs) = list_all id (map primitive xs)"
| "primitive (PTuple xs) = False"
| "primitive (PSet xs) = False"
| "primitive (PDict kvs) = list_all (\<lambda>p. snd p) (map (map_prod id primitive) kvs)"
| "primitive (PObj c kvs) = False"

lemma to_primitive_primitive [simp]: "primitive (to_primitive v)"
  by (induction v) (auto simp: list_all_iff snds.simps)

lemma to_primitive_id: "primitive v \<Longrightarrow> to_primitive v = v"
  by (induction v)
    (auto simp: list_all_iff map_idI snds.simps map_prod_def intro!: map_idI split: prod.splits)

lemma to_primitive_idem [simp]: "to_primitive (to_primitive v) = to_primitive v"
  by (simp add: to_primitive_id)

lemma dget_map_values: "dget (map (map_prod id f) d) k = map_option f (dget d k)"
  by (induction d) auto

lemma get_or_primitive: "get_or (primitive_dict d) k PNone = to_primitive (get_or d k PNone)"
  by (simp add: get_or_def dget_map_values split: option.split)

end
