(* ===== verification/Domain.thy ===== *)
theory Domain
  imports PyValue
begin

text \<open>
  The typed contracts of \<open>packages/domain/models.py\<close> and \<open>packages/storage/models.py\<close>.  A
  dataclass is a record with the class's fields, prefixed by the initials of the class since
  record selectors share one name space.  An instant is an \<open>int\<close> of microseconds since the
  epoch: every datetime that the program stores comes from \<open>utc_now()\<close>.
\<close>

section \<open>Shipment data\<close>

record order =
  od_order_id :: string
  od_sku_id :: string
  od_quantity :: int
  od_cargo_class :: string
  od_destination_zone :: string
  od_currency :: string
  od_spend_ceiling_minor :: int

record inventory_fact =
  if_fact_id :: string
  if_sku_id :: string
  if_available_quantity :: int
  if_shipment_weight_kg :: int
  if_source_id :: string
  if_source_hash :: string

record numeric_fact =
  nf_fact_id :: string
  nf_name :: string
  nf_value :: int
  nf_unit :: string
  nf_source_id :: string
  nf_source_hash :: string
  nf_created_by_tool :: string

record vehicle =
  vh_vehicle_id :: string
  vh_capacity_kg :: int
  vh_refrigerated :: bool
  vh_available :: bool

record carrier_quote =
  cq_quote_id :: string
  cq_carrier_id :: string
  cq_amount_minor :: int
  cq_currency :: string
  cq_cold_chain_certified :: bool
  cq_lane_supported :: bool
  cq_quote_issuer :: string

record tool_definition =
  td_name :: string
  td_owner :: agent_name
  td_effect_class :: effect_class
  td_description :: string
  td_idempotent :: bool

record shipment_mandate =
  sm_mandate_id :: string
  sm_order_id :: string
  sm_mode :: governance_mode
  sm_currency :: string
  sm_spend_ceiling_minor :: int
  sm_approval_threshold_minor :: int
  sm_cargo_class :: string
  sm_allowed_effect_classes :: "effect_class set"
  sm_policy_version :: string

record scenario_config =
  sc_name :: scenario_name
  sc_prior_committed_minor :: int
  sc_attempted_weight_kg :: int
  sc_preferred_vehicle_id :: string
  sc_preferred_quote_id :: string

section \<open>Governance data\<close>

record tool_proposal =
  tp_proposal_id :: string
  tp_trace_id :: string
  tp_agent :: agent_name
  tp_tool_name :: string
  tp_effect_class :: "effect_class option"
  tp_arguments :: pydict
  tp_attempt :: nat

record policy_request =
  pr_request_id :: string
  pr_principal :: agent_name
  pr_action :: string
  pr_resource_type :: string
  pr_resource_id :: string
  pr_context :: pydict

record policy_signal =
  ps_family :: string
  ps_policy_id :: string
  ps_outcome :: decision_outcome
  ps_reason_code :: string
  ps_because :: string
  ps_guidance :: "pydict option"

record decision =
  dc_decision_id :: string
  dc_request_id :: string
  dc_trace_id :: string
  dc_proposal_id :: string
  dc_agent :: agent_name
  dc_tool_name :: string
  dc_effect_class :: "effect_class option"
  dc_policy_outcome :: decision_outcome
  dc_applied_outcome :: decision_outcome
  dc_enforced :: bool
  dc_reason_code :: string
  dc_because :: string
  dc_reasons :: "policy_signal list"
  dc_guidance :: "pydict option"
  dc_policy_version :: string
  dc_engine_name :: string
  dc_evaluation_ms :: pyfloat
  dc_policy_bundle_hash :: "string option"
  dc_created_at :: int

record prepared_action =
  pa_prepared_action_id :: string
  pa_trace_id :: string
  pa_tool_name :: string
  pa_resource_id :: string
  pa_amount_minor :: int
  pa_currency :: string
  pa_prepared_by :: agent_name
  pa_arguments :: pydict
  pa_action_hash :: string
  pa_state_hash :: string
  pa_mandate_id :: string
  pa_policy_version :: string
  pa_spend_committed_at_prepare_minor :: int
  pa_spend_reserved_before_minor :: int
  pa_spend_reserved_after_minor :: int
  pa_status :: commitment_status
  pa_expires_at :: int

record approval_record =
  ar_approval_id :: string
  ar_trace_id :: string
  ar_prepared_action_id :: string
  ar_action_hash :: string
  ar_state_hash :: string
  ar_policy_version :: string
  ar_reason_code :: string
  ar_status :: approval_status
  ar_created_at :: int
  ar_expires_at :: int
  ar_version :: int
  ar_decided_at :: "int option"
  ar_decision :: "approval_decision option"
  ar_approver_label :: "string option"
  ar_comment :: "string option"
  ar_decision_idempotency_key :: "string option"

record effect_record =
  er_tool_name :: string
  er_effect_class :: effect_class
  er_resource_id :: string
  er_actor :: string

section \<open>Ledger data\<close>

record trace_event =
  te_event_id :: string
  te_trace_id :: string
  te_sequence :: int
  te_event_type :: event_type
  te_summary :: string
  te_details :: pydict
  te_agent :: "agent_name option"
  te_tool_name :: "string option"
  te_effect_class :: "effect_class option"
  te_occurred_at :: int
  te_schema_version :: string
  te_previous_hash :: string
  te_event_hash :: string
  te_idempotency_key :: "string option"

record ledger_head =
  lh_trace_id :: string
  lh_sequence :: int
  lh_event_count :: int
  lh_event_hash :: string
  lh_schema_version :: string
  lh_updated_at :: int

record verification_result =
  vr_trace_id :: string
  vr_valid :: bool
  vr_checked_event_count :: int
  vr_first_bad_sequence :: "int option"
  vr_failure_code :: "string option"
  vr_stored_head_sequence :: int
  vr_stored_head_hash :: string
  vr_computed_head_hash :: string
  vr_algorithm :: string
  vr_schema_version :: string

record tamper_result =
  tr_trace_id :: string
  tr_sequence :: int
  tr_field :: string
  tr_status :: string

record effect_receipt =
  rc_trace_id :: string
  rc_tool_name :: string
  rc_key_hash :: string
  rc_fingerprint :: string
  rc_result :: pydict
  rc_created_at :: int

section \<open>The trajectory\<close>

record trajectory_state =
  ts_trace_id :: string
  ts_order_id :: string
  ts_status :: run_status
  ts_current_agent :: "agent_name option"
  ts_mode :: governance_mode
  ts_scenario :: scenario_name
  ts_scenario_config :: "scenario_config option"
  ts_mandate :: "shipment_mandate option"
  ts_policy_version :: string
  ts_workflow_stage :: workflow_stage
  ts_order :: "order option"
  ts_inventory_fact :: "inventory_fact option"
  ts_facts :: "(string, numeric_fact) dict"
  ts_selected_vehicle :: "vehicle option"
  ts_selected_quote :: "carrier_quote option"
  ts_dispatch_plan_id :: "string option"
  ts_carrier_selection_id :: "string option"
  ts_prepared_actions :: "(string, prepared_action) dict"
  ts_confirmed_booking_id :: "string option"
  ts_pending_approval_id :: "string option"
  ts_spend_committed_minor :: int
  ts_spend_reserved_minor :: int
  ts_decisions :: "decision list"
  ts_guide_attempts :: "(string, nat) dict"
  ts_effect_history :: "effect_record list"
  ts_quoted_by :: "string option"
  ts_prepared_by :: "agent_name option"
  ts_approved_by :: "string option"
  ts_notification_id :: "string option"
  ts_events :: "trace_event list"
  ts_next_sequence :: int
  ts_tool_call_count :: nat
  ts_error :: "string option"
  ts_terminal_reason :: "string option"
  ts_storage_revision :: int

text \<open>\<open>TrajectoryState(trace_id=..., order_id=...)\<close> with every default.\<close>

definition new_trajectory :: "string \<Rightarrow> string \<Rightarrow> trajectory_state" where
  "new_trajectory trace_id order_id =
     \<lparr>ts_trace_id = trace_id, ts_order_id = order_id, ts_status = RS_PENDING,
      ts_current_agent = None, ts_mode = GM_SHADOW, ts_scenario = SN_BENIGN,
      ts_scenario_config = None, ts_mandate = None, ts_policy_version = ''demo-v1'',
      ts_workflow_stage = WS_STARTED, ts_order = None, ts_inventory_fact = None,
      ts_facts = [], ts_selected_vehicle = None, ts_selected_quote = None,
      ts_dispatch_plan_id = None, ts_carrier_selection_id = None, ts_prepared_actions = [],
      ts_confirmed_booking_id = None, ts_pending_approval_id = None,
      ts_spend_committed_minor = 0, ts_spend_reserved_minor = 0, ts_decisions = [],
      ts_guide_attempts = [], ts_effect_history = [], ts_quoted_by = None,
      ts_prepared_by = None, ts_approved_by = None, ts_notification_id = None,
      ts_events = [], ts_next_sequence = 1, ts_tool_call_count = 0, ts_error = None,
      ts_terminal_reason = None, ts_storage_revision = 0\<rparr>"

record run_summary =
  rs_trace_id :: string
  rs_order_id :: string
  rs_status :: run_status
  rs_current_agent :: "agent_name option"
  rs_mode :: governance_mode
  rs_scenario :: scenario_name
  rs_policy_version :: string
  rs_policy_engine :: string
  rs_workflow_stage :: workflow_stage
  rs_selected_vehicle_id :: "string option"
  rs_selected_carrier_id :: "string option"
  rs_selected_amount_minor :: "int option"
  rs_notification_id :: "string option"
  rs_confirmed_booking_id :: "string option"
  rs_spend_committed_minor :: int
  rs_spend_reserved_minor :: int
  rs_projected_spend_minor :: int
  rs_spend_ceiling_minor :: "int option"
  rs_pending_approval_id :: "string option"
  rs_decision_count :: nat
  rs_event_count :: nat
  rs_error :: "string option"
  rs_terminal_reason :: "string option"

definition run_summary_from_state :: "trajectory_state \<Rightarrow> string \<Rightarrow> run_summary" where
  "run_summary_from_state s policy_engine =
     \<lparr>rs_trace_id = ts_trace_id s, rs_order_id = ts_order_id s, rs_status = ts_status s,
      rs_current_agent = ts_current_agent s, rs_mode = ts_mode s,
      rs_scenario = ts_scenario s, rs_policy_version = ts_policy_version s,
      rs_policy_engine = policy_engine, rs_workflow_stage = ts_workflow_stage s,
      rs_selected_vehicle_id = map_option vh_vehicle_id (ts_selected_vehicle s),
      rs_selected_carrier_id = map_option cq_carrier_id (ts_selected_quote s),
      rs_selected_amount_minor = map_option cq_amount_minor (ts_selected_quote s),
      rs_notification_id = ts_notification_id s,
      rs_confirmed_booking_id = ts_confirmed_booking_id s,
      rs_spend_committed_minor = ts_spend_committed_minor s,
      rs_spend_reserved_minor = ts_spend_reserved_minor s,
      rs_projected_spend_minor = ts_spend_committed_minor s + ts_spend_reserved_minor s,
      rs_spend_ceiling_minor = map_option sm_spend_ceiling_minor (ts_mandate s),
      rs_pending_approval_id = ts_pending_approval_id s,
      rs_decision_count = length (ts_decisions s), rs_event_count = length (ts_events s),
      rs_error = ts_error s, rs_terminal_reason = ts_terminal_reason s\<rparr>"

text \<open>What a registered tool returns.\<close>

datatype tool_value =
    VOrder order
  | VFact inventory_fact
  | VVehicles "vehicle list"
  | VQuotes "carrier_quote list"
  | VDict pydict

record governed_tool_result =
  gr_decision :: decision
  gr_value :: "tool_value option"
  gr_guidance :: "pydict option"
  gr_pending_approval :: "approval_record option"

section \<open>Storage contracts\<close>

record stored_trace =
  st_state :: trajectory_state
  st_revision :: int

definition make_stored_trace :: "trajectory_state \<Rightarrow> int \<Rightarrow> stored_trace result" where
  "make_stored_trace s r =
     (if r < 0 then Inl (PyExc ValueError ''A stored trace revision cannot be negative.'')
      else Inr \<lparr>st_state = s, st_revision = r\<rparr>)"

datatype replay_kind = RK_EVENT | RK_APPROVAL

record replay_record =
  rr_trace_id :: string
  rr_kind :: replay_kind
  rr_key_hash :: string
  rr_fingerprint :: string
  rr_result_reference :: string
  rr_created_at :: int

definition make_replay_record ::
  "string \<Rightarrow> replay_kind \<Rightarrow> string \<Rightarrow> string \<Rightarrow> string \<Rightarrow> int \<Rightarrow> replay_record result" where
  "make_replay_record tid kind key_hash fp ref now =
     (if tid = [] \<or> key_hash = [] \<or> fp = []
      then Inl (PyExc ValueError
             ''A replay record requires trace, key, and fingerprint values.'')
      else Inr \<lparr>rr_trace_id = tid, rr_kind = kind, rr_key_hash = key_hash,
                rr_fingerprint = fp, rr_result_reference = ref, rr_created_at = now\<rparr>)"

definition make_effect_receipt ::
  "string \<Rightarrow> string \<Rightarrow> string \<Rightarrow> string \<Rightarrow> pydict \<Rightarrow> int \<Rightarrow> effect_receipt result" where
  "make_effect_receipt tid tool key_hash fp result now =
     (if tid = [] \<or> tool = [] \<or> key_hash = []
      then Inl (PyExc ValueError ''An effect receipt requires trace, tool, and key values.'')
      else Inr \<lparr>rc_trace_id = tid, rc_tool_name = tool, rc_key_hash = key_hash,
                rc_fingerprint = fp, rc_result = result, rc_created_at = now\<rparr>)"

record trace_transition =
  tt_trace_id :: string
  tt_expected_revision :: int
  tt_state :: trajectory_state
  tt_events :: "trace_event list"
  tt_decisions :: "decision list"
  tt_approval_upserts :: "approval_record list"
  tt_replay_records :: "replay_record list"
  tt_effect_receipts :: "effect_receipt list"

text \<open>\<open>TraceTransition.__post_init__\<close>: the checks made when a transition is built.\<close>

definition check_transition :: "trace_transition \<Rightarrow> trace_transition result" where
  "check_transition t =
     (if tt_expected_revision t < 0
        then Inl (PyExc ValueError ''An expected trace revision cannot be negative.'')
      else if ts_trace_id (tt_state t) \<noteq> tt_trace_id t
        then Inl (PyExc ValueError ''Transition state does not belong to the target trace.'')
      else if (\<exists>i \<in> set (map te_trace_id (tt_events t) @ map dc_trace_id (tt_decisions t) @
                 map ar_trace_id (tt_approval_upserts t) @ map rr_trace_id (tt_replay_records t) @
                 map rc_trace_id (tt_effect_receipts t)). i \<noteq> tt_trace_id t)
        then Inl (PyExc ValueError
               ''Every transition record must belong to the target trace.'')
      else Inr t)"

section \<open>Objects as values\<close>

text \<open>The name of a member is its value in upper case throughout \<open>enums.py\<close>.\<close>

definition upper_char :: "char \<Rightarrow> char" where
  "upper_char c =
     (let n = (of_char c :: nat) in if 97 \<le> n \<and> n \<le> 122 then char_of (n - 32) else c)"

definition enum_val :: "string \<Rightarrow> string \<Rightarrow> pyval" where
  "enum_val cls v = PEnum (cls @ ''.'' @ map upper_char v) v"

abbreviation agent_val :: "agent_name \<Rightarrow> pyval" where
  "agent_val a \<equiv> enum_val ''AgentName'' (agent_name_value a)"

abbreviation effect_val :: "effect_class \<Rightarrow> pyval" where
  "effect_val c \<equiv> enum_val ''EffectClass'' (effect_class_value c)"

definition order_obj :: "order \<Rightarrow> pyval" where
  "order_obj o' = PObj ''Order''
     [(''order_id'', PStr (od_order_id o')), (''sku_id'', PStr (od_sku_id o')),
      (''quantity'', PInt (od_quantity o')), (''cargo_class'', PStr (od_cargo_class o')),
      (''destination_zone'', PStr (od_destination_zone o')),
      (''currency'', PStr (od_currency o')),
      (''spend_ceiling_minor'', PInt (od_spend_ceiling_minor o'))]"

definition inventory_obj :: "inventory_fact \<Rightarrow> pyval" where
  "inventory_obj f = PObj ''InventoryFact''
     [(''fact_id'', PStr (if_fact_id f)), (''sku_id'', PStr (if_sku_id f)),
      (''available_quantity'', PInt (if_available_quantity f)),
      (''shipment_weight_kg'', PInt (if_shipment_weight_kg f)),
      (''source_id'', PStr (if_source_id f)), (''source_hash'', PStr (if_source_hash f))]"

definition vehicle_obj :: "vehicle \<Rightarrow> pyval" where
  "vehicle_obj v = PObj ''Vehicle''
     [(''vehicle_id'', PStr (vh_vehicle_id v)), (''capacity_kg'', PInt (vh_capacity_kg v)),
      (''refrigerated'', PBool (vh_refrigerated v)), (''available'', PBool (vh_available v))]"

definition quote_obj :: "carrier_quote \<Rightarrow> pyval" where
  "quote_obj q = PObj ''CarrierQuote''
     [(''quote_id'', PStr (cq_quote_id q)), (''carrier_id'', PStr (cq_carrier_id q)),
      (''amount_minor'', PInt (cq_amount_minor q)), (''currency'', PStr (cq_currency q)),
      (''cold_chain_certified'', PBool (cq_cold_chain_certified q)),
      (''lane_supported'', PBool (cq_lane_supported q)),
      (''quote_issuer'', PStr (cq_quote_issuer q))]"

definition prepared_obj :: "prepared_action \<Rightarrow> pyval" where
  "prepared_obj p = PObj ''PreparedAction''
     [(''prepared_action_id'', PStr (pa_prepared_action_id p)),
      (''trace_id'', PStr (pa_trace_id p)), (''tool_name'', PStr (pa_tool_name p)),
      (''resource_id'', PStr (pa_resource_id p)), (''amount_minor'', PInt (pa_amount_minor p)),
      (''currency'', PStr (pa_currency p)), (''prepared_by'', agent_val (pa_prepared_by p)),
      (''arguments'', PDict (pa_arguments p)), (''action_hash'', PStr (pa_action_hash p)),
      (''state_hash'', PStr (pa_state_hash p)), (''mandate_id'', PStr (pa_mandate_id p)),
      (''policy_version'', PStr (pa_policy_version p)),
      (''spend_committed_at_prepare_minor'', PInt (pa_spend_committed_at_prepare_minor p)),
      (''spend_reserved_before_minor'', PInt (pa_spend_reserved_before_minor p)),
      (''spend_reserved_after_minor'', PInt (pa_spend_reserved_after_minor p)),
      (''status'', enum_val ''CommitmentStatus'' (commitment_status_value (pa_status p))),
      (''expires_at'', PDatetime (Aware (pa_expires_at p)))]"

definition approval_obj :: "approval_record \<Rightarrow> pyval" where
  "approval_obj a = PObj ''ApprovalRecord''
     [(''approval_id'', PStr (ar_approval_id a)), (''trace_id'', PStr (ar_trace_id a)),
      (''prepared_action_id'', PStr (ar_prepared_action_id a)),
      (''action_hash'', PStr (ar_action_hash a)), (''state_hash'', PStr (ar_state_hash a)),
      (''policy_version'', PStr (ar_policy_version a)),
      (''reason_code'', PStr (ar_reason_code a)),
      (''status'', enum_val ''ApprovalStatus'' (approval_status_value (ar_status a))),
      (''created_at'', PDatetime (Aware (ar_created_at a))),
      (''expires_at'', PDatetime (Aware (ar_expires_at a))), (''version'', PInt (ar_version a)),
      (''decided_at'', opt_val (\<lambda>t. PDatetime (Aware t)) (ar_decided_at a)),
      (''decision'',
        opt_val (\<lambda>d. enum_val ''ApprovalDecision'' (approval_decision_value d)) (ar_decision a)),
      (''approver_label'', opt_str (ar_approver_label a)),
      (''comment'', opt_str (ar_comment a)),
      (''decision_idempotency_key'', opt_str (ar_decision_idempotency_key a))]"

lemmas obj_defs =
  order_obj_def inventory_obj_def vehicle_obj_def quote_obj_def prepared_obj_def
  approval_obj_def enum_val_def

definition value_obj :: "tool_value \<Rightarrow> pyval" where
  "value_obj v =
     (case v of
        VOrder o' \<Rightarrow> order_obj o'
      | VFact f \<Rightarrow> inventory_obj f
      | VVehicles vs \<Rightarrow> PList (map vehicle_obj vs)
      | VQuotes qs \<Rightarrow> PList (map quote_obj qs)
      | VDict d \<Rightarrow> PDict d)"

text \<open>The fields of an object after \<open>to_primitive\<close>.\<close>

definition primitive_fields :: "pyval \<Rightarrow> pydict" where
  "primitive_fields v = (case to_primitive v of PDict d \<Rightarrow> d | _ \<Rightarrow> [])"

section \<open>The platform\<close>

text \<open>
  What the code reads from its platform: a supply of \<open>uuid4()\<close> texts, of clock readings and
  of measured latencies, each with the number of readings taken so far.
\<close>

record world =
  wd_uuids :: "nat \<Rightarrow> string"
  wd_clock :: "nat \<Rightarrow> int"
  wd_latency :: "nat \<Rightarrow> pyfloat"
  wd_uuid_pos :: nat
  wd_clock_pos :: nat
  wd_latency_pos :: nat

end
