(* ===== verification/Sha256.thy ===== *)
theory Sha256
  imports Prelude "HOL-Library.Word"
begin

unbundle bit_operations_syntax

text \<open>
  SHA-256 as the standard library's \<open>hashlib.sha256(...).hexdigest()\<close> computes it
  (FIPS 180-4) on 32-bit words, with the facts the program relies on: a digest is always 64
  lower-case hexadecimal characters.  Collision freedom is not a theorem of any function into
  64 characters; where integrity depends on it, the theorems of this development end in an
  explicit \<open>sha256_collision\<close>.
\<close>

type_synonym u32 = "32 word"

definition rotr :: "nat \<Rightarrow> u32 \<Rightarrow> u32" where
  "rotr n x = drop_bit n x OR push_bit (32 - n) x"

definition sha_ch :: "u32 \<Rightarrow> u32 \<Rightarrow> u32 \<Rightarrow> u32" where
  "sha_ch x y z = (x AND y) XOR (NOT x AND z)"

definition sha_maj :: "u32 \<Rightarrow> u32 \<Rightarrow> u32 \<Rightarrow> u32" where
  "sha_maj x y z = (x AND y) XOR (x AND z) XOR (y AND z)"

definition big_sigma0 :: "u32 \<Rightarrow> u32" where
  "big_sigma0 x = rotr 2 x XOR rotr 13 x XOR rotr 22 x"

definition big_sigma1 :: "u32 \<Rightarrow> u32" where
  "big_sigma1 x = rotr 6 x XOR rotr 11 x XOR rotr 25 x"

definition small_sigma0 :: "u32 \<Rightarrow> u32" where
  "small_sigma0 x = rotr 7 x XOR rotr 18 x XOR drop_bit 3 x"

definition small_sigma1 :: "u32 \<Rightarrow> u32" where
  "small_sigma1 x = rotr 17 x XOR rotr 19 x XOR drop_bit 10 x"

text \<open>The 64 round constants, eight to a row, most significant first.\<close>

definition constant_rows :: "int list" where
  "constant_rows =
    [0x428a2f9871374491b5c0fbcfe9b5dba53956c25b59f111f1923f82a4ab1c5ed5,
     0xd807aa9812835b01243185be550c7dc372be5d7480deb1fe9bdc06a7c19bf174,
     0xe49b69c1efbe47860fc19dc6240ca1cc2de92c6f4a7484aa5cb0a9dc76f988da,
     0x983e5152a831c66db00327c8bf597fc7c6e00bf3d5a7914706ca635114292967,
     0x27b70a852e1b21384d2c6dfc53380d13650a7354766a0abb81c2c92e92722c85,
     0xa2bfe8a1a81a664bc24b8b70c76c51a3d192e819d6990624f40e3585106aa070,
     0x19a4c1161e376c082748774c34b0bcb5391c0cb34ed8aa4a5b9cca4f682e6ff3,
     0x748f82ee78a5636f84c878148cc7020890befffaa4506cebbef9a3f7c67178f2]"

definition row_words :: "int \<Rightarrow> u32 list" where
  "row_words r = map (\<lambda>i. of_int (r div 2 ^ (32 * (7 - i)))) [0..<8]"

definition round_constants :: "u32 list" where
  "round_constants = concat (map row_words constant_rows)"

definition initial_hash :: "u32 list" where
  "initial_hash =
    [0x6a09e667, 0xbb67ae85, 0x3c6ef372, 0xa54ff53a, 0x510e527f, 0x9b05688c, 0x1f83d9ab,
     0x5be0cd19]"

text \<open>The message schedule, newest word first: \<open>n\<close> more words after the first sixteen.\<close>

primrec extend_schedule :: "nat \<Rightarrow> u32 list \<Rightarrow> u32 list" where
  "extend_schedule 0 ws = ws"
| "extend_schedule (Suc n) ws =
     extend_schedule n
       ((small_sigma1 (ws ! 1) + ws ! 6 + small_sigma0 (ws ! 14) + ws ! 15) # ws)"

definition sha_round :: "u32 \<times> u32 \<Rightarrow> u32 list \<Rightarrow> u32 list" where
  "sha_round kw v =
     (case v of
        [a, b, c, d, e, f, g, h] \<Rightarrow>
          (let t1 = h + big_sigma1 e + sha_ch e f g + fst kw + snd kw;
               t2 = big_sigma0 a + sha_maj a b c
           in [t1 + t2, a, b, c, d + t1, e, f, g])
      | _ \<Rightarrow> v)"

definition compress :: "u32 list \<Rightarrow> u32 list \<Rightarrow> u32 list" where
  "compress hs block =
     (let ws = rev (extend_schedule 48 (rev block))
      in map2 (+) hs (fold sha_round (zip round_constants ws) hs))"

definition word_of_bytes :: "char list \<Rightarrow> u32" where
  "word_of_bytes bs = foldl (\<lambda>w b. push_bit 8 w OR of_nat (of_char b)) 0 bs"

fun chunks :: "nat \<Rightarrow> 'a list \<Rightarrow> 'a list list" where
  "chunks n [] = []"
| "chunks n (x # xs) = (if n = 0 then [x # xs] else take n (x # xs) # chunks n (drop n (x # xs)))"

definition be_bytes8 :: "int \<Rightarrow> char list" where
  "be_bytes8 n = map (\<lambda>i. char_of (n div 256 ^ i mod 256)) [7, 6, 5, 4, 3, 2, 1, 0]"

definition sha_pad :: "string \<Rightarrow> char list" where
  "sha_pad m =
     (let l = length m
      in m @ [char_of (128 :: nat)] @ replicate ((119 - l mod 64) mod 64) (char_of (0 :: nat))
           @ be_bytes8 (8 * int l))"

definition sha256_words :: "string \<Rightarrow> u32 list" where
  "sha256_words m =
     fold (\<lambda>block hs. compress hs (map word_of_bytes (chunks 4 block)))
       (chunks 64 (sha_pad m)) initial_hash"

definition hex_char :: "nat \<Rightarrow> char" where
  "hex_char n = ''0123456789abcdef'' ! n"

definition hex_word :: "u32 \<Rightarrow> string" where
  "hex_word w =
     map (\<lambda>i. hex_char (unat (drop_bit i w AND 15))) [28, 24, 20, 16, 12, 8, 4, 0]"

definition sha256_hex :: "string \<Rightarrow> string" where
  "sha256_hex m = concat (map hex_word (sha256_words m))"

definition is_lower_hex :: "char \<Rightarrow> bool" where
  "is_lower_hex c \<longleftrightarrow> is_digit c \<or> (97 \<le> (of_char c :: nat) \<and> (of_char c :: nat) \<le> 102)"

text \<open>A pair of distinct texts with the same digest.\<close>

definition sha256_collision :: "string \<Rightarrow> string \<Rightarrow> bool" where
  "sha256_collision x y \<longleftrightarrow> x \<noteq> y \<and> sha256_hex x = sha256_hex y"

section \<open>Shape of a digest\<close>

lemma hex_char_is_lower_hex: "n < 16 \<Longrightarrow> is_lower_hex (hex_char n)"
proof -
  assume "n < 16"
  then have "n \<in> {0, 1, 2, 3, 4, 5, 6, 7, 8, 9, 10, 11, 12, 13, 14, 15}"
    by (simp only: insert_iff empty_iff) presburger
  then show ?thesis by (auto simp: is_lower_hex_def is_digit_def hex_char_def)
qed

lemma nibble_bound: "unat (w AND 15 :: u32) < 16"
proof -
  have "unat (w AND 15) \<le> unat (15 :: u32)"
    by (rule word_and_le1 [THEN word_le_nat_alt [THEN iffD1]])
  then show ?thesis by simp
qed

lemma hex_word_shape: "length (hex_word w) = 8" "list_all is_lower_hex (hex_word w)"
  by (simp_all add: hex_word_def hex_char_is_lower_hex nibble_bound)

lemma length_sha_round: "length (sha_round kw v) = length v"
  by (simp add: sha_round_def Let_def split: list.split)

lemma length_fold_sha_round: "length (fold sha_round kws v) = length v"
  by (induction kws arbitrary: v) (simp_all add: length_sha_round)

lemma length_compress: "length (compress hs block) = length hs"
  by (simp add: compress_def Let_def length_fold_sha_round)

lemma length_sha256_words: "length (sha256_words m) = 8"
proof -
  have "length (fold (\<lambda>block hs. compress hs (map word_of_bytes (chunks 4 block))) bs hs)
        = length hs" for bs hs
    by (induction bs arbitrary: hs) (simp_all add: length_compress)
  then show ?thesis
    by (simp add: sha256_words_def initial_hash_def)
qed

lemma concat_hex_words_shape:
  "length (concat (map hex_word ws)) = 8 * length ws"
  "list_all is_lower_hex (concat (map hex_word ws))"
  by (induction ws) (simp_all add: hex_word_shape)

lemma sha256_hex_shape [simp]:
  "length (sha256_hex m) = 64"
  "list_all is_lower_hex (sha256_hex m)"
  by (simp_all add: sha256_hex_def concat_hex_words_shape length_sha256_words)

end
