(* ===== verification/Canonical.thy ===== *)
theory Canonical
  imports Domain Sha256
begin

text \<open>
  \<open>packages/ledger/canonical.py\<close> and the hashing helpers that are built on \<open>json.dumps\<close>:
  normalisation, the canonical JSON text, the payload covered by an event hash and the
  fingerprint of an event description.  The main result is that the canonical text determines
  the normalised payload (\<open>canonical_json_inj\<close>), so that a difference between two payloads is
  a difference between the hashed texts.
\<close>

section \<open>json.dumps\<close>

text \<open>\<open>py_encode_basestring\<close>: the escapes of \<open>ensure_ascii=False\<close>.\<close>

definition esc_char :: "char \<Rightarrow> string" where
  "esc_char c =
     (let n = (of_char c :: nat) in
      if n = 34 \<or> n = 92 then [backslash, c]
      else if n = 10 then [backslash, CHR ''n'']
      else if n = 13 then [backslash, CHR ''r'']
      else if n = 9 then [backslash, CHR ''t'']
      else if n = 12 then [backslash, CHR ''f'']
      else if n = 8 then [backslash, CHR ''b'']
      else if n < 32
        then [backslash, CHR ''u'', CHR ''0'', CHR ''0'', hex_digit (n div 16), hex_digit (n mod 16)]
      else [c])"

definition json_quote :: "string \<Rightarrow> string" where
  "json_quote s = [dquote] @ concat (map esc_char s) @ [dquote]"

text \<open>\<open>py_encode_basestring_ascii\<close>: every code point outside U+0020--U+007E is escaped.\<close>

fun utf8_points :: "string \<Rightarrow> nat list" where
  "utf8_points [] = []"
| "utf8_points (a # s) =
     (let x = (of_char a :: nat) in
      if 192 \<le> x \<and> x < 224 \<and> s \<noteq> []
        then ((x - 192) * 64 + (of_char (s ! 0) - 128)) # utf8_points (drop 1 s)
      else if 224 \<le> x \<and> x < 240 \<and> 2 \<le> length s
        then ((x - 224) * 4096 + (of_char (s ! 0) - 128) * 64 + (of_char (s ! 1) - 128))
             # utf8_points (drop 2 s)
      else if 240 \<le> x \<and> 3 \<le> length s
        then ((x - 240) * 262144 + (of_char (s ! 0) - 128) * 4096
               + (of_char (s ! 1) - 128) * 64 + (of_char (s ! 2) - 128))
             # utf8_points (drop 3 s)
      else x # utf8_points s)"

definition hex4 :: "nat \<Rightarrow> string" where
  "hex4 n = map (\<lambda>k. hex_digit (n div k mod 16)) [4096, 256, 16, 1]"

definition esc_point :: "nat \<Rightarrow> string" where
  "esc_point n =
     (if 32 \<le> n \<and> n \<le> 126 \<or> n \<in> {8, 9, 10, 12, 13} then esc_char (char_of n)
      else if n < 65536 then [backslash, CHR ''u''] @ hex4 n
      else [backslash, CHR ''u''] @ hex4 (55296 + (n - 65536) div 1024)
           @ [backslash, CHR ''u''] @ hex4 (56320 + (n - 65536) mod 1024))"

definition json_quote_ascii :: "string \<Rightarrow> string" where
  "json_quote_ascii s = [dquote] @ concat (map esc_point (utf8_points s)) @ [dquote]"

text \<open>
  \<open>json.dumps(value, sort_keys=True, separators=(",", ":"), default=str)\<close> for a given string
  encoder.  The \<open>default\<close> hook is reached by datetimes, sets and objects only.
\<close>

primrec json_dumps :: "(string \<Rightarrow> string) \<Rightarrow> pyval \<Rightarrow> string" where
  "json_dumps q PNone = ''null''"
| "json_dumps q (PBool b) = (if b then ''true'' else ''false'')"
| "json_dumps q (PInt i) = show_int i"
| "json_dumps q (PFloat f) =
     (case f of
        FFinite _ r \<Rightarrow> r
      | FNan \<Rightarrow> ''NaN''
      | FInf pos \<Rightarrow> if pos then ''Infinity'' else ''-Infinity'')"
| "json_dumps q (PStr s) = q s"
| "json_dumps q (PEnum l v) = q v"
| "json_dumps q (PDatetime t) = q (str_datetime t)"
| "json_dumps q (PList xs) = ''['' @ join '','' (map (json_dumps q) xs) @ '']''"
| "json_dumps q (PTuple xs) = ''['' @ join '','' (map (json_dumps q) xs) @ '']''"
| "json_dumps q (PSet xs) = q (py_str (PSet xs))"
| "json_dumps q (PDict kvs) =
     ''{'' @ join '',''
       (map (\<lambda>p. q (fst p) @ '':'' @ snd p)
         (sort_key fst (map (map_prod id (json_dumps q)) kvs))) @ ''}''"
| "json_dumps q (PObj c kvs) = q (py_str (PObj c kvs))"

section \<open>canonical.py\<close>

definition HASH_ALGORITHM :: string where "HASH_ALGORITHM = ''sha256''"

definition HASH_PREFIX :: string where "HASH_PREFIX = ''sha256:''"

definition LEDGER_SCHEMA_VERSION :: string where
  "LEDGER_SCHEMA_VERSION = ''ledger-event-v1''"

definition GENESIS_HASH :: string where
  "GENESIS_HASH = HASH_PREFIX @ replicate 64 (CHR ''0'')"

primrec normalize :: "pyval \<Rightarrow> pyval result" where
  "normalize PNone = Inr PNone"
| "normalize (PBool b) = Inr (PBool b)"
| "normalize (PInt i) = Inr (PInt i)"
| "normalize (PFloat f) =
     (case f of
        FFinite _ _ \<Rightarrow> Inr (PFloat f)
      | _ \<Rightarrow> Inl (PyExc ValueError
               ''Non-finite floats are not supported in ledger payloads.''))"
| "normalize (PStr s) = Inr (PStr s)"
| "normalize (PEnum l v) = Inr (PStr v)"
| "normalize (PDatetime dt) =
     (case dt of
        Naive _ \<Rightarrow> Inl (PyExc ValueError ''Ledger datetimes must include a timezone.'')
      | Aware t \<Rightarrow> Inr (PStr (iso_micro t)))"
| "normalize (PList xs) = bindR (seqR (map normalize xs)) (\<lambda>ys. Inr (PList ys))"
| "normalize (PTuple xs) = bindR (seqR (map normalize xs)) (\<lambda>ys. Inr (PList ys))"
| "normalize (PSet xs) =
     Inl (PyExc TypeError ''Sets are not supported in canonical ledger payloads.'')"
| "normalize (PDict kvs) =
     bindR (seq_items (map (map_prod id normalize) kvs)) (\<lambda>d. Inr (PDict d))"
| "normalize (PObj c kvs) =
     bindR (seq_items (map (map_prod id normalize) kvs)) (\<lambda>d. Inr (PDict d))"

definition canonical_json :: "pyval \<Rightarrow> string result" where
  "canonical_json v = bindR (normalize v) (\<lambda>n. Inr (json_dumps json_quote n))"

definition sha256_text :: "string \<Rightarrow> string" where
  "sha256_text s = HASH_PREFIX @ sha256_hex s"

definition hash_payload :: "pyval \<Rightarrow> string result" where
  "hash_payload p = bindR (canonical_json p) (\<lambda>t. Inr (sha256_text t))"

definition event_hash_payload :: "trace_event \<Rightarrow> pyval" where
  "event_hash_payload e =
     PDict
       [(''agent'', opt_val agent_val (te_agent e)),
        (''details'', PDict (te_details e)),
        (''effect_class'', opt_val effect_val (te_effect_class e)),
        (''event_id'', PStr (te_event_id e)),
        (''event_type'', enum_val ''EventType'' (event_type_value (te_event_type e))),
        (''idempotency_key'', opt_str (te_idempotency_key e)),
        (''occurred_at'', PDatetime (Aware (te_occurred_at e))),
        (''previous_hash'', PStr (te_previous_hash e)),
        (''schema_version'', PStr (te_schema_version e)),
        (''sequence'', PInt (te_sequence e)),
        (''summary'', PStr (te_summary e)),
        (''tool_name'', opt_str (te_tool_name e)),
        (''trace_id'', PStr (te_trace_id e))]"

definition calculate_event_hash :: "trace_event \<Rightarrow> string result" where
  "calculate_event_hash e = hash_payload (event_hash_payload e)"

text \<open>The fields a caller of \<open>append_event\<close> supplies.\<close>

record event_description =
  ed_event_type :: event_type
  ed_summary :: string
  ed_details :: pydict
  ed_agent :: "agent_name option"
  ed_tool_name :: "string option"
  ed_effect_class :: "effect_class option"
  ed_idempotency_key :: "string option"

definition event_description_payload :: "string \<Rightarrow> event_description \<Rightarrow> string \<Rightarrow> pyval" where
  "event_description_payload tid d key =
     PDict
       [(''agent'', opt_val agent_val (ed_agent d)),
        (''details'', PDict (ed_details d)),
        (''effect_class'', opt_val effect_val (ed_effect_class d)),
        (''event_type'', enum_val ''EventType'' (event_type_value (ed_event_type d))),
        (''idempotency_key'', PStr key),
        (''schema_version'', PStr LEDGER_SCHEMA_VERSION),
        (''summary'', PStr (ed_summary d)),
        (''tool_name'', opt_str (ed_tool_name d)),
        (''trace_id'', PStr tid)]"

definition event_description_fingerprint ::
  "string \<Rightarrow> event_description \<Rightarrow> string \<Rightarrow> string result" where
  "event_description_fingerprint tid d key = hash_payload (event_description_payload tid d key)"

text \<open>
  \<open>canonical_hash\<close> of \<open>packages/commitments/service.py\<close>: the same text without
  normalisation and with ASCII-only strings.
\<close>

definition canonical_hash :: "pyval \<Rightarrow> string" where
  "canonical_hash v = ''sha256:'' @ sha256_hex (json_dumps json_quote_ascii v)"

section \<open>The text determines the value\<close>

text \<open>
  Values that normalisation produces.  A float's text is a \<open>repr\<close>: number characters only, of
  which at least one is not a digit or a sign.
\<close>

definition num_char :: "char \<Rightarrow> bool" where
  "num_char c \<longleftrightarrow> is_digit c \<or> c \<in> {CHR ''-'', CHR ''+'', CHR ''.'', CHR ''e''}"

definition float_text :: "string \<Rightarrow> bool" where
  "float_text r \<longleftrightarrow>
     list_all num_char r \<and> list_ex (\<lambda>c. \<not> is_digit c \<and> c \<noteq> CHR ''-'') r"

primrec json_ok :: "pyval \<Rightarrow> bool" where
  "json_ok PNone = True"
| "json_ok (PBool b) = True"
| "json_ok (PInt i) = True"
| "json_ok (PFloat f) = (case f of FFinite q r \<Rightarrow> float_text r | _ \<Rightarrow> False)"
| "json_ok (PStr s) = True"
| "json_ok (PEnum l v) = False"
| "json_ok (PDatetime t) = False"
| "json_ok (PList xs) = list_all id (map json_ok xs)"
| "json_ok (PTuple xs) = False"
| "json_ok (PSet xs) = False"
| "json_ok (PDict kvs) = list_all snd (map (map_prod id json_ok) kvs)"
| "json_ok (PObj c kvs) = False"

text \<open>The information that the text keeps: dictionaries up to order, floats up to \<open>repr\<close>.\<close>

primrec json_form :: "pyval \<Rightarrow> pyval" where
  "json_form PNone = PNone"
| "json_form (PBool b) = PBool b"
| "json_form (PInt i) = PInt i"
| "json_form (PFloat f) = PFloat (FFinite 0 (float_repr f))"
| "json_form (PStr s) = PStr s"
| "json_form (PEnum l v) = PEnum l v"
| "json_form (PDatetime t) = PDatetime t"
| "json_form (PList xs) = PList (map json_form xs)"
| "json_form (PTuple xs) = PTuple (map json_form xs)"
| "json_form (PSet xs) = PSet (map json_form xs)"
| "json_form (PDict kvs) = PDict (sort_key fst (map (map_prod id json_form) kvs))"
| "json_form (PObj c kvs) = PObj c (map (map_prod id json_form) kvs)"

text \<open>The printer on values whose dictionaries are already in key order.\<close>

primrec json_print :: "pyval \<Rightarrow> string" where
  "json_print PNone = ''null''"
| "json_print (PBool b) = (if b then ''true'' else ''false'')"
| "json_print (PInt i) = show_int i"
| "json_print (PFloat f) = float_repr f"
| "json_print (PStr s) = json_quote s"
| "json_print (PEnum l v) = []"
| "json_print (PDatetime t) = []"
| "json_print (PList xs) = ''['' @ join '','' (map json_print xs) @ '']''"
| "json_print (PTuple xs) = []"
| "json_print (PSet xs) = []"
| "json_print (PDict kvs) =
     ''{'' @ join '',''
       (map (\<lambda>p. json_quote (fst p) @ '':'' @ snd p) (map (map_prod id json_print) kvs)) @ ''}''"
| "json_print (PObj c kvs) = []"

lemma insort_key_map_prod:
  "insort_key fst (k, f v) (map (map_prod id f) xs) = map (map_prod id f) (insort_key fst (k, v) xs)"
  by (induction xs) auto

lemma sort_key_map_prod:
  "sort_key fst (map (map_prod id f) xs) = map (map_prod id f) (sort_key fst xs)"
proof (induction xs)
  case (Cons p xs)
  then show ?case
    using insort_key_map_prod [of "fst p" f "snd p" "sort_key fst xs"] by (cases p) (simp add: id_def)
qed simp

lemma map_cong_values:
  "(\<And>p v. p \<in> set kvs \<Longrightarrow> v \<in> Basic_BNFs.snds p \<Longrightarrow> f v = g v) \<Longrightarrow>
   map (map_prod id f) kvs = map (map_prod id g) kvs"
  by (auto simp: snds.simps)

lemma json_dumps_print: "json_ok v \<Longrightarrow> json_dumps json_quote v = json_print (json_form v)"
proof (induction v)
  case (PDict kvs)
  have "json_dumps json_quote v = json_print (json_form v)"
    if "p \<in> set kvs" "v \<in> Basic_BNFs.snds p" for p v
    using PDict that by (auto simp: list_all_iff snds.simps)
  then have "map (map_prod id (json_dumps json_quote)) kvs
      = map (map_prod id json_print) (map (map_prod id json_form) kvs)"
    by (auto simp: prod.map_comp snds.simps)
  then show ?case
    by (simp add: sort_key_map_prod del: map_map)
qed (auto simp: list_all_iff float_repr_def o_def split: pyfloat.splits
      intro!: arg_cong [where f = "join _"])

subsection \<open>Quoted strings\<close>

lemma of_char_backslash [simp]: "of_char backslash = (92 :: nat)"
  by (simp add: backslash_def)

lemma of_char_dquote [simp]: "of_char dquote = (34 :: nat)"
  by (simp add: dquote_def)

text \<open>Reading one escaped character back.\<close>

definition hex_value :: "char \<Rightarrow> nat" where
  "hex_value c = length (takeWhile (\<lambda>d. d \<noteq> c) ''0123456789abcdef'')"

definition unesc :: "string \<Rightarrow> char \<times> string" where
  "unesc s =
     (if hd s \<noteq> backslash then (hd s, tl s)
      else
        (let k = s ! 1; t = drop 2 s in
         if k = CHR ''n'' then (CHR 0x0A, t)
         else if k = CHR ''r'' then (CHR 0x0D, t)
         else if k = CHR ''t'' then (CHR 0x09, t)
         else if k = CHR ''f'' then (CHR 0x0C, t)
         else if k = CHR ''b'' then (CHR 0x08, t)
         else if k = CHR ''u''
           then (char_of (16 * hex_value (t ! 2) + hex_value (t ! 3)), drop 4 t)
         else (k, t)))"

lemma hex_value_digit: "n < 16 \<Longrightarrow> hex_value (hex_digit n) = n"
proof -
  assume "n < 16"
  then have "n \<in> {0, 1, 2, 3, 4, 5, 6, 7, 8, 9, 10, 11, 12, 13, 14, 15}"
    by (simp only: insert_iff empty_iff) presburger
  then show ?thesis by (elim insertE emptyE) (simp_all add: hex_value_def hex_digit_def)
qed

lemma unesc_control:
  assumes "(of_char c :: nat) < 32"
  shows "unesc (esc_char c @ x) = (c, x)"
proof (cases "(of_char c :: nat) \<in> {8, 9, 10, 12, 13}")
  case True
  then have "\<exists>d \<in> {CHR 0x08, CHR 0x09, CHR 0x0A, CHR 0x0C, CHR 0x0D}. (of_char c :: nat) = of_char d"
    by (auto simp del: of_char_eq_iff)
  then have "c \<in> {CHR 0x08, CHR 0x09, CHR 0x0A, CHR 0x0C, CHR 0x0D}"
    by (simp only: of_char_eq_iff) blast
  then show ?thesis
    by (elim insertE emptyE) (simp_all add: esc_char_def unesc_def backslash_def)
next
  case False
  let ?n = "of_char c :: nat"
  have esc: "esc_char c = [backslash, CHR ''u'', CHR ''0'', CHR ''0'',
      hex_digit (?n div 16), hex_digit (?n mod 16)]"
    using assms False by (simp add: esc_char_def Let_def)
  have "?n div 16 < 16" "?n mod 16 < 16" using assms by simp_all
  then have "16 * hex_value (hex_digit (?n div 16)) + hex_value (hex_digit (?n mod 16)) = ?n"
    by (simp add: hex_value_digit)
  then show ?thesis by (simp add: esc unesc_def)
qed

lemma unesc_esc: "unesc (esc_char c @ x) = (c, x)"
proof -
  consider (control) "(of_char c :: nat) < 32" | (quote) "c = CHR 0x22" | (slash) "c = CHR 0x5C"
    | (plain) "\<not> (of_char c :: nat) < 32" "c \<noteq> CHR 0x22" "c \<noteq> CHR 0x5C"
    by blast
  then show ?thesis
  proof cases
    case control
    then show ?thesis by (rule unesc_control)
  next
    case plain
    have "(of_char c :: nat) \<noteq> of_char (CHR 0x22)" "(of_char c :: nat) \<noteq> of_char (CHR 0x5C)"
      using plain(2,3) by (simp_all only: of_char_eq_iff not_False_eq_True)
    with plain(1) have "esc_char c = [c]"
      by (simp add: esc_char_def)
    with plain(3) show ?thesis by (simp add: unesc_def backslash_def)
  qed (simp_all add: esc_char_def unesc_def backslash_def)
qed

lemma esc_char_unique: "esc_char c @ x = esc_char d @ y \<Longrightarrow> c = d \<and> x = y"
  by (metis unesc_esc prod.inject)

lemma esc_char_not_dquote: "esc_char c @ x \<noteq> dquote # y"
  by (auto simp: esc_char_def Let_def backslash_def dquote_def)

lemma esc_string_unique:
  "concat (map esc_char s) @ dquote # x = concat (map esc_char t) @ dquote # y \<Longrightarrow> s = t \<and> x = y"
proof (induction s arbitrary: t)
  case Nil
  then show ?case
    by (cases t) (auto simp: esc_char_not_dquote dest: sym)
next
  case (Cons c s)
  then show ?case
    by (cases t) (auto simp: esc_char_not_dquote dest!: esc_char_unique)
qed

lemma json_quote_unique: "json_quote s @ x = json_quote t @ y \<Longrightarrow> s = t \<and> x = y"
  by (auto simp: json_quote_def dest: esc_string_unique)

subsection \<open>Numbers\<close>

text \<open>What may follow a value in a JSON text.\<close>

definition tail_ok :: "string \<Rightarrow> bool" where
  "tail_ok r \<longleftrightarrow> r = [] \<or> hd r \<in> {CHR '','', CHR '']'', CHR ''}''}"

lemma tail_ok_simps [simp]:
  "tail_ok []"
  "tail_ok (c # r) \<longleftrightarrow> c \<in> {CHR '','', CHR '']'', CHR ''}''}"
  by (simp_all add: tail_ok_def)

lemma takeWhile_num: "list_all num_char s \<Longrightarrow> tail_ok r \<Longrightarrow> takeWhile num_char (s @ r) = s"
  by (cases r) (auto simp: list_all_iff num_char_def is_digit_def)

lemma num_text_unique:
  assumes "list_all num_char s" "list_all num_char t" "tail_ok x" "tail_ok y" "s @ x = t @ y"
  shows "s = t \<and> x = y"
proof -
  have "s = t" using assms by (metis takeWhile_num)
  with assms(5) show ?thesis by simp
qed

lemma show_int_num: "list_all num_char (show_int i)"
  using show_nat_digits by (auto simp: show_int_def num_char_def list_all_iff)

lemma show_int_not_float: "\<not> float_text (show_int i)"
  using show_nat_digits by (auto simp: float_text_def show_int_def list_all_iff list_ex_iff)

lemma show_int_hd: "\<exists>c cs. show_int i = c # cs \<and> num_char c"
proof -
  have "show_int i \<noteq> []" by (simp add: show_int_def)
  then show ?thesis using show_int_num [of i] by (cases "show_int i") auto
qed

lemma float_text_hd: "float_text r \<Longrightarrow> \<exists>c cs. r = c # cs \<and> num_char c"
  by (cases r) (auto simp: float_text_def)

subsection \<open>Lists and dictionaries\<close>

lemma join_Cons: "join sep (x # xs) = x @ (if xs = [] then [] else sep @ join sep xs)"
  by (cases xs) simp_all

text \<open>Elements that can be told apart in front of a separator can be told apart in a list.\<close>

lemma join_unique:
  assumes el: "\<And>x y r r'. x \<in> set xs \<Longrightarrow> y \<in> set ys \<Longrightarrow> tail_ok r \<Longrightarrow> tail_ok r' \<Longrightarrow>
      f x @ r = f y @ r' \<Longrightarrow> x = y \<and> r = r'"
    and start: "\<And>x. x \<in> set xs \<union> set ys \<Longrightarrow> f x \<noteq> [] \<and> hd (f x) \<noteq> e"
    and e: "e = CHR '']'' \<or> e = CHR ''}''"
    and eq: "join '','' (map f xs) @ e # r = join '','' (map f ys) @ e # r'"
  shows "xs = ys \<and> r = r'"
  using el start eq
proof (induction xs arbitrary: ys)
  case Nil
  show ?case
  proof (cases ys)
    case Nil
    with Nil.prems(3) show ?thesis by simp
  next
    case (Cons y ys')
    with Nil.prems(2) [of y] Nil.prems(3) show ?thesis by (auto simp: join_Cons neq_Nil_conv)
  qed
next
  case (Cons x xs)
  obtain y ys' where ys: "ys = y # ys'"
    using Cons.prems(2) [of x] Cons.prems(3)
    by (cases ys) (auto simp: join_Cons neq_Nil_conv)
  let ?rest = "\<lambda>zs q. (if zs = [] then [] else '','' @ join '','' (map f zs)) @ e # q"
  have tails: "tail_ok (?rest xs r)" "tail_ok (?rest ys' r')"
    using e by auto
  have "f x @ ?rest xs r = f y @ ?rest ys' r'"
    using Cons.prems(3) by (simp add: ys join_Cons)
  then have xy: "x = y" "?rest xs r = ?rest ys' r'"
    using Cons.prems(1) [of x y, OF _ _ tails] by (auto simp: ys)
  show ?case
  proof (cases "xs = [] \<or> ys' = []")
    case True
    with xy e show ?thesis by (auto simp: ys split: if_splits)
  next
    case False
    with xy(2) have "join '','' (map f xs) @ e # r = join '','' (map f ys') @ e # r'"
      by simp
    moreover have "z = w \<and> q = q'"
      if "z \<in> set xs" "w \<in> set ys'" "tail_ok q" "tail_ok q'" "f z @ q = f w @ q'" for z w q q'
      using Cons.prems(1) [of z w q q'] that by (simp add: ys)
    moreover have "f z \<noteq> [] \<and> hd (f z) \<noteq> e" if "z \<in> set xs \<union> set ys'" for z
      using Cons.prems(2) [of z] that by (auto simp: ys)
    ultimately have "xs = ys' \<and> r = r'" by (intro Cons.IH) auto
    with xy(1) ys show ?thesis by simp
  qed
qed

text \<open>The forms: \<open>repr\<close> stands for the float, dictionaries are in key order.\<close>

primrec form_ok :: "pyval \<Rightarrow> bool" where
  "form_ok PNone = True"
| "form_ok (PBool b) = True"
| "form_ok (PInt i) = True"
| "form_ok (PFloat f) = (case f of FFinite q r \<Rightarrow> q = 0 \<and> float_text r | _ \<Rightarrow> False)"
| "form_ok (PStr s) = True"
| "form_ok (PEnum l v) = False"
| "form_ok (PDatetime t) = False"
| "form_ok (PList xs) = list_all id (map form_ok xs)"
| "form_ok (PTuple xs) = False"
| "form_ok (PSet xs) = False"
| "form_ok (PDict kvs) = list_all snd (map (map_prod id form_ok) kvs)"
| "form_ok (PObj c kvs) = False"

lemma form_ok_json_ok: "form_ok v \<Longrightarrow> json_ok v"
  by (induction v) (auto simp: list_all_iff snds.simps split: pyfloat.splits)

lemma json_form_ok: "json_ok v \<Longrightarrow> form_ok (json_form v)"
proof (induction v)
  case (PDict kvs)
  then have "form_ok (json_form v)" if "(k, v) \<in> set kvs" for k v
    using that by (auto simp: list_all_iff snds.simps)
  then show ?case
    by (auto simp: list_all_iff)
qed (auto simp: list_all_iff float_repr_def split: pyfloat.splits)

text \<open>The first character of a value's text tells its kind.\<close>

definition head_kind :: "char \<Rightarrow> nat" where
  "head_kind c =
     (if c = CHR ''n'' then 0 else if c = CHR ''t'' \<or> c = CHR ''f'' then 1
      else if num_char c then 2 else if c = dquote then 3 else if c = CHR ''['' then 4 else 5)"

fun kind :: "pyval \<Rightarrow> nat" where
  "kind PNone = 0"
| "kind (PBool b) = 1"
| "kind (PInt i) = 2"
| "kind (PFloat f) = 2"
| "kind (PStr s) = 3"
| "kind (PList xs) = 4"
| "kind (PDict kvs) = 5"
| "kind _ = 6"

lemma num_head_kind [simp]: "num_char c \<Longrightarrow> head_kind c = 2"
  by (auto simp: head_kind_def num_char_def is_digit_def)

lemma num_char_not_close: "num_char c \<Longrightarrow> c \<notin> {CHR '']'', CHR ''}''}"
  by (auto simp: num_char_def is_digit_def)

lemma json_print_head:
  assumes "form_ok v"
  shows "\<exists>c cs. json_print v = c # cs \<and> head_kind c = kind v \<and> c \<notin> {CHR '']'', CHR ''}''}"
proof (cases v)
  case (PInt i)
  obtain c cs where "show_int i = c # cs" "num_char c" using show_int_hd [of i] by blast
  with PInt num_char_not_close [of c] show ?thesis by simp
next
  case (PFloat f)
  then obtain q r where f: "f = FFinite q r" "float_text r"
    using assms by (auto split: pyfloat.splits)
  obtain c cs where "r = c # cs" "num_char c" using float_text_hd [OF f(2)] by blast
  with PFloat f num_char_not_close [of c] show ?thesis by (simp add: float_repr_def)
qed (use assms in \<open>auto simp: head_kind_def num_char_def is_digit_def json_quote_def dquote_def\<close>)

lemma json_print_kind:
  assumes "form_ok v" "form_ok w" "json_print v @ r = json_print w @ r'"
  shows "kind v = kind w"
  using json_print_head [OF assms(1)] json_print_head [OF assms(2)] assms(3) by auto

lemma kind_cases:
  assumes "form_ok w"
  shows "kind w = 0 \<Longrightarrow> w = PNone" "kind w = 1 \<Longrightarrow> \<exists>b. w = PBool b"
    "kind w = 2 \<Longrightarrow> (\<exists>i. w = PInt i) \<or> (\<exists>r. w = PFloat (FFinite 0 r) \<and> float_text r)"
    "kind w = 3 \<Longrightarrow> \<exists>s. w = PStr s" "kind w = 4 \<Longrightarrow> \<exists>xs. w = PList xs"
    "kind w = 5 \<Longrightarrow> \<exists>kvs. w = PDict kvs"
  using assms by (cases w; auto split: pyfloat.splits)+

lemma float_text_num: "float_text r \<Longrightarrow> list_all num_char r"
  by (simp add: float_text_def)

lemma json_print_unique:
  "form_ok v \<Longrightarrow> form_ok w \<Longrightarrow> tail_ok r \<Longrightarrow> tail_ok r' \<Longrightarrow>
   json_print v @ r = json_print w @ r' \<Longrightarrow> v = w \<and> r = r'"
proof (induction v arbitrary: w r r')
  case PNone
  then show ?case using json_print_kind [OF PNone.prems(1,2,5)] by (auto dest: kind_cases)
next
  case (PBool b)
  then have "\<exists>b. w = PBool b"
    using json_print_kind [OF PBool.prems(1,2,5)] by (auto intro: kind_cases)
  with PBool.prems show ?case by (auto split: if_splits)
next
  case (PInt i)
  then have "(\<exists>i. w = PInt i) \<or> (\<exists>r. w = PFloat (FFinite 0 r) \<and> float_text r)"
    using json_print_kind [OF PInt.prems(1,2,5)] by (intro kind_cases(3)) simp_all
  then show ?case
  proof
    assume "\<exists>j. w = PInt j"
    then obtain j where w: "w = PInt j" ..
    have "show_int i = show_int j \<and> r = r'"
      using PInt.prems w by (intro num_text_unique) (auto simp: show_int_num)
    then show ?thesis using w show_int_inj by auto
  next
    assume "\<exists>t. w = PFloat (FFinite 0 t) \<and> float_text t"
    then obtain t where w: "w = PFloat (FFinite 0 t)" "float_text t" by blast
    have "show_int i = t \<and> r = r'"
      using PInt.prems w
      by (intro num_text_unique) (auto simp: show_int_num float_text_num float_repr_def)
    then show ?thesis using w show_int_not_float [of i] by simp
  qed
next
  case (PFloat f)
  then obtain s where f: "f = FFinite 0 s" "float_text s"
    by (auto split: pyfloat.splits)
  have "(\<exists>i. w = PInt i) \<or> (\<exists>r. w = PFloat (FFinite 0 r) \<and> float_text r)"
    using json_print_kind [OF PFloat.prems(1,2,5)] PFloat.prems(2) by (intro kind_cases(3)) simp_all
  then show ?case
  proof
    assume "\<exists>j. w = PInt j"
    then obtain j where w: "w = PInt j" ..
    have "s = show_int j \<and> r = r'"
      using PFloat.prems w f
      by (intro num_text_unique) (auto simp: show_int_num float_text_num float_repr_def)
    then show ?thesis using f show_int_not_float [of j] by simp
  next
    assume "\<exists>t. w = PFloat (FFinite 0 t) \<and> float_text t"
    then obtain t where w: "w = PFloat (FFinite 0 t)" "float_text t" by blast
    have "s = t \<and> r = r'"
      using PFloat.prems w f by (intro num_text_unique) (auto simp: float_text_num float_repr_def)
    then show ?thesis using w f by simp
  qed
next
  case (PStr s)
  then have "\<exists>s. w = PStr s"
    using json_print_kind [OF PStr.prems(1,2,5)] by (auto intro: kind_cases)
  with PStr.prems show ?case by (auto dest: json_quote_unique)
next
  case (PList xs)
  obtain ys where w: "w = PList ys"
    using json_print_kind [OF PList.prems(1,2,5)] kind_cases(5) [OF PList.prems(2)] by auto
  have ok: "form_ok x" if "x \<in> set xs \<union> set ys" for x
    using PList.prems(1,2) that by (auto simp: w list_all_iff)
  have "xs = ys \<and> r = r'"
  proof (rule join_unique [where f = json_print and e = "CHR '']''"])
    show "x = y \<and> q = q'" if "x \<in> set xs" "y \<in> set ys" "tail_ok q" "tail_ok q'"
      "json_print x @ q = json_print y @ q'" for x y q q'
      using PList.IH [of x y q q'] that ok by simp
    show "json_print x \<noteq> [] \<and> hd (json_print x) \<noteq> CHR '']''" if "x \<in> set xs \<union> set ys" for x
      using json_print_head [OF ok [OF that]] by auto
  qed (use PList.prems(5) in \<open>simp_all add: w\<close>)
  then show ?case by (simp add: w)
next
  case (PDict kvs)
  obtain kvs' where w: "w = PDict kvs'"
    using json_print_kind [OF PDict.prems(1,2,5)] kind_cases(6) [OF PDict.prems(2)] by auto
  have ok: "form_ok (snd p)" if "p \<in> set kvs \<union> set kvs'" for p
    using PDict.prems(1,2) that by (auto simp: w list_all_iff)
  let ?f = "\<lambda>p. json_quote (fst p) @ '':'' @ json_print (snd p)"
  have "kvs = kvs' \<and> r = r'"
  proof (rule join_unique [where f = ?f and e = "CHR ''}''"])
    show "x = y \<and> q = q'" if "x \<in> set kvs" "y \<in> set kvs'" "tail_ok q" "tail_ok q'"
      "?f x @ q = ?f y @ q'" for x y q q'
    proof -
      have "fst x = fst y \<and> CHR '':'' # json_print (snd x) @ q = CHR '':'' # json_print (snd y) @ q'"
        using that(5) by (intro json_quote_unique) simp
      moreover have "snd x \<in> Basic_BNFs.snds x" by (auto simp: snds.simps)
      ultimately show ?thesis
        using PDict.IH [of x "snd x" "snd y" q q'] that ok by (auto intro: prod_eqI)
    qed
    show "?f x \<noteq> [] \<and> hd (?f x) \<noteq> CHR ''}''" for x
      by (simp add: json_quote_def dquote_def)
  qed (use PDict.prems(5) in \<open>simp_all add: w o_def\<close>)
  then show ?case by (simp add: w)
qed simp_all

lemma json_dumps_inj:
  assumes "json_ok v" "json_ok w" "json_dumps json_quote v = json_dumps json_quote w"
  shows "json_form v = json_form w"
  using json_print_unique [of "json_form v" "json_form w" "[]" "[]"] assms
  by (simp add: json_form_ok json_dumps_print)

section \<open>Normalised values\<close>

text \<open>Finite floats carry a \<open>repr\<close>, as every Python float does.\<close>

primrec floats_ok :: "pyval \<Rightarrow> bool" where
  "floats_ok PNone = True"
| "floats_ok (PBool b) = True"
| "floats_ok (PInt i) = True"
| "floats_ok (PFloat f) = (case f of FFinite q r \<Rightarrow> float_text r | _ \<Rightarrow> True)"
| "floats_ok (PStr s) = True"
| "floats_ok (PEnum l v) = True"
| "floats_ok (PDatetime t) = True"
| "floats_ok (PList xs) = list_all id (map floats_ok xs)"
| "floats_ok (PTuple xs) = list_all id (map floats_ok xs)"
| "floats_ok (PSet xs) = list_all id (map floats_ok xs)"
| "floats_ok (PDict kvs) = list_all snd (map (map_prod id floats_ok) kvs)"
| "floats_ok (PObj c kvs) = list_all snd (map (map_prod id floats_ok) kvs)"

lemma normalize_json_ok: "floats_ok v \<Longrightarrow> normalize v = Inr n \<Longrightarrow> json_ok n"
proof (induction v arbitrary: n)
  case (PList xs)
  have "json_ok y" if "seqR (map normalize xs) = Inr ys" "y \<in> set ys" for ys y
    using seqR_map_elem [OF that] PList by (auto simp: list_all_iff)
  with PList.prems(2) show ?case by (auto simp: list_all_iff)
next
  case (PTuple xs)
  have "json_ok y" if "seqR (map normalize xs) = Inr ys" "y \<in> set ys" for ys y
    using seqR_map_elem [OF that] PTuple by (auto simp: list_all_iff)
  with PTuple.prems(2) show ?case by (auto simp: list_all_iff)
next
  case (PDict kvs)
  have "json_ok (snd p)" if "seq_items (map (map_prod id normalize) kvs) = Inr d" "p \<in> set d" for d p
    using seq_items_map_elem [OF that] PDict by (force simp: list_all_iff snds.simps)
  with PDict.prems(2) show ?case by (auto simp: list_all_iff)
next
  case (PObj c kvs)
  have "json_ok (snd p)" if "seq_items (map (map_prod id normalize) kvs) = Inr d" "p \<in> set d" for d p
    using seq_items_map_elem [OF that] PObj by (force simp: list_all_iff snds.simps)
  with PObj.prems(2) show ?case by (auto simp: list_all_iff)
qed (auto split: pyfloat.splits pydatetime.splits)

text \<open>Equal canonical texts come from equal normalised values.\<close>

lemma canonical_json_inj:
  assumes "floats_ok v" "floats_ok w"
    and "canonical_json v = Inr t" "canonical_json w = Inr t"
  shows "\<exists>m n. normalize v = Inr m \<and> normalize w = Inr n \<and> json_form m = json_form n"
proof -
  obtain m n where mn: "normalize v = Inr m" "normalize w = Inr n"
    "json_dumps json_quote m = t" "json_dumps json_quote n = t"
    using assms(3,4) unfolding canonical_json_def by auto
  then have "json_form m = json_form n"
    using assms(1,2) by (intro json_dumps_inj) (auto intro: normalize_json_ok)
  with mn(1,2) show ?thesis by blast
qed

end
