(* ===== verification/Hash_Chain.thy ===== *)
theory Hash_Chain
  imports Prelude
begin

text \<open>
  The argument behind a hash chain, independent of the ledger's records: entries name the
  hash of their predecessor, and an entry's hash determines it unless two contents clash.
  Then the final hash determines the whole history.
\<close>

locale hash_chain =
  fixes wf :: "'e \<Rightarrow> bool"
    and entry_hash :: "'e \<Rightarrow> 'h"
    and prev_hash :: "'e \<Rightarrow> 'h"
    and same :: "'e \<Rightarrow> 'e \<Rightarrow> bool"
    and clash :: "'e \<Rightarrow> 'e \<Rightarrow> bool"
  assumes hash_determines:
      "wf e \<Longrightarrow> wf f \<Longrightarrow> entry_hash e = entry_hash f \<Longrightarrow> same e f \<or> clash e f"
    and same_prev: "same e f \<Longrightarrow> prev_hash e = prev_hash f"
begin

fun chained :: "'h \<Rightarrow> 'e list \<Rightarrow> bool" where
  "chained h [] = True"
| "chained h (e # es) = (prev_hash e = h \<and> chained (entry_hash e) es)"

definition final :: "'h \<Rightarrow> 'e list \<Rightarrow> 'h" where
  "final h es = (if es = [] then h else entry_hash (last es))"

lemma chained_snoc: "chained h (es @ [e]) \<longleftrightarrow> chained h es \<and> prev_hash e = final h es"
  by (induction es arbitrary: h) (auto simp: final_def)

lemma history_determined:
  assumes "length es = length fs" "chained h es" "chained h fs" "list_all wf es" "list_all wf fs"
    and "final h es = final h fs"
  shows "list_all2 same es fs \<or> (\<exists>i < length es. clash (es ! i) (fs ! i))"
  using assms
proof (induction es arbitrary: fs rule: rev_induct)
  case Nil
  then show ?case by simp
next
  case (snoc e es)
  obtain f fs' where fs: "fs = fs' @ [f]" and len: "length es = length fs'"
    using snoc.prems(1) by (cases fs rule: rev_cases) auto
  have "entry_hash e = entry_hash f" "wf e" "wf f"
    using snoc.prems(4-6) by (simp_all add: fs final_def)
  then consider (same) "same e f" | (clash) "clash e f" using hash_determines by blast
  then show ?case
  proof cases
    case same
    then have "final h es = final h fs'"
      using snoc.prems(2,3) same_prev by (simp add: fs chained_snoc)
    then have "list_all2 same es fs' \<or> (\<exists>i < length es. clash (es ! i) (fs' ! i))"
      using snoc.prems(2-5) len by (intro snoc.IH) (simp_all add: fs chained_snoc)
    then show ?thesis
    proof
      assume "list_all2 same es fs'"
      then have "list_all2 same (es @ [e]) (fs' @ [f])"
        using same by (intro list_all2_appendI) simp_all
      then show ?thesis by (simp add: fs)
    next
      assume "\<exists>i < length es. clash (es ! i) (fs' ! i)"
      then obtain i where "i < length es" "clash (es ! i) (fs' ! i)" by blast
      then have "i < length (es @ [e])" "clash ((es @ [e]) ! i) (fs ! i)"
        using len by (simp_all add: fs nth_append)
      then show ?thesis by blast
    qed
  next
    case clash
    then have "length es < length (es @ [e])" "clash ((es @ [e]) ! length es) (fs ! length es)"
      using len by (simp_all add: fs nth_append)
    then show ?thesis by blast
  qed
qed

end

end
