(* ===== verification/Verifier.thy ===== *)
theory Verifier
  imports Canonical Hash_Chain
begin

text \<open>
  \<open>packages/ledger/verifier.py\<close>: the loop of \<open>verify_chain\<close> with its early returns, and its
  specification \<open>linked\<close>.  The verifier accepts exactly the linked histories that the head
  describes, reports the first bad event otherwise, and a head accepts at most one history
  unless two texts collide under SHA-256.
\<close>

section \<open>verify\_chain\<close>

definition failure ::
  "string \<Rightarrow> ledger_head \<Rightarrow> int \<Rightarrow> string \<Rightarrow> string \<Rightarrow> int \<Rightarrow> verification_result" where
  "failure tid head checked computed code sequence =
     \<lparr>vr_trace_id = tid, vr_valid = False, vr_checked_event_count = checked,
      vr_first_bad_sequence = Some sequence, vr_failure_code = Some code,
      vr_stored_head_sequence = lh_sequence head, vr_stored_head_hash = lh_event_hash head,
      vr_computed_head_hash = computed, vr_algorithm = HASH_ALGORITHM,
      vr_schema_version = LEDGER_SCHEMA_VERSION\<rparr>"

definition verify_head ::
  "string \<Rightarrow> ledger_head \<Rightarrow> int \<Rightarrow> int \<Rightarrow> string \<Rightarrow> int \<Rightarrow> verification_result" where
  "verify_head tid head n expected_sequence computed checked =
     (if n \<noteq> lh_event_count head
        then failure tid head checked computed ''EVENT_COUNT_MISMATCH'' expected_sequence
      else if lh_sequence head \<noteq> n
        then failure tid head checked computed ''HEAD_SEQUENCE_MISMATCH'' expected_sequence
      else if lh_event_hash head \<noteq> computed
        then failure tid head checked computed ''HEAD_HASH_MISMATCH'' (lh_sequence head)
      else if lh_schema_version head \<noteq> LEDGER_SCHEMA_VERSION
        then failure tid head checked computed ''SCHEMA_VERSION_MISMATCH''
               (max (lh_sequence head) 1)
      else \<lparr>vr_trace_id = tid, vr_valid = True, vr_checked_event_count = checked,
            vr_first_bad_sequence = None, vr_failure_code = None,
            vr_stored_head_sequence = lh_sequence head, vr_stored_head_hash = lh_event_hash head,
            vr_computed_head_hash = computed, vr_algorithm = HASH_ALGORITHM,
            vr_schema_version = LEDGER_SCHEMA_VERSION\<rparr>)"

text \<open>
  The \<open>for\<close> loop: \<open>seq\<close>, \<open>prev\<close>, \<open>computed\<close> and \<open>checked\<close> are its variables, \<open>n\<close> is
  \<open>len(events)\<close>.
\<close>

fun verify_loop ::
  "string \<Rightarrow> ledger_head \<Rightarrow> int \<Rightarrow> int \<Rightarrow> string \<Rightarrow> string \<Rightarrow> int \<Rightarrow> trace_event list
    \<Rightarrow> verification_result" where
  "verify_loop tid head n seq prev computed checked [] =
     verify_head tid head n seq computed checked"
| "verify_loop tid head n seq prev computed checked (e # es) =
     (if te_sequence e \<noteq> seq
        then failure tid head checked computed ''SEQUENCE_MISMATCH'' seq
      else if te_trace_id e \<noteq> tid
        then failure tid head checked computed ''TRACE_ID_MISMATCH'' (te_sequence e)
      else if te_schema_version e \<noteq> LEDGER_SCHEMA_VERSION
        then failure tid head checked computed ''SCHEMA_VERSION_MISMATCH'' (te_sequence e)
      else if te_previous_hash e \<noteq> prev
        then failure tid head checked computed ''PREVIOUS_HASH_MISMATCH'' (te_sequence e)
      else
        (case calculate_event_hash e of
           Inl _ \<Rightarrow> failure tid head checked computed ''EVENT_HASH_MISMATCH'' (te_sequence e)
         | Inr recomputed \<Rightarrow>
             if te_event_hash e \<noteq> recomputed
             then failure tid head checked computed ''EVENT_HASH_MISMATCH'' (te_sequence e)
             else verify_loop tid head n (seq + 1) recomputed recomputed (checked + 1) es))"

definition verify_chain ::
  "string \<Rightarrow> trace_event list \<Rightarrow> ledger_head \<Rightarrow> verification_result" where
  "verify_chain tid events head =
     verify_loop tid head (int (length events)) 1 GENESIS_HASH GENESIS_HASH 0 events"

section \<open>Linked histories\<close>

text \<open>What one event must satisfy at position \<open>seq\<close> after an event hashed to \<open>prev\<close>.\<close>

definition event_ok :: "string \<Rightarrow> int \<Rightarrow> string \<Rightarrow> trace_event \<Rightarrow> bool" where
  "event_ok tid seq prev e \<longleftrightarrow>
     te_sequence e = seq \<and> te_trace_id e = tid \<and>
     te_schema_version e = LEDGER_SCHEMA_VERSION \<and> te_previous_hash e = prev \<and>
     calculate_event_hash e = Inr (te_event_hash e)"

fun linked :: "string \<Rightarrow> int \<Rightarrow> string \<Rightarrow> trace_event list \<Rightarrow> bool" where
  "linked tid seq prev [] = True"
| "linked tid seq prev (e # es) =
     (event_ok tid seq prev e \<and> linked tid (seq + 1) (te_event_hash e) es)"

text \<open>The hash after a history that starts from \<open>prev\<close>.\<close>

definition end_hash :: "string \<Rightarrow> trace_event list \<Rightarrow> string" where
  "end_hash prev es = (if es = [] then prev else te_event_hash (last es))"

lemma end_hash_simps [simp]:
  "end_hash prev [] = prev"
  "end_hash prev (e # es) = end_hash (te_event_hash e) es"
  "end_hash prev (es @ [e]) = te_event_hash e"
  by (simp_all add: end_hash_def)

lemma linked_append:
  "linked tid seq prev (xs @ ys) \<longleftrightarrow>
     linked tid seq prev xs \<and> linked tid (seq + int (length xs)) (end_hash prev xs) ys"
  by (induction xs arbitrary: seq prev) (auto simp: algebra_simps)

lemma linked_nth:
  "linked tid n prev es \<longleftrightarrow>
     (\<forall>i < length es.
        event_ok tid (int i + n) (if i = 0 then prev else te_event_hash (es ! (i - 1))) (es ! i))"
proof (induction es arbitrary: n prev)
  case Nil
  then show ?case by simp
next
  case (Cons e es)
  have *: "(\<forall>i < length (e # es). P i) \<longleftrightarrow> P 0 \<and> (\<forall>i < length es. P (Suc i))" for P
    by (simp add: All_less_Suc2)
  show ?case
    by (subst *) (auto simp: Cons.IH nth_Cons' algebra_simps)
qed

definition head_ok :: "ledger_head \<Rightarrow> trace_event list \<Rightarrow> bool" where
  "head_ok head es \<longleftrightarrow>
     lh_event_count head = int (length es) \<and> lh_sequence head = int (length es) \<and>
     lh_event_hash head = end_hash GENESIS_HASH es \<and>
     lh_schema_version head = LEDGER_SCHEMA_VERSION"

lemma failure_fields [simp]:
  "\<not> vr_valid (failure tid head c h code n)"
  "vr_checked_event_count (failure tid head c h code n) = c"
  "vr_first_bad_sequence (failure tid head c h code n) = Some n"
  "vr_failure_code (failure tid head c h code n) = Some code"
  "vr_computed_head_hash (failure tid head c h code n) = h"
  by (simp_all add: failure_def)

text \<open>The loop runs through a linked prefix and continues behind it.\<close>

lemma verify_loop_linked:
  "linked tid seq prev xs \<Longrightarrow> computed = prev \<Longrightarrow>
   verify_loop tid head n seq prev computed checked (xs @ ys) =
   verify_loop tid head n (seq + int (length xs)) (end_hash prev xs) (end_hash prev xs)
     (checked + int (length xs)) ys"
  by (induction xs arbitrary: seq prev computed checked)
    (auto simp: event_ok_def algebra_simps)

lemma verify_loop_valid:
  "vr_valid (verify_loop tid head n seq prev computed checked es) \<Longrightarrow> linked tid seq prev es"
  by (induction es arbitrary: seq prev computed checked)
    (auto simp: event_ok_def split: if_splits sum.splits)

text \<open>The first event that does not fit, and the code that \<open>verify_chain\<close> gives it.\<close>

definition bad_event_code :: "string \<Rightarrow> int \<Rightarrow> string \<Rightarrow> trace_event \<Rightarrow> string" where
  "bad_event_code tid seq prev e =
     (if te_sequence e \<noteq> seq then ''SEQUENCE_MISMATCH''
      else if te_trace_id e \<noteq> tid then ''TRACE_ID_MISMATCH''
      else if te_schema_version e \<noteq> LEDGER_SCHEMA_VERSION then ''SCHEMA_VERSION_MISMATCH''
      else if te_previous_hash e \<noteq> prev then ''PREVIOUS_HASH_MISMATCH''
      else ''EVENT_HASH_MISMATCH'')"

lemma verify_loop_bad:
  assumes "\<not> event_ok tid seq prev e"
  shows "verify_loop tid head n seq prev computed checked (e # es) =
    failure tid head checked computed (bad_event_code tid seq prev e) seq"
  using assms by (auto simp: event_ok_def bad_event_code_def split: sum.split)

text \<open>
  \<open>verify_chain\<close> accepts exactly the histories that are linked from the genesis hash and
  that the stored head describes.
\<close>

lemma verify_chain_iff:
  "vr_valid (verify_chain tid es head) \<longleftrightarrow> linked tid 1 GENESIS_HASH es \<and> head_ok head es"
proof (cases "linked tid 1 GENESIS_HASH es")
  case True
  then have "verify_chain tid es head =
      verify_head tid head (int (length es)) (1 + int (length es)) (end_hash GENESIS_HASH es)
        (int (length es))"
    using verify_loop_linked [OF True refl, of head "int (length es)" 0 "[]"]
    by (simp add: verify_chain_def)
  with True show ?thesis
    by (auto simp: verify_head_def head_ok_def)
next
  case False
  then show ?thesis
    using verify_loop_valid unfolding verify_chain_def by blast
qed

lemma verify_chain_valid_fields:
  assumes "linked tid 1 GENESIS_HASH es" "head_ok head es"
  shows "verify_chain tid es head =
    \<lparr>vr_trace_id = tid, vr_valid = True, vr_checked_event_count = int (length es),
     vr_first_bad_sequence = None, vr_failure_code = None,
     vr_stored_head_sequence = int (length es),
     vr_stored_head_hash = end_hash GENESIS_HASH es,
     vr_computed_head_hash = end_hash GENESIS_HASH es, vr_algorithm = HASH_ALGORITHM,
     vr_schema_version = LEDGER_SCHEMA_VERSION\<rparr>"
  using verify_loop_linked [OF assms(1) refl, of head "int (length es)" 0 "[]"] assms(2)
  by (simp add: verify_chain_def verify_head_def head_ok_def)

lemma verify_chain_first_bad:
  assumes "linked tid 1 GENESIS_HASH xs"
    and "\<not> event_ok tid (1 + int (length xs)) (end_hash GENESIS_HASH xs) e"
  shows "verify_chain tid (xs @ e # ys) head =
    failure tid head (int (length xs)) (end_hash GENESIS_HASH xs)
      (bad_event_code tid (1 + int (length xs)) (end_hash GENESIS_HASH xs) e)
      (1 + int (length xs))"
  using assms unfolding verify_chain_def
  by (simp only: verify_loop_linked [OF assms(1) refl] verify_loop_bad [OF assms(2)]) simp

section \<open>What an event hash commits to\<close>

definition event_text :: "trace_event \<Rightarrow> string result" where
  "event_text e = canonical_json (event_hash_payload e)"

lemma calculate_event_hash_text:
  "calculate_event_hash e = bindR (event_text e) (\<lambda>t. Inr (sha256_text t))"
  by (simp add: calculate_event_hash_def hash_payload_def event_text_def)

lemma calculate_event_hash_ignores_hash [simp]:
  "calculate_event_hash (e\<lparr>te_event_hash := h\<rparr>) = calculate_event_hash e"
  by (simp add: calculate_event_hash_def event_hash_payload_def)

lemma sha256_text_eq_iff: "sha256_text s = sha256_text t \<longleftrightarrow> sha256_hex s = sha256_hex t"
  by (simp add: sha256_text_def)

lemma sha256_text_length [simp]: "length (sha256_text s) = 71"
  by (simp add: sha256_text_def HASH_PREFIX_def)

abbreviation details_ok :: "trace_event \<Rightarrow> bool" where
  "details_ok e \<equiv> floats_ok (PDict (te_details e))"

text \<open>Agreement in every hashed field; details as JSON values, the instant as printed.\<close>

definition same_event :: "trace_event \<Rightarrow> trace_event \<Rightarrow> bool" where
  "same_event e f \<longleftrightarrow>
     te_event_id e = te_event_id f \<and> te_trace_id e = te_trace_id f \<and>
     te_sequence e = te_sequence f \<and> te_event_type e = te_event_type f \<and>
     te_summary e = te_summary f \<and> te_agent e = te_agent f \<and>
     te_tool_name e = te_tool_name f \<and> te_effect_class e = te_effect_class f \<and>
     te_schema_version e = te_schema_version f \<and> te_previous_hash e = te_previous_hash f \<and>
     te_idempotency_key e = te_idempotency_key f \<and>
     iso_micro (te_occurred_at e) = iso_micro (te_occurred_at f) \<and>
     (\<exists>m n. normalize (PDict (te_details e)) = Inr m \<and>
            normalize (PDict (te_details f)) = Inr n \<and> json_form m = json_form n)"

lemma normalize_opt_str [simp]: "normalize (opt_str x) = Inr (opt_str x)"
  by (cases x) simp_all

lemma normalize_enum_val [simp]: "normalize (enum_val c v) = Inr (PStr v)"
  by (simp add: enum_val_def)

lemma normalize_opt_agent [simp]:
  "normalize (opt_val agent_val x) = Inr (opt_str (map_option agent_name_value x))"
  by (cases x) simp_all

lemma normalize_opt_effect [simp]:
  "normalize (opt_val effect_val x) = Inr (opt_str (map_option effect_class_value x))"
  by (cases x) simp_all

lemma map_option_inj:
  "(\<And>a b. f a = f b \<longleftrightarrow> a = b) \<Longrightarrow> map_option f x = map_option f y \<longleftrightarrow> x = y"
  by (cases x; cases y) auto

lemma json_form_opt_str [simp]: "json_form (opt_str x) = opt_str x"
  by (cases x) simp_all

definition payload_form :: "trace_event \<Rightarrow> pyval \<Rightarrow> pyval" where
  "payload_form e d =
     PDict
       [(''agent'', opt_str (map_option agent_name_value (te_agent e))),
        (''details'', d),
        (''effect_class'', opt_str (map_option effect_class_value (te_effect_class e))),
        (''event_id'', PStr (te_event_id e)),
        (''event_type'', PStr (event_type_value (te_event_type e))),
        (''idempotency_key'', opt_str (te_idempotency_key e)),
        (''occurred_at'', PStr (iso_micro (te_occurred_at e))),
        (''previous_hash'', PStr (te_previous_hash e)),
        (''schema_version'', PStr (te_schema_version e)),
        (''sequence'', PInt (te_sequence e)),
        (''summary'', PStr (te_summary e)),
        (''tool_name'', opt_str (te_tool_name e)),
        (''trace_id'', PStr (te_trace_id e))]"

lemma json_form_payload: "json_form (payload_form e d) = payload_form e (json_form d)"
  by (simp add: payload_form_def)

lemma normalize_payload:
  "normalize (event_hash_payload e) =
     bindR (normalize (PDict (te_details e))) (\<lambda>d. Inr (payload_form e d))"
  by (cases "normalize (PDict (te_details e))")
    (simp_all add: event_hash_payload_def payload_form_def del: normalize.simps(11),
     simp_all add: normalize.simps(11))

lemma payload_form_inj:
  "payload_form e c = payload_form f d \<Longrightarrow>
     c = d \<and> te_event_id e = te_event_id f \<and> te_trace_id e = te_trace_id f \<and>
     te_sequence e = te_sequence f \<and> te_event_type e = te_event_type f \<and>
     te_summary e = te_summary f \<and> te_agent e = te_agent f \<and>
     te_tool_name e = te_tool_name f \<and> te_effect_class e = te_effect_class f \<and>
     te_schema_version e = te_schema_version f \<and> te_previous_hash e = te_previous_hash f \<and>
     te_idempotency_key e = te_idempotency_key f \<and>
     iso_micro (te_occurred_at e) = iso_micro (te_occurred_at f)"
  by (simp add: payload_form_def opt_str_inj map_option_inj)

lemma event_text_same:
  assumes "details_ok e" "details_ok f" "event_text e = Inr t" "event_text f = Inr t"
  shows "same_event e f"
proof -
  have "floats_ok (event_hash_payload e)" "floats_ok (event_hash_payload f)"
    using assms(1,2)
    by (simp_all add: event_hash_payload_def opt_val_def enum_val_def split: option.split)
  then obtain m n where mn: "normalize (event_hash_payload e) = Inr m"
    "normalize (event_hash_payload f) = Inr n" "json_form m = json_form n"
    using canonical_json_inj assms(3,4) unfolding event_text_def by blast
  then obtain c d where "normalize (PDict (te_details e)) = Inr c"
    "normalize (PDict (te_details f)) = Inr d" "m = payload_form e c" "n = payload_form f d"
    by (auto simp: normalize_payload simp del: normalize.simps(11))
  then show ?thesis
    using payload_form_inj [of e "json_form c" f "json_form d"] mn(3)
    by (simp add: json_form_payload same_event_def del: normalize.simps(11))
qed

definition texts_collide :: "trace_event \<Rightarrow> trace_event \<Rightarrow> bool" where
  "texts_collide e f \<longleftrightarrow>
     (\<exists>s t. event_text e = Inr s \<and> event_text f = Inr t \<and> sha256_collision s t)"

text \<open>An event that carries its own hash, with well-formed details.\<close>

definition hashed :: "trace_event \<Rightarrow> bool" where
  "hashed e \<longleftrightarrow> details_ok e \<and> calculate_event_hash e = Inr (te_event_hash e)"

lemma hash_commits:
  assumes "hashed e" "hashed f" "te_event_hash e = te_event_hash f"
  shows "same_event e f \<or> texts_collide e f"
proof -
  obtain s where s: "event_text e = Inr s" "sha256_text s = te_event_hash e"
    using assms(1) by (auto simp: hashed_def calculate_event_hash_text)
  obtain t where t: "event_text f = Inr t" "sha256_text t = te_event_hash f"
    using assms(2) by (auto simp: hashed_def calculate_event_hash_text)
  have "sha256_text s = sha256_text t" by (simp add: s(2) t(2) assms(3))
  with s(1) t(1) have st: "event_text e = Inr s" "event_text f = Inr t"
    "sha256_hex s = sha256_hex t"
    by (simp_all add: sha256_text_eq_iff)
  show ?thesis
  proof (cases "s = t")
    case True
    then show ?thesis using st assms by (auto simp: hashed_def intro: event_text_same)
  next
    case False
    then show ?thesis using st by (auto simp: texts_collide_def sha256_collision_def)
  qed
qed

interpretation ledger: hash_chain hashed te_event_hash te_previous_hash same_event texts_collide
  by unfold_locales (rule hash_commits, assumption+, simp add: same_event_def)

lemma linked_chained: "linked tid n prev es \<Longrightarrow> ledger.chained prev es"
  by (induction es arbitrary: n prev) (auto simp: event_ok_def)

lemma linked_hashed: "linked tid n prev es \<Longrightarrow> list_all details_ok es \<Longrightarrow> list_all hashed es"
  by (induction es arbitrary: n prev) (auto simp: event_ok_def hashed_def)

lemma end_hash_final: "end_hash = ledger.final"
  by (simp add: fun_eq_iff end_hash_def ledger.final_def)

section \<open>A one-event history\<close>

text \<open>Hashing succeeds whenever the details can be normalised.\<close>

lemma calculate_event_hash_normal:
  "normalize (PDict (te_details e)) = Inr d \<Longrightarrow>
   calculate_event_hash e = Inr (sha256_text (json_dumps json_quote (payload_form e d)))"
  by (simp add: calculate_event_hash_def hash_payload_def canonical_json_def normalize_payload
      del: normalize.simps(11))

definition sample_unhashed :: trace_event where
  "sample_unhashed =
     \<lparr>te_event_id = ''EVT-1'', te_trace_id = ''TR-1'', te_sequence = 1,
      te_event_type = ET_RUN_STARTED, te_summary = ''Started.'',
      te_details = [(''mode'', PStr ''enforce''), (''attempt'', PInt 1)], te_agent = None,
      te_tool_name = None, te_effect_class = None, te_occurred_at = 0,
      te_schema_version = LEDGER_SCHEMA_VERSION, te_previous_hash = GENESIS_HASH,
      te_event_hash = [], te_idempotency_key = Some ''run:TR-1:started''\<rparr>"

definition sample_event :: trace_event where
  "sample_event =
     sample_unhashed\<lparr>te_event_hash :=
       (case calculate_event_hash sample_unhashed of Inl _ \<Rightarrow> [] | Inr h \<Rightarrow> h)\<rparr>"

definition sample_head :: ledger_head where
  "sample_head =
     \<lparr>lh_trace_id = ''TR-1'', lh_sequence = 1, lh_event_count = 1,
      lh_event_hash = te_event_hash sample_event, lh_schema_version = LEDGER_SCHEMA_VERSION,
      lh_updated_at = 0\<rparr>"

lemma sample_hash: "calculate_event_hash sample_event = Inr (te_event_hash sample_event)"
  using calculate_event_hash_normal [of sample_unhashed]
  by (simp add: sample_event_def) (simp add: sample_unhashed_def)

lemma sample_fields:
  "te_sequence sample_event = 1" "te_trace_id sample_event = ''TR-1''"
  "te_schema_version sample_event = LEDGER_SCHEMA_VERSION"
  "te_previous_hash sample_event = GENESIS_HASH" "te_summary sample_event = ''Started.''"
  "details_ok sample_event"
  by (simp_all add: sample_event_def sample_unhashed_def)

lemma sample_valid: "vr_valid (verify_chain ''TR-1'' [sample_event] sample_head)"
  by (simp add: verify_chain_iff event_ok_def head_ok_def sample_fields sample_hash
      sample_head_def)

section \<open>Integrity\<close>

text \<open>
  C3. \<open>verify_chain\<close> accepts a history exactly when every event carries its position, the trace
  id, the ledger schema version, the hash of its predecessor (the genesis hash for the first
  one) and its own hash, and the stored head has the right count, sequence, hash and version.
\<close>

theorem verify_chain_accepts_iff:
  "vr_valid (verify_chain tid es head) \<longleftrightarrow>
     (\<forall>i < length es.
        te_sequence (es ! i) = int i + 1 \<and> te_trace_id (es ! i) = tid \<and>
        te_schema_version (es ! i) = LEDGER_SCHEMA_VERSION \<and>
        te_previous_hash (es ! i) = (if i = 0 then GENESIS_HASH else te_event_hash (es ! (i - 1))) \<and>
        calculate_event_hash (es ! i) = Inr (te_event_hash (es ! i))) \<and>
     lh_event_count head = int (length es) \<and> lh_sequence head = int (length es) \<and>
     lh_event_hash head = (if es = [] then GENESIS_HASH else te_event_hash (last es)) \<and>
     lh_schema_version head = LEDGER_SCHEMA_VERSION"
  by (simp add: verify_chain_iff linked_nth event_ok_def head_ok_def end_hash_def)

theorem verify_chain_accepts_iff_witness:
  "vr_valid (verify_chain ''TR-1'' [sample_event] sample_head) \<and>
   te_previous_hash ([sample_event] ! 0) = GENESIS_HASH \<and>
   calculate_event_hash ([sample_event] ! 0) = Inr (te_event_hash ([sample_event] ! 0))"
  using verify_chain_accepts_iff [of "''TR-1''" "[sample_event]" sample_head] sample_valid
  by simp

text \<open>
  C2. The stored head commits to the whole history: two histories that verify against the same
  head agree event by event in every hashed field, unless the hashed texts of two events at the
  same position are a SHA-256 collision.
\<close>

theorem head_commits_to_history:
  assumes "vr_valid (verify_chain tid es head)" "vr_valid (verify_chain tid' fs head)"
    and "list_all details_ok es" "list_all details_ok fs"
  shows "list_all2 same_event es fs \<or> (\<exists>i < length es. texts_collide (es ! i) (fs ! i))"
proof -
  have es: "linked tid 1 GENESIS_HASH es" "head_ok head es"
    and fs: "linked tid' 1 GENESIS_HASH fs" "head_ok head fs"
    using assms(1,2) by (simp_all add: verify_chain_iff)
  have "length es = length fs" "ledger.final GENESIS_HASH es = ledger.final GENESIS_HASH fs"
    using es(2) fs(2) by (simp_all add: head_ok_def end_hash_final)
  then show ?thesis
    using es(1) fs(1) assms(3,4)
    by (intro ledger.history_determined) (auto intro: linked_chained linked_hashed)
qed

theorem head_commits_to_history_witness:
  "list_all2 same_event [sample_event] [sample_event] \<or>
   (\<exists>i < length [sample_event]. texts_collide ([sample_event] ! i) ([sample_event] ! i))"
  by (rule head_commits_to_history [OF sample_valid sample_valid])
    (use sample_fields in simp_all)

section \<open>An altered summary\<close>

lemma summary_change_detected:
  assumes "vr_valid (verify_chain tid (xs @ e # ys) head)"
    and "details_ok e" and "replacement \<noteq> te_summary e"
  shows "verify_chain tid (xs @ e\<lparr>te_summary := replacement\<rparr> # ys) head =
      failure tid head (int (length xs)) (end_hash GENESIS_HASH xs) ''EVENT_HASH_MISMATCH''
        (1 + int (length xs))
    \<or> texts_collide e (e\<lparr>te_summary := replacement\<rparr>)"
proof -
  let ?f = "e\<lparr>te_summary := replacement\<rparr>"
  have lk: "linked tid 1 GENESIS_HASH xs"
    and ok: "event_ok tid (1 + int (length xs)) (end_hash GENESIS_HASH xs) e"
    using assms(1) by (simp_all add: verify_chain_iff linked_append)
  show ?thesis
  proof (cases "event_ok tid (1 + int (length xs)) (end_hash GENESIS_HASH xs) ?f")
    case True
    with ok assms(2) have "hashed e" "hashed ?f" by (simp_all add: event_ok_def hashed_def)
    then have "same_event e ?f \<or> texts_collide e ?f" by (rule hash_commits) simp
    with assms(3) show ?thesis by (auto simp: same_event_def)
  next
    case False
    with ok show ?thesis
      by (simp add: verify_chain_first_bad [OF lk] bad_event_code_def event_ok_def)
  qed
qed

end
