(* ===== verification/Memory_Store.thy ===== *)
theory Memory_Store
  imports Verifier
begin

text \<open>
  \<open>packages/ledger/memory_store.py\<close>, the in-memory trace repository.  Its dictionaries are
  the fields of \<open>memory_store\<close>; \<open>cur\<close> is the caller's \<open>TrajectoryState\<close> object, which
  the writing operations mutate and then persist as a deep copy.  Every operation runs under
  the store's lock, so it is one atomic step here.
\<close>

section \<open>State\<close>

record memory_store =
  ms_runs :: "(string, trajectory_state) dict"
  ms_approvals :: "(string, approval_record) dict"
  ms_approval_replays :: "(string \<times> string, string) dict"
  ms_heads :: "(string, ledger_head) dict"
  ms_event_replays :: "(string \<times> string, string \<times> trace_event) dict"
  ms_effect_receipts :: "(string \<times> string, effect_receipt) dict"

definition empty_store :: memory_store where
  "empty_store =
     \<lparr>ms_runs = [], ms_approvals = [], ms_approval_replays = [], ms_heads = [],
      ms_event_replays = [], ms_effect_receipts = []\<rparr>"

record store_sys =
  cur :: trajectory_state
  db :: memory_store
  wld :: world

type_synonym ('z, 'a) op = "('z store_sys_scheme, exc, 'a) SE"

definition utc_now :: "('z, int) op" where
  "utc_now s =
     (Inr (wd_clock (wld s) (wd_clock_pos (wld s))),
      s\<lparr>wld := (wld s)\<lparr>wd_clock_pos := Suc (wd_clock_pos (wld s))\<rparr>\<rparr>)"

definition uuid4 :: "('z, string) op" where
  "uuid4 s =
     (Inr (wd_uuids (wld s) (wd_uuid_pos (wld s))),
      s\<lparr>wld := (wld s)\<lparr>wd_uuid_pos := Suc (wd_uuid_pos (wld s))\<rparr>\<rparr>)"

text \<open>Assignments to the caller's state object.\<close>

abbreviation set_cur :: "(trajectory_state \<Rightarrow> trajectory_state) \<Rightarrow> ('z, unit) op" where
  "set_cur f \<equiv> updM (\<lambda>s. s\<lparr>cur := f (cur s)\<rparr>)"

abbreviation set_db :: "(memory_store \<Rightarrow> memory_store) \<Rightarrow> ('z, unit) op" where
  "set_db f \<equiv> updM (\<lambda>s. s\<lparr>db := f (db s)\<rparr>)"

abbreviation not_found :: "string \<Rightarrow> exc" where
  "not_found tid \<equiv> Manifest TraceNotFoundError (''Trace '' @ tid @ '' was not found.'')"

section \<open>Operations\<close>

definition assert_revision :: "trajectory_state \<Rightarrow> trajectory_state \<Rightarrow> unit result" where
  "assert_revision state stored =
     (if ts_storage_revision state \<noteq> ts_storage_revision stored
      then Inl (Manifest TraceRevisionConflictError
             (''Trace '' @ ts_trace_id state @ '' revision changed.''))
      else Inr ())"

definition persist_state :: "('z, unit) op" where
  "persist_state =
     updM (\<lambda>s. let st = (cur s)\<lparr>ts_storage_revision := ts_storage_revision (cur s) + 1\<rparr>
               in s\<lparr>cur := st, db := (db s)\<lparr>ms_runs := dput (ts_trace_id st) st (ms_runs (db s))\<rparr>\<rparr>)"

definition genesis_head :: "string \<Rightarrow> int \<Rightarrow> ledger_head" where
  "genesis_head tid now =
     \<lparr>lh_trace_id = tid, lh_sequence = 0, lh_event_count = 0, lh_event_hash = GENESIS_HASH,
      lh_schema_version = LEDGER_SCHEMA_VERSION, lh_updated_at = now\<rparr>"

definition create_run :: "('z, stored_trace) op" where
  "create_run =
     bindM (getM (\<lambda>s. (cur s, db s))) (\<lambda>(st, ms).
     let tid = ts_trace_id st in
     if dmember tid (ms_runs ms)
       then raiseM (Manifest TraceSequenceError (''Trace '' @ tid @ '' already exists.''))
     else if ts_events st \<noteq> [] \<or> ts_next_sequence st \<noteq> 1
       then raiseM (Manifest TraceSequenceError
              (''Trace '' @ tid @ '' must start with an empty event list.''))
     else
       bindM utc_now (\<lambda>now.
       thenM (set_cur (ts_storage_revision_update (\<lambda>_. 0)))
       (thenM (updM (\<lambda>s. s\<lparr>db := (db s)\<lparr>ms_runs := dput tid (cur s) (ms_runs (db s)),
                               ms_heads := dput tid (genesis_head tid now) (ms_heads (db s))\<rparr>\<rparr>))
       (bindM (getM cur) (\<lambda>st'. liftR (make_stored_trace st' (ts_storage_revision st')))))))"

text \<open>The event and the head that \<open>append_event\<close> builds.\<close>

definition new_event ::
  "string \<Rightarrow> event_description \<Rightarrow> ledger_head \<Rightarrow> string \<Rightarrow> int \<Rightarrow> trace_event" where
  "new_event tid d head uid now =
     \<lparr>te_event_id = ''EVT-'' @ uid, te_trace_id = tid, te_sequence = lh_sequence head + 1,
      te_event_type = ed_event_type d, te_summary = ed_summary d, te_details = ed_details d,
      te_agent = ed_agent d, te_tool_name = ed_tool_name d,
      te_effect_class = ed_effect_class d, te_occurred_at = now,
      te_schema_version = LEDGER_SCHEMA_VERSION, te_previous_hash = lh_event_hash head,
      te_event_hash = [], te_idempotency_key = ed_idempotency_key d\<rparr>"

definition head_after :: "string \<Rightarrow> trace_event \<Rightarrow> nat \<Rightarrow> ledger_head" where
  "head_after tid e n =
     \<lparr>lh_trace_id = tid, lh_sequence = te_sequence e, lh_event_count = int n,
      lh_event_hash = te_event_hash e, lh_schema_version = LEDGER_SCHEMA_VERSION,
      lh_updated_at = te_occurred_at e\<rparr>"

abbreviation unhashable :: "string \<Rightarrow> exc" where
  "unhashable tid \<equiv>
     Manifest LedgerAppendError (''Trace '' @ tid @ '' event could not be canonically hashed.'')"

text \<open>
  The look-up of an idempotency key: \<open>None\<close> to append, \<open>Some\<close> the event to replay.  The
  fingerprint is kept for the entry that an append records.
\<close>

definition find_replay ::
  "memory_store \<Rightarrow> string \<Rightarrow> event_description \<Rightarrow> (string option \<times> trace_event option) result"
  where
  "find_replay ms tid d =
     (case ed_idempotency_key d of
        None \<Rightarrow> Inr (None, None)
      | Some key \<Rightarrow>
          (case event_description_fingerprint tid d key of
             Inl _ \<Rightarrow> Inl (unhashable tid)
           | Inr fp \<Rightarrow>
               (case dget (ms_event_replays ms) (tid, key) of
                  None \<Rightarrow> Inr (Some fp, None)
                | Some (previous, event) \<Rightarrow>
                    if previous \<noteq> fp
                    then Inl (Manifest LedgerIdempotencyConflictError
                           (''Ledger idempotency key '' @ key @
                            '' was reused with different event fields.''))
                    else Inr (Some fp, Some event))))"

definition record_event ::
  "string \<Rightarrow> event_description \<Rightarrow> string option \<Rightarrow> trace_event \<Rightarrow> ('z, unit) op" where
  "record_event tid d fp e =
     thenM (set_cur (\<lambda>st. st\<lparr>ts_events := ts_events st @ [e],
                              ts_next_sequence := te_sequence e + 1\<rparr>))
     (thenM (updM (\<lambda>s. s\<lparr>db := (db s)\<lparr>ms_heads :=
                dput tid (head_after tid e (length (ts_events (cur s)))) (ms_heads (db s))\<rparr>\<rparr>))
     (thenM (case (ed_idempotency_key d, fp) of
               (Some key, Some f) \<Rightarrow>
                 set_db (\<lambda>ms. ms\<lparr>ms_event_replays :=
                   dput (tid, key) (f, e) (ms_event_replays ms)\<rparr>)
             | _ \<Rightarrow> returnM ())
     persist_state))"

definition append_event :: "event_description \<Rightarrow> ('z, trace_event) op" where
  "append_event d =
     bindM (getM (\<lambda>s. (cur s, db s))) (\<lambda>(st, ms).
     let tid = ts_trace_id st in
     case dget (ms_runs ms) tid of
       None \<Rightarrow> raiseM (not_found tid)
     | Some stored \<Rightarrow>
         bindM (liftR (assert_revision st stored)) (\<lambda>_.
         bindM (liftR (find_replay ms tid d)) (\<lambda>(fp, replay).
         case replay of
           Some event \<Rightarrow> returnM event
         | None \<Rightarrow>
             (case dget (ms_heads ms) tid of
                None \<Rightarrow> raiseM (Manifest LedgerAppendError
                         (''Trace '' @ tid @ '' has no initialized ledger head.''))
              | Some head \<Rightarrow>
                  if ts_next_sequence st \<noteq> lh_sequence head + 1
                  then raiseM (Manifest TraceSequenceError
                         (''Trace '' @ tid @ '' expected sequence '' @
                          show_int (lh_sequence head + 1) @ '', received '' @
                          show_int (ts_next_sequence st) @ ''.''))
                  else
                    bindM utc_now (\<lambda>now.
                    bindM uuid4 (\<lambda>uid.
                    let unhashed = new_event tid d head uid now in
                    case calculate_event_hash unhashed of
                      Inl _ \<Rightarrow> raiseM (unhashable tid)
                    | Inr h \<Rightarrow>
                        let e = unhashed\<lparr>te_event_hash := h\<rparr> in
                        thenM (record_event tid d fp e) (returnM e)))))))"

definition get_state :: "memory_store \<Rightarrow> string \<Rightarrow> trajectory_state result" where
  "get_state ms tid = (case dget (ms_runs ms) tid of None \<Rightarrow> Inl (not_found tid) | Some st \<Rightarrow> Inr st)"

definition get_state_for_update :: "memory_store \<Rightarrow> string \<Rightarrow> trajectory_state result" where
  "get_state_for_update ms tid = get_state ms tid"

definition load_trace :: "memory_store \<Rightarrow> string \<Rightarrow> stored_trace result" where
  "load_trace ms tid =
     bindR (get_state ms tid) (\<lambda>st. make_stored_trace st (ts_storage_revision st))"

definition get_events :: "memory_store \<Rightarrow> string \<Rightarrow> trace_event list result" where
  "get_events ms tid = bindR (get_state ms tid) (\<lambda>st. Inr (ts_events st))"

definition get_decisions :: "memory_store \<Rightarrow> string \<Rightarrow> decision list result" where
  "get_decisions ms tid = bindR (get_state ms tid) (\<lambda>st. Inr (ts_decisions st))"

abbreviation no_head :: "string \<Rightarrow> exc" where
  "no_head tid \<equiv> Manifest LedgerAppendError (''Trace '' @ tid @ '' has no ledger head.'')"

definition get_head :: "memory_store \<Rightarrow> string \<Rightarrow> ledger_head result" where
  "get_head ms tid =
     (case dget (ms_heads ms) tid of
        None \<Rightarrow> if dmember tid (ms_runs ms) then Inl (no_head tid) else Inl (not_found tid)
      | Some h \<Rightarrow> Inr h)"

definition verify_trace :: "memory_store \<Rightarrow> string \<Rightarrow> verification_result result" where
  "verify_trace ms tid =
     (case dget (ms_runs ms) tid of
        None \<Rightarrow> Inl (not_found tid)
      | Some st \<Rightarrow>
          (case dget (ms_heads ms) tid of
             None \<Rightarrow> Inl (no_head tid)
           | Some head \<Rightarrow> Inr (verify_chain tid (ts_events st) head)))"

definition terminal_event :: "trajectory_state \<Rightarrow> bool" where
  "terminal_event st \<longleftrightarrow>
     ts_events st \<noteq> [] \<and>
     te_event_type (last (ts_events st)) \<in> {ET_RUN_COMPLETED, ET_RUN_CANCELLED, ET_RUN_FAILED}"

definition tamper_event_summary_for_demo ::
  "string \<Rightarrow> int \<Rightarrow> string \<Rightarrow> ('z, tamper_result) op" where
  "tamper_event_summary_for_demo tid sequence replacement =
     bindM (getM db) (\<lambda>ms.
     case dget (ms_runs ms) tid of
       None \<Rightarrow> raiseM (not_found tid)
     | Some st \<Rightarrow>
         if ts_status st \<notin> {RS_COMPLETED, RS_CANCELLED, RS_BLOCKED} \<and> \<not> terminal_event st
           then raiseM (Manifest LedgerTamperValidationError
                  ''Only a terminal disposable trace may be tampered with.'')
         else if blank replacement
           then raiseM (Manifest LedgerTamperValidationError
                  ''The replacement summary must not be empty.'')
         else if sequence < 1 \<or> sequence > int (length (ts_events st))
           then raiseM (Manifest LedgerTamperValidationError
                  (''Trace '' @ tid @ '' has no event at sequence '' @ show_int sequence @ ''.''))
         else
           let index = nat (sequence - 1);
               event = (ts_events st ! index)\<lparr>te_summary := replacement\<rparr>;
               st' = st\<lparr>ts_events := (ts_events st)[index := event],
                        ts_storage_revision := ts_storage_revision st + 1\<rparr>
           in thenM (set_db (\<lambda>ms. ms\<lparr>ms_runs := dput tid st' (ms_runs ms)\<rparr>))
              (returnM \<lparr>tr_trace_id = tid, tr_sequence = sequence, tr_field = ''summary'',
                        tr_status = ''tampered_for_demo''\<rparr>))"

definition append_decision :: "decision \<Rightarrow> ('z, unit) op" where
  "append_decision dec =
     bindM (getM (\<lambda>s. (cur s, db s))) (\<lambda>(st, ms).
     let tid = ts_trace_id st in
     case dget (ms_runs ms) tid of
       None \<Rightarrow> raiseM (not_found tid)
     | Some stored \<Rightarrow>
         bindM (liftR (assert_revision st stored)) (\<lambda>_.
         if list_ex (\<lambda>d. dc_decision_id d = dc_decision_id dec) (ts_decisions st)
         then raiseM (Manifest TraceSequenceError
                (''Decision '' @ dc_decision_id dec @ '' already exists.''))
         else thenM (set_cur (\<lambda>st. st\<lparr>ts_decisions := ts_decisions st @ [dec]\<rparr>)) persist_state))"

definition add_approval :: "approval_record \<Rightarrow> ('z, unit) op" where
  "add_approval a =
     bindM (getM (\<lambda>s. (cur s, db s))) (\<lambda>(st, ms).
     let tid = ts_trace_id st in
     case dget (ms_runs ms) tid of
       None \<Rightarrow> raiseM (not_found tid)
     | Some stored \<Rightarrow>
         bindM (liftR (assert_revision st stored)) (\<lambda>_.
         if dmember (ar_approval_id a) (ms_approvals ms)
         then raiseM (Manifest TraceSequenceError
                (''Approval '' @ ar_approval_id a @ '' already exists.''))
         else
           thenM (set_db (\<lambda>ms. ms\<lparr>ms_approvals := dput (ar_approval_id a) a (ms_approvals ms)\<rparr>))
             persist_state))"

abbreviation approval_not_found :: "string \<Rightarrow> exc" where
  "approval_not_found aid \<equiv>
     Manifest ApprovalNotFoundError (''Approval '' @ aid @ '' was not found.'')"

definition get_approval :: "memory_store \<Rightarrow> string \<Rightarrow> approval_record result" where
  "get_approval ms aid =
     (case dget (ms_approvals ms) aid of None \<Rightarrow> Inl (approval_not_found aid) | Some a \<Rightarrow> Inr a)"

definition replace_approval :: "approval_record \<Rightarrow> ('z, unit) op" where
  "replace_approval a =
     bindM (getM db) (\<lambda>ms.
     case dget (ms_approvals ms) (ar_approval_id a) of
       None \<Rightarrow> raiseM (approval_not_found (ar_approval_id a))
     | Some current \<Rightarrow>
         if ar_version current \<notin> {ar_version a, ar_version a - 1}
         then raiseM (Manifest ApprovalPersistenceConflictError
                ''Approval version changed concurrently.'')
         else set_db (\<lambda>ms. ms\<lparr>ms_approvals := dput (ar_approval_id a) a (ms_approvals ms)\<rparr>))"

definition list_approvals ::
  "memory_store \<Rightarrow> string option \<Rightarrow> approval_status option \<Rightarrow> approval_record list" where
  "list_approvals ms tid status =
     (let items = dvalues (ms_approvals ms);
          items = (case tid of None \<Rightarrow> items | Some t \<Rightarrow> filter (\<lambda>a. ar_trace_id a = t) items);
          items = (case status of None \<Rightarrow> items | Some x \<Rightarrow> filter (\<lambda>a. ar_status a = x) items)
      in sort_key (\<lambda>a. (ar_created_at a, ar_approval_id a)) items)"

definition get_approval_replay_fingerprint ::
  "memory_store \<Rightarrow> string \<Rightarrow> string \<Rightarrow> string option" where
  "get_approval_replay_fingerprint ms aid key = dget (ms_approval_replays ms) (aid, key)"

definition record_approval_replay :: "string \<Rightarrow> string \<Rightarrow> string \<Rightarrow> ('z, unit) op" where
  "record_approval_replay aid key fp =
     set_db (\<lambda>ms. ms\<lparr>ms_approval_replays := dput (aid, key) fp (ms_approval_replays ms)\<rparr>)"

definition get_effect_receipt :: "memory_store \<Rightarrow> string \<Rightarrow> string \<Rightarrow> effect_receipt option" where
  "get_effect_receipt ms tid key_hash = dget (ms_effect_receipts ms) (tid, key_hash)"

definition put_effect_receipt :: "effect_receipt \<Rightarrow> ('z, effect_receipt) op" where
  "put_effect_receipt r =
     bindM (getM db) (\<lambda>ms.
     let key = (rc_trace_id r, rc_key_hash r) in
     case dget (ms_effect_receipts ms) key of
       Some existing \<Rightarrow>
         if rc_fingerprint existing \<noteq> rc_fingerprint r
         then raiseM (Manifest EffectReceiptConflictError
                ''An effect idempotency key was reused with different arguments.'')
         else returnM existing
     | None \<Rightarrow>
         if \<not> dmember (rc_trace_id r) (ms_runs ms)
         then raiseM (not_found (rc_trace_id r))
         else
           thenM (set_db (\<lambda>ms. ms\<lparr>ms_effect_receipts := dput key r (ms_effect_receipts ms)\<rparr>))
             (returnM r))"

section \<open>commit\_transition\<close>

text \<open>The loop over the transition's events, on the detached copy of the state.\<close>

fun commit_events ::
  "string \<Rightarrow> trace_event list \<Rightarrow> trajectory_state \<times> ledger_head
    \<Rightarrow> (trajectory_state \<times> ledger_head) result" where
  "commit_events tid [] acc = Inr acc"
| "commit_events tid (e # es) (st, head) =
     (if te_sequence e \<noteq> lh_sequence head + 1
        then Inl (Manifest TraceSequenceError
               (''Trace '' @ tid @ '' received a stale event sequence.''))
      else if te_previous_hash e \<noteq> lh_event_hash head
        then Inl (Manifest TraceSequenceError
               (''Trace '' @ tid @ '' received a stale previous hash.''))
      else
        bindR (calculate_event_hash e) (\<lambda>h.
        if h \<noteq> te_event_hash e
        then Inl (Manifest LedgerAppendError ''Transition event hash is invalid.'')
        else
          (let st' = st\<lparr>ts_events := ts_events st @ [e], ts_next_sequence := te_sequence e + 1\<rparr>
           in commit_events tid es (st', head_after tid e (length (ts_events st'))))))"

fun commit_decisions :: "decision list \<Rightarrow> trajectory_state \<Rightarrow> trajectory_state result" where
  "commit_decisions [] st = Inr st"
| "commit_decisions (d # ds) st =
     (if list_ex (\<lambda>x. dc_decision_id x = dc_decision_id d) (ts_decisions st)
      then Inl (Manifest TraceSequenceError
             (''Decision '' @ dc_decision_id d @ '' already exists.''))
      else commit_decisions ds (st\<lparr>ts_decisions := ts_decisions st @ [d]\<rparr>))"

definition put_approvals :: "approval_record list \<Rightarrow> memory_store \<Rightarrow> memory_store" where
  "put_approvals as ms =
     ms\<lparr>ms_approvals := fold (\<lambda>a d. dput (ar_approval_id a) a d) as (ms_approvals ms)\<rparr>"

definition put_replays :: "replay_record list \<Rightarrow> memory_store \<Rightarrow> memory_store" where
  "put_replays rs ms =
     ms\<lparr>ms_approval_replays :=
       fold (\<lambda>r d. if rr_kind r = RK_APPROVAL
                    then dput (rr_result_reference r, rr_key_hash r) (rr_fingerprint r) d
                    else d) rs (ms_approval_replays ms)\<rparr>"

text \<open>Equality of two receipts as dataclasses: their results are compared as dictionaries.\<close>

definition receipt_eq :: "effect_receipt \<Rightarrow> effect_receipt \<Rightarrow> bool" where
  "receipt_eq a b \<longleftrightarrow>
     rc_trace_id a = rc_trace_id b \<and> rc_tool_name a = rc_tool_name b \<and>
     rc_key_hash a = rc_key_hash b \<and> rc_fingerprint a = rc_fingerprint b \<and>
     py_eq (PDict (rc_result a)) (PDict (rc_result b)) \<and> rc_created_at a = rc_created_at b"

fun commit_receipts :: "effect_receipt list \<Rightarrow> ('z, unit) op" where
  "commit_receipts [] = returnM ()"
| "commit_receipts (r # rs) =
     bindM (getM db) (\<lambda>ms.
     let key = (rc_trace_id r, rc_key_hash r) in
     case dget (ms_effect_receipts ms) key of
       Some existing \<Rightarrow>
         if \<not> receipt_eq existing r
         then raiseM (Manifest TraceSequenceError ''Effect receipt already exists.'')
         else
           thenM (set_db (\<lambda>ms. ms\<lparr>ms_effect_receipts := dput key r (ms_effect_receipts ms)\<rparr>))
             (commit_receipts rs)
     | None \<Rightarrow>
         thenM (set_db (\<lambda>ms. ms\<lparr>ms_effect_receipts := dput key r (ms_effect_receipts ms)\<rparr>))
           (commit_receipts rs))"

definition commit_transition :: "trace_transition \<Rightarrow> ('z, stored_trace) op" where
  "commit_transition t =
     bindM (getM db) (\<lambda>ms.
     let tid = tt_trace_id t in
     case dget (ms_runs ms) tid of
       None \<Rightarrow> raiseM (not_found tid)
     | Some stored \<Rightarrow>
         if ts_storage_revision stored \<noteq> tt_expected_revision t
         then raiseM (Manifest TraceRevisionConflictError
                (''Trace '' @ tid @ '' revision changed.''))
         else
           let st = (tt_state t)\<lparr>ts_storage_revision := tt_expected_revision t,
                                 ts_events := ts_events stored,
                                 ts_decisions := ts_decisions stored\<rparr> in
           (case dget (ms_heads ms) tid of
              None \<Rightarrow> raiseM (PyExc KeyError tid)
            | Some head \<Rightarrow>
                bindM (liftR (commit_events tid (tt_events t) (st, head))) (\<lambda>(st1, head1).
                bindM (liftR (commit_decisions (tt_decisions t) st1)) (\<lambda>st2.
                thenM (set_db (put_approvals (tt_approval_upserts t)))
                (thenM (set_db (put_replays (tt_replay_records t)))
                (thenM (commit_receipts (tt_effect_receipts t))
                (let st3 = st2\<lparr>ts_storage_revision := ts_storage_revision st2 + 1\<rparr> in
                 thenM (set_db (\<lambda>ms. ms\<lparr>ms_heads := dput tid head1 (ms_heads ms),
                                        ms_runs := dput (ts_trace_id st3) st3 (ms_runs ms)\<rparr>))
                   (liftR (make_stored_trace st3 (ts_storage_revision st3))))))))))"

definition reset :: "('z, nat) op" where
  "reset =
     bindM (getM (\<lambda>s. length (ms_runs (db s)))) (\<lambda>removed.
     thenM (set_db (\<lambda>_. empty_store)) (returnM removed))"

definition reset_demo_namespace :: "('z, nat) op" where
  "reset_demo_namespace = reset"

definition run_count :: "memory_store \<Rightarrow> nat" where
  "run_count ms = length (ms_runs ms)"

end
