(* ===== verification/Fixtures.thy ===== *)
theory Fixtures
  imports Domain Canonical
begin

text \<open>
  \<open>fixtures/loader.py\<close>.  The files under the fixture root are the loader's input: a
  dictionary from the path below the root to what \<open>json.loads\<close> makes of the text.  Every check
  that the loader makes on the parsed records is modelled.
\<close>

datatype fixture_file = JsonFile pyval | BadJson

type_synonym fixtures = "(string, fixture_file) dict"

definition path_name :: "string \<Rightarrow> string" where
  "path_name p = rev (takeWhile (\<lambda>c. c \<noteq> CHR ''/'') (rev p))"

definition read_json :: "fixtures \<Rightarrow> string \<Rightarrow> pyval result" where
  "read_json fs path =
     (case dget fs path of
        None \<Rightarrow> Inl (Manifest FixtureError
                  (''Fixture file '' @ path_name path @ '' is missing.''))
      | Some BadJson \<Rightarrow> Inl (Manifest FixtureError
                  (''Fixture file '' @ path_name path @ '' is not valid JSON.''))
      | Some (JsonFile v) \<Rightarrow> Inr v)"

text \<open>Attribute access that only a dictionary has.\<close>

definition as_dict :: "pyval \<Rightarrow> pydict result" where
  "as_dict v = (case v of PDict d \<Rightarrow> Inr d | _ \<Rightarrow> Inl (PyExc AttributeError ''keys''))"

definition require :: "pyval \<Rightarrow> string list \<Rightarrow> string \<Rightarrow> pydict result" where
  "require r names label =
     bindR (as_dict r) (\<lambda>d.
     let missing = filter (\<lambda>f. \<not> dmember f d) (sort names) in
     if missing \<noteq> []
     then Inl (Manifest FixtureError
            (label @ '' is missing required fields: '' @ join '', '' missing @ ''.''))
     else Inr d)"

text \<open>\<open>sorted\<close> on the values of a set, which must be mutually comparable.\<close>

definition num_key :: "pyval \<Rightarrow> int \<times> rat" where
  "num_key v =
     (case v of
        PBool b \<Rightarrow> (0, if b then 1 else 0)
      | PInt i \<Rightarrow> (0, of_int i)
      | PFloat (FFinite q _) \<Rightarrow> (0, q)
      | PFloat (FInf pos) \<Rightarrow> (if pos then 1 else -1, 0)
      | _ \<Rightarrow> (0, 0))"

definition is_number :: "pyval \<Rightarrow> bool" where
  "is_number v \<longleftrightarrow> (case v of PBool _ \<Rightarrow> True | PInt _ \<Rightarrow> True | PFloat _ \<Rightarrow> True | _ \<Rightarrow> False)"

definition is_str :: "pyval \<Rightarrow> bool" where
  "is_str v \<longleftrightarrow> (case v of PStr _ \<Rightarrow> True | _ \<Rightarrow> False)"

definition sort_values :: "pyval list \<Rightarrow> pyval list result" where
  "sort_values vs =
     (if length vs \<le> 1 then Inr vs
      else if list_all is_str vs then Inr (sort_key py_str vs)
      else if list_all is_number vs then Inr (sort_key num_key vs)
      else Inl (PyExc TypeError ''unorderable values''))"

fun distinct_values :: "pyval list \<Rightarrow> pyval list" where
  "distinct_values [] = []"
| "distinct_values (v # vs) = v # filter (\<lambda>w. \<not> py_eq v w) (distinct_values vs)"

definition count_value :: "pyval \<Rightarrow> pyval list \<Rightarrow> nat" where
  "count_value v vs = length (filter (\<lambda>w. py_eq w v) vs)"

definition ensure_unique :: "pyval list \<Rightarrow> string \<Rightarrow> string \<Rightarrow> unit result" where
  "ensure_unique records key label =
     bindR (seqR (map as_dict records)) (\<lambda>ds.
     let values = map (\<lambda>d. get_none d key) ds in
     if list_ex (\<lambda>v. v = PNone) values
       then Inl (Manifest FixtureError (''A '' @ label @ '' record is missing '' @ key @ ''.''))
     else
       let repeated = filter (\<lambda>v. count_value v values > 1) values in
       if repeated = [] then Inr ()
       else
         bindR (seqR (map as_key repeated)) (\<lambda>_.
         bindR (sort_values (distinct_values repeated)) (\<lambda>dups.
         Inl (Manifest FixtureError
           (''Duplicate '' @ label @ '' IDs: '' @ join '', '' (map py_str dups) @ ''.'')))))"

definition capitalize :: "string \<Rightarrow> string" where
  "capitalize s = (case s of [] \<Rightarrow> [] | c # cs \<Rightarrow> upper_char c # map lower_char cs)"

definition non_negative_int :: "pyval \<Rightarrow> string \<Rightarrow> int result" where
  "non_negative_int v label =
     (case v of
        PInt i \<Rightarrow>
          if i < 0
          then Inl (Manifest FixtureError (capitalize label @ '' must be a non-negative integer.''))
          else Inr i
      | _ \<Rightarrow> Inl (Manifest FixtureError (capitalize label @ '' must be a non-negative integer.'')))"

definition source_hash :: "string \<Rightarrow> string \<Rightarrow> int \<Rightarrow> string" where
  "source_hash order_id source_id v =
     ''sha256:'' @ sha256_hex (json_dumps json_quote_ascii (PDict
       [(''name'', PStr ''shipment_weight''), (''order_id'', PStr order_id),
        (''source_id'', PStr source_id), (''unit'', PStr ''kg''), (''value'', PInt v)]))"

section \<open>Orders\<close>

definition order_from_record :: "pyval \<Rightarrow> order result" where
  "order_from_record r =
     bindR (require r [''order_id'', ''sku_id'', ''quantity'', ''cargo_class'',
       ''destination_zone'', ''currency'', ''spend_ceiling_minor''] ''Order record'') (\<lambda>d.
     bindR (py_int (get_none d ''quantity'')) (\<lambda>quantity.
     bindR (py_int (get_none d ''spend_ceiling_minor'')) (\<lambda>ceiling.
     Inr \<lparr>od_order_id = py_str (get_none d ''order_id''),
          od_sku_id = py_str (get_none d ''sku_id''), od_quantity = quantity,
          od_cargo_class = py_str (get_none d ''cargo_class''),
          od_destination_zone = py_str (get_none d ''destination_zone''),
          od_currency = py_str (get_none d ''currency''),
          od_spend_ceiling_minor = ceiling\<rparr>)))"

text \<open>\<open>sorted((root / "orders").glob("*.json"))\<close>.\<close>

definition order_paths :: "fixtures \<Rightarrow> string list" where
  "order_paths fs =
     sort (filter (\<lambda>p. starts_with ''orders/'' p \<and>
       (let f = removeprefix ''orders/'' p in
        CHR ''/'' \<notin> set f \<and> starts_with (rev ''.json'') (rev f))) (map fst fs))"

definition list_orders :: "fixtures \<Rightarrow> order list result" where
  "list_orders fs =
     bindR (seqR (map (read_json fs) (order_paths fs))) (\<lambda>records.
     bindR (ensure_unique records ''order_id'' ''order'') (\<lambda>_.
     seqR (map order_from_record records)))"

definition get_order :: "fixtures \<Rightarrow> string \<Rightarrow> order result" where
  "get_order fs order_id =
     (let path = ''orders/'' @ order_id @ ''.json'' in
      if \<not> dmember path fs
      then Inl (Manifest OrderNotFoundError (''Order '' @ order_id @ '' was not found.''))
      else bindR (read_json fs path) order_from_record)"

section \<open>Inventory, vehicles and quotes\<close>

definition as_list :: "pyval \<Rightarrow> string \<Rightarrow> pyval list result" where
  "as_list v file =
     (case v of
        PList vs \<Rightarrow> Inr vs
      | _ \<Rightarrow> Inl (Manifest FixtureError (file @ '' must contain a list.'')))"

fun find_inventory :: "order \<Rightarrow> pyval list \<Rightarrow> inventory_fact result" where
  "find_inventory o' [] =
     Inl (Manifest FixtureError (''No inventory record exists for '' @ od_sku_id o' @ ''.''))"
| "find_inventory o' (r # rs) =
     bindR (require r [''sku_id'', ''available_quantity'', ''shipment_weight_kg'', ''source_id'']
       ''Inventory record'') (\<lambda>d.
     if py_eq (get_none d ''sku_id'') (PStr (od_sku_id o')) then
       bindR (py_int (get_none d ''available_quantity'')) (\<lambda>available.
       if available < od_quantity o'
       then Inl (Manifest FixtureError (''Insufficient inventory for '' @ od_sku_id o' @ ''.''))
       else
         bindR (py_int (get_none d ''shipment_weight_kg'')) (\<lambda>weight.
         let source_id = py_str (get_none d ''source_id'') in
         Inr \<lparr>if_fact_id = ''WEIGHT-'' @ od_order_id o',
              if_sku_id = py_str (get_none d ''sku_id''), if_available_quantity = available,
              if_shipment_weight_kg = weight, if_source_id = source_id,
              if_source_hash = source_hash (od_order_id o') source_id weight\<rparr>))
     else find_inventory o' rs)"

definition get_inventory_fact :: "fixtures \<Rightarrow> order \<Rightarrow> inventory_fact result" where
  "get_inventory_fact fs o' =
     bindR (read_json fs ''inventory/inventory.json'') (\<lambda>v.
     bindR (as_list v ''inventory.json'') (\<lambda>records.
     bindR (ensure_unique records ''sku_id'' ''inventory SKU'') (\<lambda>_.
     find_inventory o' records)))"

definition vehicle_from_record :: "pyval \<Rightarrow> vehicle result" where
  "vehicle_from_record r =
     bindR (require r [''vehicle_id'', ''capacity_kg'', ''refrigerated'', ''available'']
       ''Vehicle record'') (\<lambda>d.
     bindR (py_int (get_none d ''capacity_kg'')) (\<lambda>capacity.
     Inr \<lparr>vh_vehicle_id = py_str (get_none d ''vehicle_id''), vh_capacity_kg = capacity,
          vh_refrigerated = truthy (get_none d ''refrigerated''),
          vh_available = truthy (get_none d ''available'')\<rparr>))"

definition list_vehicles :: "fixtures \<Rightarrow> vehicle list result" where
  "list_vehicles fs =
     bindR (read_json fs ''vehicles/vehicles.json'') (\<lambda>v.
     bindR (as_list v ''vehicles.json'') (\<lambda>records.
     bindR (ensure_unique records ''vehicle_id'' ''vehicle'') (\<lambda>_.
     seqR (map vehicle_from_record records))))"

definition quote_from_record :: "pydict \<Rightarrow> carrier_quote result" where
  "quote_from_record d =
     bindR (py_int (get_none d ''amount_minor'')) (\<lambda>amount.
     Inr \<lparr>cq_quote_id = py_str (get_none d ''quote_id''),
          cq_carrier_id = py_str (get_none d ''carrier_id''), cq_amount_minor = amount,
          cq_currency = py_str (get_none d ''currency''),
          cq_cold_chain_certified = truthy (get_none d ''cold_chain_certified''),
          cq_lane_supported = truthy (get_none d ''lane_supported''),
          cq_quote_issuer = ''synthetic_carrier_adapter''\<rparr>)"

fun collect_quotes :: "pyval \<Rightarrow> pyval list \<Rightarrow> carrier_quote list result" where
  "collect_quotes zone [] = Inr []"
| "collect_quotes zone (r # rs) =
     bindR (require r [''quote_id'', ''carrier_id'', ''amount_minor'', ''currency'',
       ''cold_chain_certified'', ''lane_supported'', ''destination_zone''] ''Carrier record'') (\<lambda>d.
     if \<not> py_eq (get_none d ''destination_zone'') zone then collect_quotes zone rs
     else
       bindR (quote_from_record d) (\<lambda>q.
       bindR (collect_quotes zone rs) (\<lambda>qs. Inr (q # qs))))"

definition list_carrier_quotes :: "fixtures \<Rightarrow> pyval \<Rightarrow> carrier_quote list result" where
  "list_carrier_quotes fs zone =
     bindR (read_json fs ''carriers/carriers.json'') (\<lambda>v.
     bindR (as_list v ''carriers.json'') (\<lambda>records.
     bindR (ensure_unique records ''quote_id'' ''quote'') (\<lambda>_.
     collect_quotes zone records)))"

section \<open>Mandates and scenarios\<close>

text \<open>
  \<open>frozenset(EffectClass(value) for value in ...)\<close>: a list is iterated by its elements, a
  dictionary by its keys, a string by its characters, and nothing else can be iterated.
\<close>

definition effect_class_from :: "pyval \<Rightarrow> effect_class option" where
  "effect_class_from v =
     (case v of PStr s \<Rightarrow> effect_class_of s | PEnum _ s \<Rightarrow> effect_class_of s | _ \<Rightarrow> None)"

definition parse_effects :: "pyval \<Rightarrow> effect_class set result" where
  "parse_effects v =
     (let items =
        (case v of
           PList vs \<Rightarrow> Some (map effect_class_from vs)
         | PDict kvs \<Rightarrow> Some (map (\<lambda>p. effect_class_of (fst p)) kvs)
         | PStr s \<Rightarrow> Some (map (\<lambda>c. effect_class_of [c]) s)
         | _ \<Rightarrow> None)
      in case items of
           None \<Rightarrow> Inl (Manifest FixtureError ''Mandate contains an invalid effect class.'')
         | Some os \<Rightarrow>
             if None \<in> set os
             then Inl (Manifest FixtureError ''Mandate contains an invalid effect class.'')
             else Inr (the ` set os))"

definition mandate_path :: "order \<Rightarrow> string" where
  "mandate_path o' = ''mandates/M-'' @ removeprefix ''ORD-'' (od_order_id o') @ ''-1.json''"

definition get_mandate :: "fixtures \<Rightarrow> order \<Rightarrow> governance_mode \<Rightarrow> shipment_mandate result" where
  "get_mandate fs o' mode =
     bindR (read_json fs (mandate_path o')) (\<lambda>v.
     bindR (require v [''mandate_id'', ''order_id'', ''currency'', ''spend_ceiling_minor'',
       ''approval_threshold_minor'', ''cargo_class'', ''allowed_effect_classes'',
       ''policy_version''] ''Mandate'') (\<lambda>d.
     if py_str (get_none d ''order_id'') \<noteq> od_order_id o'
       then Inl (Manifest FixtureError ''Mandate order does not match the requested order.'')
     else if py_str (get_none d ''currency'') \<noteq> od_currency o'
       then Inl (Manifest FixtureError ''Mandate currency does not match the order.'')
     else bindR (py_int (get_none d ''spend_ceiling_minor'')) (\<lambda>c.
     if c \<noteq> od_spend_ceiling_minor o'
       then Inl (Manifest FixtureError ''Mandate spend ceiling does not match the order.'')
     else if py_str (get_none d ''cargo_class'') \<noteq> od_cargo_class o'
       then Inl (Manifest FixtureError ''Mandate cargo class does not match the order.'')
     else if blank (py_str (get_none d ''policy_version''))
       then Inl (Manifest FixtureError ''Mandate policy version cannot be empty.'')
     else
       bindR (parse_effects (get_none d ''allowed_effect_classes'')) (\<lambda>effects.
       bindR (non_negative_int (get_none d ''spend_ceiling_minor'') ''spend ceiling'') (\<lambda>ceiling.
       bindR (non_negative_int (get_none d ''approval_threshold_minor'') ''approval threshold'')
         (\<lambda>threshold.
       if effects = {}
         then Inl (Manifest FixtureError ''Mandate must allow at least one effect class.'')
       else
         Inr \<lparr>sm_mandate_id = py_str (get_none d ''mandate_id''), sm_order_id = od_order_id o',
              sm_mode = mode, sm_currency = od_currency o', sm_spend_ceiling_minor = ceiling,
              sm_approval_threshold_minor = threshold,
              sm_cargo_class = py_str (get_none d ''cargo_class''),
              sm_allowed_effect_classes = effects,
              sm_policy_version = py_str (get_none d ''policy_version'')\<rparr>))))))"

text \<open>\<open>name = ... ScenarioName(scenario)\<close> for a scenario given as text.\<close>

definition parse_scenario :: "string \<Rightarrow> scenario_name result" where
  "parse_scenario s =
     (case scenario_name_of s of
        None \<Rightarrow> Inl (Manifest UnsupportedScenarioError
                  (''Scenario '' @ s @ '' is not supported.''))
      | Some n \<Rightarrow> Inr n)"

definition scenario_path :: "string \<Rightarrow> scenario_name \<Rightarrow> string" where
  "scenario_path order_id n =
     ''scenarios/'' @ order_id @ ''-'' @ scenario_name_value n @ ''.json''"

definition get_scenario :: "fixtures \<Rightarrow> string \<Rightarrow> scenario_name \<Rightarrow> scenario_config result" where
  "get_scenario fs order_id n =
     bindR (read_json fs (scenario_path order_id n)) (\<lambda>v.
     bindR (require v [''scenario'', ''prior_committed_minor'', ''dispatch'', ''carrier'']
       ''Scenario'') (\<lambda>d.
     let dispatch = get_none d ''dispatch''; carrier = get_none d ''carrier'' in
     case (dispatch, carrier) of
       (PDict dd, PDict cd) \<Rightarrow>
         bindR (require dispatch [''attempted_weight_kg'', ''preferred_vehicle_id'']
           ''Scenario dispatch'') (\<lambda>_.
         bindR (require carrier [''preferred_quote_id''] ''Scenario carrier'') (\<lambda>_.
         if py_str (get_none d ''scenario'') \<noteq> scenario_name_value n
           then Inl (Manifest FixtureError ''Scenario name does not match its fixture file.'')
         else
           bindR (non_negative_int (get_none d ''prior_committed_minor'') ''prior committed spend'')
             (\<lambda>prior.
           bindR (non_negative_int (get_none dd ''attempted_weight_kg'') ''attempted weight'')
             (\<lambda>weight.
           bindR (list_vehicles fs) (\<lambda>vehicles.
           bindR (get_order fs order_id) (\<lambda>o'.
           bindR (list_carrier_quotes fs (PStr (od_destination_zone o'))) (\<lambda>quotes.
           if py_str (get_none dd ''preferred_vehicle_id'') \<notin> set (map vh_vehicle_id vehicles)
             then Inl (Manifest FixtureError ''Scenario references an unknown vehicle.'')
           else if py_str (get_none cd ''preferred_quote_id'') \<notin> set (map cq_quote_id quotes)
             then Inl (Manifest FixtureError ''Scenario references an unknown carrier quote.'')
           else
             Inr \<lparr>sc_name = n, sc_prior_committed_minor = prior, sc_attempted_weight_kg = weight,
                  sc_preferred_vehicle_id = py_str (get_none dd ''preferred_vehicle_id''),
                  sc_preferred_quote_id = py_str (get_none cd ''preferred_quote_id'')\<rparr>)))))))
     | _ \<Rightarrow> Inl (Manifest FixtureError
              ''Scenario dispatch and carrier settings must be objects.'')))"

fun validate_orders :: "fixtures \<Rightarrow> order list \<Rightarrow> unit result" where
  "validate_orders fs [] = Inr ()"
| "validate_orders fs (o' # os) =
     bindR (get_inventory_fact fs o') (\<lambda>_.
     bindR (list_carrier_quotes fs (PStr (od_destination_zone o'))) (\<lambda>_.
     bindR (seqR (map (get_scenario fs (od_order_id o')) scenario_name_members)) (\<lambda>_.
     bindR (get_mandate fs o' GM_ENFORCE) (\<lambda>_. validate_orders fs os))))"

definition validate_all :: "fixtures \<Rightarrow> unit result" where
  "validate_all fs =
     bindR (list_orders fs) (\<lambda>orders.
     if orders = []
     then Inl (Manifest FixtureError ''At least one order fixture is required.'')
     else bindR (list_vehicles fs) (\<lambda>_. validate_orders fs orders))"

end
