(* ===== verification/Tools.thy ===== *)
theory Tools
  imports Memory_Store Fixtures
begin

text \<open>
  \<open>packages/tools\<close>: the synthetic logistics adapters of \<open>mocks.py\<close>, the registry of
  \<open>registry.py\<close> and its assembly in \<open>definitions.py\<close>.  An adapter is called with keyword
  arguments; it either raises and changes nothing, or returns a value and the new tables.
\<close>

section \<open>The adapters' tables\<close>

type_synonym effect_table = "(pyval, pydict) dict"

record mock_tools =
  mt_dispatch_plans :: effect_table
  mt_carrier_selections :: effect_table
  mt_outbox :: effect_table
  mt_prepared_bookings :: effect_table
  mt_confirmed_bookings :: effect_table
  mt_cancelled_bookings :: effect_table

definition new_mocks :: mock_tools where
  "new_mocks =
     \<lparr>mt_dispatch_plans = [], mt_carrier_selections = [], mt_outbox = [],
      mt_prepared_bookings = [], mt_confirmed_bookings = [], mt_cancelled_bookings = []\<rparr>"

text \<open>Every table is cleared.\<close>

definition mocks_reset :: "mock_tools \<Rightarrow> mock_tools" where
  "mocks_reset mt =
     mt\<lparr>mt_dispatch_plans := [], mt_carrier_selections := [], mt_outbox := [],
        mt_prepared_bookings := [], mt_confirmed_bookings := [], mt_cancelled_bookings := []\<rparr>"

text \<open>
  A value as a key: keys that compare equal are one key, so they are kept in the normal form of
  equality.  Lists, dictionaries and sets cannot be hashed.
\<close>

primrec hashable :: "pyval \<Rightarrow> bool" where
  "hashable PNone = True"
| "hashable (PBool b) = True"
| "hashable (PInt i) = True"
| "hashable (PFloat f) = True"
| "hashable (PStr s) = True"
| "hashable (PEnum l v) = True"
| "hashable (PDatetime t) = True"
| "hashable (PList xs) = False"
| "hashable (PTuple xs) = list_all id (map hashable xs)"
| "hashable (PSet xs) = False"
| "hashable (PDict kvs) = False"
| "hashable (PObj c kvs) = True"

definition hash_key :: "pyval \<Rightarrow> pyval result" where
  "hash_key v = (if hashable v then Inr (eq_form v) else Inl (PyExc TypeError ''unhashable type''))"

definition in_ids :: "pyval \<Rightarrow> pyval list \<Rightarrow> bool result" where
  "in_ids v ids = bindR (hash_key v) (\<lambda>k. Inr (k \<in> set (map eq_form ids)))"

definition prepared_ids :: "effect_table \<Rightarrow> pyval list" where
  "prepared_ids tbl = map (\<lambda>item. get_none item ''prepared_action_id'') (dvalues tbl)"

definition store_idempotently :: "effect_table \<Rightarrow> pyval \<Rightarrow> pydict \<Rightarrow> effect_table result" where
  "store_idempotently tbl key payload =
     bindR (hash_key key) (\<lambda>k.
     case dget tbl k of
       Some existing \<Rightarrow>
         if \<not> py_eq (PDict existing) (PDict payload)
         then Inl (Manifest IdempotencyConflictError
                (''Idempotency key '' @ py_str key @ '' was reused with different arguments.''))
         else Inr tbl
     | None \<Rightarrow> Inr (dput k payload tbl))"

text \<open>\<open>_store_idempotently\<close> followed by \<open>return dict(table[key])\<close>.\<close>

definition stored_value ::
  "(mock_tools \<Rightarrow> effect_table) \<Rightarrow> (effect_table \<Rightarrow> mock_tools \<Rightarrow> mock_tools) \<Rightarrow> pyval \<Rightarrow> pydict
    \<Rightarrow> mock_tools \<Rightarrow> (tool_value \<times> mock_tools) result" where
  "stored_value sel upd key payload mt =
     bindR (store_idempotently (sel mt) key payload) (\<lambda>tbl.
     Inr (VDict (case dget tbl (eq_form key) of Some v \<Rightarrow> v | None \<Rightarrow> []), upd tbl mt))"

abbreviation fixture_error :: "string \<Rightarrow> exc" where
  "fixture_error m \<equiv> Manifest FixtureError m"

section \<open>The adapters\<close>

type_synonym mock_op = "mock_tools \<Rightarrow> (tool_value \<times> mock_tools) result"

definition mock_get_order :: "fixtures \<Rightarrow> pyval \<Rightarrow> mock_op" where
  "mock_get_order fs order_id mt =
     bindR (get_order fs (py_str order_id)) (\<lambda>o'. Inr (VOrder o', mt))"

definition mock_check_inventory :: "fixtures \<Rightarrow> pyval \<Rightarrow> pyval \<Rightarrow> pyval \<Rightarrow> mock_op" where
  "mock_check_inventory fs order_id sku_id quantity mt =
     bindR (get_order fs (py_str order_id)) (\<lambda>o'.
     if \<not> py_eq (PStr (od_sku_id o')) sku_id \<or> \<not> py_eq (PInt (od_quantity o')) quantity
     then Inl (fixture_error
            (''Inventory request does not match order '' @ py_str order_id @ ''.''))
     else bindR (get_inventory_fact fs o') (\<lambda>f. Inr (VFact f, mt)))"

definition mock_list_available_vehicles :: "fixtures \<Rightarrow> pyval \<Rightarrow> mock_op" where
  "mock_list_available_vehicles fs zone mt =
     (if \<not> truthy zone then Inl (fixture_error ''A destination zone is required.'')
      else bindR (list_vehicles fs) (\<lambda>vs. Inr (VVehicles (filter vh_available vs), mt)))"

text \<open>\<open>i < v\<close> for an integer and any value.\<close>

definition int_less :: "int \<Rightarrow> pyval \<Rightarrow> bool result" where
  "int_less i v =
     (case v of
        PInt j \<Rightarrow> Inr (i < j)
      | PBool b \<Rightarrow> Inr (i < (if b then 1 else 0))
      | PFloat (FFinite q _) \<Rightarrow> Inr (of_int i < q)
      | PFloat FNan \<Rightarrow> Inr False
      | PFloat (FInf pos) \<Rightarrow> Inr pos
      | _ \<Rightarrow> Inl (PyExc TypeError ''unorderable types''))"

text \<open>A dictionary comprehension over the records: the last record with a key wins.\<close>

definition by_id :: "('a \<Rightarrow> string) \<Rightarrow> 'a list \<Rightarrow> pyval \<Rightarrow> 'a option result" where
  "by_id idf xs v = dict_get (rev (map (\<lambda>x. (idf x, x)) xs)) v"

definition mock_create_dispatch_plan ::
  "fixtures \<Rightarrow> pyval \<Rightarrow> pyval \<Rightarrow> pyval \<Rightarrow> pyval \<Rightarrow> pyval \<Rightarrow> pyval \<Rightarrow> pyval \<Rightarrow> mock_op" where
  "mock_create_dispatch_plan fs order_id vehicle_id idempotency_key weight_kg weight_value
     weight_unit weight_fact_id mt =
     (let effective_weight = (if weight_value \<noteq> PNone then weight_value else weight_kg) in
      if effective_weight = PNone \<or> \<not> py_eq weight_unit (PStr ''kg'')
        then Inl (fixture_error ''Dispatch requires a weight expressed in kg.'')
      else
        bindR (list_vehicles fs) (\<lambda>vehicles.
        bindR (by_id vh_vehicle_id vehicles vehicle_id) (\<lambda>found.
        case found of
          None \<Rightarrow> Inl (fixture_error (''Vehicle '' @ py_str vehicle_id @ '' was not found.''))
        | Some vehicle \<Rightarrow>
            bindR (if vh_available vehicle then int_less (vh_capacity_kg vehicle) effective_weight
                   else Inr True) (\<lambda>unfit.
            if unfit
            then Inl (fixture_error (''Vehicle '' @ py_str vehicle_id @ '' cannot carry '' @
                   py_str effective_weight @ '' kg.''))
            else
              stored_value mt_dispatch_plans (\<lambda>t. mt_dispatch_plans_update (\<lambda>_. t))
                idempotency_key
                [(''plan_id'', PStr (''PLAN-'' @ py_str order_id @ ''-'' @ py_str vehicle_id)),
                 (''order_id'', order_id), (''vehicle_id'', vehicle_id),
                 (''weight_kg'', effective_weight), (''weight_fact_id'', weight_fact_id)] mt))))"

definition mock_list_carrier_quotes :: "fixtures \<Rightarrow> pyval \<Rightarrow> pyval \<Rightarrow> mock_op" where
  "mock_list_carrier_quotes fs order_id zone mt =
     bindR (get_order fs (py_str order_id)) (\<lambda>_.
     bindR (list_carrier_quotes fs zone) (\<lambda>qs. Inr (VQuotes qs, mt)))"

definition mock_select_carrier_quote :: "fixtures \<Rightarrow> pyval \<Rightarrow> pyval \<Rightarrow> pyval \<Rightarrow> mock_op" where
  "mock_select_carrier_quote fs order_id quote_id idempotency_key mt =
     bindR (get_order fs (py_str order_id)) (\<lambda>o'.
     bindR (list_carrier_quotes fs (PStr (od_destination_zone o'))) (\<lambda>quotes.
     bindR (by_id cq_quote_id quotes quote_id) (\<lambda>found.
     if found = None
     then Inl (fixture_error (''Quote '' @ py_str quote_id @ '' was not found for '' @
            py_str order_id @ ''.''))
     else
       stored_value mt_carrier_selections (\<lambda>t. mt_carrier_selections_update (\<lambda>_. t))
         idempotency_key
         [(''selection_id'', PStr (''SELECTION-'' @ py_str order_id @ ''-'' @ py_str quote_id)),
          (''order_id'', order_id), (''quote_id'', quote_id)] mt)))"

definition mock_prepare_freight_booking ::
  "fixtures \<Rightarrow> pyval \<Rightarrow> pyval \<Rightarrow> pyval \<Rightarrow> pyval \<Rightarrow> pyval \<Rightarrow> mock_op" where
  "mock_prepare_freight_booking fs order_id quote_id amount_minor currency idempotency_key mt =
     bindR (get_order fs (py_str order_id)) (\<lambda>o'.
     if (case amount_minor of PInt i \<Rightarrow> i < 0 | _ \<Rightarrow> True)
       then Inl (fixture_error ''Booking amount must be a non-negative integer.'')
     else
       bindR (list_carrier_quotes fs (PStr (od_destination_zone o'))) (\<lambda>quotes.
       bindR (by_id cq_quote_id quotes quote_id) (\<lambda>found.
       if (case found of None \<Rightarrow> True | Some q \<Rightarrow>
             \<not> py_eq (PInt (cq_amount_minor q)) amount_minor \<or>
             \<not> py_eq (PStr (cq_currency q)) currency)
       then Inl (fixture_error ''Prepared booking does not match the selected quote.'')
       else
         stored_value mt_prepared_bookings (\<lambda>t. mt_prepared_bookings_update (\<lambda>_. t))
           idempotency_key
           [(''prepared_action_id'', PStr (''PREP-'' @ py_str order_id @ ''-'' @ py_str quote_id)),
            (''order_id'', order_id), (''quote_id'', quote_id),
            (''amount_minor'', amount_minor), (''currency'', currency)] mt)))"

text \<open>The look-up of a prepared booking that confirmation and cancellation share.\<close>

definition check_prepared :: "pyval \<Rightarrow> mock_tools \<Rightarrow> unit result" where
  "check_prepared prepared_action_id mt =
     (let ids = prepared_ids (mt_prepared_bookings mt) in
      if ids = [] then Inr ()
      else bindR (in_ids prepared_action_id ids) (\<lambda>known.
        if known then Inr ()
        else Inl (fixture_error
               (''Prepared booking '' @ py_str prepared_action_id @ '' was not found.''))))"

definition mock_confirm_freight_booking :: "pyval \<Rightarrow> pyval \<Rightarrow> pyval \<Rightarrow> mock_op" where
  "mock_confirm_freight_booking prepared_action_id action_hash idempotency_key mt =
     (if \<not> truthy prepared_action_id \<or> \<not> truthy action_hash
        then Inl (fixture_error ''Confirmation requires a prepared action and hash.'')
      else
        bindR (check_prepared prepared_action_id mt) (\<lambda>_.
        bindR (in_ids prepared_action_id (prepared_ids (mt_cancelled_bookings mt))) (\<lambda>cancelled.
        if cancelled
        then Inl (fixture_error
               (''Prepared booking '' @ py_str prepared_action_id @ '' was cancelled.''))
        else
          stored_value mt_confirmed_bookings (\<lambda>t. mt_confirmed_bookings_update (\<lambda>_. t))
            idempotency_key
            [(''confirmation_id'', PStr (''CONFIRM-'' @ py_str prepared_action_id)),
             (''prepared_action_id'', prepared_action_id), (''action_hash'', action_hash)] mt)))"

definition mock_cancel_freight_booking :: "pyval \<Rightarrow> pyval \<Rightarrow> pyval \<Rightarrow> pyval \<Rightarrow> mock_op" where
  "mock_cancel_freight_booking prepared_action_id action_hash reason_code idempotency_key mt =
     (if \<not> truthy prepared_action_id \<or> \<not> truthy action_hash \<or> \<not> truthy reason_code
        then Inl (fixture_error ''Cancellation requires a prepared action, hash, and reason.'')
      else
        bindR (check_prepared prepared_action_id mt) (\<lambda>_.
        bindR (in_ids prepared_action_id (prepared_ids (mt_confirmed_bookings mt))) (\<lambda>confirmed.
        if confirmed
        then Inl (fixture_error
               (''Prepared booking '' @ py_str prepared_action_id @ '' is already confirmed.''))
        else
          stored_value mt_cancelled_bookings (\<lambda>t. mt_cancelled_bookings_update (\<lambda>_. t))
            idempotency_key
            [(''cancellation_id'', PStr (''CANCEL-'' @ py_str prepared_action_id)),
             (''prepared_action_id'', prepared_action_id), (''status'', PStr ''cancelled''),
             (''reason_code'', reason_code)] mt)))"

text \<open>\<open>message.strip()\<close>, which only a string has.\<close>

definition message_blank :: "pyval \<Rightarrow> bool result" where
  "message_blank v =
     (case v of
        PStr s \<Rightarrow> Inr (blank s)
      | PEnum _ s \<Rightarrow> Inr (blank s)
      | _ \<Rightarrow> Inl (PyExc AttributeError ''strip''))"

definition mock_write_tracking_outbox ::
  "fixtures \<Rightarrow> pyval \<Rightarrow> pyval \<Rightarrow> pyval \<Rightarrow> pyval \<Rightarrow> pyval \<Rightarrow> pyval \<Rightarrow> mock_op" where
  "mock_write_tracking_outbox fs order_id message idempotency_key recipient_ref template_id
     template_variables mt =
     bindR (get_order fs (py_str order_id)) (\<lambda>_.
     bindR (if message \<noteq> PNone then message_blank message else Inr False) (\<lambda>empty.
     if empty then Inl (fixture_error ''Tracking message cannot be empty.'')
     else if message = PNone \<and> (\<not> truthy recipient_ref \<or> \<not> truthy template_id)
       then Inl (fixture_error ''Tracking notification requires a recipient and template.'')
     else
       let rendered = (if truthy message then message
         else PStr (''Synthetic '' @ py_str template_id @ '' for '' @ py_str order_id @ ''.'')) in
       if \<not> truthy idempotency_key
       then Inl (fixture_error ''Tracking notification requires an idempotency key.'')
       else
         stored_value mt_outbox (\<lambda>t. mt_outbox_update (\<lambda>_. t)) idempotency_key
           [(''notification_id'', PStr (''NOTIFY-'' @ py_str order_id)), (''order_id'', order_id),
            (''recipient_ref'', recipient_ref), (''template_id'', template_id),
            (''template_variables'',
              if truthy template_variables then template_variables else PDict []),
            (''rendered_message'', rendered), (''delivery'', PStr ''simulated_outbox'')] mt))"

definition confirmed_booking_count :: "mock_tools \<Rightarrow> nat" where
  "confirmed_booking_count mt = length (mt_confirmed_bookings mt)"

definition cancelled_booking_count :: "mock_tools \<Rightarrow> nat" where
  "cancelled_booking_count mt = length (mt_cancelled_bookings mt)"

definition notification_count :: "mock_tools \<Rightarrow> nat" where
  "notification_count mt = length (mt_outbox mt)"

section \<open>Calls with keyword arguments\<close>

datatype tool_handler =
    H_get_order | H_check_inventory | H_list_available_vehicles | H_create_dispatch_plan
  | H_list_carrier_quotes | H_select_carrier_quote | H_prepare_freight_booking
  | H_confirm_freight_booking | H_cancel_freight_booking | H_write_tracking_outbox

text \<open>The parameters of each method: those without and those with a default.\<close>

definition parameters :: "tool_handler \<Rightarrow> string list \<times> string list" where
  "parameters h =
     (case h of
        H_get_order \<Rightarrow> ([''order_id''], [])
      | H_check_inventory \<Rightarrow> ([''order_id'', ''sku_id'', ''quantity''], [])
      | H_list_available_vehicles \<Rightarrow> ([''destination_zone''], [])
      | H_create_dispatch_plan \<Rightarrow>
          ([''order_id'', ''vehicle_id'', ''idempotency_key''],
           [''weight_kg'', ''weight_value'', ''weight_unit'', ''weight_fact_id''])
      | H_list_carrier_quotes \<Rightarrow> ([''order_id'', ''destination_zone''], [])
      | H_select_carrier_quote \<Rightarrow> ([''order_id'', ''quote_id'', ''idempotency_key''], [])
      | H_prepare_freight_booking \<Rightarrow>
          ([''order_id'', ''quote_id'', ''amount_minor'', ''currency'', ''idempotency_key''], [])
      | H_confirm_freight_booking \<Rightarrow>
          ([''prepared_action_id'', ''action_hash'', ''idempotency_key''], [])
      | H_cancel_freight_booking \<Rightarrow>
          ([''prepared_action_id'', ''action_hash'', ''cancellation_reason_code'',
            ''idempotency_key''], [])
      | H_write_tracking_outbox \<Rightarrow>
          ([''order_id''],
           [''message'', ''idempotency_key'', ''recipient_ref'', ''template_id'',
            ''template_variables'']))"

definition bind_arguments :: "tool_handler \<Rightarrow> pydict \<Rightarrow> unit result" where
  "bind_arguments h args =
     (let (required, optional) = parameters h in
      if list_ex (\<lambda>p. fst p \<notin> set required \<union> set optional) args
        then Inl (PyExc TypeError ''got an unexpected keyword argument'')
      else if list_ex (\<lambda>r. \<not> dmember r args) required
        then Inl (PyExc TypeError ''missing required argument'')
      else Inr ())"

definition call_handler :: "fixtures \<Rightarrow> tool_handler \<Rightarrow> pydict \<Rightarrow> mock_op" where
  "call_handler fs h args mt =
     bindR (bind_arguments h args) (\<lambda>_.
     let arg = get_none args in
     case h of
       H_get_order \<Rightarrow> mock_get_order fs (arg ''order_id'') mt
     | H_check_inventory \<Rightarrow>
         mock_check_inventory fs (arg ''order_id'') (arg ''sku_id'') (arg ''quantity'') mt
     | H_list_available_vehicles \<Rightarrow> mock_list_available_vehicles fs (arg ''destination_zone'') mt
     | H_create_dispatch_plan \<Rightarrow>
         mock_create_dispatch_plan fs (arg ''order_id'') (arg ''vehicle_id'')
           (arg ''idempotency_key'') (arg ''weight_kg'') (arg ''weight_value'')
           (get_or args ''weight_unit'' (PStr ''kg'')) (arg ''weight_fact_id'') mt
     | H_list_carrier_quotes \<Rightarrow>
         mock_list_carrier_quotes fs (arg ''order_id'') (arg ''destination_zone'') mt
     | H_select_carrier_quote \<Rightarrow>
         mock_select_carrier_quote fs (arg ''order_id'') (arg ''quote_id'')
           (arg ''idempotency_key'') mt
     | H_prepare_freight_booking \<Rightarrow>
         mock_prepare_freight_booking fs (arg ''order_id'') (arg ''quote_id'')
           (arg ''amount_minor'') (arg ''currency'') (arg ''idempotency_key'') mt
     | H_confirm_freight_booking \<Rightarrow>
         mock_confirm_freight_booking (arg ''prepared_action_id'') (arg ''action_hash'')
           (arg ''idempotency_key'') mt
     | H_cancel_freight_booking \<Rightarrow>
         mock_cancel_freight_booking (arg ''prepared_action_id'') (arg ''action_hash'')
           (arg ''cancellation_reason_code'') (arg ''idempotency_key'') mt
     | H_write_tracking_outbox \<Rightarrow>
         mock_write_tracking_outbox fs (arg ''order_id'') (arg ''message'')
           (arg ''idempotency_key'') (arg ''recipient_ref'') (arg ''template_id'')
           (arg ''template_variables'') mt)"

section \<open>The registry\<close>

record tool_registry =
  rg_definitions :: "(string, tool_definition) dict"
  rg_handlers :: "(string, tool_handler) dict"

definition empty_registry :: tool_registry where
  "empty_registry = \<lparr>rg_definitions = [], rg_handlers = []\<rparr>"

definition register ::
  "tool_definition \<Rightarrow> tool_handler \<Rightarrow> tool_registry \<Rightarrow> tool_registry result" where
  "register d h r =
     (if dmember (td_name d) (rg_definitions r) \<or> dmember (td_name d) (rg_handlers r)
      then Inl (fixture_error (''Tool '' @ td_name d @ '' is registered more than once.''))
      else Inr (r\<lparr>rg_definitions := dput (td_name d) d (rg_definitions r),
                  rg_handlers := dput (td_name d) h (rg_handlers r)\<rparr>))"

definition get_definition :: "tool_registry \<Rightarrow> string \<Rightarrow> tool_definition result" where
  "get_definition r name =
     (case dget (rg_definitions r) name of
        None \<Rightarrow> Inl (Manifest UnknownToolError (''Tool '' @ name @ '' is not registered.''))
      | Some d \<Rightarrow> Inr d)"

text \<open>The whole process state: trajectory, store, platform and the adapters.\<close>

record tool_sys = store_sys +
  tools :: mock_tools

type_synonym 'a top = "(tool_sys, exc, 'a) SE"

definition execute :: "fixtures \<Rightarrow> tool_registry \<Rightarrow> string \<Rightarrow> pydict \<Rightarrow> tool_value top" where
  "execute fs r name args =
     bindM (liftR (get_definition r name)) (\<lambda>_.
     case dget (rg_handlers r) name of
       None \<Rightarrow> raiseM (Manifest UnknownToolError (''Tool '' @ name @ '' has no handler.''))
     | Some h \<Rightarrow>
         bindM (getM tools) (\<lambda>mt.
         bindM (liftR (call_handler fs h args mt)) (\<lambda>(v, mt').
         thenM (updM (\<lambda>s. s\<lparr>tools := mt'\<rparr>)) (returnM v))))"

definition list_definitions :: "tool_registry \<Rightarrow> tool_definition list" where
  "list_definitions r =
     map (\<lambda>n. the (dget (rg_definitions r) n)) (sort (map fst (rg_definitions r)))"

fun check_descriptions :: "tool_definition list \<Rightarrow> unit result" where
  "check_descriptions [] = Inr ()"
| "check_descriptions (d # ds) =
     (if blank (td_description d)
      then Inl (fixture_error (''Tool '' @ td_name d @ '' has no description.''))
      else check_descriptions ds)"

text \<open>The owner and the effect class are members of their enumerations by their types.\<close>

definition validate_startup :: "tool_registry \<Rightarrow> unit result" where
  "validate_startup r =
     (let ds = map fst (rg_definitions r); hs = map fst (rg_handlers r);
          missing_handlers = sort (filter (\<lambda>n. n \<notin> set hs) ds);
          missing_definitions = sort (filter (\<lambda>n. n \<notin> set ds) hs)
      in if set ds \<noteq> set hs
         then Inl (fixture_error (''Tool registry mismatch. Missing handlers: '' @
                py_repr (PList (map PStr missing_handlers)) @ ''; missing definitions: '' @
                py_repr (PList (map PStr missing_definitions)) @ ''.''))
         else check_descriptions (dvalues (rg_definitions r)))"

definition tool_def ::
  "string \<Rightarrow> agent_name \<Rightarrow> effect_class \<Rightarrow> string \<Rightarrow> tool_definition" where
  "tool_def name owner effect descr =
     \<lparr>td_name = name, td_owner = owner, td_effect_class = effect, td_description = descr,
      td_idempotent = True\<rparr>"

definition registrations :: "(tool_definition \<times> tool_handler) list" where
  "registrations =
     [(tool_def ''get_order'' INVENTORY EC_READ ''Read one synthetic order.'', H_get_order),
      (tool_def ''check_inventory'' INVENTORY EC_READ
         ''Read available stock and sourced weight.'', H_check_inventory),
      (tool_def ''list_available_vehicles'' DISPATCH EC_READ
         ''List available synthetic vehicles.'', H_list_available_vehicles),
      (tool_def ''create_dispatch_plan'' DISPATCH EC_REVERSIBLE_WRITE
         ''Create a reversible synthetic dispatch plan.'', H_create_dispatch_plan),
      (tool_def ''list_carrier_quotes'' CARRIER EC_READ
         ''List synthetic carrier quotes.'', H_list_carrier_quotes),
      (tool_def ''select_carrier_quote'' CARRIER EC_REVERSIBLE_WRITE
         ''Select a reversible synthetic carrier quote.'', H_select_carrier_quote),
      (tool_def ''prepare_freight_booking'' CARRIER EC_REVERSIBLE_WRITE
         ''Prepare a reversible synthetic freight booking.'', H_prepare_freight_booking),
      (tool_def ''confirm_freight_booking'' CARRIER EC_FINANCIAL_COMMIT
         ''Confirm a prepared synthetic freight booking.'', H_confirm_freight_booking),
      (tool_def ''cancel_freight_booking'' CARRIER EC_REVERSIBLE_WRITE
         ''Cancel a prepared synthetic freight booking.'', H_cancel_freight_booking),
      (tool_def ''write_tracking_outbox'' CUSTOMER_COMMUNICATIONS EC_EXTERNAL_DISCLOSURE
         ''Write a simulated tracking notification to an in-memory outbox.'',
       H_write_tracking_outbox)]"

fun register_all ::
  "(tool_definition \<times> tool_handler) list \<Rightarrow> tool_registry \<Rightarrow> tool_registry result" where
  "register_all [] r = Inr r"
| "register_all ((d, h) # ds) r = bindR (register d h r) (register_all ds)"

definition build_tool_registry :: "tool_registry result" where
  "build_tool_registry =
     bindR (register_all registrations empty_registry) (\<lambda>r.
     bindR (validate_startup r) (\<lambda>_. Inr r))"

end
