(* ===== verification/Append_Only.thy ===== *)
theory Append_Only
  imports Prelude "HOL-Library.Sublist"
begin

text \<open>
  The contract of an append-only repository, as its clients rely on it: commands executed one
  after the other, an invariant, a growth order, the retained histories and their
  verification.  The clients' lemmas are proved here once, for command sequences.
\<close>

primrec run_all :: "('c \<Rightarrow> 's \<Rightarrow> 'r \<times> 's) \<Rightarrow> 'c list \<Rightarrow> 's \<Rightarrow> 's" where
  "run_all exec [] s = s"
| "run_all exec (c # cs) s = run_all exec cs (snd (exec c s))"

lemma run_all_append: "run_all exec (xs @ ys) s = run_all exec ys (run_all exec xs s)"
  by (induction xs arbitrary: s) auto

locale monotone_system =
  fixes inv :: "'s \<Rightarrow> bool"
    and le :: "'s \<Rightarrow> 's \<Rightarrow> bool"
    and exec :: "'c \<Rightarrow> 's \<Rightarrow> 'r \<times> 's"
  assumes le_refl: "le s s"
    and le_trans: "le s t \<Longrightarrow> le t u \<Longrightarrow> le s u"
    and exec_inv: "inv s \<Longrightarrow> inv (snd (exec c s))"
    and exec_le: "inv s \<Longrightarrow> le s (snd (exec c s))"
begin

lemma run_all_inv: "inv s \<Longrightarrow> inv (run_all exec cs s)"
  by (induction cs arbitrary: s) (auto intro: exec_inv)

lemma run_all_le: "inv s \<Longrightarrow> le s (run_all exec cs s)"
proof (induction cs arbitrary: s)
  case Nil
  then show ?case by (simp add: le_refl)
next
  case (Cons c cs)
  then show ?case using exec_inv exec_le le_trans by fastforce
qed

end

locale append_only = monotone_system inv le exec
  for inv :: "'s \<Rightarrow> bool" and le and exec :: "'c \<Rightarrow> 's \<Rightarrow> 'r \<times> 's" +
  fixes history :: "'s \<Rightarrow> 'k \<Rightarrow> 'h list option"
    and verified :: "'s \<Rightarrow> 'k \<Rightarrow> bool"
  assumes le_history:
      "le s t \<Longrightarrow> history s k = Some h \<Longrightarrow> \<exists>h'. history t k = Some h' \<and> prefix h h'"
    and inv_verified: "inv s \<Longrightarrow> history s k = Some h \<Longrightarrow> verified s k"
begin

text \<open>Every reachable state verifies, and extends every state it was reached through.\<close>

lemma always_verified:
  "inv s \<Longrightarrow> history (run_all exec cs s) k = Some h \<Longrightarrow> verified (run_all exec cs s) k"
  using run_all_inv inv_verified by blast

lemma history_grows:
  assumes "inv s" and "history (run_all exec xs s) k = Some h"
  shows "\<exists>h'. history (run_all exec (xs @ ys) s) k = Some h' \<and> prefix h h'"
  using assms le_history run_all_le [OF run_all_inv [OF assms(1)], of xs ys]
  by (simp add: run_all_append)

end

end
