(* ===== verification/Store_Invariants.thy ===== *)
theory Store_Invariants
  imports Memory_Store Append_Only
begin

text \<open>
  What the memory store guarantees: every retained trace is a linked history described by its
  head (so verification succeeds), histories only grow, a replayed idempotency key returns the
  event it was recorded with, and a stale snapshot cannot write.
\<close>

section \<open>The invariant\<close>

definition run_ok :: "memory_store \<Rightarrow> string \<Rightarrow> trajectory_state \<Rightarrow> bool" where
  "run_ok ms tid st \<longleftrightarrow>
     ts_trace_id st = tid \<and> 0 \<le> ts_storage_revision st \<and>
     ts_next_sequence st = int (length (ts_events st)) + 1 \<and>
     linked tid 1 GENESIS_HASH (ts_events st) \<and>
     (\<exists>h. dget (ms_heads ms) tid = Some h \<and> head_ok h (ts_events st))"

text \<open>A recorded replay names an event of the trace, with the key it was recorded under.\<close>

definition replay_ok :: "memory_store \<Rightarrow> string \<Rightarrow> string \<Rightarrow> trace_event \<Rightarrow> bool" where
  "replay_ok ms tid key e \<longleftrightarrow>
     te_idempotency_key e = Some key \<and>
     (\<exists>st. dget (ms_runs ms) tid = Some st \<and> e \<in> set (ts_events st))"

definition store_ok :: "memory_store \<Rightarrow> bool" where
  "store_ok ms \<longleftrightarrow>
     (\<forall>tid st. dget (ms_runs ms) tid = Some st \<longrightarrow> run_ok ms tid st) \<and>
     (\<forall>tid key fp e. dget (ms_event_replays ms) (tid, key) = Some (fp, e) \<longrightarrow>
        replay_ok ms tid key e)"

text \<open>
  The caller's object is never ahead of the stored copy, and at the same revision it agrees
  with it in what only the store writes.  An object at an older revision is stale and is
  otherwise unconstrained.
\<close>

definition attached :: "memory_store \<Rightarrow> trajectory_state \<Rightarrow> bool" where
  "attached ms st \<longleftrightarrow>
     (\<forall>stored. dget (ms_runs ms) (ts_trace_id st) = Some stored \<longrightarrow>
        ts_storage_revision st \<le> ts_storage_revision stored \<and>
        (ts_storage_revision st = ts_storage_revision stored \<longrightarrow>
         ts_events st = ts_events stored \<and> ts_decisions st = ts_decisions stored \<and>
         ts_next_sequence st = ts_next_sequence stored))"

text \<open>
  Every retained history is a prefix of what is retained later, and a recorded replay is never
  overwritten.
\<close>

definition grows :: "memory_store \<Rightarrow> memory_store \<Rightarrow> bool" where
  "grows ms ms' \<longleftrightarrow>
     (\<forall>tid st. dget (ms_runs ms) tid = Some st \<longrightarrow>
        (\<exists>st'. dget (ms_runs ms') tid = Some st' \<and>
           prefix (ts_events st) (ts_events st') \<and>
           prefix (ts_decisions st) (ts_decisions st'))) \<and>
     (\<forall>k v. dget (ms_event_replays ms) k = Some v \<longrightarrow> dget (ms_event_replays ms') k = Some v)"

lemma grows_refl [simp]: "grows ms ms"
  by (simp add: grows_def)

lemma grows_trans: "grows a b \<Longrightarrow> grows b c \<Longrightarrow> grows a c"
  unfolding grows_def by (meson prefix_order.trans)

definition ledger_inv :: "'z store_sys_scheme \<Rightarrow> bool" where
  "ledger_inv s \<longleftrightarrow> store_ok (db s) \<and> attached (db s) (cur s)"

definition ledger_from :: "memory_store \<Rightarrow> 'z store_sys_scheme \<Rightarrow> bool" where
  "ledger_from ms0 s \<longleftrightarrow> ledger_inv s \<and> grows ms0 (db s)"

lemma ledger_from_self [simp]: "ledger_from (db s) s = ledger_inv s"
  by (simp add: ledger_from_def)

lemma store_okD:
  "store_ok ms \<Longrightarrow> dget (ms_runs ms) tid = Some st \<Longrightarrow> run_ok ms tid st"
  by (simp add: store_ok_def)

lemma attachedD:
  "attached ms st \<Longrightarrow> dget (ms_runs ms) (ts_trace_id st) = Some stored \<Longrightarrow>
   ts_storage_revision st = ts_storage_revision stored \<Longrightarrow>
   ts_events st = ts_events stored \<and> ts_decisions st = ts_decisions stored \<and>
   ts_next_sequence st = ts_next_sequence stored"
  by (simp add: attached_def)

lemma store_ok_empty [simp]: "store_ok empty_store"
  by (simp add: store_ok_def empty_store_def)

lemma attached_empty [simp]: "attached empty_store st"
  by (simp add: attached_def empty_store_def)

text \<open>A store in which every trace is in order verifies.\<close>

lemma store_ok_verifies:
  assumes "store_ok ms" "dget (ms_runs ms) tid = Some st"
  obtains v where "verify_trace ms tid = Inr v" "vr_valid v"
    "vr_checked_event_count v = int (length (ts_events st))"
proof -
  obtain h where "dget (ms_heads ms) tid = Some h" "head_ok h (ts_events st)"
    "linked tid 1 GENESIS_HASH (ts_events st)"
    using store_okD [OF assms] by (auto simp: run_ok_def)
  then show ?thesis
    using that assms(2) by (simp add: verify_trace_def verify_chain_valid_fields)
qed

section \<open>The platform reads\<close>

lemma utc_now_run [simp]:
  "bindM utc_now f s =
     f (wd_clock (wld s) (wd_clock_pos (wld s)))
       (s\<lparr>wld := (wld s)\<lparr>wd_clock_pos := Suc (wd_clock_pos (wld s))\<rparr>\<rparr>)"
  by (simp add: bindM_def utc_now_def)

lemma uuid4_run [simp]:
  "bindM uuid4 f s =
     f (wd_uuids (wld s) (wd_uuid_pos (wld s)))
       (s\<lparr>wld := (wld s)\<lparr>wd_uuid_pos := Suc (wd_uuid_pos (wld s))\<rparr>\<rparr>)"
  by (simp add: bindM_def uuid4_def)

lemma ledger_inv_wld [simp]: "ledger_inv (s\<lparr>wld := w\<rparr>) = ledger_inv s"
  by (simp add: ledger_inv_def)

lemma ledger_from_wld [simp]: "ledger_from ms0 (s\<lparr>wld := w\<rparr>) = ledger_from ms0 s"
  by (simp add: ledger_from_def)

lemma keeps_platform [keeps]:
  "keepsI (ledger_from ms0) utc_now" "keepsI (ledger_from ms0) uuid4"
  by (simp_all add: keepsI_def utc_now_def uuid4_def)

section \<open>append\_event\<close>

text \<open>The state after event \<open>e\<close> has been recorded.\<close>

definition appended_cur :: "trajectory_state \<Rightarrow> trace_event \<Rightarrow> trajectory_state" where
  "appended_cur st e =
     st\<lparr>ts_events := ts_events st @ [e], ts_next_sequence := te_sequence e + 1,
        ts_storage_revision := ts_storage_revision st + 1\<rparr>"

definition appended_db ::
  "memory_store \<Rightarrow> trajectory_state \<Rightarrow> event_description \<Rightarrow> string option \<Rightarrow> trace_event
    \<Rightarrow> memory_store" where
  "appended_db ms st d fp e =
     (let tid = ts_trace_id st in
      ms\<lparr>ms_runs := dput tid (appended_cur st e) (ms_runs ms),
         ms_heads := dput tid (head_after tid e (Suc (length (ts_events st)))) (ms_heads ms),
         ms_event_replays :=
           (case (ed_idempotency_key d, fp) of
              (Some key, Some f) \<Rightarrow> dput (tid, key) (f, e) (ms_event_replays ms)
            | _ \<Rightarrow> ms_event_replays ms)\<rparr>)"

lemma record_event_run:
  "record_event (ts_trace_id (cur s)) d fp e s =
     (Inr (), s\<lparr>cur := appended_cur (cur s) e, db := appended_db (db s) (cur s) d fp e\<rparr>)"
  by (simp add: record_event_def persist_state_def appended_cur_def appended_db_def
      monad_defs Let_def split: option.split)

lemma record_event_run':
  "ts_trace_id (cur s) = tid \<Longrightarrow>
   thenM (record_event tid d fp e) m s =
     m (s\<lparr>cur := appended_cur (cur s) e, db := appended_db (db s) (cur s) d fp e\<rparr>)"
  using record_event_run [of s d fp e] by (simp add: thenM_def bindM_def)

text \<open>When an append goes through, and the event it then records.\<close>

definition append_ready ::
  "'z store_sys_scheme \<Rightarrow> event_description \<Rightarrow> ledger_head \<Rightarrow> string option \<Rightarrow> bool" where
  "append_ready s d head fp \<longleftrightarrow>
     (\<exists>stored. dget (ms_runs (db s)) (ts_trace_id (cur s)) = Some stored \<and>
        ts_storage_revision (cur s) = ts_storage_revision stored) \<and>
     find_replay (db s) (ts_trace_id (cur s)) d = Inr (fp, None) \<and>
     dget (ms_heads (db s)) (ts_trace_id (cur s)) = Some head \<and>
     ts_next_sequence (cur s) = lh_sequence head + 1"

definition is_new_event :: "string \<Rightarrow> event_description \<Rightarrow> ledger_head \<Rightarrow> trace_event \<Rightarrow> bool" where
  "is_new_event tid d head e \<longleftrightarrow>
     (\<exists>uid now h. calculate_event_hash (new_event tid d head uid now) = Inr h \<and>
        e = (new_event tid d head uid now)\<lparr>te_event_hash := h\<rparr>)"

lemma is_new_eventI [simp]:
  "calculate_event_hash (new_event tid d head uid now) = Inr h \<Longrightarrow>
   is_new_event tid d head ((new_event tid d head uid now)\<lparr>te_event_hash := h\<rparr>)"
  by (auto simp: is_new_event_def)

lemma append_event_cases:
  assumes "append_event d s = (r, t)"
  obtains
    (raised) e where "r = Inl e" "cur t = cur s" "db t = db s" "more t = more s"
  | (replayed) e fp where "r = Inr e" "t = s"
      "find_replay (db s) (ts_trace_id (cur s)) d = Inr (fp, Some e)"
      "dget (ms_runs (db s)) (ts_trace_id (cur s)) \<noteq> None"
  | (appended) e head fp where "r = Inr e" "append_ready s d head fp"
      "is_new_event (ts_trace_id (cur s)) d head e"
      "cur t = appended_cur (cur s) e" "db t = appended_db (db s) (cur s) d fp e"
      "more t = more s"
proof -
  let ?tid = "ts_trace_id (cur s)"
  note run = assms [unfolded append_event_def Let_def, simplified]
  consider "dget (ms_runs (db s)) ?tid = None"
    | stored where "dget (ms_runs (db s)) ?tid = Some stored"
        "ts_storage_revision (cur s) \<noteq> ts_storage_revision stored"
    | (go) stored where "dget (ms_runs (db s)) ?tid = Some stored"
        "assert_revision (cur s) stored = Inr ()"
        "ts_storage_revision (cur s) = ts_storage_revision stored"
    by (cases "dget (ms_runs (db s)) ?tid") (auto simp: assert_revision_def)
  then show ?thesis
  proof cases
    case go
    note run = run [unfolded go(1), simplified, unfolded go(2), simplified]
    show ?thesis
    proof (cases "find_replay (db s) ?tid d")
      case (Inl e)
      then show ?thesis using run raised by auto
    next
      case (Inr p)
      then obtain fp replay where p: "find_replay (db s) ?tid d = Inr (fp, replay)"
        by (cases p) simp
      note run = run [unfolded p, simplified]
      show ?thesis
      proof (cases replay)
        case (Some e)
        then show ?thesis using run p go replayed by auto
      next
        case fresh: None
        note run = run [unfolded fresh, simplified]
        consider "dget (ms_heads (db s)) ?tid = None"
          | head where "dget (ms_heads (db s)) ?tid = Some head"
              "ts_next_sequence (cur s) \<noteq> lh_sequence head + 1"
          | (head) head where "dget (ms_heads (db s)) ?tid = Some head"
              "ts_next_sequence (cur s) = lh_sequence head + 1"
          by (cases "dget (ms_heads (db s)) ?tid") auto
        then show ?thesis
        proof cases
          case head
          have ready: "append_ready s d head fp"
            using head go p fresh by (simp add: append_ready_def)
          show ?thesis
            using run head ready raised appended [OF _ ready]
            by (auto simp: record_event_run' split: sum.splits)
        qed (use run raised in auto)
      qed
    qed
  qed (use run raised in \<open>auto simp: assert_revision_def\<close>)
qed

section \<open>Preservation\<close>

text \<open>Writing one run, with its head and possibly a new replay entry, keeps the store in order.\<close>

lemma store_ok_put:
  assumes "store_ok ms"
    and runs: "ms_runs ms' = dput tid st' (ms_runs ms)"
    and heads: "\<And>t. t \<noteq> tid \<Longrightarrow> dget (ms_heads ms') t = dget (ms_heads ms) t"
    and run: "run_ok ms' tid st'"
    and old: "\<And>st. dget (ms_runs ms) tid = Some st \<Longrightarrow> set (ts_events st) \<subseteq> set (ts_events st')"
    and replays: "\<And>t k fp e. dget (ms_event_replays ms') (t, k) = Some (fp, e) \<Longrightarrow>
      dget (ms_event_replays ms) (t, k) = Some (fp, e) \<or>
      t = tid \<and> te_idempotency_key e = Some k \<and> e \<in> set (ts_events st')"
  shows "store_ok ms'"
proof -
  have "run_ok ms' t st" if "dget (ms_runs ms') t = Some st" for t st
    using that run heads [of t] store_okD [OF assms(1), of t]
    by (auto simp: runs run_ok_def split: if_splits)
  moreover have "replay_ok ms' t k e" if "dget (ms_event_replays ms') (t, k) = Some (fp, e)"
    for t k fp e
    using replays [OF that] assms(1) old
    by (fastforce simp: store_ok_def replay_ok_def runs)
  ultimately show ?thesis by (simp add: store_ok_def)
qed

lemma attached_put [simp]:
  "ms_runs ms' = dput (ts_trace_id st) st runs \<Longrightarrow> attached ms' st"
  by (simp add: attached_def)

lemma grows_put:
  assumes "ms_runs ms' = dput tid st' (ms_runs ms)"
    and "\<And>st. dget (ms_runs ms) tid = Some st \<Longrightarrow>
      prefix (ts_events st) (ts_events st') \<and> prefix (ts_decisions st) (ts_decisions st')"
    and "\<And>k v. dget (ms_event_replays ms) k = Some v \<Longrightarrow> dget (ms_event_replays ms') k = Some v"
  shows "grows ms ms'"
  using assms by (auto simp: grows_def)

text \<open>Assignments outside the ledger's fields.\<close>

definition ledger_fields ::
  "trajectory_state \<Rightarrow> string \<times> trace_event list \<times> decision list \<times> int \<times> int" where
  "ledger_fields st =
     (ts_trace_id st, ts_events st, ts_decisions st, ts_next_sequence st,
      ts_storage_revision st)"

lemma attached_cong: "ledger_fields st = ledger_fields st' \<Longrightarrow> attached ms st = attached ms st'"
  by (simp add: attached_def ledger_fields_def)

lemma keeps_set_cur [keeps]:
  "(\<And>st. ledger_fields (f st) = ledger_fields st) \<Longrightarrow> keepsI (ledger_from ms0) (set_cur f)"
  by (rule keepsI_updM)
    (auto simp: ledger_from_def ledger_inv_def intro: attached_cong [THEN iffD1])

lemma persisted_run_ok:
  assumes "ledger_inv s" "dget (ms_runs (db s)) (ts_trace_id (cur s)) = Some stored"
    and "ts_storage_revision (cur s) = ts_storage_revision stored"
  shows "run_ok (db s) (ts_trace_id (cur s)) (cur s)"
    "ts_events (cur s) = ts_events stored" "ts_decisions (cur s) = ts_decisions stored"
  using assms attachedD [of "db s" "cur s" stored] store_okD [of "db s" _ stored]
  by (auto simp: ledger_inv_def run_ok_def)

lemma is_new_event_fields:
  assumes "is_new_event tid d head e"
  shows "calculate_event_hash e = Inr (te_event_hash e)"
    "te_sequence e = lh_sequence head + 1" "te_trace_id e = tid"
    "te_schema_version e = LEDGER_SCHEMA_VERSION" "te_previous_hash e = lh_event_hash head"
    "te_idempotency_key e = ed_idempotency_key d"
proof -
  obtain uid now h where e: "calculate_event_hash (new_event tid d head uid now) = Inr h"
    "e = (new_event tid d head uid now)\<lparr>te_event_hash := h\<rparr>"
    using assms by (auto simp: is_new_event_def)
  show "calculate_event_hash e = Inr (te_event_hash e)" using e by simp
qed (use assms in \<open>auto simp: is_new_event_def new_event_def\<close>)

lemma new_event_extends:
  assumes "is_new_event tid d head e" "head_ok head es" "linked tid 1 GENESIS_HASH es"
  shows "linked tid 1 GENESIS_HASH (es @ [e])"
    "head_ok (head_after tid e (Suc (length es))) (es @ [e])"
    "te_sequence e = int (length es) + 1" "te_idempotency_key e = ed_idempotency_key d"
  using assms is_new_event_fields [OF assms(1)]
  by (simp_all add: linked_append event_ok_def head_ok_def head_after_def)

lemma append_keeps:
  assumes inv: "ledger_from ms0 s" and "append_event d s = (r, t)"
  shows "ledger_from ms0 t"
  using assms(2)
proof (cases rule: append_event_cases)
  case (appended e head fp)
  let ?tid = "ts_trace_id (cur s)"
  let ?es = "ts_events (cur s)"
  have li: "ledger_inv s" and so: "store_ok (db s)"
    using inv by (simp_all add: ledger_from_def ledger_inv_def)
  obtain stored where stored: "dget (ms_runs (db s)) ?tid = Some stored"
    "ts_storage_revision (cur s) = ts_storage_revision stored"
    using appended(2) by (auto simp: append_ready_def)
  note cur = persisted_run_ok [OF li stored]
  have hd: "dget (ms_heads (db s)) ?tid = Some head"
    using appended(2) by (simp add: append_ready_def)
  have "head_ok head ?es" "linked ?tid 1 GENESIS_HASH ?es" "0 \<le> ts_storage_revision (cur s)"
    using cur(1) hd by (auto simp: run_ok_def)
  note ext = new_event_extends [OF appended(3) this(1,2)] this(3)
  have runs: "ms_runs (db t) = dput ?tid (cur t) (ms_runs (db s))"
    using appended(4,5) by (simp add: appended_db_def Let_def)
  have "store_ok (db t)"
  proof (rule store_ok_put [OF so runs])
    show "run_ok (db t) ?tid (cur t)"
      using ext appended(4,5) by (simp add: run_ok_def appended_cur_def appended_db_def Let_def)
    show "dget (ms_event_replays (db s)) (t', k) = Some (fp', e') \<or>
        t' = ?tid \<and> te_idempotency_key e' = Some k \<and> e' \<in> set (ts_events (cur t))"
      if "dget (ms_event_replays (db t)) (t', k) = Some (fp', e')" for t' k fp' e'
      using that ext appended(4,5)
      by (auto simp: appended_db_def appended_cur_def Let_def split: option.splits if_splits)
  qed (use appended(4,5) stored cur(2) in \<open>auto simp: appended_db_def appended_cur_def Let_def\<close>)
  moreover have "grows (db s) (db t)"
    by (rule grows_put [OF runs])
      (use appended(2,4,5) stored cur(2,3) in \<open>auto simp: appended_cur_def appended_db_def Let_def
        append_ready_def find_replay_def split: option.splits sum.splits if_splits\<close>)
  moreover have "attached (db t) (cur t)"
    using runs appended(4) by (simp add: appended_cur_def)
  ultimately show ?thesis
    using inv by (auto simp: ledger_from_def ledger_inv_def intro: grows_trans)
qed (use inv in \<open>auto simp: ledger_from_def ledger_inv_def\<close>)

lemma append_event_keeps [keeps]: "keepsI (ledger_from ms0) (append_event d)"
  by (rule keepsII) (rule append_keeps)

text \<open>
  Operations that mutate the caller's object outside the event list and persist it: the
  decision list may grow, other tables may change.
\<close>

lemma persist_keeps:
  assumes inv: "ledger_from ms0 s"
    and stored: "dget (ms_runs (db s)) (ts_trace_id (cur s)) = Some stored"
      "ts_storage_revision (cur s) = ts_storage_revision stored"
    and c: "cur t = (cur s)\<lparr>ts_decisions := ts_decisions (cur s) @ ds,
      ts_storage_revision := ts_storage_revision (cur s) + 1\<rparr>"
    and runs: "ms_runs (db t) = dput (ts_trace_id (cur s)) (cur t) (ms_runs (db s))"
    and rest: "ms_heads (db t) = ms_heads (db s)"
      "ms_event_replays (db t) = ms_event_replays (db s)"
  shows "ledger_from ms0 t"
proof -
  have li: "ledger_inv s" and so: "store_ok (db s)"
    using inv by (simp_all add: ledger_from_def ledger_inv_def)
  note cur = persisted_run_ok [OF li stored]
  have "store_ok (db t)"
    by (rule store_ok_put [OF so runs])
      (use cur stored rest c in \<open>auto simp: run_ok_def\<close>)
  moreover have "grows (db s) (db t)"
    by (rule grows_put [OF runs]) (use c stored cur rest in auto)
  moreover have "attached (db t) (cur t)"
    using runs c by simp
  ultimately show ?thesis
    using inv by (auto simp: ledger_from_def ledger_inv_def intro: grows_trans)
qed

lemma append_decision_keeps [keeps]: "keepsI (ledger_from ms0) (append_decision dec)"
proof (rule keepsII)
  fix s t :: "'a store_sys_scheme" and r
  assume inv: "ledger_from ms0 s" and run: "append_decision dec s = (r, t)"
  show "ledger_from ms0 t"
  proof (cases "t = s")
    case False
    with run obtain stored where
      "dget (ms_runs (db s)) (ts_trace_id (cur s)) = Some stored"
      "ts_storage_revision (cur s) = ts_storage_revision stored"
      and t: "(r, t) = thenM (set_cur (\<lambda>st. st\<lparr>ts_decisions := ts_decisions st @ [dec]\<rparr>))
                persist_state s"
      by (auto simp: append_decision_def assert_revision_def Let_def
          split: option.splits if_splits)
    then show ?thesis
      by (intro persist_keeps [OF inv, of stored t "[dec]"])
        (auto simp: persist_state_def Let_def)
  qed (use inv in simp)
qed

lemma add_approval_keeps [keeps]: "keepsI (ledger_from ms0) (add_approval a)"
proof (rule keepsII)
  fix s t :: "'a store_sys_scheme" and r
  assume inv: "ledger_from ms0 s" and run: "add_approval a s = (r, t)"
  show "ledger_from ms0 t"
  proof (cases "t = s")
    case False
    with run obtain stored where
      "dget (ms_runs (db s)) (ts_trace_id (cur s)) = Some stored"
      "ts_storage_revision (cur s) = ts_storage_revision stored"
      and t: "(r, t) = thenM (set_db (\<lambda>ms. ms\<lparr>ms_approvals :=
                dput (ar_approval_id a) a (ms_approvals ms)\<rparr>)) persist_state s"
      by (auto simp: add_approval_def assert_revision_def Let_def split: option.splits if_splits)
    then show ?thesis
      by (intro persist_keeps [OF inv, of stored t "[]"])
        (auto simp: persist_state_def Let_def)
  qed (use inv in simp)
qed

definition created :: "'z store_sys_scheme \<Rightarrow> 'z store_sys_scheme \<Rightarrow> bool" where
  "created s t \<longleftrightarrow>
     (let tid = ts_trace_id (cur s); st = (cur s)\<lparr>ts_storage_revision := 0\<rparr> in
      dget (ms_runs (db s)) tid = None \<and> ts_events st = [] \<and> ts_next_sequence st = 1 \<and>
      cur t = st \<and>
      (\<exists>now. db t = (db s)\<lparr>ms_runs := dput tid st (ms_runs (db s)),
         ms_heads := dput tid (genesis_head tid now) (ms_heads (db s))\<rparr>))"

lemma create_run_cases:
  assumes "create_run s = (r, t)"
  obtains (raised) e where "r = Inl e" "t = s"
  | (created) "r = Inr \<lparr>st_state = cur t, st_revision = 0\<rparr>" "created s t"
proof (cases "dmember (ts_trace_id (cur s)) (ms_runs (db s)) \<or> ts_events (cur s) \<noteq> [] \<or>
    ts_next_sequence (cur s) \<noteq> 1")
  case True
  then have "\<exists>e. r = Inl e" "t = s"
    using assms by (auto simp: create_run_def Let_def split: if_splits)
  then show ?thesis using raised by blast
next
  case False
  then have "created s t" "r = Inr \<lparr>st_state = cur t, st_revision = 0\<rparr>"
    using assms
    by (auto simp: create_run_def created_def dmember_def make_stored_trace_def Let_def)
  then show ?thesis using created by blast
qed

lemma created_ok:
  assumes "created s t" "store_ok (db s)" "grows ms0 (db s)"
  shows "ledger_from ms0 t"
proof -
  let ?tid = "ts_trace_id (cur s)"
  let ?st = "(cur s)\<lparr>ts_storage_revision := 0\<rparr>"
  obtain now where new: "dget (ms_runs (db s)) ?tid = None"
      "ts_events (cur s) = []" "ts_next_sequence (cur s) = 1"
    and t: "cur t = ?st"
      "db t = (db s)\<lparr>ms_runs := dput ?tid ?st (ms_runs (db s)),
          ms_heads := dput ?tid (genesis_head ?tid now) (ms_heads (db s))\<rparr>"
    using assms(1) by (auto simp: created_def Let_def)
  have runs: "ms_runs (db t) = dput ?tid ?st (ms_runs (db s))" by (simp add: t)
  have "store_ok (db t)"
    by (rule store_ok_put [OF assms(2) runs])
      (use new in \<open>auto simp: t run_ok_def genesis_head_def head_ok_def\<close>)
  moreover have "grows (db s) (db t)"
    by (rule grows_put [OF runs]) (use new in \<open>simp_all add: t\<close>)
  moreover have "attached (db t) (cur t)" by (simp add: t)
  ultimately show ?thesis
    using assms(3) by (auto simp: ledger_from_def ledger_inv_def intro: grows_trans)
qed

lemma create_run_keeps [keeps]: "keepsI (ledger_from ms0) create_run"
proof (rule keepsII)
  fix s t :: "'a store_sys_scheme" and r
  assume inv: "ledger_from ms0 s" and "create_run s = (r, t)"
  from this(2) show "ledger_from ms0 t"
    by (cases rule: create_run_cases)
      (use inv in \<open>auto simp: ledger_from_def ledger_inv_def dest: created_ok\<close>)
qed

text \<open>Writes to the other tables.\<close>

lemma ledger_from_frame:
  assumes "ledger_from ms0 s" "cur t = cur s" "ms_runs (db t) = ms_runs (db s)"
    "ms_heads (db t) = ms_heads (db s)" "ms_event_replays (db t) = ms_event_replays (db s)"
  shows "ledger_from ms0 t"
  using assms
  by (simp add: ledger_from_def ledger_inv_def store_ok_def run_ok_def replay_ok_def
      attached_def grows_def)

lemma keeps_other_tables [keeps]:
  "keepsI (ledger_from ms0) (set_db (\<lambda>ms. ms\<lparr>ms_approvals := f ms\<rparr>))"
  "keepsI (ledger_from ms0) (set_db (\<lambda>ms. ms\<lparr>ms_approval_replays := g ms\<rparr>))"
  "keepsI (ledger_from ms0) (set_db (\<lambda>ms. ms\<lparr>ms_effect_receipts := h ms\<rparr>))"
  by (rule keepsI_updM, erule ledger_from_frame, simp_all)+

lemma replace_approval_keeps [keeps]: "keepsI (ledger_from ms0) (replace_approval a)"
  unfolding replace_approval_def by (intro keeps)

lemma record_approval_replay_keeps [keeps]:
  "keepsI (ledger_from ms0) (record_approval_replay aid key fp)"
  unfolding record_approval_replay_def by (intro keeps)

lemma put_effect_receipt_keeps [keeps]: "keepsI (ledger_from ms0) (put_effect_receipt rc)"
  unfolding put_effect_receipt_def by (intro keeps)

section \<open>Command sequences\<close>

text \<open>
  What a process does with the repository.  \<open>Load\<close> replaces the caller's object by a fresh copy,
  \<open>Assign\<close> is any assignment to its fields outside the ledger's, \<open>Create\<close> starts a run with a
  new object, which is dropped when \<open>create_run\<close> raises.
\<close>

datatype store_cmd =
    Create trajectory_state
  | Load string
  | Assign trajectory_state
  | AppendEvent event_description
  | AppendDecision decision
  | AddApproval approval_record
  | ReplaceApproval approval_record
  | RecordReplay string string string
  | PutReceipt effect_receipt

definition assign_fields :: "trajectory_state \<Rightarrow> trajectory_state \<Rightarrow> trajectory_state" where
  "assign_fields v st =
     v\<lparr>ts_trace_id := ts_trace_id st, ts_events := ts_events st,
       ts_decisions := ts_decisions st, ts_next_sequence := ts_next_sequence st,
       ts_storage_revision := ts_storage_revision st\<rparr>"

definition create_object :: "trajectory_state \<Rightarrow> ('z, unit) op" where
  "create_object st s =
     (case create_run (s\<lparr>cur := st\<rparr>) of
        (Inl e, t) \<Rightarrow> (Inl e, t\<lparr>cur := cur s\<rparr>)
      | (Inr _, t) \<Rightarrow> (Inr (), t))"

fun exec_cmd :: "store_cmd \<Rightarrow> ('z, unit) op" where
  "exec_cmd (Create st) = create_object st"
| "exec_cmd (Load tid) =
     bindM (getM (\<lambda>s. get_state_for_update (db s) tid)) (\<lambda>r.
     bindM (liftR r) (\<lambda>st. set_cur (\<lambda>_. st)))"
| "exec_cmd (Assign v) = set_cur (assign_fields v)"
| "exec_cmd (AppendEvent d) = bindM (append_event d) (\<lambda>_. returnM ())"
| "exec_cmd (AppendDecision d) = append_decision d"
| "exec_cmd (AddApproval a) = add_approval a"
| "exec_cmd (ReplaceApproval a) = replace_approval a"
| "exec_cmd (RecordReplay aid key fp) = record_approval_replay aid key fp"
| "exec_cmd (PutReceipt r) = bindM (put_effect_receipt r) (\<lambda>_. returnM ())"

lemma create_object_keeps [keeps]: "keepsI (ledger_from ms0) (create_object st)"
proof (rule keepsII)
  fix s t :: "'a store_sys_scheme" and r
  assume inv: "ledger_from ms0 s" and run: "create_object st s = (r, t)"
  obtain q u where q: "create_run (s\<lparr>cur := st\<rparr>) = (q, u)" by fastforce
  then show "ledger_from ms0 t"
  proof (cases rule: create_run_cases)
    case (raised e)
    then show ?thesis using inv run q by (simp add: create_object_def)
  next
    case created
    then have "t = u" using run q by (simp add: create_object_def)
    then show ?thesis
      using created_ok [OF created(2), of ms0] inv by (simp add: ledger_from_def ledger_inv_def)
  qed
qed

lemma load_keeps [keeps]: "keepsI (ledger_from ms0) (exec_cmd (Load tid))"
proof (rule keepsII)
  fix s t :: "'a store_sys_scheme" and r
  assume inv: "ledger_from ms0 s" and run: "exec_cmd (Load tid) s = (r, t)"
  show "ledger_from ms0 t"
  proof (cases "dget (ms_runs (db s)) tid")
    case None
    then show ?thesis
      using inv run by (auto simp: get_state_for_update_def get_state_def)
  next
    case (Some st)
    have "ts_trace_id st = tid"
      using inv Some store_okD by (auto simp: ledger_from_def ledger_inv_def run_ok_def)
    then show ?thesis
      using inv run Some
      by (auto simp: get_state_for_update_def get_state_def ledger_from_def ledger_inv_def
          attached_def)
  qed
qed

lemma ledger_fields_assign [simp]: "ledger_fields (assign_fields v st) = ledger_fields st"
  by (simp add: ledger_fields_def assign_fields_def)

lemma exec_cmd_keeps: "keepsI (ledger_from ms0) (exec_cmd c)"
  by (cases c) (simp_all add: keeps del: exec_cmd.simps(2))

definition ms_history :: "'z store_sys_scheme \<Rightarrow> string \<Rightarrow> trace_event list option" where
  "ms_history s tid = map_option ts_events (dget (ms_runs (db s)) tid)"

definition ms_verified :: "'z store_sys_scheme \<Rightarrow> string \<Rightarrow> bool" where
  "ms_verified s tid \<longleftrightarrow> (\<exists>v. verify_trace (db s) tid = Inr v \<and> vr_valid v)"

text \<open>Any system of operations that keeps the ledger is an append-only repository.\<close>

lemma append_only_store:
  fixes exec :: "'c \<Rightarrow> ('z, 'r) op"
  assumes "\<And>ms0 c. keepsI (ledger_from ms0) (exec c)"
  shows "append_only ledger_inv (\<lambda>s t. grows (db s) (db t)) exec ms_history ms_verified"
proof
  fix s t u :: "'z store_sys_scheme" and c tid h
  show "grows (db s) (db s)" by simp
  show "grows (db s) (db t) \<Longrightarrow> grows (db t) (db u) \<Longrightarrow> grows (db s) (db u)"
    by (rule grows_trans)
  show "ledger_inv s \<Longrightarrow> ledger_inv (snd (exec c s))"
    "ledger_inv s \<Longrightarrow> grows (db s) (db (snd (exec c s)))"
    using assms [of "db s" c] by (auto simp: keepsI_def ledger_from_def)
  show "\<exists>h'. ms_history t tid = Some h' \<and> prefix h h'"
    if "grows (db s) (db t)" "ms_history s tid = Some h"
    using that by (fastforce simp: grows_def ms_history_def)
  show "ms_verified s tid" if "ledger_inv s" "ms_history s tid = Some h"
    using that
    by (auto simp: ms_verified_def ms_history_def ledger_inv_def elim: store_ok_verifies)
qed

interpretation repo: append_only ledger_inv "\<lambda>s t. grows (db s) (db t)"
  "exec_cmd :: store_cmd \<Rightarrow> ('z, unit) op" ms_history ms_verified
  by (rule append_only_store) (rule exec_cmd_keeps)

end
