(* ===== verification/Commitments.thy ===== *)
theory Commitments
  imports Store_Invariants
begin

text \<open>
  \<open>packages/commitments/service.py\<close>: the hashes that bind a prepared commitment to its
  arguments and to the state it was prepared in, and its construction.
\<close>

definition prepared_action_hash :: "prepared_action \<Rightarrow> string" where
  "prepared_action_hash p = canonical_hash (PDict (pa_arguments p))"

definition prepared_state_payload :: "trajectory_state \<Rightarrow> prepared_action \<Rightarrow> pydict" where
  "prepared_state_payload st p =
     [(''trace_id'', PStr (ts_trace_id st)), (''order_id'', PStr (ts_order_id st)),
      (''mandate_id'', PStr (pa_mandate_id p)), (''policy_version'', PStr (pa_policy_version p)),
      (''prepared_action_id'', PStr (pa_prepared_action_id p)),
      (''quote_id'', PStr (pa_resource_id p)), (''amount_minor'', PInt (pa_amount_minor p)),
      (''currency'', PStr (pa_currency p)),
      (''committed_minor'', PInt (pa_spend_committed_at_prepare_minor p)),
      (''reserved_before_minor'', PInt (pa_spend_reserved_before_minor p)),
      (''reserved_after_minor'', PInt (pa_spend_reserved_after_minor p)),
      (''selected_quote_id'', PStr (pa_resource_id p))]"

definition prepared_state_hash :: "trajectory_state \<Rightarrow> prepared_action \<Rightarrow> string" where
  "prepared_state_hash st p = canonical_hash (PDict (prepared_state_payload st p))"

text \<open>\<open>timedelta(minutes=15)\<close> in microseconds.\<close>

definition commitment_ttl :: int where "commitment_ttl = 15 * 60 * 1000000"

definition build_prepared_action ::
  "trajectory_state \<Rightarrow> string \<Rightarrow> string \<Rightarrow> int \<Rightarrow> string \<Rightarrow> agent_name \<Rightarrow> ('z, prepared_action) op"
  where
  "build_prepared_action st prepared_action_id quote_id amount_minor currency prepared_by =
     (case ts_mandate st of
        None \<Rightarrow> raiseM (PyExc ValueError
                 ''A shipment mandate is required to prepare a commitment.'')
      | Some mandate \<Rightarrow>
          let reserved_before = ts_spend_reserved_minor st;
              reserved_after = reserved_before + amount_minor;
              arguments =
                [(''prepared_action_id'', PStr prepared_action_id), (''quote_id'', PStr quote_id),
                 (''amount_minor'', PInt amount_minor), (''currency'', PStr currency)];
              action_hash = canonical_hash (PDict arguments)
          in bindM utc_now (\<lambda>now.
             let p =
               \<lparr>pa_prepared_action_id = prepared_action_id, pa_trace_id = ts_trace_id st,
                pa_tool_name = ''confirm_freight_booking'', pa_resource_id = quote_id,
                pa_amount_minor = amount_minor, pa_currency = currency,
                pa_prepared_by = prepared_by, pa_arguments = arguments,
                pa_action_hash = action_hash, pa_state_hash = [],
                pa_mandate_id = sm_mandate_id mandate, pa_policy_version = ts_policy_version st,
                pa_spend_committed_at_prepare_minor = ts_spend_committed_minor st,
                pa_spend_reserved_before_minor = reserved_before,
                pa_spend_reserved_after_minor = reserved_after, pa_status = CS_PREPARED,
                pa_expires_at = now + commitment_ttl\<rparr>
             in returnM (p\<lparr>pa_state_hash := prepared_state_hash st p\<rparr>)))"

text \<open>What a prepared action was bound to when it was built.\<close>

definition bound_action :: "trajectory_state \<Rightarrow> prepared_action \<Rightarrow> bool" where
  "bound_action st p \<longleftrightarrow>
     pa_trace_id p = ts_trace_id st \<and> pa_action_hash p = prepared_action_hash p \<and>
     pa_state_hash p = prepared_state_hash st p \<and>
     pa_spend_reserved_after_minor p = pa_spend_reserved_before_minor p + pa_amount_minor p"

lemma prepared_state_hash_cong:
  "ts_trace_id st = ts_trace_id st' \<Longrightarrow> ts_order_id st = ts_order_id st' \<Longrightarrow>
   prepared_state_hash st p = prepared_state_hash st' p"
  by (simp add: prepared_state_hash_def prepared_state_payload_def)

lemma prepared_hashes_ignore [simp]:
  "prepared_state_hash st (p\<lparr>pa_state_hash := h\<rparr>) = prepared_state_hash st p"
  "prepared_action_hash (p\<lparr>pa_state_hash := h\<rparr>) = prepared_action_hash p"
  "prepared_state_hash st (p\<lparr>pa_status := c\<rparr>) = prepared_state_hash st p"
  "prepared_action_hash (p\<lparr>pa_status := c\<rparr>) = prepared_action_hash p"
  by (simp_all add: prepared_state_hash_def prepared_state_payload_def prepared_action_hash_def)

lemma build_prepared_action_cases:
  assumes "build_prepared_action st pid quote amount currency by s = (r, t)"
  obtains (no_mandate) "ts_mandate st = None" "t = s" "r = Inl (PyExc ValueError
      ''A shipment mandate is required to prepare a commitment.'')"
  | (built) p m where "ts_mandate st = Some m" "r = Inr p" "bound_action st p"
      "pa_prepared_action_id p = pid" "pa_resource_id p = quote" "pa_amount_minor p = amount"
      "pa_currency p = currency" "pa_prepared_by p = by" "pa_status p = CS_PREPARED"
      "pa_mandate_id p = sm_mandate_id m" "pa_policy_version p = ts_policy_version st"
      "pa_tool_name p = ''confirm_freight_booking''"
      "pa_arguments p = [(''prepared_action_id'', PStr pid), (''quote_id'', PStr quote),
         (''amount_minor'', PInt amount), (''currency'', PStr currency)]"
      "pa_spend_committed_at_prepare_minor p = ts_spend_committed_minor st"
      "pa_spend_reserved_before_minor p = ts_spend_reserved_minor st"
      "pa_expires_at p = wd_clock (wld s) (wd_clock_pos (wld s)) + commitment_ttl"
      "t = s\<lparr>wld := (wld s)\<lparr>wd_clock_pos := Suc (wd_clock_pos (wld s))\<rparr>\<rparr>"
proof (cases "ts_mandate st")
  case None
  then show ?thesis using assms no_mandate by (simp add: build_prepared_action_def)
next
  case (Some m)
  define q where "q = (case r of Inr p \<Rightarrow> p | Inl _ \<Rightarrow> undefined)"
  show ?thesis
    by (rule built [OF Some, of q])
      (use assms Some in \<open>auto simp: q_def build_prepared_action_def Let_def bound_action_def
         prepared_action_hash_def prepared_state_hash_def prepared_state_payload_def\<close>)
qed

lemma build_prepared_action_keeps [keeps]:
  "keepsI (ledger_from ms0) (build_prepared_action st pid quote amount currency by)"
  unfolding build_prepared_action_def Let_def by (intro keeps)

end
