(* ===== verification/Keyspace.thy ===== *)
theory Keyspace
  imports Domain Canonical
begin

text \<open>
  \<open>packages/storage/keyspace.py\<close>: the validated keys of the durable table.  Event keys sort
  like their sequence numbers, keys of different record kinds never coincide, and a key
  determines the identifiers it was built from.
\<close>

section \<open>Construction\<close>

definition in_range :: "nat \<Rightarrow> nat \<Rightarrow> char \<Rightarrow> bool" where
  "in_range a b c \<longleftrightarrow> a \<le> (of_char c :: nat) \<and> (of_char c :: nat) \<le> b"

definition alnum :: "char \<Rightarrow> bool" where
  "alnum c \<longleftrightarrow> in_range 65 90 c \<or> in_range 97 122 c \<or> in_range 48 57 c"

text \<open>\<open>^[A-Za-z0-9][A-Za-z0-9._:-]{0,127}$\<close> and \<open>^[A-Za-z0-9][A-Za-z0-9._-]{0,63}$\<close>.\<close>

definition safe_text :: "char set \<Rightarrow> nat \<Rightarrow> string \<Rightarrow> bool" where
  "safe_text extra n s \<longleftrightarrow>
     (case s of
        [] \<Rightarrow> False
      | c # cs \<Rightarrow> alnum c \<and> length cs \<le> n \<and> list_all (\<lambda>d. alnum d \<or> d \<in> extra) cs)"

abbreviation config_error :: "string \<Rightarrow> exc" where
  "config_error m \<equiv> Manifest StorageConfigurationError m"

definition safe_identifier :: "string \<Rightarrow> string \<Rightarrow> string result" where
  "safe_identifier v label =
     (if CHR ''#'' \<in> set v
        then Inl (config_error (label @ '' cannot contain '' @ [squote, CHR ''#'', squote] @ ''.''))
      else if \<not> safe_text {CHR ''.'', CHR ''_'', CHR '':'', CHR ''-''} 127 v
        then Inl (config_error (label @ '' must use 1-128 safe identifier characters.''))
      else Inr v)"

definition reserved_namespaces :: "string list" where
  "reserved_namespaces = [''prod'', ''production'', ''all'', ''*'']"

definition validate_namespace :: "bool \<Rightarrow> string \<Rightarrow> string result" where
  "validate_namespace allow_reserved v =
     (if \<not> safe_text {CHR ''.'', CHR ''_'', CHR ''-''} 63 v
        then Inl (config_error
               ''Demo namespace must use 1-64 letters, digits, dots, underscores, or dashes.'')
      else if \<not> allow_reserved \<and> casefold v \<in> set reserved_namespaces
        then Inl (config_error ''The selected demo namespace is reserved.'')
      else Inr v)"

definition trace_pk :: "string \<Rightarrow> string result" where
  "trace_pk trace_id = bindR (safe_identifier trace_id ''Trace ID'') (\<lambda>i. Inr (''TRACE#'' @ i))"

definition event_sk :: "int \<Rightarrow> string result" where
  "event_sk sequence =
     (if sequence < 1 then Inl (config_error ''Event sequence must be a positive integer.'')
      else if sequence > 999999999999
        then Inl (config_error ''Event sequence exceeds the key format limit.'')
      else Inr (''EVENT#'' @ zfill 12 (show_nat (nat sequence))))"

text \<open>
  \<open>isoformat(timespec="microseconds")\<close> in UTC with the offset written as \<open>Z\<close>, which is the
  text that canonical JSON uses for an instant.
\<close>

definition utc_stamp :: "pydatetime \<Rightarrow> string \<Rightarrow> string result" where
  "utc_stamp t label =
     (case t of
        Naive _ \<Rightarrow> Inl (config_error (label @ '' timestamp must include a timezone.''))
      | Aware i \<Rightarrow> Inr (iso_micro i))"

definition decision_sk :: "pydatetime \<Rightarrow> string \<Rightarrow> string result" where
  "decision_sk created_at decision_id =
     bindR (utc_stamp created_at ''Decision'') (\<lambda>t.
     bindR (safe_identifier decision_id ''Decision ID'') (\<lambda>i. Inr (''DECISION#'' @ t @ ''#'' @ i)))"

definition approval_sk :: "string \<Rightarrow> string result" where
  "approval_sk approval_id =
     bindR (safe_identifier approval_id ''Approval ID'') (\<lambda>i. Inr (''APPROVAL#'' @ i))"

definition approval_pointer_pk :: "string \<Rightarrow> string result" where
  "approval_pointer_pk approval_id = approval_sk approval_id"

definition namespace_pk :: "string \<Rightarrow> string result" where
  "namespace_pk namespace =
     bindR (validate_namespace False namespace) (\<lambda>n. Inr (''DEMO#'' @ n))"

definition namespace_trace_sk :: "string \<Rightarrow> string result" where
  "namespace_trace_sk trace_id =
     bindR (safe_identifier trace_id ''Trace ID'') (\<lambda>i. Inr (''TRACE#'' @ i))"

definition namespace_approval_sk :: "pydatetime \<Rightarrow> string \<Rightarrow> string result" where
  "namespace_approval_sk created_at approval_id =
     bindR (utc_stamp created_at ''Approval'') (\<lambda>t.
     bindR (safe_identifier approval_id ''Approval ID'') (\<lambda>i. Inr (''APPROVAL#'' @ t @ ''#'' @ i)))"

definition opaque_key_hash :: "string \<Rightarrow> string result" where
  "opaque_key_hash v =
     (if v = [] then Inl (config_error ''An idempotency key cannot be empty.'')
      else Inr (sha256_hex v))"

definition storage_hash :: "string \<Rightarrow> string result" where
  "storage_hash v =
     (if length v = 64 \<and> list_all is_lower_hex v then Inr v
      else Inl (config_error ''Storage key hash must be lowercase SHA-256 hex.''))"

definition event_replay_sk :: "string \<Rightarrow> string result" where
  "event_replay_sk h = bindR (storage_hash h) (\<lambda>k. Inr (''REPLAY#EVENT#'' @ k))"

definition approval_replay_sk :: "string \<Rightarrow> string result" where
  "approval_replay_sk h = bindR (storage_hash h) (\<lambda>k. Inr (''REPLAY#APPROVAL#'' @ k))"

definition effect_sk :: "string \<Rightarrow> string result" where
  "effect_sk h = bindR (storage_hash h) (\<lambda>k. Inr (''EFFECT#'' @ k))"

section \<open>Order of event keys\<close>

lemma read_digits_shift: "read_digits a xs = a * 10 ^ length xs + read_digits 0 xs"
proof (induction xs arbitrary: a)
  case (Cons x xs)
  show ?case using Cons [of "10 * a + digit_val x"] Cons [of "digit_val x"] by (simp add: algebra_simps)
qed simp

lemma digit_val_less: "is_digit c \<Longrightarrow> digit_val c < 10"
  by (auto simp: is_digit_def digit_val_def)

lemma digit_val_le_iff: "is_digit c \<Longrightarrow> is_digit d \<Longrightarrow> digit_val c < digit_val d \<longleftrightarrow> c < d"
  by (auto simp: is_digit_def digit_val_def less_char_def)

lemma read_digits_less: "list_all is_digit xs \<Longrightarrow> read_digits 0 xs < 10 ^ length xs"
proof (induction xs)
  case (Cons x xs)
  then have "read_digits 0 xs < 10 ^ length xs" "digit_val x \<le> 9"
    using digit_val_less [of x] by auto
  moreover have "read_digits (digit_val x) xs = digit_val x * 10 ^ length xs + read_digits 0 xs"
    by (rule read_digits_shift)
  moreover have "digit_val x * 10 ^ length xs \<le> 9 * 10 ^ length xs"
    using \<open>digit_val x \<le> 9\<close> by (rule mult_right_mono) simp
  ultimately have "read_digits (digit_val x) xs < 9 * 10 ^ length xs + 10 ^ length xs" by linarith
  then show ?case by simp
qed simp

text \<open>Digit strings of one length compare as texts like they compare as numbers.\<close>

lemma digits_less_iff:
  assumes "length xs = length ys" "list_all is_digit xs" "list_all is_digit ys"
  shows "xs < ys \<longleftrightarrow> read_digits 0 xs < read_digits 0 ys"
  using assms
proof (induction xs ys rule: list_induct2)
  case (Cons x xs y ys)
  let ?n = "10 ^ length xs :: nat"
  have bounds: "read_digits 0 xs < ?n" "read_digits 0 ys < ?n"
    using Cons.hyps Cons.prems read_digits_less [of xs] read_digits_less [of ys] by auto
  have vals: "read_digits 0 (x # xs) = digit_val x * ?n + read_digits 0 xs"
    "read_digits 0 (y # ys) = digit_val y * ?n + read_digits 0 ys"
    using Cons.hyps read_digits_shift [of "digit_val x" xs] read_digits_shift [of "digit_val y" ys]
    by simp_all
  consider "x < y" | "x = y" | "y < x" by fastforce
  then show ?case
  proof cases
    case 1
    then have "Suc (digit_val x) \<le> digit_val y"
      using Cons.prems digit_val_le_iff [of x y] by simp
    from mult_right_mono [OF this, of ?n] 1 bounds vals show ?thesis by auto
  next
    case 3
    then have "Suc (digit_val y) \<le> digit_val x"
      using Cons.prems digit_val_le_iff [of y x] by simp
    from mult_right_mono [OF this, of ?n] 3 bounds vals show ?thesis by auto
  qed (use Cons vals in auto)
qed simp

lemma zfill_digits [simp]:
  "list_all is_digit (zfill w (show_nat n))"
  "read_digits 0 (zfill w (show_nat n)) = n"
proof -
  have zero: "read_digits 0 (replicate k (CHR ''0'')) = 0" for k
    by (induction k) (simp_all add: digit_val_def)
  show "read_digits 0 (zfill w (show_nat n)) = n"
    by (simp add: zfill_def read_digits_append zero read_show_nat)
  show "list_all is_digit (zfill w (show_nat n))"
    using show_nat_digits [of n] by (auto simp: zfill_def list_all_iff is_digit_def)
qed

lemma length_show_nat: "0 < w \<Longrightarrow> n < 10 ^ w \<Longrightarrow> length (show_nat n) \<le> w"
proof (induction w arbitrary: n)
  case (Suc w)
  show ?case
  proof (cases "n < 10")
    case False
    then have "0 < w" "n div 10 < 10 ^ w"
      using Suc.prems(2) by (auto simp: div_less_iff_less_mult mult.commute intro: gr0I)
    then show ?thesis using Suc.IH [of "n div 10"] False by (simp add: show_nat.simps [of n])
  qed (simp add: show_nat.simps [of n])
qed simp

lemma zfill_length: "0 < w \<Longrightarrow> n < 10 ^ w \<Longrightarrow> length (zfill w (show_nat n)) = w"
  using length_show_nat [of w n] by (simp add: zfill_def)

lemma append_less_cancel [simp]: "(p @ xs :: string) < p @ ys \<longleftrightarrow> xs < ys"
  by (induction p) auto

text \<open>
  C21. Event keys sort like events: for sequence numbers in the range of the key format, the key of
  one event is smaller as a text than the key of another exactly when its number is smaller.
  Outside the range no key is made.
\<close>

theorem event_keys_sort_by_sequence:
  "case (event_sk m, event_sk n) of
     (Inr k, Inr l) \<Rightarrow> (k < l \<longleftrightarrow> m < n) \<and> 1 \<le> m \<and> m < 10 ^ 12 \<and> length k = 18
   | _ \<Rightarrow> \<not> (1 \<le> m \<and> m < 10 ^ 12) \<or> \<not> (1 \<le> n \<and> n < 10 ^ 12)"
proof (cases "1 \<le> m \<and> m < 10 ^ 12 \<and> 1 \<le> n \<and> n < 10 ^ 12")
  case True
  then have mn: "nat m < 10 ^ 12" "nat n < 10 ^ 12" by (auto simp: nat_less_iff)
  have "zfill 12 (show_nat (nat m)) < zfill 12 (show_nat (nat n)) \<longleftrightarrow> nat m < nat n"
    using digits_less_iff [of "zfill 12 (show_nat (nat m))" "zfill 12 (show_nat (nat n))"]
      zfill_length [of 12, OF _ mn(1)] zfill_length [of 12, OF _ mn(2)] by simp
  with True zfill_length [of 12, OF _ mn(1)] show ?thesis
    by (simp add: event_sk_def del: append_Cons append.simps)
next
  case False
  then show ?thesis by (auto simp: event_sk_def split: sum.splits if_splits)
qed

theorem event_keys_sort_by_sequence_witness:
  "case (event_sk 9, event_sk 10) of
     (Inr k, Inr l) \<Rightarrow> k < l \<and> length k = 18 | _ \<Rightarrow> False"
  using event_keys_sort_by_sequence [of 9 10] by (auto split: sum.splits)

section \<open>Distinct kinds, distinct keys\<close>

lemma safe_identifier_Inr: "safe_identifier v label = Inr i \<Longrightarrow> i = v \<and> CHR ''#'' \<notin> set v"
  by (auto simp: safe_identifier_def split: if_splits)

text \<open>The sort keys of one trace's partition, by the kind of record.\<close>

datatype record_key =
    EventKey int
  | DecisionKey int string
  | ApprovalKey string
  | EventReplayKey string
  | ApprovalReplayKey string
  | EffectKey string

primrec sort_key_of :: "record_key \<Rightarrow> string result" where
  "sort_key_of (EventKey n) = event_sk n"
| "sort_key_of (DecisionKey t i) = decision_sk (Aware t) i"
| "sort_key_of (ApprovalKey i) = approval_sk i"
| "sort_key_of (EventReplayKey h) = event_replay_sk h"
| "sort_key_of (ApprovalReplayKey h) = approval_replay_sk h"
| "sort_key_of (EffectKey h) = effect_sk h"

text \<open>Two names of one record: the same kind and fields; instants as they are printed.\<close>

fun same_key :: "record_key \<Rightarrow> record_key \<Rightarrow> bool" where
  "same_key (DecisionKey t i) (DecisionKey u j) \<longleftrightarrow> iso_micro t = iso_micro u \<and> i = j"
| "same_key a b \<longleftrightarrow> a = b"

lemma split_at_hash:
  "t @ CHR ''#'' # i = u @ CHR ''#'' # j \<Longrightarrow> CHR ''#'' \<notin> set i \<Longrightarrow> CHR ''#'' \<notin> set j \<Longrightarrow> t = u \<and> i = j"
proof (induction t arbitrary: u)
  case Nil
  then show ?case by (cases u) auto
next
  case (Cons c t)
  show ?case
  proof (cases u)
    case Nil
    with Cons.prems show ?thesis by auto
  next
    case (Cons d v)
    with Cons.prems Cons.IH [of v] show ?thesis by auto
  qed
qed

lemma zfill_inject: "zfill w (show_nat m) = zfill w (show_nat n) \<Longrightarrow> m = n"
  by (metis zfill_digits(2))

text \<open>What each kind of key looks like.\<close>

fun key_text :: "record_key \<Rightarrow> string" where
  "key_text (EventKey n) = ''EVENT#'' @ zfill 12 (show_nat (nat n))"
| "key_text (DecisionKey t i) = ''DECISION#'' @ iso_micro t @ ''#'' @ i"
| "key_text (ApprovalKey i) = ''APPROVAL#'' @ i"
| "key_text (EventReplayKey h) = ''REPLAY#EVENT#'' @ h"
| "key_text (ApprovalReplayKey h) = ''REPLAY#APPROVAL#'' @ h"
| "key_text (EffectKey h) = ''EFFECT#'' @ h"

fun key_fits :: "record_key \<Rightarrow> bool" where
  "key_fits (EventKey n) \<longleftrightarrow> 1 \<le> n"
| "key_fits (DecisionKey t i) \<longleftrightarrow> CHR ''#'' \<notin> set i"
| "key_fits _ \<longleftrightarrow> True"

lemma sort_key_of_Inr:
  assumes "sort_key_of a = Inr k"
  shows "k = key_text a \<and> key_fits a"
  using assms
  by (cases a)
    (auto simp: event_sk_def decision_sk_def approval_sk_def event_replay_sk_def
      approval_replay_sk_def effect_sk_def utc_stamp_def storage_hash_def
      split: if_splits dest: safe_identifier_Inr)

lemma key_text_inject:
  "key_text a = key_text b \<Longrightarrow> key_fits a \<Longrightarrow> key_fits b \<Longrightarrow> same_key a b"
  by (cases a; cases b)
    (auto dest: zfill_inject split_at_hash [of "iso_micro t" i "iso_micro u" j for t i u j])

text \<open>
  C22. In one trace's partition, records of different kinds never share a sort key, and records of
  the same kind share it only when they have the same sequence, identifier, hash or printed
  instant.
\<close>

theorem sort_keys_are_unambiguous:
  assumes "sort_key_of a = Inr k" "sort_key_of b = Inr k"
  shows "same_key a b"
  using assms [THEN sort_key_of_Inr] key_text_inject [of a b] by simp

theorem sort_keys_are_unambiguous_witness:
  "sort_key_of (ApprovalKey ''approval_1'') = Inr ''APPROVAL#approval_1'' \<and>
   same_key (ApprovalKey ''approval_1'') (ApprovalKey ''approval_1'')"
proof
  show k: "sort_key_of (ApprovalKey ''approval_1'') = Inr ''APPROVAL#approval_1''"
    by code_simp
  from k k show "same_key (ApprovalKey ''approval_1'') (ApprovalKey ''approval_1'')"
    by (rule sort_keys_are_unambiguous)
qed

end
