(* ===== verification/Policy.thy ===== *)
theory Policy
  imports Domain Canonical
begin

text \<open>
  \<open>packages/policy/python_engine.py\<close>: the six evaluators of the reference policy engine.  An
  evaluator returns its signals or raises, as Python would on values of a wrong type.
\<close>

section \<open>Shared text and look-ups\<close>

text \<open>
  \<open>f"{n / 100:,.0f}"\<close>: the quotient rounded half to even, digits in groups of three.  For
  amounts up to \<open>2 ^ 53\<close> the float quotient rounds as the exact one does.
\<close>

definition round_half_even :: "int \<Rightarrow> int \<Rightarrow> int" where
  "round_half_even n d =
     (let q = n div d; r = n mod d in
      if 2 * r < d then q else if 2 * r > d then q + 1 else if even q then q else q + 1)"

fun group3 :: "string \<Rightarrow> string" where
  "group3 (a # b # c # d # ds) = a # b # c # CHR '','' # group3 (d # ds)"
| "group3 ds = ds"

definition money_text :: "int \<Rightarrow> string" where
  "money_text n =
     (let q = round_half_even n 100 in
      if n < 0 then ''-'' @ rev (group3 (rev (show_nat (nat (- q)))))
      else rev (group3 (rev (show_nat (nat q)))))"

definition signal ::
  "string \<Rightarrow> string \<Rightarrow> decision_outcome \<Rightarrow> string \<Rightarrow> string \<Rightarrow> pydict option \<Rightarrow> policy_signal" where
  "signal family policy_id outcome reason_code because guidance =
     \<lparr>ps_family = family, ps_policy_id = policy_id, ps_outcome = outcome,
      ps_reason_code = reason_code, ps_because = because, ps_guidance = guidance\<rparr>"

abbreviation block :: "string \<Rightarrow> string \<Rightarrow> string \<Rightarrow> string \<Rightarrow> policy_signal list result" where
  "block family pid code because \<equiv> Inr [signal family pid DO_BLOCK code because None]"

text \<open>\<open>context.get(key, {})\<close> followed by a method call that only a dictionary has.\<close>

definition context_dict :: "policy_request \<Rightarrow> string \<Rightarrow> pydict result" where
  "context_dict req key =
     (case get_or (pr_context req) key (PDict []) of
        PDict d \<Rightarrow> Inr d
      | _ \<Rightarrow> Inl (PyExc AttributeError ''get''))"

abbreviation arguments_of :: "policy_request \<Rightarrow> pydict result" where
  "arguments_of req \<equiv> context_dict req ''arguments''"

definition prepared_of :: "policy_request \<Rightarrow> trajectory_state \<Rightarrow> prepared_action option result" where
  "prepared_of req st =
     bindR (arguments_of req) (\<lambda>args.
     dict_get (ts_prepared_actions st) (get_none args ''prepared_action_id''))"

definition ENGINE_POLICY_VERSION :: string where "ENGINE_POLICY_VERSION = ''demo-v1''"

definition ENGINE_NAME :: string where "ENGINE_NAME = ''python_reference''"

section \<open>The evaluators\<close>

definition prepared_named ::
  "policy_request \<Rightarrow> trajectory_state \<Rightarrow> policy_signal list result" where
  "prepared_named req st =
     bindR (arguments_of req) (\<lambda>args.
     let prepared_id = get_none args ''prepared_action_id'' in
     bindR (if truthy prepared_id
            then bindR (dict_get (ts_prepared_actions st) prepared_id) (\<lambda>p. Inr (p = None))
            else Inr True) (\<lambda>missing.
     if missing
     then block ''ownership'' ''OWN-004'' ''PREPARED_ACTION_REQUIRED''
            ''A matching prepared action is required before confirmation.''
     else Inr []))"

definition ownership_and_mandate ::
  "policy_request \<Rightarrow> trajectory_state \<Rightarrow> policy_signal list result" where
  "ownership_and_mandate req st =
     (case ts_mandate st of
        None \<Rightarrow> block ''ownership'' ''OWN-000'' ''MISSING_POLICY_CONTEXT''
                  ''The shipment mandate is missing.''
      | Some mandate \<Rightarrow>
          if ts_policy_version st \<noteq> sm_policy_version mandate \<or>
             ts_policy_version st \<noteq> ENGINE_POLICY_VERSION
            then block ''ownership'' ''OWN-001'' ''MISSING_POLICY_CONTEXT''
                   ''The policy version does not match the trace mandate.''
          else
            let owner = get_none (pr_context req) ''tool_owner'';
                principal = agent_name_value (pr_principal req) in
            if owner = PNone \<or> \<not> py_eq owner (PStr principal)
              then block ''ownership'' ''OWN-002'' ''TOOL_OWNER_MISMATCH''
                     (''Agent '' @ principal @ '' does not own '' @ pr_action req @ ''.'')
            else
              let effect = get_none (pr_context req) ''effect_class'' in
              bindR (as_key effect) (\<lambda>key.
              if key \<notin> Some ` effect_class_value ` sm_allowed_effect_classes mandate
                then block ''ownership'' ''OWN-003'' ''EFFECT_NOT_ALLOWED_BY_MANDATE''
                       (''Effect class '' @
                        (if truthy effect then py_str effect else ''missing'') @
                        '' is not allowed by the shipment mandate.'')
              else if pr_action req \<in> {''confirm_freight_booking'', ''cancel_freight_booking''} then
                prepared_named req st
              else Inr []))"

definition valid_fact_hash :: "string \<Rightarrow> numeric_fact \<Rightarrow> bool" where
  "valid_fact_hash order_id f \<longleftrightarrow>
     ''sha256:'' @ sha256_hex (json_dumps json_quote_ascii (PDict
       [(''name'', PStr (nf_name f)), (''order_id'', PStr order_id),
        (''source_id'', PStr (nf_source_id f)), (''unit'', PStr (nf_unit f)),
        (''value'', PInt (nf_value f))])) = nf_source_hash f"

definition required_fact :: "numeric_fact \<Rightarrow> pydict" where
  "required_fact f =
     [(''required_fact_id'', PStr (nf_fact_id f)), (''required_value'', PInt (nf_value f)),
      (''required_unit'', PStr (nf_unit f))]"

definition provenance ::
  "policy_request \<Rightarrow> trajectory_state \<Rightarrow> policy_signal list result" where
  "provenance req st =
     (if pr_action req \<noteq> ''create_dispatch_plan'' then Inr []
      else
        bindR (arguments_of req) (\<lambda>args.
        let fact_id = get_none args ''weight_fact_id'' in
        bindR (if truthy fact_id then dict_get (ts_facts st) fact_id else Inr None) (\<lambda>found.
        case found of
          None \<Rightarrow> block ''provenance'' ''PROV-001'' ''PROVENANCE_REFERENCE_MISSING''
                    ''The dispatch weight has no trace-scoped source fact.''
        | Some nf \<Rightarrow>
            if nf_name nf \<noteq> ''shipment_weight'' \<or> \<not> valid_fact_hash (ts_order_id st) nf
              then block ''provenance'' ''PROV-002'' ''PROVENANCE_REFERENCE_MISSING''
                     ''The referenced weight fact is invalid or corrupted.''
            else if \<not> py_eq (get_none args ''weight_unit'') (PStr (nf_unit nf))
              then Inr [signal ''provenance'' ''PROV-003'' DO_GUIDE ''PROVENANCE_UNIT_MISMATCH''
                     (''Attempted unit '' @ py_str (get_none args ''weight_unit'') @
                      '' differs from sourced unit '' @ nf_unit nf @ ''.'')
                     (Some (required_fact nf))]
            else if \<not> py_eq (get_none args ''weight_value'') (PInt (nf_value nf))
              then Inr [signal ''provenance'' ''PROV-004'' DO_GUIDE ''PROVENANCE_VALUE_MISMATCH''
                     (''Attempted weight '' @ py_str (get_none args ''weight_value'') @
                      '' kg differs from sourced weight '' @ show_int (nf_value nf) @ '' kg.'')
                     (Some (required_fact nf))]
            else Inr [])))"

text \<open>\<open>v < i\<close> for any value and an integer.\<close>

definition less_int :: "pyval \<Rightarrow> int \<Rightarrow> bool result" where
  "less_int v i =
     (case v of
        PInt j \<Rightarrow> Inr (j < i)
      | PBool b \<Rightarrow> Inr ((if b then 1 else 0) < i)
      | PFloat (FFinite q _) \<Rightarrow> Inr (q < of_int i)
      | PFloat FNan \<Rightarrow> Inr False
      | PFloat (FInf pos) \<Rightarrow> Inr (\<not> pos)
      | _ \<Rightarrow> Inl (PyExc TypeError ''unorderable types''))"

text \<open>\<open>context.get("resource", {})\<close> with its emptiness test before any method call.\<close>

definition resource_of :: "policy_request \<Rightarrow> pyval" where
  "resource_of req = get_or (pr_context req) ''resource'' (PDict [])"

definition as_mapping :: "pyval \<Rightarrow> pydict result" where
  "as_mapping v = (case v of PDict d \<Rightarrow> Inr d | _ \<Rightarrow> Inl (PyExc AttributeError ''get''))"

definition vehicle_unfit :: "pydict \<Rightarrow> int option \<Rightarrow> bool result" where
  "vehicle_unfit resource required =
     (if \<not> truthy (get_none resource ''available'') \<or> \<not> truthy (get_none resource ''refrigerated'')
      then Inr True
      else case required of
        None \<Rightarrow> Inr True
      | Some w \<Rightarrow> less_int (get_or resource ''capacity_kg'' (PInt (-1))) w)"

definition cold_chain ::
  "policy_request \<Rightarrow> trajectory_state \<Rightarrow> policy_signal list result" where
  "cold_chain req st =
     (case ts_mandate st of
        None \<Rightarrow> Inr []
      | Some mandate \<Rightarrow>
          if sm_cargo_class mandate \<noteq> ''perishable'' then Inr []
          else if pr_action req = ''create_dispatch_plan'' then
            (if \<not> truthy (resource_of req)
             then block ''cold_chain'' ''COLD-001'' ''MISSING_POLICY_CONTEXT''
                    ''Vehicle safety metadata is missing.''
             else
               bindR (arguments_of req) (\<lambda>args.
               bindR (dict_get (ts_facts st) (get_none args ''weight_fact_id'')) (\<lambda>nf.
               let required = map_option nf_value nf in
               bindR (as_mapping (resource_of req)) (\<lambda>resource.
               bindR (vehicle_unfit resource required) (\<lambda>unfit.
               if unfit
               then Inr [signal ''cold_chain'' ''COLD-002'' DO_GUIDE ''COLD_CHAIN_VEHICLE_REQUIRED''
                      ''Perishable cargo requires an available refrigerated vehicle with sufficient capacity.''
                      (Some [(''required_vehicle'', PDict
                        [(''minimum_capacity_kg'', opt_val PInt required),
                         (''refrigerated'', PBool True)])])]
               else Inr [])))))
          else if pr_action req \<in> {''select_carrier_quote'', ''prepare_freight_booking''} then
            (if \<not> truthy (resource_of req)
             then block ''cold_chain'' ''COLD-003'' ''MISSING_POLICY_CONTEXT''
                    ''Carrier certification metadata is missing.''
             else
               bindR (as_mapping (resource_of req)) (\<lambda>resource.
               if \<not> truthy (get_none resource ''cold_chain_certified'') \<or>
                  \<not> truthy (get_none resource ''lane_supported'')
               then Inr [signal ''cold_chain'' ''COLD-004'' DO_GUIDE ''COLD_CHAIN_CARRIER_REQUIRED''
                      ''Perishable cargo requires a lane-supported cold-chain carrier.''
                      (Some [(''required_carrier'', PDict
                        [(''cold_chain_certified'', PBool True), (''lane_supported'', PBool True)])])]
               else Inr []))
          else Inr [])"

text \<open>
  Spend values are integers by their types, so only their sign is left to check.
\<close>

definition commitment_budget ::
  "policy_request \<Rightarrow> trajectory_state \<Rightarrow> policy_signal list result" where
  "commitment_budget req st =
     (if pr_action req \<noteq> ''confirm_freight_booking'' then Inr []
      else
        bindR (prepared_of req st) (\<lambda>found.
        case (found, ts_mandate st) of
          (Some prepared, Some mandate) \<Rightarrow>
            if ts_spend_committed_minor st < 0 \<or> ts_spend_reserved_minor st < 0 \<or>
               pa_amount_minor prepared < 0
              then block ''spend'' ''SPEND-001'' ''MISSING_POLICY_CONTEXT''
                     ''Spend values must be non-negative integer minor units.''
            else if pa_currency prepared \<noteq> sm_currency mandate
              then block ''spend'' ''SPEND-002'' ''MISSING_POLICY_CONTEXT''
                     ''Prepared-action currency does not match the mandate.''
            else
              let projected = ts_spend_committed_minor st + ts_spend_reserved_minor st in
              if projected > sm_approval_threshold_minor mandate then
                bindR (context_dict req ''approval'') (\<lambda>approval.
                let status = get_none approval ''status'' in
                if py_eq status (PStr ''approved'') then
                  (if truthy (get_none approval ''is_expired'')
                     then block ''spend'' ''SPEND-005'' ''APPROVAL_EXPIRED''
                            ''The approval expired before confirmation.''
                   else if \<not> py_eq (get_none approval ''prepared_action_id'')
                              (PStr (pa_prepared_action_id prepared)) \<or>
                           \<not> py_eq (get_none approval ''action_hash'')
                              (PStr (pa_action_hash prepared))
                     then block ''spend'' ''SPEND-006'' ''APPROVAL_ACTION_MISMATCH''
                            ''The approval does not match the prepared action.''
                   else if \<not> py_eq (get_none approval ''state_hash'')
                              (PStr (pa_state_hash prepared))
                     then block ''spend'' ''SPEND-007'' ''APPROVAL_STATE_MISMATCH''
                            ''The approval does not match the prepared trajectory state.''
                   else if \<not> py_eq (get_none approval ''policy_version'')
                              (PStr (ts_policy_version st))
                     then block ''spend'' ''SPEND-008'' ''APPROVAL_POLICY_MISMATCH''
                            ''The approval uses a different policy version.''
                   else Inr [signal ''spend'' ''SPEND-009'' DO_ALLOW ''SPEND_EXCEPTION_APPROVED''
                          (''A bound approval permits projected spend INR '' @
                           money_text projected @ ''.'') None])
                else if py_eq status (PStr ''expired'')
                  then block ''spend'' ''SPEND-010'' ''APPROVAL_EXPIRED''
                         ''The approval expired before confirmation.''
                else if py_eq status (PStr ''rejected'')
                  then block ''spend'' ''SPEND-011'' ''APPROVAL_REJECTED''
                         ''The prepared commitment was rejected.''
                else Inr [signal ''spend'' ''SPEND-003'' DO_ESCALATE ''SPEND_APPROVAL_REQUIRED''
                       (''Projected spend INR '' @ money_text projected @ '' exceeds the INR '' @
                        money_text (sm_approval_threshold_minor mandate) @ '' ceiling.'') None])
              else Inr [signal ''spend'' ''SPEND-004'' DO_ALLOW ''SPEND_WITHIN_CEILING''
                     (''Projected spend INR '' @ money_text projected @
                      '' is within the shipment ceiling.'') None]
        | _ \<Rightarrow> Inr []))"

definition separation_cancel ::
  "policy_request \<Rightarrow> trajectory_state \<Rightarrow> policy_signal list result" where
  "separation_cancel req st =
     bindR (arguments_of req) (\<lambda>args.
     bindR (prepared_of req st) (\<lambda>found.
     case found of
       None \<Rightarrow> Inr []
     | Some prepared \<Rightarrow>
         if \<not> py_eq (get_none args ''action_hash'') (PStr (pa_action_hash prepared))
           then block ''separation'' ''SOD-004'' ''PREPARED_ACTION_MISMATCH''
                  ''The cancellation does not match the prepared action.''
         else if pa_status prepared = CS_CONFIRMED
           then block ''separation'' ''SOD-005'' ''PREPARED_ACTION_MISMATCH''
                  ''A confirmed action cannot be cancelled.''
         else if pa_status prepared = CS_CANCELLED
           then Inr [signal ''separation'' ''SOD-006'' DO_ALLOW ''CANCELLATION_ALREADY_APPLIED''
                  ''The prepared action is already cancelled.'' None]
         else Inr [signal ''separation'' ''SOD-007'' DO_ALLOW ''CANCELLATION_ALLOWED''
                ''The pending prepared action may be cancelled.'' None]))"

definition separation_confirm ::
  "policy_request \<Rightarrow> trajectory_state \<Rightarrow> policy_signal list result" where
  "separation_confirm req st =
     bindR (arguments_of req) (\<lambda>args.
     bindR (prepared_of req st) (\<lambda>found.
     case found of
       None \<Rightarrow> Inr []
     | Some prepared \<Rightarrow>
         if pa_status prepared \<in> {CS_PENDING_APPROVAL, CS_CONFIRMED}
           then block ''separation'' ''SOD-001'' ''PREPARED_ACTION_MISMATCH''
                  ''The prepared action is not confirmable in its current state.''
         else if \<not> py_eq (get_none args ''action_hash'') (PStr (pa_action_hash prepared))
           then block ''separation'' ''SOD-002'' ''PREPARED_ACTION_MISMATCH''
                  ''The confirmation does not match the prepared action.''
         else if ts_approved_by st \<noteq> Some [] \<and>
                 ts_approved_by st = Some (agent_name_value (pa_prepared_by prepared))
           then block ''separation'' ''SOD-003'' ''SEPARATION_OF_DUTIES_VIOLATION''
                  ''The preparer cannot approve the same commitment.''
         else if pa_status prepared = CS_APPROVED then
           bindR (context_dict req ''approval'') (\<lambda>approval.
           if py_eq (get_none approval ''approver_label'')
                (PStr (agent_name_value (pa_prepared_by prepared)))
           then block ''separation'' ''SOD-008'' ''APPROVER_CONFLICT''
                  ''The action preparer cannot approve the same commitment.''
           else Inr [])
         else Inr []))"

definition separation_of_duties ::
  "policy_request \<Rightarrow> trajectory_state \<Rightarrow> policy_signal list result" where
  "separation_of_duties req st =
     (if pr_action req \<in> {''select_carrier_quote'', ''prepare_freight_booking''} then
        bindR (as_mapping (resource_of req)) (\<lambda>resource.
        if py_eq (get_none resource ''quote_issuer'')
             (PStr (agent_name_value (pr_principal req)))
        then block ''separation'' ''SOD-000'' ''SEPARATION_OF_DUTIES_VIOLATION''
               ''The actor selecting a quote cannot also be its issuer.''
        else Inr [])
      else if pr_action req = ''cancel_freight_booking'' then separation_cancel req st
      else if pr_action req \<noteq> ''confirm_freight_booking'' then Inr []
      else separation_confirm req st)"

definition forbidden_fields :: "string list" where
  "forbidden_fields = [''phone'', ''email'', ''address'', ''name'', ''payment'', ''message'']"

definition pii_boundary ::
  "policy_request \<Rightarrow> trajectory_state \<Rightarrow> policy_signal list result" where
  "pii_boundary req st =
     (if pr_action req \<noteq> ''write_tracking_outbox'' then Inr []
      else
        bindR (arguments_of req) (\<lambda>args.
        if list_ex (\<lambda>f. dmember f args) forbidden_fields
          then block ''pii'' ''PII-001'' ''PII_FIELD_NOT_ALLOWED''
                 ''Raw contact or free-form message fields are not allowed at the disclosure boundary.''
        else if \<not> py_eq (get_none args ''template_id'') (PStr ''TRACKING_UPDATE_V1'')
          then block ''pii'' ''PII-002'' ''DISCLOSURE_TEMPLATE_NOT_ALLOWED''
                 ''The notification template is not allowlisted.''
        else if \<not> starts_with ''DEMO-RECIPIENT-'' (py_str (get_or args ''recipient_ref'' (PStr [])))
          then block ''pii'' ''PII-003'' ''PII_FIELD_NOT_ALLOWED''
                 ''Only synthetic recipient references are allowed.''
        else
          (case get_none args ''template_variables'' of
             PDict vars \<Rightarrow>
               if \<not> set (map fst vars) \<subseteq> {''order_id'', ''carrier_id''}
               then block ''pii'' ''PII-004'' ''PII_FIELD_NOT_ALLOWED''
                      ''Notification variables contain a field outside the allowlist.''
               else Inr []
           | _ \<Rightarrow> block ''pii'' ''PII-004'' ''PII_FIELD_NOT_ALLOWED''
                    ''Notification variables contain a field outside the allowlist.'')))"

definition evaluators ::
  "(policy_request \<Rightarrow> trajectory_state \<Rightarrow> policy_signal list result) list" where
  "evaluators =
     [ownership_and_mandate, provenance, cold_chain, commitment_budget, separation_of_duties,
      pii_boundary]"

fun evaluate_all ::
  "(policy_request \<Rightarrow> trajectory_state \<Rightarrow> policy_signal list result) list
    \<Rightarrow> policy_request \<Rightarrow> trajectory_state \<Rightarrow> policy_signal list result" where
  "evaluate_all [] req st = Inr []"
| "evaluate_all (f # fs) req st =
     bindR (f req st) (\<lambda>xs. bindR (evaluate_all fs req st) (\<lambda>ys. Inr (xs @ ys)))"

definition evaluate ::
  "policy_request \<Rightarrow> trajectory_state \<Rightarrow> policy_signal list result" where
  "evaluate req st = evaluate_all evaluators req st"

end
