(* ===== verification/Policy_Properties.thy ===== *)
theory Policy_Properties
  imports Policy
begin

text \<open>
  What the six policy families demand, stated declaratively, and that the reference engine
  allows exactly the requests that meet them; its signals use only catalogued reason codes
  (\<open>packages/governor/reasons.py\<close>).
\<close>

section \<open>The catalogue of reason codes\<close>

definition REASON_CODES :: "string list" where
  "REASON_CODES =
     [''ALLOW_POLICY_CHECKS_PASSED'', ''UNKNOWN_TOOL'', ''TOOL_OWNER_MISMATCH'',
      ''EFFECT_NOT_ALLOWED_BY_MANDATE'', ''MISSING_POLICY_CONTEXT'',
      ''COLD_CHAIN_VEHICLE_REQUIRED'', ''COLD_CHAIN_CARRIER_REQUIRED'',
      ''PROVENANCE_REFERENCE_MISSING'', ''PROVENANCE_VALUE_MISMATCH'',
      ''PROVENANCE_UNIT_MISMATCH'', ''SPEND_WITHIN_CEILING'', ''SPEND_APPROVAL_REQUIRED'',
      ''SPEND_EXCEPTION_APPROVED'', ''PREPARED_ACTION_REQUIRED'', ''PREPARED_ACTION_MISMATCH'',
      ''SEPARATION_OF_DUTIES_VIOLATION'', ''PII_FIELD_NOT_ALLOWED'',
      ''DISCLOSURE_TEMPLATE_NOT_ALLOWED'', ''GUIDE_RETRY_EXHAUSTED'', ''POLICY_ENGINE_FAILURE'',
      ''APPROVAL_NOT_FOUND'', ''APPROVAL_NOT_PENDING'', ''APPROVAL_VERSION_CONFLICT'',
      ''APPROVAL_ACTION_MISMATCH'', ''APPROVAL_STATE_MISMATCH'', ''APPROVAL_POLICY_MISMATCH'',
      ''APPROVAL_EXPIRED'', ''APPROVAL_REJECTED'', ''APPROVER_CONFLICT'',
      ''APPROVAL_IDEMPOTENCY_CONFLICT'', ''CANCELLATION_ALLOWED'',
      ''CANCELLATION_ALREADY_APPLIED'']"

section \<open>Families\<close>

text \<open>The signals of an evaluator that returns, with a property of each.\<close>

definition signals_all :: "(policy_signal \<Rightarrow> bool) \<Rightarrow> policy_signal list result \<Rightarrow> bool" where
  "signals_all P r \<longleftrightarrow> (\<forall>xs. r = Inr xs \<longrightarrow> list_all P xs)"

lemma signals_all_rules:
  "signals_all P (Inl e)"
  "signals_all P (Inr [])"
  "P x \<Longrightarrow> signals_all P (Inr [x])"
  "(\<And>a. signals_all P (f a)) \<Longrightarrow> signals_all P (bindR r f)"
  "signals_all P m \<Longrightarrow> signals_all P n \<Longrightarrow> signals_all P (if b then m else n)"
  by (auto simp: signals_all_def)

lemma signals_all_case:
  "signals_all P m \<Longrightarrow> (\<And>a. signals_all P (f a)) \<Longrightarrow>
   signals_all P (case q of None \<Rightarrow> m | Some a \<Rightarrow> f a)"
  by (cases q) auto

lemma signals_all_Let: "(\<And>x. signals_all P (f x)) \<Longrightarrow> signals_all P (Let v f)"
  by simp

abbreviation catalogued :: "policy_signal \<Rightarrow> bool" where
  "catalogued x \<equiv> ps_reason_code x \<in> set REASON_CODES"

lemma signal_simps [simp]:
  "ps_reason_code (signal f p o' c b g) = c"
  "ps_outcome (signal f p o' c b g) = o'"
  "ps_guidance (signal f p o' c b g) = g"
  by (simp_all add: signal_def)

lemma signals_all_dict_case:
  "(\<And>d. signals_all P (f d)) \<Longrightarrow> signals_all P n \<Longrightarrow>
   signals_all P (case v of PDict d \<Rightarrow> f d | _ \<Rightarrow> n)"
  by (cases v) auto

lemmas signals_rules =
  signals_all_rules signals_all_case signals_all_dict_case

lemma catalogued_ownership: "signals_all catalogued (ownership_and_mandate req st)"
  unfolding ownership_and_mandate_def prepared_named_def Let_def
  by (intro signals_rules) (simp_all add: REASON_CODES_def)

lemma catalogued_provenance: "signals_all catalogued (provenance req st)"
  unfolding provenance_def Let_def by (intro signals_rules) (simp_all add: REASON_CODES_def)

lemma catalogued_cold_chain: "signals_all catalogued (cold_chain req st)"
  unfolding cold_chain_def Let_def by (intro signals_rules) (simp_all add: REASON_CODES_def)

lemma catalogued_budget: "signals_all catalogued (commitment_budget req st)"
  unfolding commitment_budget_def Let_def prod.case
  by (intro signals_rules) (simp_all add: REASON_CODES_def)

lemma catalogued_separation: "signals_all catalogued (separation_of_duties req st)"
  unfolding separation_of_duties_def separation_cancel_def separation_confirm_def
  by (intro signals_rules) (simp_all add: REASON_CODES_def)

lemma catalogued_pii: "signals_all catalogued (pii_boundary req st)"
  unfolding pii_boundary_def by (intro signals_rules) (simp_all add: REASON_CODES_def)

lemmas catalogued_families =
  catalogued_ownership catalogued_provenance catalogued_cold_chain catalogued_budget
  catalogued_separation catalogued_pii

lemma evaluate_all_Inr:
  "evaluate_all fs req st = Inr xs \<Longrightarrow> (\<And>f. f \<in> set fs \<Longrightarrow> signals_all P (f req st)) \<Longrightarrow> list_all P xs"
  by (induction fs arbitrary: xs) (fastforce simp: signals_all_def)+

definition allows :: "policy_signal list result \<Rightarrow> bool" where
  "allows r \<longleftrightarrow> (\<exists>xs. r = Inr xs \<and> list_all (\<lambda>x. ps_outcome x = DO_ALLOW) xs)"

lemma allows_simps [simp]:
  "\<not> allows (Inl e)"
  "allows (Inr xs) \<longleftrightarrow> list_all (\<lambda>x. ps_outcome x = DO_ALLOW) xs"
  "allows (bindR r f) \<longleftrightarrow> (\<exists>a. r = Inr a \<and> allows (f a))"
  "allows (if b then m else n) \<longleftrightarrow> (if b then allows m else allows n)"
  by (auto simp: allows_def)

lemma allows_evaluate_all: "allows (evaluate_all fs req st) \<longleftrightarrow> list_all (\<lambda>f. allows (f req st)) fs"
  by (induction fs) (auto simp: allows_def)

section \<open>What the families demand\<close>

abbreviation arg :: "pydict \<Rightarrow> string \<Rightarrow> pyval" where
  "arg args k \<equiv> get_none args k"

text \<open>The tool's owner asks, for an effect that the mandate allows, under one policy version.\<close>

definition ownership_spec :: "policy_request \<Rightarrow> trajectory_state \<Rightarrow> bool" where
  "ownership_spec req st \<longleftrightarrow>
     (\<exists>m. ts_mandate st = Some m \<and> ts_policy_version st = sm_policy_version m \<and>
        ts_policy_version st = ENGINE_POLICY_VERSION \<and>
        py_eq (arg (pr_context req) ''tool_owner'') (PStr (agent_name_value (pr_principal req))) \<and>
        (\<exists>c \<in> sm_allowed_effect_classes m.
           as_key (arg (pr_context req) ''effect_class'') = Inr (Some (effect_class_value c)))) \<and>
     (pr_action req \<in> {''confirm_freight_booking'', ''cancel_freight_booking''} \<longrightarrow>
        (\<exists>args p. arguments_of req = Inr args \<and> truthy (arg args ''prepared_action_id'') \<and>
           prepared_of req st = Inr (Some p)))"

text \<open>A dispatch uses the weight and unit of a sourced fact whose hash is intact.\<close>

definition provenance_spec :: "policy_request \<Rightarrow> trajectory_state \<Rightarrow> bool" where
  "provenance_spec req st \<longleftrightarrow>
     (pr_action req = ''create_dispatch_plan'' \<longrightarrow>
        (\<exists>args f. arguments_of req = Inr args \<and> truthy (arg args ''weight_fact_id'') \<and>
           dict_get (ts_facts st) (arg args ''weight_fact_id'') = Inr (Some f) \<and>
           nf_name f = ''shipment_weight'' \<and> valid_fact_hash (ts_order_id st) f \<and>
           py_eq (arg args ''weight_unit'') (PStr (nf_unit f)) \<and>
           py_eq (arg args ''weight_value'') (PInt (nf_value f))))"

text \<open>Perishable cargo travels in a fit refrigerated vehicle with a certified carrier.\<close>

definition cold_chain_spec :: "policy_request \<Rightarrow> trajectory_state \<Rightarrow> bool" where
  "cold_chain_spec req st \<longleftrightarrow>
     (\<forall>m. ts_mandate st = Some m \<longrightarrow> sm_cargo_class m = ''perishable'' \<longrightarrow>
        (pr_action req = ''create_dispatch_plan'' \<longrightarrow>
           (\<exists>args f r. arguments_of req = Inr args \<and> resource_of req = PDict r \<and> r \<noteq> [] \<and>
              dict_get (ts_facts st) (arg args ''weight_fact_id'') = Inr (Some f) \<and>
              truthy (arg r ''available'') \<and> truthy (arg r ''refrigerated'') \<and>
              less_int (get_or r ''capacity_kg'' (PInt (-1))) (nf_value f) = Inr False)) \<and>
        (pr_action req \<in> {''select_carrier_quote'', ''prepare_freight_booking''} \<longrightarrow>
           (\<exists>r. resource_of req = PDict r \<and> r \<noteq> [] \<and>
              truthy (arg r ''cold_chain_certified'') \<and> truthy (arg r ''lane_supported''))))"

text \<open>An approval that is approved, unexpired and bound to this action, state and version.\<close>

definition approval_grants :: "policy_request \<Rightarrow> trajectory_state \<Rightarrow> prepared_action \<Rightarrow> bool" where
  "approval_grants req st p \<longleftrightarrow>
     (\<exists>a. context_dict req ''approval'' = Inr a \<and> py_eq (arg a ''status'') (PStr ''approved'') \<and>
        \<not> truthy (arg a ''is_expired'') \<and>
        py_eq (arg a ''prepared_action_id'') (PStr (pa_prepared_action_id p)) \<and>
        py_eq (arg a ''action_hash'') (PStr (pa_action_hash p)) \<and>
        py_eq (arg a ''state_hash'') (PStr (pa_state_hash p)) \<and>
        py_eq (arg a ''policy_version'') (PStr (ts_policy_version st)))"

text \<open>A confirmation stays within the threshold or has such an approval.\<close>

definition budget_spec :: "policy_request \<Rightarrow> trajectory_state \<Rightarrow> bool" where
  "budget_spec req st \<longleftrightarrow>
     (pr_action req = ''confirm_freight_booking'' \<longrightarrow>
        (\<exists>found. prepared_of req st = Inr found \<and>
           (\<forall>p m. found = Some p \<longrightarrow> ts_mandate st = Some m \<longrightarrow>
              0 \<le> ts_spend_committed_minor st \<and> 0 \<le> ts_spend_reserved_minor st \<and>
              0 \<le> pa_amount_minor p \<and> pa_currency p = sm_currency m \<and>
              (ts_spend_committed_minor st + ts_spend_reserved_minor st
                 \<le> sm_approval_threshold_minor m \<or> approval_grants req st p))))"

text \<open>Nobody selects an own quote, and the action named is the one that was prepared.\<close>

definition separation_spec :: "policy_request \<Rightarrow> trajectory_state \<Rightarrow> bool" where
  "separation_spec req st \<longleftrightarrow>
     (pr_action req \<in> {''select_carrier_quote'', ''prepare_freight_booking''} \<longrightarrow>
        (\<exists>r. resource_of req = PDict r \<and>
           \<not> py_eq (arg r ''quote_issuer'') (PStr (agent_name_value (pr_principal req))))) \<and>
     (pr_action req = ''cancel_freight_booking'' \<longrightarrow>
        (\<exists>args found. arguments_of req = Inr args \<and> prepared_of req st = Inr found \<and>
           (\<forall>p. found = Some p \<longrightarrow> pa_status p \<noteq> CS_CONFIRMED \<and>
              py_eq (arg args ''action_hash'') (PStr (pa_action_hash p))))) \<and>
     (pr_action req = ''confirm_freight_booking'' \<longrightarrow>
        (\<exists>args found. arguments_of req = Inr args \<and> prepared_of req st = Inr found \<and>
           (\<forall>p. found = Some p \<longrightarrow> pa_status p \<notin> {CS_PENDING_APPROVAL, CS_CONFIRMED} \<and>
              py_eq (arg args ''action_hash'') (PStr (pa_action_hash p)) \<and>
              ts_approved_by st \<noteq> Some (agent_name_value (pa_prepared_by p)) \<and>
              (pa_status p = CS_APPROVED \<longrightarrow>
                 (\<exists>a. context_dict req ''approval'' = Inr a \<and>
                    \<not> py_eq (arg a ''approver_label'')
                        (PStr (agent_name_value (pa_prepared_by p))))))))"

text \<open>A notification uses the allowed template, recipients and variables and no contact field.\<close>

definition pii_spec :: "policy_request \<Rightarrow> trajectory_state \<Rightarrow> bool" where
  "pii_spec req st \<longleftrightarrow>
     (pr_action req = ''write_tracking_outbox'' \<longrightarrow>
        (\<exists>args vars. arguments_of req = Inr args \<and> fst ` set args \<inter> set forbidden_fields = {} \<and>
           py_eq (arg args ''template_id'') (PStr ''TRACKING_UPDATE_V1'') \<and>
           starts_with ''DEMO-RECIPIENT-'' (py_str (get_or args ''recipient_ref'' (PStr []))) \<and>
           arg args ''template_variables'' = PDict vars \<and>
           fst ` set vars \<subseteq> {''order_id'', ''carrier_id''}))"

section \<open>The engine implements the demands\<close>

lemma allows_case_option [simp]:
  "allows (case q of None \<Rightarrow> m | Some a \<Rightarrow> f a) \<longleftrightarrow>
     (case q of None \<Rightarrow> allows m | Some a \<Rightarrow> allows (f a))"
  by (cases q) auto

lemma prepared_named_allows:
  "allows (prepared_named req st) \<longleftrightarrow>
     (\<exists>args p. arguments_of req = Inr args \<and> truthy (arg args ''prepared_action_id'') \<and>
        prepared_of req st = Inr (Some p))"
  by (cases "arguments_of req") (auto simp: prepared_named_def prepared_of_def Let_def)

lemma ownership_allows: "allows (ownership_and_mandate req st) \<longleftrightarrow> ownership_spec req st"
proof (cases "ts_mandate st")
  case None
  then show ?thesis by (simp add: ownership_and_mandate_def ownership_spec_def)
next
  case (Some m)
  let ?eff = "as_key (arg (pr_context req) ''effect_class'')"
  show ?thesis
  proof (cases "ts_policy_version st = sm_policy_version m \<and>
      ts_policy_version st = ENGINE_POLICY_VERSION \<and>
      py_eq (arg (pr_context req) ''tool_owner'') (PStr (agent_name_value (pr_principal req)))")
    case True
    then have "arg (pr_context req) ''tool_owner'' \<noteq> PNone" by auto
    with True show ?thesis
      by (cases ?eff)
        (auto simp: ownership_and_mandate_def ownership_spec_def Some prepared_named_allows
          image_iff Let_def)
  next
    case False
    then show ?thesis
      by (auto simp: ownership_and_mandate_def ownership_spec_def Some Let_def)
  qed
qed

lemma allows_dict_case [simp]:
  "allows (case v of PDict d \<Rightarrow> f d | _ \<Rightarrow> Inr [signal a b DO_BLOCK c e g]) \<longleftrightarrow>
     (\<exists>d. v = PDict d \<and> allows (f d))"
  by (cases v) auto

lemma provenance_allows: "allows (provenance req st) \<longleftrightarrow> provenance_spec req st"
  unfolding provenance_def provenance_spec_def Let_def
  by (cases "arguments_of req") (auto split: option.splits)

lemma as_mapping_Inr [simp]: "as_mapping v = Inr d \<longleftrightarrow> v = PDict d"
  by (cases v) (auto simp: as_mapping_def)

lemma vehicle_unfit_False:
  "vehicle_unfit r w = Inr False \<longleftrightarrow>
     truthy (arg r ''available'') \<and> truthy (arg r ''refrigerated'') \<and>
     (\<exists>x. w = Some x \<and> less_int (get_or r ''capacity_kg'' (PInt (-1))) x = Inr False)"
  by (auto simp: vehicle_unfit_def split: option.splits)

lemma cold_chain_allows: "allows (cold_chain req st) \<longleftrightarrow> cold_chain_spec req st"
proof (cases "ts_mandate st")
  case None
  then show ?thesis by (simp add: cold_chain_def cold_chain_spec_def)
next
  case (Some m)
  consider "sm_cargo_class m \<noteq> ''perishable''"
    | (plan) "sm_cargo_class m = ''perishable''" "pr_action req = ''create_dispatch_plan''"
    | (quote) "sm_cargo_class m = ''perishable''" "pr_action req \<noteq> ''create_dispatch_plan''"
    by blast
  then show ?thesis
  proof cases
    case plan
    have "allows (cold_chain req st) \<longleftrightarrow> truthy (resource_of req) \<and>
        (\<exists>args f r. arguments_of req = Inr args \<and>
          dict_get (ts_facts st) (arg args ''weight_fact_id'') = Inr f \<and> resource_of req = PDict r \<and>
          vehicle_unfit r (map_option nf_value f) = Inr False)"
      by (auto simp: cold_chain_def Some plan Let_def)
    then show ?thesis
      by (fastforce simp: cold_chain_spec_def Some plan vehicle_unfit_False)
  qed (auto simp: cold_chain_def cold_chain_spec_def Some)
qed

lemma pii_allows: "allows (pii_boundary req st) \<longleftrightarrow> pii_spec req st"
proof -
  have forb: "list_ex (\<lambda>f. dmember f args) forbidden_fields \<longleftrightarrow>
      fst ` set args \<inter> set forbidden_fields \<noteq> {}" for args :: pydict
    by (auto simp: list_ex_iff dmember_def map_of_eq_None_iff)
  show ?thesis
    unfolding pii_boundary_def pii_spec_def forb by (cases "arguments_of req") auto
qed

lemma budget_allows: "allows (commitment_budget req st) \<longleftrightarrow> budget_spec req st"
proof (cases "pr_action req = ''confirm_freight_booking''")
  case act: True
  show ?thesis
  proof (cases "prepared_of req st")
    case (Inl e)
    then show ?thesis by (simp add: commitment_budget_def budget_spec_def act)
  next
    case (Inr found)
    show ?thesis
    proof (cases "\<exists>p m. found = Some p \<and> ts_mandate st = Some m")
      case True
      then obtain p m where pm: "found = Some p" "ts_mandate st = Some m" by blast
      show ?thesis
        unfolding commitment_budget_def budget_spec_def approval_grants_def
        by (cases "context_dict req ''approval''") (auto simp: act Inr pm Let_def not_less)
    next
      case False
      then show ?thesis
        by (auto simp: commitment_budget_def budget_spec_def act Inr split: option.splits)
    qed
  qed
qed (simp add: commitment_budget_def budget_spec_def)

lemma separation_confirm_allows:
  "allows (separation_confirm req st) \<longleftrightarrow>
     (\<exists>args found. arguments_of req = Inr args \<and> prepared_of req st = Inr found \<and>
        (\<forall>p. found = Some p \<longrightarrow> pa_status p \<notin> {CS_PENDING_APPROVAL, CS_CONFIRMED} \<and>
           py_eq (arg args ''action_hash'') (PStr (pa_action_hash p)) \<and>
           ts_approved_by st \<noteq> Some (agent_name_value (pa_prepared_by p)) \<and>
           (pa_status p = CS_APPROVED \<longrightarrow>
              (\<exists>a. context_dict req ''approval'' = Inr a \<and>
                 \<not> py_eq (arg a ''approver_label'')
                     (PStr (agent_name_value (pa_prepared_by p)))))))"
proof -
  have ne: "agent_name_value a \<noteq> []" for a by (cases a) simp_all
  show ?thesis
  proof (cases "arguments_of req")
    case args: (Inr args)
    show ?thesis
    proof (cases "prepared_of req st")
      case (Inr found)
      then show ?thesis
        by (cases found) (auto simp: separation_confirm_def args ne ne [symmetric])
    qed (simp add: separation_confirm_def args)
  qed (simp add: separation_confirm_def)
qed

lemma separation_cancel_allows:
  "allows (separation_cancel req st) \<longleftrightarrow>
     (\<exists>args found. arguments_of req = Inr args \<and> prepared_of req st = Inr found \<and>
        (\<forall>p. found = Some p \<longrightarrow> pa_status p \<noteq> CS_CONFIRMED \<and>
           py_eq (arg args ''action_hash'') (PStr (pa_action_hash p))))"
proof (cases "arguments_of req")
  case args: (Inr args)
  show ?thesis
  proof (cases "prepared_of req st")
    case (Inr found)
    then show ?thesis by (cases found) (auto simp: separation_cancel_def args)
  qed (simp add: separation_cancel_def args)
qed (simp add: separation_cancel_def)

lemma separation_allows: "allows (separation_of_duties req st) \<longleftrightarrow> separation_spec req st"
  unfolding separation_of_duties_def separation_spec_def
  by (auto simp: separation_confirm_allows separation_cancel_allows)

text \<open>
  C16. The reference engine allows exactly the requests that the policy allows: \<open>evaluate\<close>
  returns with no signal other than ALLOW if and only if the demands of all six families hold.
\<close>

theorem evaluate_allows_iff_policy:
  "(\<exists>xs. evaluate req st = Inr xs \<and> list_all (\<lambda>x. ps_outcome x = DO_ALLOW) xs) \<longleftrightarrow>
     ownership_spec req st \<and> provenance_spec req st \<and> cold_chain_spec req st \<and>
     budget_spec req st \<and> separation_spec req st \<and> pii_spec req st"
  unfolding evaluate_def allows_def [symmetric] allows_evaluate_all
  by (simp add: evaluators_def ownership_allows provenance_allows
      cold_chain_allows budget_allows separation_allows pii_allows)

lemma evaluate_catalogued:
  assumes "evaluate req st = Inr xs"
  shows "list_all catalogued xs"
  using assms unfolding evaluate_def
  by (rule evaluate_all_Inr) (auto simp: evaluators_def intro: catalogued_families)

text \<open>
  Every signal of the reference engine carries a reason code of the public catalogue.
\<close>

theorem engine_signals_catalogued:
  "case evaluate req st of
     Inl e \<Rightarrow> True
   | Inr xs \<Rightarrow> list_all (\<lambda>x. ps_reason_code x \<in> set REASON_CODES) xs"
  using evaluate_catalogued by (auto split: sum.split)

end
