(* ===== verification/Governor.thy ===== *)
theory Governor
  imports Tools Commitments Keyspace Policy_Properties
begin

text \<open>
  \<open>packages/governor/governor.py\<close>: the boundary through which every tool call passes.  The
  policy engine is a component of the governor, any function from a request and a trajectory to
  signals or an exception; the trace repository is the memory store.
\<close>

section \<open>The governor and its engine\<close>

record policy_engine =
  pe_name :: string
  pe_bundle_hash :: "string option"
  pe_evaluate :: "policy_request \<Rightarrow> trajectory_state \<Rightarrow> policy_signal list result"

definition python_reference_engine :: policy_engine where
  "python_reference_engine =
     \<lparr>pe_name = ENGINE_NAME, pe_bundle_hash = None, pe_evaluate = evaluate\<rparr>"

record governor =
  gv_registry :: tool_registry
  gv_engine :: policy_engine
  gv_loader :: fixtures
  gv_max_tool_calls :: int
  gv_max_guided_attempts :: int

fun precedence :: "decision_outcome \<Rightarrow> nat" where
  "precedence DO_ALLOW = 0"
| "precedence DO_GUIDE = 1"
| "precedence DO_ESCALATE = 2"
| "precedence DO_BLOCK = 3"

text \<open>\<open>perf_counter() - started\<close>, in milliseconds rounded to three places.\<close>

definition elapsed_ms :: "('z, pyfloat) op" where
  "elapsed_ms s =
     (Inr (wd_latency (wld s) (wd_latency_pos (wld s))),
      s\<lparr>wld := (wld s)\<lparr>wd_latency_pos := Suc (wd_latency_pos (wld s))\<rparr>\<rparr>)"

section \<open>Redaction\<close>

definition dpop_all :: "string list \<Rightarrow> pydict \<Rightarrow> pydict" where
  "dpop_all ks d = fold dpop ks d"

definition redacted_fields :: "string list" where
  "redacted_fields = [''message'', ''phone'', ''email'', ''address'', ''name'', ''payment'']"

definition safe_arguments :: "string \<Rightarrow> pydict \<Rightarrow> pydict" where
  "safe_arguments tool_name arguments =
     (let safe = primitive_dict arguments in
      if tool_name = ''write_tracking_outbox'' then dpop_all redacted_fields safe else safe)"

definition safe_result :: "string \<Rightarrow> tool_value \<Rightarrow> pyval" where
  "safe_result tool_name v =
     (let safe = to_primitive (value_obj v) in
      if tool_name = ''write_tracking_outbox''
      then (case safe of
              PDict d \<Rightarrow> PDict (dpop_all [''rendered_message'', ''message''] d)
            | _ \<Rightarrow> safe)
      else safe)"

section \<open>The request\<close>

fun find_by :: "('a \<Rightarrow> string) \<Rightarrow> pyval \<Rightarrow> 'a list \<Rightarrow> 'a option" where
  "find_by idf v [] = None"
| "find_by idf v (x # xs) = (if py_eq (PStr (idf x)) v then Some x else find_by idf v xs)"

definition resource_context ::
  "fixtures \<Rightarrow> trajectory_state \<Rightarrow> string \<Rightarrow> pydict \<Rightarrow> pydict result" where
  "resource_context fs st tool_name args =
     (if tool_name = ''create_dispatch_plan'' then
        bindR (list_vehicles fs) (\<lambda>vehicles.
        Inr (case find_by vh_vehicle_id (get_none args ''vehicle_id'') vehicles of
               Some v \<Rightarrow> primitive_fields (vehicle_obj v)
             | None \<Rightarrow> []))
      else if tool_name \<in> {''select_carrier_quote'', ''prepare_freight_booking''} then
        bindR (case ts_order st of
                 Some o' \<Rightarrow> Inr o'
               | None \<Rightarrow> get_order fs (ts_order_id st)) (\<lambda>o'.
        bindR (list_carrier_quotes fs (PStr (od_destination_zone o'))) (\<lambda>quotes.
        Inr (case find_by cq_quote_id (get_none args ''quote_id'') quotes of
               Some q \<Rightarrow> primitive_fields (quote_obj q)
             | None \<Rightarrow> [])))
      else if tool_name \<in> {''confirm_freight_booking'', ''cancel_freight_booking''} then
        Inr (case dget (ts_prepared_actions st)
                    (py_str (get_or args ''prepared_action_id'' (PStr []))) of
               Some p \<Rightarrow> primitive_fields (prepared_obj p)
             | None \<Rightarrow> [])
      else Inr [])"

definition approval_context :: "pydict top" where
  "approval_context =
     bindM (getM (\<lambda>s. (cur s, db s))) (\<lambda>(st, ms).
     case ts_pending_approval_id st of
       None \<Rightarrow> returnM []
     | Some aid \<Rightarrow>
         if aid = [] then returnM []
         else case get_approval ms aid of
           Inl e \<Rightarrow> if manifest_exc e then returnM [] else raiseM e
         | Inr approval \<Rightarrow>
             bindM utc_now (\<lambda>now.
             let value' = dput ''is_expired'' (PBool (now \<ge> ar_expires_at approval))
                            (primitive_fields (approval_obj approval))
             in returnM (dpop ''decision_idempotency_key'' (dpop ''comment'' value'))))"

definition resource_id_of :: "trajectory_state \<Rightarrow> string \<Rightarrow> pydict \<Rightarrow> string" where
  "resource_id_of st tool_name args =
     (let pick = (\<lambda>k. py_str (get_or args k (PStr (ts_order_id st)))) in
      if tool_name = ''create_dispatch_plan'' then pick ''vehicle_id''
      else if tool_name \<in> {''select_carrier_quote'', ''prepare_freight_booking''}
        then pick ''quote_id''
      else if tool_name = ''confirm_freight_booking'' then pick ''prepared_action_id''
      else if tool_name = ''cancel_freight_booking'' then pick ''prepared_action_id''
      else ts_order_id st)"

definition build_request ::
  "governor \<Rightarrow> tool_proposal \<Rightarrow> tool_definition option \<Rightarrow> pydict \<Rightarrow> policy_request top" where
  "build_request gv proposal definition' raw_arguments =
     (let args = primitive_dict raw_arguments; tool = tp_tool_name proposal in
      bindM (getM cur) (\<lambda>st.
      bindM (liftR (resource_context (gv_loader gv) st tool args)) (\<lambda>resource.
      let context =
        [(''tool_owner'', opt_val (\<lambda>d. PStr (agent_name_value (td_owner d))) definition'),
         (''effect_class'',
            opt_val (\<lambda>d. PStr (effect_class_value (td_effect_class d))) definition'),
         (''arguments'', PDict args), (''resource'', PDict resource)] in
      bindM (if tool \<in> {''confirm_freight_booking'', ''cancel_freight_booking''}
             then bindM approval_context (\<lambda>a. returnM (context @ [(''approval'', PDict a)]))
             else returnM context) (\<lambda>context.
      bindM uuid4 (\<lambda>u.
      returnM
        \<lparr>pr_request_id = ''REQ-'' @ u, pr_principal = tp_agent proposal, pr_action = tool,
         pr_resource_type = ''shipment_action'',
         pr_resource_id = resource_id_of st tool args, pr_context = context\<rparr>)))))"

section \<open>The decision\<close>

text \<open>\<open>max(signals, key=...)\<close>: the first signal of the highest precedence.\<close>

fun max_signal :: "policy_signal \<Rightarrow> policy_signal list \<Rightarrow> policy_signal" where
  "max_signal best [] = best"
| "max_signal best (x # xs) =
     max_signal (if precedence (ps_outcome best) < precedence (ps_outcome x) then x else best) xs"

definition merge_guidance :: "policy_signal list \<Rightarrow> pydict" where
  "merge_guidance signals =
     fold (\<lambda>x g. case ps_guidance x of None \<Rightarrow> g | Some u \<Rightarrow> fold (\<lambda>(k, v). dput k v) u g) signals []"

definition default_signal :: policy_signal where
  "default_signal =
     signal ''default'' ''DEFAULT-ALLOW'' DO_ALLOW ''ALLOW_POLICY_CHECKS_PASSED''
       ''All applicable policy checks passed.'' None"

definition make_decision ::
  "governor \<Rightarrow> tool_proposal \<Rightarrow> policy_request \<Rightarrow> policy_signal list \<Rightarrow> pyfloat \<Rightarrow> decision top" where
  "make_decision gv proposal request signals elapsed =
     bindM (getM cur) (\<lambda>st.
     let signals = (if signals = [] then [default_signal] else signals);
         primary = max_signal (hd signals) (tl signals);
         guidance = merge_guidance signals;
         enforced = (ts_mode st = GM_ENFORCE);
         applied = (if enforced then ps_outcome primary else DO_ALLOW) in
     bindM uuid4 (\<lambda>u.
     bindM utc_now (\<lambda>now.
     returnM
       \<lparr>dc_decision_id = ''DEC-'' @ u, dc_request_id = pr_request_id request,
        dc_trace_id = ts_trace_id st, dc_proposal_id = tp_proposal_id proposal,
        dc_agent = tp_agent proposal, dc_tool_name = tp_tool_name proposal,
        dc_effect_class = tp_effect_class proposal, dc_policy_outcome = ps_outcome primary,
        dc_applied_outcome = applied, dc_enforced = enforced,
        dc_reason_code = ps_reason_code primary, dc_because = ps_because primary,
        dc_reasons = signals, dc_guidance = (if guidance = [] then None else Some guidance),
        dc_policy_version = ts_policy_version st, dc_engine_name = pe_name (gv_engine gv),
        dc_evaluation_ms = elapsed, dc_policy_bundle_hash = pe_bundle_hash (gv_engine gv),
        dc_created_at = now\<rparr>)))"

definition retry_block :: "decision \<Rightarrow> decision" where
  "retry_block old =
     old\<lparr>dc_policy_outcome := DO_BLOCK, dc_applied_outcome := DO_BLOCK, dc_enforced := True,
         dc_reason_code := ''GUIDE_RETRY_EXHAUSTED'',
         dc_because := dc_tool_name old @
           '' remained invalid after the permitted guided retry.''\<rparr>"

definition tool_event ::
  "event_type \<Rightarrow> string \<Rightarrow> agent_name \<Rightarrow> string \<Rightarrow> effect_class option \<Rightarrow> pydict \<Rightarrow> string option
    \<Rightarrow> event_description" where
  "tool_event et summary agent tool effect details key =
     \<lparr>ed_event_type = et, ed_summary = summary, ed_details = details, ed_agent = Some agent,
      ed_tool_name = Some tool, ed_effect_class = effect, ed_idempotency_key = key\<rparr>"

definition guidance_or_empty :: "decision \<Rightarrow> pyval" where
  "guidance_or_empty d = PDict (case dc_guidance d of None \<Rightarrow> [] | Some g \<Rightarrow> g)"

definition signal_entry :: "policy_signal \<Rightarrow> pyval" where
  "signal_entry x =
     PDict [(''family'', PStr (ps_family x)), (''policy_id'', PStr (ps_policy_id x)),
            (''outcome'', PStr (decision_outcome_value (ps_outcome x))),
            (''reason_code'', PStr (ps_reason_code x))]"

definition decision_event :: "decision \<Rightarrow> event_description" where
  "decision_event d =
     (let prefix' = (if \<not> dc_enforced d \<and> dc_policy_outcome d \<noteq> DO_ALLOW then ''Would '' else []) in
      tool_event ET_POLICY_DECIDED
        (prefix' @ decision_outcome_value (dc_policy_outcome d) @ '': '' @ dc_because d)
        (dc_agent d) (dc_tool_name d) (dc_effect_class d)
        [(''decision_id'', PStr (dc_decision_id d)), (''request_id'', PStr (dc_request_id d)),
         (''proposal_id'', PStr (dc_proposal_id d)),
         (''policy_outcome'', PStr (decision_outcome_value (dc_policy_outcome d))),
         (''applied_outcome'', PStr (decision_outcome_value (dc_applied_outcome d))),
         (''enforced'', PBool (dc_enforced d)), (''reason_code'', PStr (dc_reason_code d)),
         (''because'', PStr (dc_because d)), (''guidance'', guidance_or_empty d),
         (''signals'', PList (map signal_entry (dc_reasons d))),
         (''policy_version'', PStr (dc_policy_version d)),
         (''engine_name'', PStr (dc_engine_name d)),
         (''policy_bundle_hash'', opt_str (dc_policy_bundle_hash d)),
         (''evaluation_ms'', PFloat (dc_evaluation_ms d))]
        (Some (''proposal:'' @ dc_proposal_id d @ '':decision'')))"

definition record_decision :: "decision \<Rightarrow> unit top" where
  "record_decision d = bindM (append_event (decision_event d)) (\<lambda>_. returnM ())"

section \<open>Approvals, receipts and the trajectory's accounts\<close>

text \<open>An assignment to a field of one of the state's prepared actions.\<close>

definition set_prepared_status :: "string \<Rightarrow> commitment_status \<Rightarrow> trajectory_state \<Rightarrow> trajectory_state"
  where
  "set_prepared_status pid status st =
     (case dget (ts_prepared_actions st) pid of
        None \<Rightarrow> st
      | Some p \<Rightarrow>
          st\<lparr>ts_prepared_actions := dput pid (p\<lparr>pa_status := status\<rparr>) (ts_prepared_actions st)\<rparr>)"

definition create_approval :: "pydict \<Rightarrow> decision \<Rightarrow> approval_record top" where
  "create_approval args d =
     (let prepared_id = py_str (get_none args ''prepared_action_id'') in
      bindM (getM cur) (\<lambda>st.
      case dget (ts_prepared_actions st) prepared_id of
        None \<Rightarrow> raiseM (PyExc KeyError prepared_id)
      | Some prepared \<Rightarrow>
          thenM (set_cur (set_prepared_status prepared_id CS_PENDING_APPROVAL))
          (bindM uuid4 (\<lambda>u.
           bindM utc_now (\<lambda>now.
           let approval =
             \<lparr>ar_approval_id = ''APR-'' @ u, ar_trace_id = ts_trace_id st,
              ar_prepared_action_id = prepared_id, ar_action_hash = pa_action_hash prepared,
              ar_state_hash = pa_state_hash prepared,
              ar_policy_version = ts_policy_version st, ar_reason_code = dc_reason_code d,
              ar_status = AS_PENDING_APPROVAL, ar_created_at = now,
              ar_expires_at = pa_expires_at prepared, ar_version = 1, ar_decided_at = None,
              ar_decision = None, ar_approver_label = None, ar_comment = None,
              ar_decision_idempotency_key = None\<rparr>
           in thenM (set_cur (ts_pending_approval_id_update (\<lambda>_. Some (ar_approval_id approval))))
              (thenM (add_approval approval) (returnM approval)))))))"

text \<open>\<open>isinstance(v, str)\<close>, with the text of the string.\<close>

definition str_of :: "pyval \<Rightarrow> string option" where
  "str_of v = (case v of PStr s \<Rightarrow> Some s | PEnum _ s \<Rightarrow> Some s | _ \<Rightarrow> None)"

definition effect_fingerprint :: "string \<Rightarrow> pydict \<Rightarrow> string result" where
  "effect_fingerprint tool_name arguments =
     bindR (canonical_json (PDict
       [(''tool_name'', PStr tool_name), (''arguments'', PDict (primitive_dict arguments))]))
     (\<lambda>t. Inr (sha256_hex t))"

definition execute_with_durable_receipt ::
  "governor \<Rightarrow> string \<Rightarrow> effect_class \<Rightarrow> pydict \<Rightarrow> tool_value top" where
  "execute_with_durable_receipt gv tool_name effect arguments =
     (case (effect = EC_READ, str_of (get_none arguments ''idempotency_key'')) of
        (False, Some key) \<Rightarrow>
          bindM (liftR (opaque_key_hash key)) (\<lambda>key_hash.
          bindM (liftR (effect_fingerprint tool_name arguments)) (\<lambda>fp.
          bindM (getM (\<lambda>s. (ts_trace_id (cur s), get_effect_receipt (db s) (ts_trace_id (cur s)) key_hash)))
            (\<lambda>(tid, existing).
          case existing of
            Some r \<Rightarrow>
              if rc_fingerprint r \<noteq> fp
              then raiseM (Manifest EffectReceiptConflictError
                     ''An effect idempotency key was reused with different arguments.'')
              else returnM (VDict (rc_result r))
          | None \<Rightarrow>
              bindM (execute (gv_loader gv) (gv_registry gv) tool_name arguments) (\<lambda>v.
              case v of
                VDict d \<Rightarrow>
                  bindM utc_now (\<lambda>now.
                  bindM (liftR (make_effect_receipt tid tool_name key_hash fp (primitive_dict d) now))
                    (\<lambda>r.
                  bindM (put_effect_receipt r) (\<lambda>stored. returnM (VDict (rc_result stored)))))
              | _ \<Rightarrow> raiseM (Manifest ToolExecutionError
                       (''Write tool '' @ tool_name @ '' returned a non-object result.''))))))
      | _ \<Rightarrow> execute (gv_loader gv) (gv_registry gv) tool_name arguments)"

text \<open>\<open>state.prepared_actions[str(arguments["prepared_action_id"])]\<close>.\<close>

definition named_prepared :: "pydict \<Rightarrow> (string \<times> prepared_action) top" where
  "named_prepared arguments =
     (case dget arguments ''prepared_action_id'' of
        None \<Rightarrow> raiseM (PyExc KeyError ''prepared_action_id'')
      | Some v \<Rightarrow>
          bindM (getM cur) (\<lambda>st.
          case dget (ts_prepared_actions st) (py_str v) of
            None \<Rightarrow> raiseM (PyExc KeyError (py_str v))
          | Some p \<Rightarrow> returnM (py_str v, p)))"

definition confirmation_id :: "tool_value \<Rightarrow> string result" where
  "confirmation_id v =
     (case v of
        VDict d \<Rightarrow>
          (case dget d ''confirmation_id'' of
             None \<Rightarrow> Inl (PyExc KeyError ''confirmation_id'')
           | Some c \<Rightarrow> Inr (py_str c))
      | _ \<Rightarrow> Inl (PyExc TypeError ''confirmation_id''))"

definition apply_confirmation :: "pydict \<Rightarrow> tool_value \<Rightarrow> unit top" where
  "apply_confirmation arguments v =
     bindM (named_prepared arguments) (\<lambda>(pid, prepared).
     bindM (getM cur) (\<lambda>st.
     if pa_status prepared = CS_CONFIRMED then returnM ()
     else if ts_spend_reserved_minor st < pa_amount_minor prepared
       then raiseM (Manifest ToolExecutionError
              ''Reserved spend cannot become negative during confirmation.'')
     else
       thenM (set_cur (set_prepared_status pid CS_CONFIRMED))
       (bindM (liftR (confirmation_id v)) (\<lambda>c.
        set_cur (\<lambda>st. st\<lparr>
          ts_confirmed_booking_id := Some c,
          ts_spend_reserved_minor := ts_spend_reserved_minor st - pa_amount_minor prepared,
          ts_spend_committed_minor := ts_spend_committed_minor st + pa_amount_minor prepared,
          ts_pending_approval_id := None,
          ts_workflow_stage := WS_BOOKING_CONFIRMED\<rparr>)))))"

definition apply_cancellation :: "pydict \<Rightarrow> unit top" where
  "apply_cancellation arguments =
     bindM (named_prepared arguments) (\<lambda>(pid, prepared).
     bindM (getM cur) (\<lambda>st.
     if pa_status prepared = CS_CANCELLED then returnM ()
     else if pa_status prepared = CS_CONFIRMED
       then raiseM (Manifest ToolExecutionError ''A confirmed booking cannot be cancelled.'')
     else if ts_spend_reserved_minor st < pa_amount_minor prepared
       then raiseM (Manifest ToolExecutionError
              ''Reserved spend cannot become negative during cancellation.'')
     else
       set_cur (\<lambda>st. (set_prepared_status pid CS_CANCELLED st)\<lparr>
         ts_spend_reserved_minor := ts_spend_reserved_minor st - pa_amount_minor prepared,
         ts_pending_approval_id := None\<rparr>)))"

definition record_failure ::
  "agent_name \<Rightarrow> string \<Rightarrow> effect_class option \<Rightarrow> string \<Rightarrow> string \<Rightarrow> unit top" where
  "record_failure agent tool_name effect message proposal_id =
     bindM (append_event
       (tool_event ET_TOOL_FAILED message agent tool_name effect [(''error'', PStr message)]
         (Some (''proposal:'' @ proposal_id @ '':failed''))))
     (\<lambda>_. returnM ())"

section \<open>execute\_tool\<close>

text \<open>The counters, the proposal and its event.\<close>

definition propose ::
  "governor \<Rightarrow> agent_name \<Rightarrow> string \<Rightarrow> pydict \<Rightarrow> (tool_proposal \<times> tool_definition option) top" where
  "propose gv agent tool_name arguments =
     thenM (set_cur (\<lambda>st. st\<lparr>ts_tool_call_count := Suc (ts_tool_call_count st)\<rparr>))
     (bindM (getM (\<lambda>s. case dget (ts_guide_attempts (cur s)) tool_name of None \<Rightarrow> 1 | Some n \<Rightarrow> Suc n))
       (\<lambda>attempt.
      thenM (set_cur (\<lambda>st. st\<lparr>ts_guide_attempts := dput tool_name attempt (ts_guide_attempts st)\<rparr>))
      (let definition' = (case get_definition (gv_registry gv) tool_name of
             Inl _ \<Rightarrow> None | Inr d \<Rightarrow> Some d) in
       bindM uuid4 (\<lambda>u.
       bindM (getM cur) (\<lambda>st.
       let proposal =
         \<lparr>tp_proposal_id = ''PROP-'' @ u, tp_trace_id = ts_trace_id st, tp_agent = agent,
          tp_tool_name = tool_name, tp_effect_class = map_option td_effect_class definition',
          tp_arguments = safe_arguments tool_name arguments, tp_attempt = attempt\<rparr>
       in bindM (append_event
            (tool_event ET_TOOL_ATTEMPTED
              (agent_name_value agent @ '' attempted '' @ tool_name @ ''.'') agent tool_name
              (tp_effect_class proposal)
              [(''proposal_id'', PStr (tp_proposal_id proposal)), (''attempt'', PInt (int attempt)),
               (''arguments'', PDict (tp_arguments proposal))]
              (Some (''proposal:'' @ tp_proposal_id proposal @ '':attempted''))))
          (\<lambda>_. returnM (proposal, definition')))))))"

text \<open>The signals on a proposal: an engine that raises or answers unknown codes fails closed.\<close>

definition engine_signals ::
  "governor \<Rightarrow> string \<Rightarrow> tool_definition option \<Rightarrow> policy_request \<Rightarrow> trajectory_state
    \<Rightarrow> policy_signal list" where
  "engine_signals gv tool_name definition' request st =
     (case definition' of
        None \<Rightarrow> [signal ''ownership'' ''OWN-UNKNOWN'' DO_BLOCK ''UNKNOWN_TOOL''
                  (''Tool '' @ tool_name @ '' is not registered.'') None]
      | Some _ \<Rightarrow>
          let failed = [signal ''engine'' ''ENGINE-FAIL'' DO_BLOCK ''POLICY_ENGINE_FAILURE''
                ''The policy engine failed closed.'' None] in
          (case pe_evaluate (gv_engine gv) request st of
             Inl _ \<Rightarrow> failed
           | Inr signals \<Rightarrow>
               if list_ex (\<lambda>x. ps_reason_code x \<notin> set REASON_CODES) signals then failed
               else signals))"

text \<open>Evaluation of a proposal up to the recorded decision.\<close>

definition decide ::
  "governor \<Rightarrow> tool_proposal \<Rightarrow> tool_definition option \<Rightarrow> pydict \<Rightarrow> (policy_request \<times> decision) top"
  where
  "decide gv proposal definition' arguments =
     bindM (build_request gv proposal definition' arguments) (\<lambda>request.
     bindM (getM (\<lambda>s. engine_signals gv (tp_tool_name proposal) definition' request (cur s)))
       (\<lambda>signals.
     bindM elapsed_ms (\<lambda>ms.
     bindM (make_decision gv proposal request signals ms) (\<lambda>d0.
     let d = (if dc_applied_outcome d0 = DO_GUIDE \<and>
                 int (tp_attempt proposal) \<ge> gv_max_guided_attempts gv
              then retry_block d0 else d0) in
     thenM (append_decision d)
     (thenM (record_decision d) (returnM (request, d)))))))"

definition tool_result :: "decision \<Rightarrow> governed_tool_result" where
  "tool_result d =
     \<lparr>gr_decision = d, gr_value = None, gr_guidance = None, gr_pending_approval = None\<rparr>"

text \<open>The branch of an applied ALLOW: the tool runs.\<close>

definition perform ::
  "governor \<Rightarrow> tool_proposal \<Rightarrow> tool_definition \<Rightarrow> policy_request \<Rightarrow> pydict \<Rightarrow> tool_value top" where
  "perform gv proposal definition' request arguments =
     (let tool = tp_tool_name proposal; agent = tp_agent proposal;
          effect = tp_effect_class proposal; prop_id = tp_proposal_id proposal in
      bindM (catchM (execute_with_durable_receipt gv tool (td_effect_class definition') arguments)
        (\<lambda>e. if manifest_exc e
             then thenM (record_failure agent tool effect (exc_message e) prop_id) (raiseM e)
             else
               let message = ''Tool '' @ tool @ '' failed unexpectedly.'' in
               thenM (record_failure agent tool effect message prop_id)
                 (raiseM (Manifest ToolExecutionError message)))) (\<lambda>v.
      bindM (append_event
        (tool_event ET_TOOL_SUCCEEDED (tool @ '' completed successfully.'') agent tool effect
          [(''result'', safe_result tool v)]
          (Some (''proposal:'' @ prop_id @ '':succeeded'')))) (\<lambda>_.
      thenM (if tool = ''confirm_freight_booking'' then apply_confirmation arguments v
             else if tool = ''cancel_freight_booking'' then apply_cancellation arguments
             else returnM ())
      (thenM (set_cur (\<lambda>st. st\<lparr>ts_effect_history := ts_effect_history st @
                [\<lparr>er_tool_name = tool, er_effect_class = td_effect_class definition',
                  er_resource_id = pr_resource_id request, er_actor = agent_name_value agent\<rparr>]\<rparr>))
       (returnM v)))))"

definition outcome_event ::
  "tool_proposal \<Rightarrow> event_type \<Rightarrow> decision \<Rightarrow> pydict \<Rightarrow> string \<Rightarrow> unit top" where
  "outcome_event proposal et d details key =
     bindM (append_event
       (tool_event et (dc_because d) (tp_agent proposal) (tp_tool_name proposal)
         (tp_effect_class proposal) details (Some key)))
     (\<lambda>_. returnM ())"

definition required_details :: "decision \<Rightarrow> approval_record \<Rightarrow> pydict" where
  "required_details d a =
     [(''decision_id'', PStr (dc_decision_id d)), (''approval_id'', PStr (ar_approval_id a)),
      (''prepared_action_id'', PStr (ar_prepared_action_id a)),
      (''action_hash'', PStr (ar_action_hash a)), (''state_hash'', PStr (ar_state_hash a)),
      (''policy_version'', PStr (ar_policy_version a)),
      (''reason_code'', PStr (ar_reason_code a))]"

text \<open>What follows a decision.\<close>

definition apply_decision ::
  "governor \<Rightarrow> tool_proposal \<Rightarrow> tool_definition option \<Rightarrow> policy_request \<Rightarrow> pydict \<Rightarrow> decision
    \<Rightarrow> governed_tool_result top" where
  "apply_decision gv proposal definition' request arguments d =
     (let prop = ''proposal:'' @ tp_proposal_id proposal in
      case dc_applied_outcome d of
        DO_GUIDE \<Rightarrow>
          thenM (outcome_event proposal ET_TOOL_GUIDED d
            [(''decision_id'', PStr (dc_decision_id d)), (''guidance'', guidance_or_empty d)]
            (prop @ '':guided''))
          (returnM ((tool_result d)\<lparr>gr_guidance := dc_guidance d\<rparr>))
      | DO_BLOCK \<Rightarrow>
          thenM (outcome_event proposal ET_TOOL_BLOCKED d
            [(''decision_id'', PStr (dc_decision_id d)), (''reason_code'', PStr (dc_reason_code d))]
            (prop @ '':blocked''))
          (returnM (tool_result d))
      | DO_ESCALATE \<Rightarrow>
          bindM (create_approval arguments d) (\<lambda>approval.
          thenM (outcome_event proposal ET_APPROVAL_REQUIRED d (required_details d approval)
            (''approval:'' @ ar_approval_id approval @ '':required''))
          (returnM ((tool_result d)\<lparr>gr_pending_approval := Some approval\<rparr>)))
      | DO_ALLOW \<Rightarrow>
          (case definition' of
             None \<Rightarrow> returnM (tool_result d)
           | Some def' \<Rightarrow>
               bindM (perform gv proposal def' request arguments) (\<lambda>v.
               returnM ((tool_result d)\<lparr>gr_value := Some v\<rparr>))))"

definition execute_tool ::
  "governor \<Rightarrow> agent_name \<Rightarrow> string \<Rightarrow> pydict \<Rightarrow> governed_tool_result top" where
  "execute_tool gv agent tool_name arguments =
     bindM (getM cur) (\<lambda>st.
     if int (ts_tool_call_count st) \<ge> gv_max_tool_calls gv
     then raiseM (Manifest ToolExecutionError
            (''Trace '' @ ts_trace_id st @ '' exceeded the tool-call limit.''))
     else
       bindM (propose gv agent tool_name arguments) (\<lambda>(proposal, definition').
       bindM (decide gv proposal definition' arguments) (\<lambda>(request, d).
       apply_decision gv proposal definition' request arguments d)))"

end
