(* ===== verification/Agents.thy ===== *)
theory Agents
  imports Governor
begin

text \<open>
  \<open>apps/runtime/tool_result_projector.py\<close> and \<open>apps/runtime/agents\<close>: how a governed result is
  entered in the trajectory, and the work of the four deterministic roles.
\<close>

section \<open>The projector\<close>

definition tool_error :: "string \<Rightarrow> exc" where
  "tool_error m = Manifest ToolExecutionError m"

text \<open>\<open>d[key]\<close>.\<close>

definition item :: "pydict \<Rightarrow> string \<Rightarrow> pyval result" where
  "item d k = (case dget d k of None \<Rightarrow> Inl (PyExc KeyError k) | Some v \<Rightarrow> Inr v)"

definition mapping :: "string \<Rightarrow> tool_value \<Rightarrow> pydict result" where
  "mapping tool_name v =
     (case v of
        VDict d \<Rightarrow> Inr d
      | _ \<Rightarrow> Inl (tool_error (tool_name @ '' returned an invalid result.'')))"

definition project_vehicle :: "fixtures \<Rightarrow> string \<Rightarrow> vehicle result" where
  "project_vehicle fs vehicle_id =
     bindR (list_vehicles fs) (\<lambda>vehicles.
     case find (\<lambda>v. vh_vehicle_id v = vehicle_id) vehicles of
       Some v \<Rightarrow> Inr v
     | None \<Rightarrow> Inl (tool_error (''Vehicle '' @ vehicle_id @ '' was not found during projection.'')))"

definition project_quote :: "fixtures \<Rightarrow> trajectory_state \<Rightarrow> string \<Rightarrow> carrier_quote result" where
  "project_quote fs st quote_id =
     (case ts_order st of
        None \<Rightarrow> Inl (tool_error ''Carrier projection requires an order.'')
      | Some o' \<Rightarrow>
          bindR (list_carrier_quotes fs (PStr (od_destination_zone o'))) (\<lambda>quotes.
          case find (\<lambda>q. cq_quote_id q = quote_id) quotes of
            Some q \<Rightarrow> Inr q
          | None \<Rightarrow> Inl (tool_error (''Quote '' @ quote_id @ '' was not found during projection.''))))"

definition weight_fact :: "inventory_fact \<Rightarrow> numeric_fact" where
  "weight_fact f =
     \<lparr>nf_fact_id = if_fact_id f, nf_name = ''shipment_weight'', nf_value = if_shipment_weight_kg f,
      nf_unit = ''kg'', nf_source_id = if_source_id f, nf_source_hash = if_source_hash f,
      nf_created_by_tool = ''check_inventory''\<rparr>"

definition project_prepared :: "agent_name \<Rightarrow> pydict \<Rightarrow> tool_value \<Rightarrow> unit top" where
  "project_prepared agent arguments v =
     bindM (liftR (mapping ''prepare_freight_booking'' v)) (\<lambda>payload.
     bindM (liftR (item payload ''prepared_action_id'')) (\<lambda>pid.
     bindM (getM cur) (\<lambda>st.
     let prepared_id = py_str pid in
     if dmember prepared_id (ts_prepared_actions st) then returnM ()
     else
       bindM (liftR (item arguments ''amount_minor'')) (\<lambda>a.
       bindM (liftR (py_int a)) (\<lambda>amount_minor.
       bindM (liftR (item arguments ''quote_id'')) (\<lambda>q.
       bindM (liftR (item arguments ''currency'')) (\<lambda>c.
       bindM (build_prepared_action st prepared_id (py_str q) amount_minor (py_str c) agent)
         (\<lambda>prepared.
       set_cur (\<lambda>st. st\<lparr>
         ts_prepared_actions := dput prepared_id prepared (ts_prepared_actions st),
         ts_prepared_by := Some agent,
         ts_spend_reserved_minor := ts_spend_reserved_minor st + amount_minor,
         ts_workflow_stage := WS_BOOKING_PREPARED\<rparr>)))))))))"

definition project ::
  "fixtures \<Rightarrow> agent_name \<Rightarrow> string \<Rightarrow> pydict \<Rightarrow> tool_value \<Rightarrow> unit top" where
  "project fs agent tool_name arguments v =
     (if tool_name = ''get_order'' then
        (case v of
           VOrder o' \<Rightarrow> set_cur (\<lambda>st. st\<lparr>ts_order := Some o'\<rparr>)
         | _ \<Rightarrow> raiseM (tool_error ''get_order returned an invalid result.''))
      else if tool_name = ''check_inventory'' then
        (case v of
           VFact f \<Rightarrow> set_cur (\<lambda>st. st\<lparr>ts_inventory_fact := Some f,
                        ts_facts := dput (if_fact_id f) (weight_fact f) (ts_facts st)\<rparr>)
         | _ \<Rightarrow> raiseM (tool_error ''check_inventory returned an invalid result.''))
      else if tool_name = ''create_dispatch_plan'' then
        bindM (liftR (mapping tool_name v)) (\<lambda>payload.
        bindM (liftR (item arguments ''vehicle_id'')) (\<lambda>vid.
        bindM (liftR (project_vehicle fs (py_str vid))) (\<lambda>vehicle.
        thenM (set_cur (\<lambda>st. st\<lparr>ts_selected_vehicle := Some vehicle\<rparr>))
        (bindM (liftR (item payload ''plan_id'')) (\<lambda>plan.
         set_cur (\<lambda>st. st\<lparr>ts_dispatch_plan_id := Some (py_str plan)\<rparr>))))))
      else if tool_name = ''select_carrier_quote'' then
        bindM (liftR (mapping tool_name v)) (\<lambda>payload.
        bindM (liftR (item arguments ''quote_id'')) (\<lambda>qid.
        bindM (getM cur) (\<lambda>st.
        bindM (liftR (project_quote fs st (py_str qid))) (\<lambda>quote.
        thenM (set_cur (\<lambda>st. st\<lparr>ts_selected_quote := Some quote\<rparr>))
        (bindM (liftR (item payload ''selection_id'')) (\<lambda>sel.
         set_cur (\<lambda>st. st\<lparr>ts_carrier_selection_id := Some (py_str sel),
                            ts_quoted_by := Some (cq_quote_issuer quote)\<rparr>)))))))
      else if tool_name = ''prepare_freight_booking'' then project_prepared agent arguments v
      else if tool_name = ''write_tracking_outbox'' then
        bindM (liftR (mapping tool_name v)) (\<lambda>payload.
        bindM (liftR (item payload ''notification_id'')) (\<lambda>n.
        set_cur (\<lambda>st. st\<lparr>ts_notification_id := Some (py_str n)\<rparr>)))
      else returnM ())"

section \<open>Inventory\<close>

definition value_of :: "governed_tool_result \<Rightarrow> tool_value top" where
  "value_of g =
     (case gr_value g of
        None \<Rightarrow> raiseM (Manifest PolicyBlockedError (dc_because (gr_decision g)))
      | Some v \<Rightarrow> returnM v)"

definition inventory_run :: "governor \<Rightarrow> string top" where
  "inventory_run gv =
     bindM (getM (\<lambda>s. ts_order_id (cur s))) (\<lambda>oid.
     bindM (execute_tool gv INVENTORY ''get_order'' [(''order_id'', PStr oid)]) (\<lambda>order_result.
     case gr_value order_result of
       Some (VOrder o') \<Rightarrow>
         thenM (project (gv_loader gv) INVENTORY ''get_order'' [(''order_id'', PStr oid)] (VOrder o'))
         (let args = [(''order_id'', PStr (od_order_id o')), (''sku_id'', PStr (od_sku_id o')),
                      (''quantity'', PInt (od_quantity o'))] in
          bindM (execute_tool gv INVENTORY ''check_inventory'' args) (\<lambda>fact_result.
          case gr_value fact_result of
            Some (VFact f) \<Rightarrow>
              thenM (project (gv_loader gv) INVENTORY ''check_inventory'' args (VFact f))
              (returnM (''Inventory Agent verified '' @ show_int (if_shipment_weight_kg f) @
                 '' kg of available stock from '' @ if_source_id f @ ''.''))
          | _ \<Rightarrow> raiseM (PyExc TypeError ''check_inventory returned an invalid result.'')))
     | _ \<Rightarrow> raiseM (PyExc TypeError ''get_order returned an invalid result.'')))"

section \<open>Dispatch\<close>

text \<open>\<open>[item for item in value if isinstance(item, Vehicle)]\<close>: a dataclass cannot be iterated.\<close>

definition vehicles_in :: "tool_value \<Rightarrow> vehicle list result" where
  "vehicles_in v =
     (case v of
        VVehicles vs \<Rightarrow> Inr vs
      | VQuotes _ \<Rightarrow> Inr []
      | VDict _ \<Rightarrow> Inr []
      | _ \<Rightarrow> Inl (PyExc TypeError ''object is not iterable''))"

definition quotes_in :: "tool_value \<Rightarrow> carrier_quote list result" where
  "quotes_in v =
     (case v of
        VQuotes qs \<Rightarrow> Inr qs
      | VVehicles _ \<Rightarrow> Inr []
      | VDict _ \<Rightarrow> Inr []
      | _ \<Rightarrow> Inl (PyExc TypeError ''object is not iterable''))"

definition find_vehicle :: "vehicle list \<Rightarrow> string \<Rightarrow> vehicle result" where
  "find_vehicle vehicles vehicle_id =
     (case find (\<lambda>v. vh_vehicle_id v = vehicle_id) vehicles of
        Some v \<Rightarrow> Inr v
      | None \<Rightarrow> Inl (Manifest NoSuitableVehicleError
                  (''Preferred vehicle '' @ vehicle_id @ '' is unavailable.'')))"

definition plan_arguments ::
  "trajectory_state \<Rightarrow> string \<Rightarrow> int \<Rightarrow> string \<Rightarrow> string \<Rightarrow> string \<Rightarrow> pydict" where
  "plan_arguments st vehicle_id weight unit fact_id attempt =
     [(''order_id'', PStr (ts_order_id st)), (''vehicle_id'', PStr vehicle_id),
      (''weight_value'', PInt weight), (''weight_unit'', PStr unit),
      (''weight_fact_id'', PStr fact_id),
      (''idempotency_key'', PStr (ts_trace_id st @ '':dispatch-plan:'' @ attempt))]"

text \<open>The vehicles that meet the guidance; the required capacity is read for each available one.\<close>

fun suitable_vehicles :: "pydict \<Rightarrow> int \<Rightarrow> vehicle list \<Rightarrow> vehicle list result" where
  "suitable_vehicles required weight [] = Inr []"
| "suitable_vehicles required weight (v # vs) =
     bindR
       (if \<not> vh_available v then Inr False
        else
          let minimum = get_none required ''minimum_capacity_kg'' in
          bindR (if truthy minimum then py_int minimum else Inr weight) (\<lambda>m.
          Inr (vh_capacity_kg v \<ge> m \<and>
            (\<not> truthy (get_none required ''refrigerated'') \<or> vh_refrigerated v))))
     (\<lambda>ok. bindR (suitable_vehicles required weight vs) (\<lambda>rest. Inr (if ok then v # rest else rest)))"

definition dispatch_retry ::
  "governor \<Rightarrow> governed_tool_result \<Rightarrow> inventory_fact \<Rightarrow> vehicle list
    \<Rightarrow> (vehicle \<times> int \<times> governed_tool_result) top" where
  "dispatch_retry gv result f vehicles =
     (let guidance = (case gr_guidance result of None \<Rightarrow> [] | Some g \<Rightarrow> g) in
      bindM (liftR (py_int (get_or guidance ''required_value'' (PInt (if_shipment_weight_kg f)))))
        (\<lambda>corrected.
      bindM (liftR
        (if list_ex vh_available vehicles
         then bindR (as_mapping (get_or guidance ''required_vehicle'' (PDict []))) (\<lambda>required.
                suitable_vehicles required corrected vehicles)
         else Inr [])) (\<lambda>candidates.
      if candidates = []
      then raiseM (Manifest NoSuitableVehicleError
             (''No suitable vehicle can carry '' @ show_int corrected @ '' kg.''))
      else
        let selected = hd (sort_key vh_vehicle_id candidates) in
        bindM (getM cur) (\<lambda>st.
        bindM (execute_tool gv DISPATCH ''create_dispatch_plan''
          (plan_arguments st (vh_vehicle_id selected) corrected
            (py_str (get_or guidance ''required_unit'' (PStr ''kg'')))
            (py_str (get_or guidance ''required_fact_id'' (PStr (if_fact_id f)))) ''2''))
        (\<lambda>result'. returnM (selected, corrected, result'))))))"

definition dispatch_run :: "governor \<Rightarrow> string top" where
  "dispatch_run gv =
     bindM (getM cur) (\<lambda>st.
     case (ts_order st, ts_inventory_fact st, ts_scenario_config st) of
       (Some o', Some f, Some sc) \<Rightarrow>
         bindM (execute_tool gv DISPATCH ''list_available_vehicles''
           [(''destination_zone'', PStr (od_destination_zone o'))]) (\<lambda>listed.
         bindM (value_of listed) (\<lambda>v.
         bindM (liftR (vehicles_in v)) (\<lambda>vehicles.
         bindM (liftR (find_vehicle vehicles (sc_preferred_vehicle_id sc))) (\<lambda>preferred.
         bindM (execute_tool gv DISPATCH ''create_dispatch_plan''
           (plan_arguments st (vh_vehicle_id preferred) (sc_attempted_weight_kg sc) ''kg''
             (if_fact_id f) ''1'')) (\<lambda>first.
         bindM (if dc_applied_outcome (gr_decision first) = DO_GUIDE
                then dispatch_retry gv first f vehicles
                else returnM (preferred, sc_attempted_weight_kg sc, first))
           (\<lambda>(selected, weight, result).
         bindM (value_of result) (\<lambda>w.
         thenM (project (gv_loader gv) DISPATCH ''create_dispatch_plan''
           [(''vehicle_id'', PStr (vh_vehicle_id selected))] w)
         (returnM (''Dispatch Agent selected vehicle '' @ vh_vehicle_id selected @ '' for '' @
            show_int weight @ '' kg.'')))))))))
     | _ \<Rightarrow> raiseM (Manifest NoSuitableVehicleError
              ''Dispatch requires a sourced inventory fact and scenario.''))"

section \<open>Carrier\<close>

definition find_quote :: "carrier_quote list \<Rightarrow> string \<Rightarrow> carrier_quote result" where
  "find_quote quotes quote_id =
     (case find (\<lambda>q. cq_quote_id q = quote_id) quotes of
        Some q \<Rightarrow> Inr q
      | None \<Rightarrow> Inl (Manifest NoSuitableCarrierError
                  (''Preferred quote '' @ quote_id @ '' is unavailable.'')))"

definition select_quote :: "governor \<Rightarrow> carrier_quote \<Rightarrow> string \<Rightarrow> governed_tool_result top" where
  "select_quote gv q attempt =
     bindM (getM cur) (\<lambda>st.
     execute_tool gv CARRIER ''select_carrier_quote''
       [(''order_id'', PStr (ts_order_id st)), (''quote_id'', PStr (cq_quote_id q)),
        (''idempotency_key'', PStr (ts_trace_id st @ '':carrier-selection:'' @ attempt))])"

definition carrier_select ::
  "governor \<Rightarrow> carrier_quote list \<Rightarrow> carrier_quote \<Rightarrow> (carrier_quote \<times> governed_tool_result) top" where
  "carrier_select gv quotes preferred =
     bindM (select_quote gv preferred ''1'') (\<lambda>first.
     if dc_applied_outcome (gr_decision first) = DO_GUIDE then
       (let candidates = filter (\<lambda>q. cq_cold_chain_certified q \<and> cq_lane_supported q) quotes in
        bindM (getM cur) (\<lambda>st.
        if candidates = []
        then raiseM (Manifest NoSuitableCarrierError
               (''No suitable carrier quote exists for '' @ ts_order_id st @ ''.''))
        else
          let selected = hd (sort_key (\<lambda>q. (cq_amount_minor q, cq_quote_id q)) candidates) in
          bindM (select_quote gv selected ''2'') (\<lambda>result. returnM (selected, result))))
     else returnM (preferred, first))"

definition confirm_arguments :: "trajectory_state \<Rightarrow> prepared_action \<Rightarrow> pydict" where
  "confirm_arguments st p =
     [(''prepared_action_id'', PStr (pa_prepared_action_id p)),
      (''action_hash'', PStr (pa_action_hash p)),
      (''idempotency_key'', PStr (ts_trace_id st @ '':confirm:'' @ pa_prepared_action_id p))]"

text \<open>Preparation of the selected quote, up to the prepared action.\<close>

definition carrier_prepare :: "governor \<Rightarrow> carrier_quote \<Rightarrow> prepared_action top" where
  "carrier_prepare gv selected =
     bindM (getM cur) (\<lambda>st.
     bindM (execute_tool gv CARRIER ''prepare_freight_booking''
       [(''order_id'', PStr (ts_order_id st)), (''quote_id'', PStr (cq_quote_id selected)),
        (''amount_minor'', PInt (cq_amount_minor selected)),
        (''currency'', PStr (cq_currency selected)),
        (''idempotency_key'', PStr (ts_trace_id st @ '':prepare:'' @ cq_quote_id selected))])
     (\<lambda>result.
     if dc_applied_outcome (gr_decision result) = DO_GUIDE
     then raiseM (Manifest PolicyBlockedError
            ''Selected carrier remained invalid during preparation.'')
     else
       bindM (value_of result) (\<lambda>v.
       thenM (project (gv_loader gv) CARRIER ''prepare_freight_booking''
         [(''quote_id'', PStr (cq_quote_id selected)),
          (''amount_minor'', PInt (cq_amount_minor selected)),
          (''currency'', PStr (cq_currency selected))] v)
       (bindM (liftR (mapping ''prepare_freight_booking'' v)) (\<lambda>payload.
        bindM (liftR (item payload ''prepared_action_id'')) (\<lambda>pid.
        bindM (getM (\<lambda>s. dget (ts_prepared_actions (cur s)) (py_str pid))) (\<lambda>found.
        case found of
          None \<Rightarrow> raiseM (PyExc KeyError (py_str pid))
        | Some p \<Rightarrow> returnM p)))))))"

definition carrier_run :: "governor \<Rightarrow> string top" where
  "carrier_run gv =
     bindM (getM cur) (\<lambda>st.
     case (ts_order st, ts_dispatch_plan_id st, ts_scenario_config st) of
       (Some o', Some plan, Some sc) \<Rightarrow>
         bindM (execute_tool gv CARRIER ''list_carrier_quotes''
           [(''order_id'', PStr (ts_order_id st)),
            (''destination_zone'', PStr (od_destination_zone o'))]) (\<lambda>listed.
         bindM (value_of listed) (\<lambda>v.
         bindM (liftR (quotes_in v)) (\<lambda>quotes.
         bindM (liftR (find_quote quotes (sc_preferred_quote_id sc))) (\<lambda>preferred.
         bindM (carrier_select gv quotes preferred) (\<lambda>(selected, result).
         bindM (value_of result) (\<lambda>w.
         thenM (project (gv_loader gv) CARRIER ''select_carrier_quote''
           [(''quote_id'', PStr (cq_quote_id selected))] w)
         (bindM (carrier_prepare gv selected) (\<lambda>p.
          bindM (getM cur) (\<lambda>st'.
          bindM (execute_tool gv CARRIER ''confirm_freight_booking'' (confirm_arguments st' p))
            (\<lambda>confirmed.
          case gr_pending_approval confirmed of
            Some _ \<Rightarrow> returnM (''Carrier Agent prepared '' @ cq_carrier_id selected @
                        ''; approval is required.'')
          | None \<Rightarrow>
              bindM (value_of confirmed) (\<lambda>_.
              returnM (''Carrier Agent confirmed '' @ cq_carrier_id selected @ '' for INR '' @
                money_text (cq_amount_minor selected) @ ''.''))))))))))))
     | _ \<Rightarrow> raiseM (Manifest NoSuitableCarrierError
              ''Carrier selection requires a dispatch plan and scenario.''))"

abbreviation approval_state_error :: "string \<Rightarrow> exc" where
  "approval_state_error m \<equiv> Manifest ApprovalStateMismatchError m"

definition resume_booking :: "governor \<Rightarrow> approval_record \<Rightarrow> string top" where
  "resume_booking gv approval =
     (if ar_status approval \<noteq> AS_APPROVED
      then raiseM (approval_state_error ''Only an approved record can resume a booking.'')
      else
        bindM (getM cur) (\<lambda>st.
        case dget (ts_prepared_actions st) (ar_prepared_action_id approval) of
          None \<Rightarrow> raiseM (approval_state_error
                    ''The prepared action is not approved for confirmation.'')
        | Some p \<Rightarrow>
            if pa_status p \<noteq> CS_APPROVED
            then raiseM (approval_state_error
                   ''The prepared action is not approved for confirmation.'')
            else
              bindM (execute_tool gv CARRIER ''confirm_freight_booking'' (confirm_arguments st p))
                (\<lambda>result.
              bindM (value_of result) (\<lambda>v.
              bindM (liftR (confirmation_id v)) (\<lambda>c.
              returnM (''Carrier Agent confirmed approved booking '' @ c @ ''.''))))))"

definition cancel_booking :: "governor \<Rightarrow> approval_record \<Rightarrow> string \<Rightarrow> string top" where
  "cancel_booking gv approval reason_code =
     (let pid = ar_prepared_action_id approval in
      bindM (getM cur) (\<lambda>st.
      case dget (ts_prepared_actions st) pid of
        None \<Rightarrow> raiseM (approval_state_error ''The prepared action to cancel was not found.'')
      | Some p \<Rightarrow>
          thenM
            (if ar_status approval = AS_REJECTED then set_cur (set_prepared_status pid CS_REJECTED)
             else if ar_status approval = AS_EXPIRED then set_cur (set_prepared_status pid CS_EXPIRED)
             else raiseM (approval_state_error
                    ''Only rejected or expired actions can be cancelled.''))
          (bindM (execute_tool gv CARRIER ''cancel_freight_booking''
             [(''prepared_action_id'', PStr (pa_prepared_action_id p)),
              (''action_hash'', PStr (pa_action_hash p)),
              (''cancellation_reason_code'', PStr reason_code),
              (''idempotency_key'',
                PStr (ts_trace_id st @ '':cancel:'' @ pa_prepared_action_id p))])
           (\<lambda>result.
           bindM (value_of result) (\<lambda>_.
           returnM (''Carrier Agent cancelled prepared booking '' @
             pa_prepared_action_id p @ ''.''))))))"

section \<open>Customer communications\<close>

definition communications_run :: "governor \<Rightarrow> string top" where
  "communications_run gv =
     bindM (getM cur) (\<lambda>st.
     case (ts_selected_quote st, ts_confirmed_booking_id st) of
       (Some q, Some _) \<Rightarrow>
         bindM (execute_tool gv CUSTOMER_COMMUNICATIONS ''write_tracking_outbox''
           [(''order_id'', PStr (ts_order_id st)),
            (''recipient_ref'', PStr (''DEMO-RECIPIENT-'' @ removeprefix ''ORD-'' (ts_order_id st))),
            (''template_id'', PStr ''TRACKING_UPDATE_V1''),
            (''template_variables'', PDict
              [(''order_id'', PStr (ts_order_id st)), (''carrier_id'', PStr (cq_carrier_id q))]),
            (''idempotency_key'', PStr (ts_trace_id st @ '':tracking-outbox''))])
         (\<lambda>result.
         case gr_value result of
           None \<Rightarrow> raiseM (Manifest ManifestError (dc_because (gr_decision result)))
         | Some v \<Rightarrow>
             thenM (project (gv_loader gv) CUSTOMER_COMMUNICATIONS ''write_tracking_outbox''
               [(''order_id'', PStr (ts_order_id st))] v)
             (returnM ''Customer Communications Agent wrote a simulated tracking message.''))
     | _ \<Rightarrow> raiseM (Manifest ManifestError
              ''A confirmed carrier booking is required before notification.''))"

section \<open>The interface of a role\<close>

text \<open>
  What the orchestrator calls of a role.  Only the carrier has the last two operations; for the
  other roles the attribute is missing.
\<close>

record role =
  rl_name :: agent_name
  rl_run :: "governor \<Rightarrow> string top"
  rl_resume_booking :: "governor \<Rightarrow> approval_record \<Rightarrow> string top"
  rl_cancel_booking :: "governor \<Rightarrow> approval_record \<Rightarrow> string \<Rightarrow> string top"

definition plain_role :: "agent_name \<Rightarrow> (governor \<Rightarrow> string top) \<Rightarrow> role" where
  "plain_role name run =
     \<lparr>rl_name = name, rl_run = run,
      rl_resume_booking = (\<lambda>_ _. raiseM (PyExc AttributeError ''resume_booking'')),
      rl_cancel_booking = (\<lambda>_ _ _. raiseM (PyExc AttributeError ''cancel_booking''))\<rparr>"

definition carrier_role :: role where
  "carrier_role =
     \<lparr>rl_name = CARRIER, rl_run = carrier_run, rl_resume_booking = resume_booking,
      rl_cancel_booking = cancel_booking\<rparr>"

definition legacy_roles :: "role list" where
  "legacy_roles =
     [plain_role INVENTORY inventory_run, plain_role DISPATCH dispatch_run, carrier_role,
      plain_role CUSTOMER_COMMUNICATIONS communications_run]"

end
