(* ===== verification/Orchestrator.thy ===== *)
theory Orchestrator
  imports Agents
begin

text \<open>
  \<open>apps/runtime/orchestrator.py\<close> with the settings of \<open>apps/runtime/runtime_settings.py\<close>: the
  bounded sequential run of the roles, its resumption after an approval and its cancellation.
\<close>

section \<open>Settings\<close>

record runtime_settings =
  se_runtime_mode :: string
  se_model_provider :: string
  se_model_id :: string
  se_max_turns :: int
  se_timeout_seconds :: pyfloat
  se_max_output_tokens :: int
  se_bedrock_region :: string

definition default_settings :: runtime_settings where
  "default_settings =
     \<lparr>se_runtime_mode = ''legacy'', se_model_provider = ''deterministic'',
      se_model_id = ''manifest-deterministic-v1'', se_max_turns = 8,
      se_timeout_seconds = FFinite 15 ''15.0'', se_max_output_tokens = 1024,
      se_bedrock_region = ''us-east-1''\<rparr>"

abbreviation runtime_config_error :: "string \<Rightarrow> exc" where
  "runtime_config_error m \<equiv> Manifest RuntimeConfigurationError m"

text \<open>\<open>0 < x <= 60\<close> on floats.\<close>

definition timeout_ok :: "pyfloat \<Rightarrow> bool" where
  "timeout_ok f = (case f of FFinite q _ \<Rightarrow> 0 < q \<and> q \<le> 60 | _ \<Rightarrow> False)"

definition validate_strands :: "runtime_settings \<Rightarrow> unit result" where
  "validate_strands se =
     (if se_model_provider se \<notin> {''recorded'', ''openrouter'', ''bedrock_mantle'', ''bedrock''}
        then Inl (runtime_config_error (''Strands model provider '' @
               repr_str (se_model_provider se) @ '' is not supported.''))
      else if se_model_id se = []
        then Inl (runtime_config_error ''The selected model ID cannot be empty.'')
      else if se_model_provider se = ''recorded'' \<and> se_model_id se \<noteq> ''manifest-recorded-v1''
        then Inl (runtime_config_error ''Recorded mode requires model manifest-recorded-v1.'')
      else if se_model_provider se \<in> {''bedrock'', ''bedrock_mantle''} \<and> se_bedrock_region se = []
        then Inl (runtime_config_error ''Bedrock mode requires MANIFEST_BEDROCK_REGION.'')
      else Inr ())"

definition validate_settings :: "runtime_settings \<Rightarrow> unit result" where
  "validate_settings se =
     (if se_runtime_mode se \<notin> {''legacy'', ''strands''}
        then Inl (runtime_config_error (''Agent runtime '' @ repr_str (se_runtime_mode se) @
               '' is not supported.''))
      else if se_runtime_mode se = ''legacy'' \<and>
              (se_model_provider se, se_model_id se) \<noteq> (''deterministic'', ''manifest-deterministic-v1'')
        then Inl (runtime_config_error ''The legacy runtime supports only manifest-deterministic-v1.'')
      else
        bindR (if se_runtime_mode se = ''strands'' then validate_strands se else Inr ()) (\<lambda>_.
        if \<not> (1 \<le> se_max_turns se \<and> se_max_turns se \<le> 12)
          then Inl (runtime_config_error ''Agent maximum turns must be between 1 and 12.'')
        else if \<not> timeout_ok (se_timeout_seconds se)
          then Inl (runtime_config_error
                 ''Agent timeout must be greater than zero and no more than 60 seconds.'')
        else if \<not> (128 \<le> se_max_output_tokens se \<and> se_max_output_tokens se \<le> 2048)
          then Inl (runtime_config_error
                 ''Model maximum output tokens must be between 128 and 2048.'')
        else Inr ()))"

definition provider_route_kind :: "runtime_settings \<Rightarrow> string" where
  "provider_route_kind se =
     (if se_model_provider se = ''openrouter'' \<and> se_model_id se = ''openrouter/free''
      then ''router'' else ''fixed'')"

definition resolved_model_id :: "runtime_settings \<Rightarrow> string option" where
  "resolved_model_id se =
     (if provider_route_kind se = ''router'' then None else Some (se_model_id se))"

definition describe_settings :: "runtime_settings \<Rightarrow> pydict" where
  "describe_settings se =
     [(''runtime_mode'', PStr (se_runtime_mode se)),
      (''model_provider'', PStr (se_model_provider se)), (''model_id'', PStr (se_model_id se)),
      (''requested_model_id'', PStr (se_model_id se)),
      (''resolved_model_id'', opt_str (resolved_model_id se)),
      (''provider_route_kind'', PStr (provider_route_kind se)),
      (''agent_max_turns'', PInt (se_max_turns se)),
      (''agent_timeout_seconds'', PFloat (se_timeout_seconds se)),
      (''model_max_output_tokens'', PInt (se_max_output_tokens se)),
      (''provider_fallback_active'', PBool False)]"

section \<open>The orchestrator\<close>

record orchestrator =
  oc_roles :: "role list"
  oc_governor :: governor
  oc_loader :: fixtures
  oc_settings :: runtime_settings

definition run_event ::
  "event_type \<Rightarrow> string \<Rightarrow> agent_name option \<Rightarrow> pydict \<Rightarrow> string option \<Rightarrow> unit top" where
  "run_event et summary agent details key =
     bindM (append_event
       \<lparr>ed_event_type = et, ed_summary = summary, ed_details = details, ed_agent = agent,
        ed_tool_name = None, ed_effect_class = None, ed_idempotency_key = key\<rparr>)
     (\<lambda>_. returnM ())"

definition has_pending :: "trajectory_state \<Rightarrow> bool" where
  "has_pending st \<longleftrightarrow> (case ts_pending_approval_id st of None \<Rightarrow> False | Some a \<Rightarrow> a \<noteq> [])"

definition mark_agent_stage :: "agent_name \<Rightarrow> trajectory_state \<Rightarrow> trajectory_state" where
  "mark_agent_stage name st =
     (if name = INVENTORY then st\<lparr>ts_workflow_stage := WS_INVENTORY_COMPLETE\<rparr>
      else if name = DISPATCH then st\<lparr>ts_workflow_stage := WS_DISPATCH_COMPLETE\<rparr>
      else if name = CARRIER \<and>
              (case ts_confirmed_booking_id st of None \<Rightarrow> False | Some b \<Rightarrow> b \<noteq> [])
        then st\<lparr>ts_workflow_stage := WS_BOOKING_CONFIRMED\<rparr>
      else if name = CUSTOMER_COMMUNICATIONS
        then st\<lparr>ts_workflow_stage := WS_NOTIFICATION_SENT\<rparr>
      else st)"

text \<open>The loop over the roles; a pending approval ends it.\<close>

fun run_roles :: "governor \<Rightarrow> role list \<Rightarrow> unit top" where
  "run_roles gv [] = returnM ()"
| "run_roles gv (r # rs) =
     bindM (getM (\<lambda>s. has_pending (cur s))) (\<lambda>pending.
     if pending then returnM ()
     else
       thenM (set_cur (ts_current_agent_update (\<lambda>_. Some (rl_name r))))
       (thenM (run_event ET_AGENT_STARTED (agent_name_value (rl_name r) @ '' agent started.'')
          (Some (rl_name r)) [] None)
       (bindM (rl_run r gv) (\<lambda>summary.
        bindM (getM (\<lambda>s. has_pending (cur s))) (\<lambda>paused.
        thenM
          (if paused then
             thenM (set_cur (ts_workflow_stage_update (\<lambda>_. WS_AWAITING_APPROVAL)))
               (run_event ET_AGENT_PAUSED summary (Some (rl_name r)) [] None)
           else
             thenM (set_cur (mark_agent_stage (rl_name r)))
               (run_event ET_AGENT_COMPLETED summary (Some (rl_name r)) [] None))
          (run_roles gv rs))))))"

definition pending_id :: "trajectory_state \<Rightarrow> string" where
  "pending_id st = (case ts_pending_approval_id st of None \<Rightarrow> [] | Some a \<Rightarrow> a)"

definition finish_run :: "orchestrator \<Rightarrow> string \<Rightarrow> unit top" where
  "finish_run oc order_id =
     thenM (set_cur (ts_current_agent_update (\<lambda>_. None)))
     (bindM (getM cur) (\<lambda>st.
      if has_pending st then
        thenM (set_cur (ts_status_update (\<lambda>_. RS_PENDING_APPROVAL)))
          (run_event ET_RUN_PAUSED (''Run paused for approval '' @ pending_id st @ ''.'') None
            [(''approval_id'', PStr (pending_id st))]
            (Some (''run:'' @ ts_trace_id st @ '':paused:'' @ pending_id st)))
      else
        thenM (set_cur (\<lambda>st. st\<lparr>ts_status := RS_COMPLETED, ts_workflow_stage := WS_COMPLETE\<rparr>))
          (run_event ET_RUN_COMPLETED
            (''Completed '' @ se_runtime_mode (oc_settings oc) @ '' journey for '' @ order_id @ ''.'')
            None [] (Some (''run:'' @ ts_trace_id st @ '':completed'')))))"

definition failure_details :: "orchestrator \<Rightarrow> exc \<Rightarrow> agent_name option \<Rightarrow> pydict" where
  "failure_details oc e failed_agent =
     (case e of
        PyExc _ _ \<Rightarrow> [(''error_code'', PStr ''UNEXPECTED_ERROR'')]
      | Manifest c _ \<Rightarrow>
          [(''error_code'', PStr (error_code c))] @
          (if isinstance c ProviderError then
             [(''provider_failure_category'', PStr (error_code c)),
              (''model_provider'', PStr (se_model_provider (oc_settings oc))),
              (''requested_model_id'', PStr (se_model_id (oc_settings oc))),
              (''stage'', PStr (case failed_agent of
                 None \<Rightarrow> ''unknown'' | Some a \<Rightarrow> agent_name_value a))]
           else []))"

text \<open>The two handlers that \<open>run\<close> and \<open>resume_approved\<close> share.\<close>

definition handle_failure :: "orchestrator \<Rightarrow> exc \<Rightarrow> unit top" where
  "handle_failure oc e =
     (case e of
        Manifest c m \<Rightarrow>
          if isinstance c PolicyBlockedError then
            thenM (set_cur (\<lambda>st. st\<lparr>ts_status := RS_BLOCKED, ts_workflow_stage := WS_BLOCKED,
                     ts_current_agent := None, ts_error := Some m\<rparr>))
              (run_event ET_RUN_FAILED m None
                [(''error_code'', PStr (error_code c)), (''terminal_status'', PStr ''blocked'')] None)
          else
            bindM (getM (\<lambda>s. ts_current_agent (cur s))) (\<lambda>failed_agent.
            thenM (set_cur (\<lambda>st. st\<lparr>ts_status := RS_FAILED, ts_workflow_stage := WS_FAILED,
                     ts_current_agent := None, ts_error := Some m\<rparr>))
              (run_event ET_RUN_FAILED m None (failure_details oc e failed_agent) None))
      | PyExc _ _ \<Rightarrow>
          bindM (getM (\<lambda>s. ts_current_agent (cur s))) (\<lambda>failed_agent.
          thenM (set_cur (\<lambda>st. st\<lparr>ts_status := RS_FAILED, ts_workflow_stage := WS_FAILED,
                   ts_current_agent := None, ts_error := Some ''Run failed unexpectedly.''\<rparr>))
            (run_event ET_RUN_FAILED ''Run failed unexpectedly.'' None
              (failure_details oc e failed_agent) None)))"

definition started_details ::
  "orchestrator \<Rightarrow> governance_mode \<Rightarrow> scenario_name \<Rightarrow> shipment_mandate \<Rightarrow> string \<Rightarrow> pydict" where
  "started_details oc mode scenario mandate policy_version =
     describe_settings (oc_settings oc) @
     [(''governor_mode'', PStr ''policy_enforced''), (''mode'', PStr (governance_mode_value mode)),
      (''scenario'', PStr (scenario_name_value scenario)),
      (''mandate_id'', PStr (sm_mandate_id mandate)), (''policy_version'', PStr policy_version)]"

definition run ::
  "orchestrator \<Rightarrow> string \<Rightarrow> governance_mode \<Rightarrow> scenario_name \<Rightarrow> shipment_mandate option
    \<Rightarrow> scenario_config option \<Rightarrow> trajectory_state top" where
  "run oc order_id mode scenario mandate scenario_config' =
     bindM (liftR (get_order (oc_loader oc) order_id)) (\<lambda>o'.
     bindM (case mandate of
              Some m \<Rightarrow> returnM m
            | None \<Rightarrow> liftR (get_mandate (oc_loader oc) o' mode)) (\<lambda>active_mandate.
     bindM (case scenario_config' of
              Some c \<Rightarrow> returnM c
            | None \<Rightarrow> liftR (get_scenario (oc_loader oc) order_id scenario)) (\<lambda>active_scenario.
     bindM uuid4 (\<lambda>u.
     let st = (new_trajectory (''TR-'' @ u) order_id)\<lparr>
           ts_status := RS_RUNNING, ts_mode := mode, ts_scenario := scenario,
           ts_scenario_config := Some active_scenario, ts_mandate := Some active_mandate,
           ts_policy_version := sm_policy_version active_mandate,
           ts_spend_committed_minor := sc_prior_committed_minor active_scenario\<rparr> in
     thenM (create_object st)
     (thenM (run_event ET_RUN_STARTED
        (''Started '' @ scenario_name_value scenario @ '' journey for '' @ order_id @ '' in '' @
         governance_mode_value mode @ '' mode.'') None
        (started_details oc mode scenario active_mandate (ts_policy_version st))
        (Some (''run:'' @ ts_trace_id st @ '':started'')))
     (thenM (catchM (thenM (run_roles (oc_governor oc) (oc_roles oc)) (finish_run oc order_id))
        (handle_failure oc))
     (getM cur)))))))"

fun find_role :: "role list \<Rightarrow> agent_name \<Rightarrow> role result" where
  "find_role [] name =
     Inl (Manifest ApprovalStateMismatchError
            (''Required agent '' @ agent_name_value name @ '' is unavailable.''))"
| "find_role (r # rs) name = (if rl_name r = name then Inr r else find_role rs name)"

definition not_waiting :: "trajectory_state \<Rightarrow> bool" where
  "not_waiting st \<longleftrightarrow>
     ts_status st \<noteq> RS_PENDING_APPROVAL \<or> ts_workflow_stage st \<noteq> WS_AWAITING_APPROVAL"

definition resume_body :: "orchestrator \<Rightarrow> role \<Rightarrow> role \<Rightarrow> approval_record \<Rightarrow> unit top" where
  "resume_body oc carrier communications approval =
     bindM (rl_resume_booking carrier (oc_governor oc) approval) (\<lambda>summary.
     thenM (run_event ET_AGENT_COMPLETED summary (Some CARRIER) [] None)
     (thenM (set_cur (ts_current_agent_update (\<lambda>_. Some CUSTOMER_COMMUNICATIONS)))
     (thenM (run_event ET_AGENT_STARTED ''customer_communications agent started.''
        (Some CUSTOMER_COMMUNICATIONS) [] None)
     (bindM (rl_run communications (oc_governor oc)) (\<lambda>summary'.
      thenM (set_cur (ts_workflow_stage_update (\<lambda>_. WS_NOTIFICATION_SENT)))
      (thenM (run_event ET_AGENT_COMPLETED summary' (Some CUSTOMER_COMMUNICATIONS) [] None)
      (thenM (set_cur (\<lambda>st. st\<lparr>ts_current_agent := None, ts_status := RS_COMPLETED,
                ts_workflow_stage := WS_COMPLETE\<rparr>))
      (bindM (getM cur) (\<lambda>st.
       run_event ET_RUN_COMPLETED (''Completed approved journey for '' @ ts_order_id st @ ''.'')
         None [] (Some (''run:'' @ ts_trace_id st @ '':completed'')))))))))))"

definition resume_approved :: "orchestrator \<Rightarrow> approval_record \<Rightarrow> trajectory_state top" where
  "resume_approved oc approval =
     bindM (getM cur) (\<lambda>st.
     if not_waiting st
     then raiseM (approval_state_error ''The run is not waiting for approval.'')
     else
       bindM (liftR (find_role (oc_roles oc) CARRIER)) (\<lambda>carrier.
       bindM (liftR (find_role (oc_roles oc) CUSTOMER_COMMUNICATIONS)) (\<lambda>communications.
       thenM (set_cur (\<lambda>st. st\<lparr>ts_status := RS_RUNNING, ts_current_agent := Some CARRIER\<rparr>))
       (thenM (run_event ET_RUN_RESUMED
          (''Run resumed after approval '' @ ar_approval_id approval @ ''.'') None
          [(''approval_id'', PStr (ar_approval_id approval))]
          (Some (''run:'' @ ts_trace_id st @ '':resumed:'' @ ar_approval_id approval)))
       (thenM (run_event ET_AGENT_RESUMED ''carrier agent resumed the prepared booking.''
          (Some CARRIER) [] None)
       (thenM (catchM (resume_body oc carrier communications approval) (handle_failure oc))
       (getM cur)))))))"

definition cancel_pending :: "orchestrator \<Rightarrow> approval_record \<Rightarrow> string \<Rightarrow> trajectory_state top" where
  "cancel_pending oc approval reason_code =
     bindM (getM cur) (\<lambda>st.
     if not_waiting st
     then raiseM (approval_state_error ''The run is not waiting for approval.'')
     else
       bindM (liftR (find_role (oc_roles oc) CARRIER)) (\<lambda>carrier.
       thenM (set_cur (ts_current_agent_update (\<lambda>_. Some CARRIER)))
       (thenM (run_event ET_AGENT_RESUMED ''carrier agent resumed to cancel the prepared booking.''
          (Some CARRIER) [] None)
       (bindM (rl_cancel_booking carrier (oc_governor oc) approval reason_code) (\<lambda>summary.
        thenM (run_event ET_AGENT_COMPLETED summary (Some CARRIER) [] None)
        (thenM (set_cur (\<lambda>st. st\<lparr>ts_current_agent := None, ts_status := RS_CANCELLED,
                  ts_workflow_stage := WS_CANCELLED, ts_terminal_reason := Some reason_code\<rparr>))
        (thenM (run_event ET_RUN_CANCELLED ''Run cancelled after the prepared booking was released.''
           None
           [(''reason_code'', PStr reason_code), (''approval_id'', PStr (ar_approval_id approval))]
           (Some (''run:'' @ ts_trace_id st @ '':cancelled:'' @ reason_code)))
        (getM cur))))))))"

end
