(* ===== verification/Approvals.thy ===== *)
theory Approvals
  imports Commitments
begin

text \<open>
  \<open>packages/approvals/service.py\<close>: the command of an approver, the checks that a pending
  approval must pass, and its immutable transitions.  \<open>now_fn\<close> is \<open>utc_now\<close>, as the service
  constructs the lifecycle.
\<close>

record approval_command =
  ac_decision :: approval_decision
  ac_approver_label :: string
  ac_comment :: "string option"
  ac_expected_version :: int
  ac_idempotency_key :: string

definition approval_fingerprint :: "approval_command \<Rightarrow> string" where
  "approval_fingerprint c =
     sha256_hex (json_dumps json_quote_ascii (PDict
       [(''decision'', PStr (approval_decision_value (ac_decision c))),
        (''approver_label'', PStr (ac_approver_label c)),
        (''comment'', opt_str (ac_comment c)),
        (''expected_version'', PInt (ac_expected_version c)),
        (''idempotency_key'', PStr (ac_idempotency_key c))]))"

abbreviation not_pending :: "approval_record \<Rightarrow> exc" where
  "not_pending a \<equiv>
     Manifest ApprovalNotPendingError
       (''Approval '' @ ar_approval_id a @ '' is already '' @
        approval_status_value (ar_status a) @ ''.'')"

text \<open>
  \<open>validate_pending\<close> from the binding of the trace on: the checks that do not read the clock.
\<close>

definition validate_binding ::
  "approval_record \<Rightarrow> trajectory_state \<Rightarrow> approval_command \<Rightarrow> unit result" where
  "validate_binding a st c =
     (if ts_status st \<noteq> RS_PENDING_APPROVAL \<or> ts_workflow_stage st \<noteq> WS_AWAITING_APPROVAL
        then Inl (Manifest ApprovalStateMismatchError
               ''The run is not waiting at the expected approval stage.'')
      else if ts_pending_approval_id st \<noteq> Some (ar_approval_id a) \<or>
              ts_trace_id st \<noteq> ar_trace_id a
        then Inl (Manifest ApprovalStateMismatchError
               ''The approval is not bound to this pending trace.'')
      else case dget (ts_prepared_actions st) (ar_prepared_action_id a) of
        None \<Rightarrow> Inl (Manifest ApprovalActionMismatchError
                  ''The approval's prepared action was not found in this trace.'')
      | Some p \<Rightarrow>
          if pa_trace_id p \<noteq> ts_trace_id st
            then Inl (Manifest ApprovalActionMismatchError
                   ''The approval's prepared action was not found in this trace.'')
          else if pa_status p \<noteq> CS_PENDING_APPROVAL
            then Inl (Manifest ApprovalStateMismatchError
                   ''The prepared action is not pending approval.'')
          else if prepared_action_hash p \<noteq> pa_action_hash p \<or>
                  ar_action_hash a \<noteq> pa_action_hash p
            then Inl (Manifest ApprovalActionMismatchError
                   ''The prepared action no longer matches the approval.'')
          else if prepared_state_hash st p \<noteq> pa_state_hash p \<or>
                  ar_state_hash a \<noteq> pa_state_hash p
            then Inl (Manifest ApprovalStateMismatchError
                   ''The prepared state no longer matches the approval.'')
          else if (case ts_mandate st of None \<Rightarrow> True | Some m \<Rightarrow>
                     ar_policy_version a \<noteq> ts_policy_version st \<or>
                     pa_policy_version p \<noteq> ts_policy_version st \<or>
                     pa_mandate_id p \<noteq> sm_mandate_id m)
            then Inl (Manifest ApprovalPolicyMismatchError
                   ''The active mandate or policy version changed after preparation.'')
          else if ts_spend_committed_minor st \<noteq> pa_spend_committed_at_prepare_minor p \<or>
                  ts_spend_reserved_minor st \<noteq> pa_spend_reserved_after_minor p
            then Inl (Manifest ApprovalStateMismatchError
                   ''Spend state changed after the action was prepared.'')
          else if (case ts_selected_quote st of None \<Rightarrow> True | Some q \<Rightarrow>
                     cq_quote_id q \<noteq> pa_resource_id p \<or> cq_amount_minor q \<noteq> pa_amount_minor p \<or>
                     cq_currency q \<noteq> pa_currency p)
            then Inl (Manifest ApprovalActionMismatchError
                   ''The selected quote changed after preparation.'')
          else if casefold (ac_approver_label c) = casefold (agent_name_value (pa_prepared_by p))
            then Inl (Manifest ApproverConflictError
                   ''The action preparer cannot approve the same commitment.'')
          else Inr ())"

definition validate_pending ::
  "approval_record \<Rightarrow> trajectory_state \<Rightarrow> approval_command \<Rightarrow> ('z, unit) op" where
  "validate_pending a st c =
     (if ar_status a \<noteq> AS_PENDING_APPROVAL then raiseM (not_pending a)
      else if ac_expected_version c \<noteq> ar_version a
        then raiseM (Manifest ApprovalVersionConflictError
               (''Approval '' @ ar_approval_id a @ '' is no longer at version '' @
                show_int (ac_expected_version c) @ ''.''))
      else bindM utc_now (\<lambda>now.
        if now \<ge> ar_expires_at a
        then raiseM (Manifest ApprovalExpiredError
               (''Approval '' @ ar_approval_id a @ '' has expired.''))
        else liftR (validate_binding a st c)))"

definition resolve :: "approval_record \<Rightarrow> approval_command \<Rightarrow> ('z, approval_record) op" where
  "resolve a c =
     bindM utc_now (\<lambda>now.
     returnM (a\<lparr>ar_status := (if ac_decision c = AD_APPROVE then AS_APPROVED else AS_REJECTED),
                ar_version := ar_version a + 1, ar_decided_at := Some now,
                ar_decision := Some (ac_decision c),
                ar_approver_label := Some (ac_approver_label c), ar_comment := ac_comment c,
                ar_decision_idempotency_key := Some (ac_idempotency_key c)\<rparr>))"

definition expire :: "approval_record \<Rightarrow> ('z, approval_record) op" where
  "expire a =
     (if ar_status a \<noteq> AS_PENDING_APPROVAL then raiseM (not_pending a)
      else bindM utc_now (\<lambda>now.
        returnM (a\<lparr>ar_status := AS_EXPIRED, ar_version := ar_version a + 1,
                   ar_decided_at := Some now\<rparr>)))"

section \<open>What a validated approval is bound to\<close>

definition approval_bound :: "approval_record \<Rightarrow> trajectory_state \<Rightarrow> prepared_action \<Rightarrow> bool" where
  "approval_bound a st p \<longleftrightarrow>
     ts_status st = RS_PENDING_APPROVAL \<and> ts_workflow_stage st = WS_AWAITING_APPROVAL \<and>
     ts_pending_approval_id st = Some (ar_approval_id a) \<and> ts_trace_id st = ar_trace_id a \<and>
     pa_trace_id p = ts_trace_id st \<and> pa_status p = CS_PENDING_APPROVAL \<and>
     pa_action_hash p = prepared_action_hash p \<and> ar_action_hash a = pa_action_hash p \<and>
     pa_state_hash p = prepared_state_hash st p \<and> ar_state_hash a = pa_state_hash p \<and>
     (\<exists>m. ts_mandate st = Some m \<and> pa_mandate_id p = sm_mandate_id m) \<and>
     ar_policy_version a = ts_policy_version st \<and> pa_policy_version p = ts_policy_version st \<and>
     ts_spend_committed_minor st = pa_spend_committed_at_prepare_minor p \<and>
     ts_spend_reserved_minor st = pa_spend_reserved_after_minor p \<and>
     (\<exists>q. ts_selected_quote st = Some q \<and> cq_quote_id q = pa_resource_id p \<and>
        cq_amount_minor q = pa_amount_minor p \<and> cq_currency q = pa_currency p)"

lemma validate_binding_iff:
  "validate_binding a st c = Inr () \<longleftrightarrow>
     (\<exists>p. dget (ts_prepared_actions st) (ar_prepared_action_id a) = Some p \<and>
        approval_bound a st p \<and>
        casefold (ac_approver_label c) \<noteq> casefold (agent_name_value (pa_prepared_by p)))"
proof (cases "dget (ts_prepared_actions st) (ar_prepared_action_id a)")
  case None
  then show ?thesis by (simp add: validate_binding_def)
next
  case (Some p)
  then show ?thesis
    by (cases "ts_mandate st"; cases "ts_selected_quote st")
      (auto simp: validate_binding_def approval_bound_def)
qed

abbreviation clock_now :: "'z store_sys_scheme \<Rightarrow> int" where
  "clock_now s \<equiv> wd_clock (wld s) (wd_clock_pos (wld s))"

lemma validate_pending_iff:
  "fst (validate_pending a st c s) = Inr () \<longleftrightarrow>
     ar_status a = AS_PENDING_APPROVAL \<and> ac_expected_version c = ar_version a \<and>
     clock_now s < ar_expires_at a \<and> validate_binding a st c = Inr ()"
  by (auto simp: validate_pending_def)

lemma keeps_approvals [keeps]:
  "keepsI (ledger_from ms0) (validate_pending a st c)"
  "keepsI (ledger_from ms0) (resolve a c)"
  "keepsI (ledger_from ms0) (expire a)"
  unfolding validate_pending_def resolve_def expire_def by (intro keeps)+

end
