(* ===== verification/Service.thy ===== *)
theory Service
  imports Orchestrator Approvals
begin

text \<open>
  \<open>apps/runtime/service.py\<close>: the application service over the orchestrator, the store and the
  approval lifecycle.  Its lock makes the resolution of an approval one step.
\<close>

record run_service =
  sv_orchestrator :: orchestrator

abbreviation sv_governor :: "run_service \<Rightarrow> governor" where
  "sv_governor sv \<equiv> oc_governor (sv_orchestrator sv)"

abbreviation sv_loader :: "run_service \<Rightarrow> fixtures" where
  "sv_loader sv \<equiv> oc_loader (sv_orchestrator sv)"

definition engine_name_of :: "run_service \<Rightarrow> string" where
  "engine_name_of sv = pe_name (gv_engine (sv_governor sv))"

definition summary_of :: "run_service \<Rightarrow> trajectory_state \<Rightarrow> run_summary" where
  "summary_of sv st = run_summary_from_state st (engine_name_of sv)"

section \<open>Runs\<close>

definition start_run :: "run_service \<Rightarrow> string \<Rightarrow> string \<Rightarrow> string \<Rightarrow> run_summary top" where
  "start_run sv order_id mode scenario =
     (case governance_mode_of mode of
        None \<Rightarrow> raiseM (Manifest UnsupportedModeError (''Mode '' @ mode @ '' is not supported.''))
      | Some governance_mode' \<Rightarrow>
          (case scenario_name_of scenario of
             None \<Rightarrow> raiseM (Manifest UnsupportedScenarioError
                      (''Scenario '' @ scenario @ '' is not supported.''))
           | Some scenario_name' \<Rightarrow>
               bindM (liftR (get_order (sv_loader sv) order_id)) (\<lambda>o'.
               bindM (liftR (get_mandate (sv_loader sv) o' governance_mode')) (\<lambda>mandate.
               bindM (liftR (get_scenario (sv_loader sv) order_id scenario_name')) (\<lambda>config.
               bindM (run (sv_orchestrator sv) order_id governance_mode' scenario_name'
                 (Some mandate) (Some config)) (\<lambda>st.
               returnM (summary_of sv st)))))))"

definition get_run :: "run_service \<Rightarrow> string \<Rightarrow> run_summary top" where
  "get_run sv trace_id =
     bindM (getM db) (\<lambda>ms. liftR (bindR (get_state ms trace_id) (\<lambda>st. Inr (summary_of sv st))))"

section \<open>Approvals\<close>

text \<open>\<open>self.store.load_trace(trace_id).state\<close>: a fresh copy, which the caller then mutates.\<close>

definition load_state :: "string \<Rightarrow> unit top" where
  "load_state trace_id =
     bindM (getM db) (\<lambda>ms.
     bindM (liftR (load_trace ms trace_id)) (\<lambda>stored.
     set_cur (\<lambda>_. st_state stored)))"

definition list_service_approvals ::
  "string option \<Rightarrow> string option \<Rightarrow> approval_record list top" where
  "list_service_approvals trace_id status =
     bindM (getM db) (\<lambda>ms.
     bindM (case trace_id of
              None \<Rightarrow> returnM ()
            | Some t \<Rightarrow> liftR (bindR (get_state ms t) (\<lambda>_. Inr ()))) (\<lambda>_.
     case status of
       None \<Rightarrow> returnM (list_approvals ms trace_id None)
     | Some x \<Rightarrow>
         (case approval_status_of x of
            None \<Rightarrow> raiseM (PyExc ValueError (x @ '' is not a valid ApprovalStatus''))
          | Some a \<Rightarrow> returnM (list_approvals ms trace_id (Some a)))))"

definition matches_claimed_command :: "approval_record \<Rightarrow> approval_command \<Rightarrow> bool" where
  "matches_claimed_command a c \<longleftrightarrow>
     ar_status a = (if ac_decision c = AD_APPROVE then AS_APPROVED else AS_REJECTED) \<and>
     ar_version a = ac_expected_version c + 1 \<and> ar_decision a = Some (ac_decision c) \<and>
     ar_approver_label a = Some (ac_approver_label c) \<and> ar_comment a = ac_comment c \<and>
     ar_decision_idempotency_key a = Some (ac_idempotency_key c)"

definition resolution_details :: "approval_record \<Rightarrow> pydict" where
  "resolution_details a =
     [(''approval_id'', PStr (ar_approval_id a)),
      (''approver_label'', opt_str (ar_approver_label a)), (''version'', PInt (ar_version a))]"

definition continue_resolved_approval :: "run_service \<Rightarrow> approval_record \<Rightarrow> unit top" where
  "continue_resolved_approval sv a =
     (let key = (\<lambda>word. Some (''approval:'' @ ar_approval_id a @ '':'' @ word @ '':v'' @
                    show_int (ar_version a))) in
      if ar_status a = AS_APPROVED then
        bindM (getM cur) (\<lambda>st.
        case dget (ts_prepared_actions st) (ar_prepared_action_id a) of
          None \<Rightarrow> raiseM (PyExc KeyError (ar_prepared_action_id a))
        | Some _ \<Rightarrow>
            thenM (set_cur (\<lambda>st. (set_prepared_status (ar_prepared_action_id a) CS_APPROVED st)\<lparr>
              ts_approved_by := ar_approver_label a\<rparr>))
            (thenM (run_event ET_APPROVAL_APPROVED ''The prepared commitment was approved.'' None
              (resolution_details a) (key ''approved''))
            (bindM (resume_approved (sv_orchestrator sv) a) (\<lambda>_. returnM ()))))
      else
        thenM (run_event ET_APPROVAL_REJECTED ''The prepared commitment was rejected.'' None
          (resolution_details a) (key ''rejected''))
        (bindM (cancel_pending (sv_orchestrator sv) a ''APPROVAL_REJECTED'') (\<lambda>_. returnM ())))"

definition expire_locked :: "run_service \<Rightarrow> approval_record \<Rightarrow> approval_record top" where
  "expire_locked sv a =
     bindM (expire a) (\<lambda>expired.
     thenM (replace_approval expired)
     (thenM (run_event ET_APPROVAL_EXPIRED ''The prepared commitment approval expired.'' None
        [(''approval_id'', PStr (ar_approval_id expired)), (''version'', PInt (ar_version expired))]
        (Some (''approval:'' @ ar_approval_id expired @ '':expired:v'' @
          show_int (ar_version expired))))
     (bindM (cancel_pending (sv_orchestrator sv) expired ''APPROVAL_EXPIRED'') (\<lambda>_.
      returnM expired))))"

record approval_resolution =
  rn_approval :: approval_record
  rn_run :: run_summary
  rn_idempotent_replay :: bool

definition resolution :: "run_service \<Rightarrow> string \<Rightarrow> bool \<Rightarrow> approval_resolution top" where
  "resolution sv approval_id replay =
     bindM (getM db) (\<lambda>ms.
     bindM (liftR (get_approval ms approval_id)) (\<lambda>a.
     bindM (getM cur) (\<lambda>st.
     returnM \<lparr>rn_approval = a, rn_run = summary_of sv st, rn_idempotent_replay = replay\<rparr>)))"

definition expired_exc :: "exc \<Rightarrow> bool" where
  "expired_exc e = (case e of Manifest c _ \<Rightarrow> isinstance c ApprovalExpiredError | _ \<Rightarrow> False)"

text \<open>The branch of a command whose key has not been seen.\<close>

definition resolve_new ::
  "run_service \<Rightarrow> string \<Rightarrow> approval_command \<Rightarrow> approval_resolution top" where
  "resolve_new sv approval_id command =
     bindM (getM db) (\<lambda>ms.
     bindM (liftR (get_approval ms approval_id)) (\<lambda>approval.
     let record' = record_approval_replay approval_id (ac_idempotency_key command)
                     (approval_fingerprint command) in
     if ar_status approval = AS_EXPIRED
       then raiseM (Manifest ApprovalExpiredError (''Approval '' @ approval_id @ '' has expired.''))
     else if ar_status approval \<noteq> AS_PENDING_APPROVAL then
       (if matches_claimed_command approval command then
          thenM (load_state (ar_trace_id approval))
          (bindM (getM (\<lambda>s. ts_status (cur s))) (\<lambda>status.
           thenM (if status = RS_PENDING_APPROVAL then continue_resolved_approval sv approval
                  else returnM ())
           (thenM record' (resolution sv approval_id True))))
        else raiseM (Manifest ApprovalNotPendingError
               (''Approval '' @ approval_id @ '' is already '' @
                approval_status_value (ar_status approval) @ ''.'')))
     else
       thenM (load_state (ar_trace_id approval))
       (bindM (getM cur) (\<lambda>st.
        thenM (catchM (validate_pending approval st command)
          (\<lambda>e. if expired_exc e then bindM (expire_locked sv approval) (\<lambda>_. raiseM e) else raiseM e))
        (bindM (resolve approval command) (\<lambda>resolved.
         thenM (replace_approval resolved)
         (thenM (continue_resolved_approval sv resolved)
         (thenM record' (resolution sv approval_id False)))))))))"

definition resolve_command ::
  "run_service \<Rightarrow> string \<Rightarrow> approval_command \<Rightarrow> approval_resolution top" where
  "resolve_command sv approval_id command =
     bindM (getM db) (\<lambda>ms.
     case get_approval_replay_fingerprint ms approval_id (ac_idempotency_key command) of
       Some previous \<Rightarrow>
         if previous \<noteq> approval_fingerprint command
         then raiseM (Manifest ApprovalIdempotencyConflictError
                (''Idempotency key '' @ ac_idempotency_key command @
                 '' was reused with different approval fields.''))
         else
           bindM (liftR (get_approval ms approval_id)) (\<lambda>a.
           bindM (liftR (get_state ms (ar_trace_id a))) (\<lambda>st.
           returnM \<lparr>rn_approval = a, rn_run = summary_of sv st, rn_idempotent_replay = True\<rparr>))
     | None \<Rightarrow> resolve_new sv approval_id command)"

definition resolve_approval ::
  "run_service \<Rightarrow> string \<Rightarrow> string \<Rightarrow> string \<Rightarrow> string option \<Rightarrow> int \<Rightarrow> string
    \<Rightarrow> approval_resolution top" where
  "resolve_approval sv approval_id decision' approver_label comment' expected_version idempotency_key =
     (case approval_decision_of decision' of
        None \<Rightarrow> raiseM (PyExc ValueError (decision' @ '' is not a valid ApprovalDecision''))
      | Some d \<Rightarrow>
          resolve_command sv approval_id
            \<lparr>ac_decision = d, ac_approver_label = approver_label, ac_comment = comment',
             ac_expected_version = expected_version, ac_idempotency_key = idempotency_key\<rparr>)"

fun expire_each :: "run_service \<Rightarrow> int \<Rightarrow> approval_record list \<Rightarrow> approval_record list top" where
  "expire_each sv now [] = returnM []"
| "expire_each sv now (a # as) =
     bindM (if now \<ge> ar_expires_at a
            then thenM (load_state (ar_trace_id a))
                   (bindM (expire_locked sv a) (\<lambda>x. returnM [x]))
            else returnM []) (\<lambda>xs.
     bindM (expire_each sv now as) (\<lambda>ys. returnM (xs @ ys)))"

definition expire_due_approvals :: "run_service \<Rightarrow> approval_record list top" where
  "expire_due_approvals sv =
     bindM utc_now (\<lambda>now.
     bindM (getM (\<lambda>s. list_approvals (db s) None (Some AS_PENDING_APPROVAL))) (\<lambda>due.
     expire_each sv now due))"

section \<open>Orders and reset\<close>

record order_summary =
  os_order_id :: string
  os_cargo_class :: string
  os_shipment_weight_kg :: int
  os_currency :: string
  os_scenarios :: "scenario_name list"

fun order_summaries :: "fixtures \<Rightarrow> order list \<Rightarrow> order_summary list result" where
  "order_summaries fs [] = Inr []"
| "order_summaries fs (o' # os) =
     bindR (get_inventory_fact fs o') (\<lambda>f.
     bindR (order_summaries fs os) (\<lambda>rest.
     Inr (\<lparr>os_order_id = od_order_id o', os_cargo_class = od_cargo_class o',
           os_shipment_weight_kg = if_shipment_weight_kg f, os_currency = od_currency o',
           os_scenarios = [SN_BENIGN, SN_ADVERSARIAL]\<rparr> # rest)))"

definition list_order_summaries :: "run_service \<Rightarrow> order_summary list result" where
  "list_order_summaries sv =
     bindR (list_orders (sv_loader sv)) (order_summaries (sv_loader sv))"

record reset_result =
  rz_status :: string
  rz_removed_run_count :: nat

definition reset_demo :: "reset_result top" where
  "reset_demo =
     bindM reset_demo_namespace (\<lambda>removed.
     thenM (updM (\<lambda>s. s\<lparr>tools := mocks_reset (tools s)\<rparr>))
     (returnM \<lparr>rz_status = ''reset'', rz_removed_run_count = removed\<rparr>))"

text \<open>
  The roles of the selected runtime.  Those of the model-driven runtime are made by the
  third-party agent library and are a parameter.
\<close>

definition build_runtime_agents ::
  "(runtime_settings \<Rightarrow> role list) \<Rightarrow> runtime_settings \<Rightarrow> role list result" where
  "build_runtime_agents strands settings =
     bindR (validate_settings settings) (\<lambda>_.
     Inr (if se_runtime_mode settings = ''legacy'' then legacy_roles else strands settings))"

text \<open>\<open>validate_startup\<close> of the reference engine.\<close>

definition validate_engine :: "unit result" where
  "validate_engine =
     (if ENGINE_POLICY_VERSION = [] \<or> ENGINE_NAME = []
      then Inl (PyExc ValueError ''Policy engine identity is incomplete.'') else Inr ())"

text \<open>The outcome of \<open>validate_startup\<close> comes with the engine.\<close>

definition build_run_service ::
  "(runtime_settings \<Rightarrow> role list) \<Rightarrow> fixtures \<Rightarrow> policy_engine \<Rightarrow> unit result \<Rightarrow> runtime_settings
    \<Rightarrow> run_service result" where
  "build_run_service strands fs engine startup settings =
     bindR (validate_all fs) (\<lambda>_.
     bindR build_tool_registry (\<lambda>registry.
     bindR startup (\<lambda>_.
     let gv = \<lparr>gv_registry = registry, gv_engine = engine, gv_loader = fs,
               gv_max_tool_calls = 30, gv_max_guided_attempts = 2\<rparr> in
     bindR (build_runtime_agents strands settings) (\<lambda>roles.
     Inr \<lparr>sv_orchestrator =
       \<lparr>oc_roles = roles, oc_governor = gv, oc_loader = fs, oc_settings = settings\<rparr>\<rparr>))))"

end
