(* ===== verification/Governor_Frame.thy ===== *)
theory Governor_Frame
  imports Governor
begin

text \<open>
  What the steps of a governed call leave alone.  Everything before the tool runs changes of the
  trajectory only its ledger fields and leaves the adapters untouched; every step keeps the
  ledger in order.
\<close>

section \<open>The trajectory without its ledger\<close>

definition core :: "trajectory_state \<Rightarrow> trajectory_state" where
  "core st = st\<lparr>ts_events := [], ts_next_sequence := 1, ts_storage_revision := 0\<rparr>"

lemma core_simps [simp]:
  "core (st\<lparr>ts_events := es\<rparr>) = core st"
  "core (st\<lparr>ts_next_sequence := n\<rparr>) = core st"
  "core (st\<lparr>ts_storage_revision := r\<rparr>) = core st"
  "core (core st) = core st"
  by (simp_all add: core_def)

lemma core_fields [simp]:
  "ts_mode (core st) = ts_mode st"
  "ts_trace_id (core st) = ts_trace_id st"
  "ts_order_id (core st) = ts_order_id st"
  "ts_mandate (core st) = ts_mandate st"
  "ts_policy_version (core st) = ts_policy_version st"
  "ts_decisions (core st) = ts_decisions st"
  "ts_prepared_actions (core st) = ts_prepared_actions st"
  "ts_spend_committed_minor (core st) = ts_spend_committed_minor st"
  "ts_spend_reserved_minor (core st) = ts_spend_reserved_minor st"
  "ts_tool_call_count (core st) = ts_tool_call_count st"
  "ts_guide_attempts (core st) = ts_guide_attempts st"
  "ts_effect_history (core st) = ts_effect_history st"
  "ts_pending_approval_id (core st) = ts_pending_approval_id st"
  "ts_confirmed_booking_id (core st) = ts_confirmed_booking_id st"
  "ts_workflow_stage (core st) = ts_workflow_stage st"
  by (simp_all add: core_def)

lemma core_eqD:
  assumes "core a = core b"
  shows "ts_mode a = ts_mode b" "ts_trace_id a = ts_trace_id b" "ts_decisions a = ts_decisions b"
    "ts_prepared_actions a = ts_prepared_actions b"
    "ts_spend_committed_minor a = ts_spend_committed_minor b"
    "ts_spend_reserved_minor a = ts_spend_reserved_minor b"
    "ts_tool_call_count a = ts_tool_call_count b" "ts_guide_attempts a = ts_guide_attempts b"
    "ts_effect_history a = ts_effect_history b"
  using assms by (metis core_fields)+

text \<open>\<open>core\<close> of the trajectory and the adapters are as given.\<close>

definition quiet :: "trajectory_state \<Rightarrow> mock_tools \<Rightarrow> tool_sys \<Rightarrow> bool" where
  "quiet c m s \<longleftrightarrow> core (cur s) = c \<and> tools s = m"

lemma quietI: "quiet (core (cur s)) (tools s) s"
  by (simp add: quiet_def)

lemma tools_more: "store_sys.more t = store_sys.more s \<Longrightarrow> tools t = tools s"
  for s t :: tool_sys
  by (cases s; cases t) simp

lemma append_event_quiet [keeps]: "keepsI (quiet c m) (append_event d)"
proof (rule keepsII)
  fix s r t
  assume "quiet c m s" and run: "append_event d s = (r, t)"
  then show "quiet c m t"
    by (cases rule: append_event_cases [OF run])
      (auto simp: quiet_def appended_cur_def dest: tools_more)
qed

lemma platform_quiet [keeps]:
  "keepsI (quiet c m) utc_now" "keepsI (quiet c m) uuid4" "keepsI (quiet c m) elapsed_ms"
  by (simp_all add: keepsI_def quiet_def utc_now_def uuid4_def elapsed_ms_def)

lemma set_db_quiet [keeps]: "keepsI (quiet c m) (set_db f)"
  by (rule keepsI_updM) (simp add: quiet_def)

lemma persist_quiet [keeps]: "keepsI (quiet c m) persist_state"
  unfolding persist_state_def by (rule keepsI_updM) (simp add: quiet_def Let_def)

lemma case_prod_keeps [keeps]: "(\<And>a b. keepsI I (f a b)) \<Longrightarrow> keepsI I (case p of (a, b) \<Rightarrow> f a b)"
  by (cases p) simp

lemma add_approval_quiet [keeps]: "keepsI (quiet c m) (add_approval a)"
  unfolding add_approval_def Let_def by (intro keeps)

lemma put_effect_receipt_quiet [keeps]: "keepsI (quiet c m) (put_effect_receipt r)"
  unfolding put_effect_receipt_def Let_def by (intro keeps)

lemma record_quiet [keeps]:
  "keepsI (quiet c m) (record_decision d)"
  "keepsI (quiet c m) (record_failure agent tool effect message pid)"
  "keepsI (quiet c m) (outcome_event p et d details key)"
  unfolding record_decision_def record_failure_def outcome_event_def Let_def by (intro keeps)+

lemma elapsed_run [simp]:
  "bindM elapsed_ms f s =
     f (wd_latency (wld s) (wd_latency_pos (wld s)))
       (s\<lparr>wld := (wld s)\<lparr>wd_latency_pos := Suc (wd_latency_pos (wld s))\<rparr>\<rparr>)"
  by (simp add: bindM_def elapsed_ms_def)

section \<open>The request leaves everything alone\<close>

text \<open>Only the platform's counters differ.\<close>

definition same_data :: "tool_sys \<Rightarrow> tool_sys \<Rightarrow> bool" where
  "same_data s t \<longleftrightarrow> cur t = cur s \<and> db t = db s \<and> tools t = tools s"

lemma platform_same [keeps]:
  "keepsI (same_data s) utc_now" "keepsI (same_data s) uuid4" "keepsI (same_data s) elapsed_ms"
  by (simp_all add: keepsI_def same_data_def utc_now_def uuid4_def elapsed_ms_def)

lemma build_request_same [keeps]: "keepsI (same_data s) (build_request gv p def args)"
  unfolding build_request_def approval_context_def Let_def by (intro keeps)

lemma make_decision_same [keeps]: "keepsI (same_data s) (make_decision gv p req signals ms)"
  unfolding make_decision_def Let_def by (intro keeps)

lemma same_dataD: "keepsI (same_data s) m \<Longrightarrow> m s = (r, t) \<Longrightarrow> same_data s t"
  by (erule keepsID) (simp_all add: same_data_def)

section \<open>The ledger stays in order\<close>

lemma more_platform_ledger [keeps]: "keepsI (ledger_from ms0) elapsed_ms"
  by (simp add: keepsI_def elapsed_ms_def)

lemma set_tools_ledger [keeps]: "keepsI (ledger_from ms0) (updM (tools_update f))"
  by (rule keepsI_updM) (auto elim!: ledger_from_frame)

lemma execute_ledger [keeps]: "keepsI (ledger_from ms0) (execute fs r tool args)"
  unfolding execute_def by (intro keeps)

lemma tool_value_keeps [keeps]:
  "(\<And>o'. keepsI I (f1 o')) \<Longrightarrow> (\<And>x. keepsI I (f2 x)) \<Longrightarrow> (\<And>x. keepsI I (f3 x)) \<Longrightarrow>
   (\<And>x. keepsI I (f4 x)) \<Longrightarrow> (\<And>x. keepsI I (f5 x)) \<Longrightarrow>
   keepsI I (case v of VOrder x \<Rightarrow> f1 x | VFact x \<Rightarrow> f2 x | VVehicles x \<Rightarrow> f3 x
     | VQuotes x \<Rightarrow> f4 x | VDict x \<Rightarrow> f5 x)"
  by (cases v) simp_all

lemma bool_keeps [keeps]:
  "keepsI I m \<Longrightarrow> keepsI I n \<Longrightarrow> keepsI I (case b of True \<Rightarrow> m | False \<Rightarrow> n)"
  by (cases b) simp_all

lemma outcome_keeps [keeps]:
  "keepsI I a \<Longrightarrow> keepsI I g \<Longrightarrow> keepsI I e \<Longrightarrow> keepsI I b \<Longrightarrow>
   keepsI I (case x of DO_ALLOW \<Rightarrow> a | DO_GUIDE \<Rightarrow> g | DO_ESCALATE \<Rightarrow> e | DO_BLOCK \<Rightarrow> b)"
  by (cases x) simp_all

lemma receipt_ledger [keeps]:
  "keepsI (ledger_from ms0) (execute_with_durable_receipt gv tool effect args)"
  unfolding execute_with_durable_receipt_def by (intro keeps)

lemma ledger_fields_prepared [simp]:
  "ledger_fields (set_prepared_status pid x st) = ledger_fields st"
  by (auto simp: set_prepared_status_def ledger_fields_def split: option.split)

lemma ledger_fields_updates [simp]:
  "ledger_fields (st\<lparr>ts_pending_approval_id := a\<rparr>) = ledger_fields st"
  "ledger_fields (st\<lparr>ts_spend_reserved_minor := i\<rparr>) = ledger_fields st"
  "ledger_fields (st\<lparr>ts_spend_committed_minor := i\<rparr>) = ledger_fields st"
  "ledger_fields (st\<lparr>ts_confirmed_booking_id := a\<rparr>) = ledger_fields st"
  "ledger_fields (st\<lparr>ts_workflow_stage := w\<rparr>) = ledger_fields st"
  "ledger_fields (st\<lparr>ts_tool_call_count := n\<rparr>) = ledger_fields st"
  "ledger_fields (st\<lparr>ts_guide_attempts := g\<rparr>) = ledger_fields st"
  "ledger_fields (st\<lparr>ts_effect_history := h\<rparr>) = ledger_fields st"
  by (simp_all add: ledger_fields_def)

lemma steps_ledger [keeps]:
  "keepsI (ledger_from ms0) (record_decision d)"
  "keepsI (ledger_from ms0) (record_failure agent tool effect' message pid)"
  "keepsI (ledger_from ms0) (outcome_event p et d' details key)"
  "keepsI (ledger_from ms0) (make_decision gv p' req signals ms)"
  "keepsI (ledger_from ms0) (build_request gv' p'' def args)"
  "keepsI (ledger_from ms0) (named_prepared args')"
  unfolding record_decision_def record_failure_def outcome_event_def make_decision_def
    build_request_def approval_context_def named_prepared_def Let_def
  by (intro keeps)+

lemma accounts_ledger [keeps]:
  "keepsI (ledger_from ms0) (apply_confirmation args v)"
  "keepsI (ledger_from ms0) (apply_cancellation args')"
  "keepsI (ledger_from ms0) (create_approval args'' d)"
  unfolding apply_confirmation_def apply_cancellation_def create_approval_def Let_def
  by (intro keeps; simp)+

lemma execute_tool_ledger [keeps]:
  "keepsI (ledger_from ms0) (execute_tool gv agent tool args)"
  unfolding execute_tool_def propose_def decide_def apply_decision_def perform_def Let_def
  by (intro keeps; simp)

section \<open>The stages of a call\<close>

definition counted :: "string \<Rightarrow> trajectory_state \<Rightarrow> trajectory_state" where
  "counted tool st =
     st\<lparr>ts_tool_call_count := Suc (ts_tool_call_count st),
        ts_guide_attempts := dput tool
          (case dget (ts_guide_attempts st) tool of None \<Rightarrow> 1 | Some n \<Rightarrow> Suc n)
          (ts_guide_attempts st)\<rparr>"

lemma counted_fields [simp]:
  "ts_decisions (counted tool st) = ts_decisions st"
  "ts_mode (counted tool st) = ts_mode st"
  "ts_trace_id (counted tool st) = ts_trace_id st"
  "ts_prepared_actions (counted tool st) = ts_prepared_actions st"
  "ts_spend_committed_minor (counted tool st) = ts_spend_committed_minor st"
  "ts_spend_reserved_minor (counted tool st) = ts_spend_reserved_minor st"
  "ts_effect_history (counted tool st) = ts_effect_history st"
  by (simp_all add: counted_def)

definition lookup_tool :: "governor \<Rightarrow> string \<Rightarrow> tool_definition option" where
  "lookup_tool gv tool = dget (rg_definitions (gv_registry gv)) tool"

definition proposed :: "governor \<Rightarrow> agent_name \<Rightarrow> string \<Rightarrow> trajectory_state \<Rightarrow> tool_proposal \<Rightarrow> bool" where
  "proposed gv agent tool st p \<longleftrightarrow>
     tp_agent p = agent \<and> tp_tool_name p = tool \<and>
     tp_effect_class p = map_option td_effect_class (lookup_tool gv tool) \<and>
     dget (ts_guide_attempts (counted tool st)) tool = Some (tp_attempt p)"

definition attempted :: "tool_proposal \<Rightarrow> event_description" where
  "attempted p = tool_event ET_TOOL_ATTEMPTED
     (agent_name_value (tp_agent p) @ '' attempted '' @ tp_tool_name p @ ''.'') (tp_agent p)
     (tp_tool_name p) (tp_effect_class p)
     [(''proposal_id'', PStr (tp_proposal_id p)), (''attempt'', PInt (int (tp_attempt p))),
      (''arguments'', PDict (tp_arguments p))]
     (Some (''proposal:'' @ tp_proposal_id p @ '':attempted''))"

definition after_counting :: "string \<Rightarrow> tool_sys \<Rightarrow> tool_sys" where
  "after_counting tool s =
     s\<lparr>cur := counted tool (cur s), wld := (wld s)\<lparr>wd_uuid_pos := Suc (wd_uuid_pos (wld s))\<rparr>\<rparr>"

lemma propose_run:
  obtains p where "proposed gv agent tool (cur s) p" "tp_arguments p = safe_arguments tool args"
    "tp_proposal_id p = ''PROP-'' @ wd_uuids (wld s) (wd_uuid_pos (wld s))"
    "propose gv agent tool args s =
       bindM (append_event (attempted p)) (\<lambda>_. returnM (p, lookup_tool gv tool)) (after_counting tool s)"
proof
  let ?p =
    "\<lparr>tp_proposal_id = ''PROP-'' @ wd_uuids (wld s) (wd_uuid_pos (wld s)),
      tp_trace_id = ts_trace_id (cur s), tp_agent = agent, tp_tool_name = tool,
      tp_effect_class = map_option td_effect_class (lookup_tool gv tool),
      tp_arguments = safe_arguments tool args,
      tp_attempt = (case dget (ts_guide_attempts (cur s)) tool of None \<Rightarrow> 1 | Some n \<Rightarrow> Suc n)\<rparr>"
  show "proposed gv agent tool (cur s) ?p" by (simp add: proposed_def counted_def)
  have "(case get_definition (gv_registry gv) tool of Inl _ \<Rightarrow> None | Inr d \<Rightarrow> Some d)
      = lookup_tool gv tool"
    by (simp add: get_definition_def lookup_tool_def split: option.split)
  then show "propose gv agent tool args s =
      bindM (append_event (attempted ?p)) (\<lambda>_. returnM (?p, lookup_tool gv tool))
        (after_counting tool s)"
    by (simp add: propose_def Let_def counted_def attempted_def after_counting_def)
qed simp_all

lemma propose_cases:
  assumes "propose gv agent tool args s = (r, t)"
  shows "core (cur t) = core (counted tool (cur s))" "tools t = tools s"
    "r = Inr (p, def) \<Longrightarrow> proposed gv agent tool (cur s) p \<and> def = lookup_tool gv tool"
proof -
  obtain p' where p': "proposed gv agent tool (cur s) p'"
    and run: "(r, t) = bindM (append_event (attempted p')) (\<lambda>_. returnM (p', lookup_tool gv tool))
        (after_counting tool s)"
    using propose_run [of gv agent tool s args] assms by metis
  have "keepsI (quiet (core (counted tool (cur s))) (tools s))
      (bindM (append_event (attempted p')) (\<lambda>_. returnM (p', lookup_tool gv tool)))"
    by (intro keeps)
  from keepsID [OF this _ run [symmetric]]
  show "core (cur t) = core (counted tool (cur s))" "tools t = tools s"
    by (simp_all add: quiet_def after_counting_def)
  show "proposed gv agent tool (cur s) p \<and> def = lookup_tool gv tool" if "r = Inr (p, def)"
    using run [symmetric] p' that by (auto simp: bindM_Inr)
qed

text \<open>What a decision says, given the signals.\<close>

definition primary_signal :: "policy_signal list \<Rightarrow> policy_signal" where
  "primary_signal signals =
     (if signals = [] then default_signal else max_signal (hd signals) (tl signals))"

lemma max_signal_in: "max_signal b xs \<in> set (b # xs)"
proof (induction xs arbitrary: b)
  case (Cons y ys)
  then show ?case
    using Cons.IH [of y] Cons.IH [of b] by auto
qed simp

lemma max_signal_ge:
  "x \<in> set (b # xs) \<Longrightarrow> precedence (ps_outcome x) \<le> precedence (ps_outcome (max_signal b xs))"
proof (induction xs arbitrary: b x)
  case (Cons y ys)
  let ?b = "if precedence (ps_outcome b) < precedence (ps_outcome y) then y else b"
  have "precedence (ps_outcome b) \<le> precedence (ps_outcome ?b)"
    "precedence (ps_outcome y) \<le> precedence (ps_outcome ?b)" by auto
  moreover have "precedence (ps_outcome ?b) \<le> precedence (ps_outcome (max_signal ?b ys))"
    by (rule Cons.IH) simp
  moreover have "x \<in> set ys \<Longrightarrow>
      precedence (ps_outcome x) \<le> precedence (ps_outcome (max_signal ?b ys))"
    by (rule Cons.IH) simp
  ultimately show ?case using Cons.prems by auto
qed simp

lemma primary_signal_cases:
  "signals = [] \<and> primary_signal signals = default_signal \<or>
   primary_signal signals \<in> set signals \<and>
   (\<forall>x \<in> set signals. precedence (ps_outcome x) \<le> precedence (ps_outcome (primary_signal signals)))"
  using max_signal_in [of "hd signals" "tl signals"] max_signal_ge [of _ "hd signals" "tl signals"]
  by (cases signals) (auto simp: primary_signal_def)

lemma primary_allow_iff:
  "ps_outcome (primary_signal signals) = DO_ALLOW \<longleftrightarrow>
     list_all (\<lambda>x. ps_outcome x = DO_ALLOW) signals"
proof -
  have zero: "precedence x = 0 \<longleftrightarrow> x = DO_ALLOW" for x by (cases x) simp_all
  show ?thesis
    using primary_signal_cases [of signals]
    by (auto simp: list_all_iff default_signal_def signal_def zero)
qed

definition decision_on ::
  "tool_proposal \<Rightarrow> policy_request \<Rightarrow> trajectory_state \<Rightarrow> policy_signal list \<Rightarrow> decision \<Rightarrow> bool" where
  "decision_on p req st signals d \<longleftrightarrow>
     dc_policy_outcome d = ps_outcome (primary_signal signals) \<and>
     dc_reason_code d = ps_reason_code (primary_signal signals) \<and>
     dc_because d = ps_because (primary_signal signals) \<and>
     dc_enforced d = (ts_mode st = GM_ENFORCE) \<and>
     dc_applied_outcome d = (if dc_enforced d then dc_policy_outcome d else DO_ALLOW) \<and>
     dc_agent d = tp_agent p \<and> dc_tool_name d = tp_tool_name p \<and>
     dc_request_id d = pr_request_id req \<and> dc_trace_id d = ts_trace_id st"

lemma make_decision_run:
  assumes "make_decision gv p req signals ms s = (r, t)"
  obtains d where "r = Inr d" "decision_on p req (cur s) signals d" "same_data s t"
proof -
  have "same_data s t" by (rule same_dataD [OF make_decision_same assms])
  moreover obtain d where "r = Inr d" "decision_on p req (cur s) signals d"
  proof
    show "r = Inr (projr r)" "decision_on p req (cur s) signals (projr r)"
      using assms
      by (auto simp: make_decision_def decision_on_def primary_signal_def Let_def default_signal_def)
  qed
  ultimately show ?thesis using that by blast
qed

lemma append_decision_run:
  assumes "append_decision d s = (r, t)"
  shows "tools t = tools s" "ts_effect_history (cur t) = ts_effect_history (cur s)"
    "ts_spend_committed_minor (cur t) = ts_spend_committed_minor (cur s)"
    "ts_spend_reserved_minor (cur t) = ts_spend_reserved_minor (cur s)"
    "ts_confirmed_booking_id (cur t) = ts_confirmed_booking_id (cur s)"
    "r = Inr x \<Longrightarrow> core (cur t) = (core (cur s))\<lparr>ts_decisions := ts_decisions (cur s) @ [d]\<rparr>"
    "r = Inl e \<Longrightarrow> t = s"
  using assms
  by (auto simp: append_decision_def persist_state_def Let_def core_def assert_revision_def
      split: option.splits if_splits)

text \<open>What a call is there to achieve: the adapters' tables, the history of effects, the accounts.\<close>

definition effects :: "tool_sys \<Rightarrow> mock_tools \<times> effect_record list \<times> int \<times> int \<times> string option" where
  "effects s =
     (tools s, ts_effect_history (cur s), ts_spend_committed_minor (cur s),
      ts_spend_reserved_minor (cur s), ts_confirmed_booking_id (cur s))"

lemma effects_core: "core (cur t) = core (cur s) \<Longrightarrow> tools t = tools s \<Longrightarrow> effects t = effects s"
  by (metis core_fields effects_def)

lemma effects_quiet: "(\<And>c m. keepsI (quiet c m) op) \<Longrightarrow> keepsI (\<lambda>s. effects s = x) op"
  by (auto simp: keepsI_def quiet_def) (metis effects_core)

lemma effects_updates [simp]:
  "effects (s\<lparr>wld := w\<rparr>) = effects s"
  "effects (s\<lparr>db := d\<rparr>) = effects s"
  "effects (s\<lparr>cur := (cur s)\<lparr>ts_decisions := ds\<rparr>\<rparr>) = effects s"
  "effects (s\<lparr>cur := (cur s)\<lparr>ts_storage_revision := n\<rparr>\<rparr>) = effects s"
  "effects (s\<lparr>cur := (cur s)\<lparr>ts_pending_approval_id := a\<rparr>\<rparr>) = effects s"
  "effects (s\<lparr>cur := set_prepared_status pid c (cur s)\<rparr>) = effects s"
  by (simp_all add: effects_def set_prepared_status_def split: option.split)

lemma same_data_effects: "same_data s t \<Longrightarrow> effects t = effects s"
  by (simp add: same_data_def effects_def)

lemma counted_effects: "core (cur t) = core (counted tool (cur s)) \<Longrightarrow> tools t = tools s \<Longrightarrow> effects t = effects s"
  using effects_core [of t "s\<lparr>cur := counted tool (cur s)\<rparr>"] by (simp add: effects_def counted_def)

text \<open>A decision on the signals, after the bound on guided attempts.\<close>

definition bounded_decision :: "governor \<Rightarrow> tool_proposal \<Rightarrow> decision \<Rightarrow> decision" where
  "bounded_decision gv p d =
     (if dc_applied_outcome d = DO_GUIDE \<and> int (tp_attempt p) \<ge> gv_max_guided_attempts gv
      then retry_block d else d)"

lemma decide_cases:
  assumes "decide gv p def args s = (r, t)"
  obtains (failed) e where "r = Inl e" "effects t = effects s"
  | (decided) req d0 d s1 where "r = Inr (req, d)" "build_request gv p def args s = (Inr req, s1)"
      "decision_on p req (cur s) (engine_signals gv (tp_tool_name p) def req (cur s)) d0"
      "d = bounded_decision gv p d0"
      "core (cur t) = (core (cur s))\<lparr>ts_decisions := ts_decisions (cur s) @ [d]\<rparr>"
      "effects t = effects s"
proof -
  obtain rq s1 where req: "build_request gv p def args s = (rq, s1)" by fastforce
  have s1: "same_data s s1" by (rule same_dataD [OF build_request_same req])
  show ?thesis
  proof (cases rq)
    case (Inl e)
    then show ?thesis using assms req s1 failed by (auto simp: decide_def bindM_run same_data_effects)
  next
    case (Inr q)
    let ?signals = "engine_signals gv (tp_tool_name p) def q (cur s1)"
    let ?s1 = "s1\<lparr>wld := (wld s1)\<lparr>wd_latency_pos := Suc (wd_latency_pos (wld s1))\<rparr>\<rparr>"
    let ?ms = "wd_latency (wld s1) (wd_latency_pos (wld s1))"
    obtain rd s2 where md: "make_decision gv p q ?signals ?ms ?s1 = (rd, s2)" by fastforce
    from make_decision_run [OF md] obtain d0 where d0: "rd = Inr d0"
      "decision_on p q (cur s) ?signals d0" and "same_data ?s1 s2"
      using s1 by (auto simp: same_data_def)
    then have s2: "same_data s s2" using s1 by (simp add: same_data_def)
    define d where "d = bounded_decision gv p d0"
    have run: "(r, t) = thenM (append_decision d) (thenM (record_decision d) (returnM (q, d))) s2"
      using assms req Inr md d0 by (auto simp: decide_def bindM_run d_def bounded_decision_def Let_def)
    obtain ra s3 where ad: "append_decision d s2 = (ra, s3)" by fastforce
    obtain rr s4 where rd: "record_decision d s3 = (rr, s4)" by fastforce
    have quiet: "core (cur s4) = core (cur s3)" "tools s4 = tools s3"
      using keepsID [OF record_quiet(1) quietI rd] by (simp_all add: quiet_def)
    have eff: "effects s3 = effects s" "effects s4 = effects s"
      using append_decision_run [OF ad] s2 effects_core [OF quiet]
      by (auto simp: effects_def same_data_def)
    note facts = append_decision_run [OF ad] quiet s2 run ad rd eff
    show ?thesis
    proof (cases "ra = Inr () \<and> rr = Inr ()")
      case True
      show ?thesis
        by (rule decided [of q d s1 d0])
          (use facts True req Inr d0 s1 in \<open>auto simp: d_def thenM_run same_data_def\<close>)
    next
      case False
      then consider e where "ra = Inl e" | e where "ra = Inr ()" "rr = Inl e"
        by (cases ra; cases rr) auto
      then show ?thesis
        by cases (use facts in \<open>auto simp: thenM_run same_data_def intro: failed\<close>)
    qed
  qed
qed

text \<open>A call either stops before its tool runs, or comes to a recorded decision and applies it.\<close>

lemma execute_tool_cases:
  assumes "execute_tool gv agent tool args s = (r, t)"
  obtains (stopped) e where "r = Inl e" "effects t = effects s"
  | (decided) p req d0 d s1 s2 where "proposed gv agent tool (cur s) p"
      "core (cur s1) = core (counted tool (cur s))"
      "fst (build_request gv p (lookup_tool gv tool) args s1) = Inr req"
      "decision_on p req (cur s1) (engine_signals gv tool (lookup_tool gv tool) req (cur s1)) d0"
      "d = bounded_decision gv p d0"
      "core (cur s2) = (core (counted tool (cur s)))\<lparr>ts_decisions := ts_decisions (cur s) @ [d]\<rparr>"
      "effects s2 = effects s"
      "apply_decision gv p (lookup_tool gv tool) req args d s2 = (r, t)"
      "int (ts_tool_call_count (cur s)) < gv_max_tool_calls gv"
proof (cases "int (ts_tool_call_count (cur s)) \<ge> gv_max_tool_calls gv")
  case True
  then show ?thesis using assms stopped by (auto simp: execute_tool_def)
next
  case False
  obtain rp s1 where pr: "propose gv agent tool args s = (rp, s1)" by fastforce
  note p = propose_cases [OF pr] counted_effects [OF propose_cases(1,2) [OF pr]]
  show ?thesis
  proof (cases rp)
    case (Inl e)
    then show ?thesis using assms False pr p stopped by (auto simp: execute_tool_def bindM_run)
  next
    case (Inr pd)
    then obtain p' where pd: "rp = Inr (p', lookup_tool gv tool)" and pp: "proposed gv agent tool (cur s) p'"
      using p(3) by (cases pd) auto
    obtain rd s2 where de: "decide gv p' (lookup_tool gv tool) args s1 = (rd, s2)" by fastforce
    have tn: "tp_tool_name p' = tool" using pp by (simp add: proposed_def)
    have run: "execute_tool gv agent tool args s =
      bindM (decide gv p' (lookup_tool gv tool) args)
        (\<lambda>(request, d). apply_decision gv p' (lookup_tool gv tool) request args d) s1"
      using False pr pd by (simp add: execute_tool_def bindM_run)
    from de show ?thesis
    proof (cases rule: decide_cases)
      case failed
      then show ?thesis using assms de p run stopped by (auto simp: bindM_run)
    next
      case (decided req d0 d s')
      have "ts_decisions (cur s1) = ts_decisions (cur s)"
        using core_eqD(3) [OF p(1)] by simp
      then show ?thesis
        using decided tn p pp assms run de False
        by (intro that(2) [of p' s1 req d0 d s2]) (auto simp: bindM_run)
    qed
  qed
qed

end
