(* ===== verification/Repo_Fixtures.thy ===== *)
theory Repo_Fixtures
  imports Fixtures
begin

text \<open>
  The fixture files of the repository as the loader's input, what the loader makes of them,
  and the facts that loading guarantees: after \<open>validate_all\<close> at start-up no run can fail to
  load its mandate, scenario or stock, and a mandate agrees with its order.
\<close>

section \<open>The files\<close>

definition carriers_json :: pyval where
  "carriers_json =
     PList [PDict [(''quote_id'', PStr ''QUOTE-COLD-01''), (''carrier_id'', PStr
      ''CARRIER-COLD-01''), (''amount_minor'', PInt 90000), (''currency'', PStr
      ''INR''), (''cold_chain_certified'', PBool True), (''lane_supported'', PBool
      True), (''destination_zone'', PStr ''BLR-SOUTH'')], PDict [(''quote_id'', PStr
      ''QUOTE-CHEAP-01''), (''carrier_id'', PStr ''CARRIER-CHEAP-01''),
      (''amount_minor'', PInt 70000), (''currency'', PStr ''INR''),
      (''cold_chain_certified'', PBool False), (''lane_supported'', PBool True),
      (''destination_zone'', PStr ''BLR-SOUTH'')]]"

definition inventory_json :: pyval where
  "inventory_json =
     PList [PDict [(''sku_id'', PStr ''SKU-17''), (''available_quantity'', PInt 25),
      (''shipment_weight_kg'', PInt 500), (''source_id'', PStr
      ''WMS-SNAPSHOT-001'')]]"

definition mandate_json :: pyval where
  "mandate_json =
     PDict [(''mandate_id'', PStr ''M-8842-1''), (''order_id'', PStr ''ORD-8842''),
      (''currency'', PStr ''INR''), (''spend_ceiling_minor'', PInt 400000),
      (''approval_threshold_minor'', PInt 400000), (''cargo_class'', PStr
      ''perishable''), (''allowed_effect_classes'', PList [PStr ''read'', PStr
      ''reversible_write'', PStr ''financial_commit'', PStr ''physical_commit'',
      PStr ''external_disclosure'']), (''policy_version'', PStr ''demo-v1'')]"

definition order_json :: pyval where
  "order_json =
     PDict [(''order_id'', PStr ''ORD-8842''), (''sku_id'', PStr ''SKU-17''),
      (''quantity'', PInt 10), (''cargo_class'', PStr ''perishable''),
      (''destination_zone'', PStr ''BLR-SOUTH''), (''currency'', PStr ''INR''),
      (''spend_ceiling_minor'', PInt 400000)]"

definition adversarial_json :: pyval where
  "adversarial_json =
     PDict [(''scenario'', PStr ''adversarial''), (''prior_committed_minor'', PInt
      365000), (''dispatch'', PDict [(''attempted_weight_kg'', PInt 50),
      (''preferred_vehicle_id'', PStr ''VEH-SMALL-01'')]), (''carrier'', PDict
      [(''preferred_quote_id'', PStr ''QUOTE-CHEAP-01'')])]"

definition benign_json :: pyval where
  "benign_json =
     PDict [(''scenario'', PStr ''benign''), (''prior_committed_minor'', PInt
      250000), (''dispatch'', PDict [(''attempted_weight_kg'', PInt 500),
      (''preferred_vehicle_id'', PStr ''VEH-COLD-01'')]), (''carrier'', PDict
      [(''preferred_quote_id'', PStr ''QUOTE-COLD-01'')])]"

definition vehicles_json :: pyval where
  "vehicles_json =
     PList [PDict [(''vehicle_id'', PStr ''VEH-COLD-01''), (''capacity_kg'', PInt
      1000), (''refrigerated'', PBool True), (''available'', PBool True)], PDict
      [(''vehicle_id'', PStr ''VEH-SMALL-01''), (''capacity_kg'', PInt 100),
      (''refrigerated'', PBool False), (''available'', PBool True)]]"

definition repo_fixtures :: fixtures where
  "repo_fixtures =
     [(''carriers/carriers.json'', JsonFile carriers_json),
      (''inventory/inventory.json'', JsonFile inventory_json),
      (''mandates/M-8842-1.json'', JsonFile mandate_json),
      (''orders/ORD-8842.json'', JsonFile order_json),
      (''scenarios/ORD-8842-adversarial.json'', JsonFile adversarial_json),
      (''scenarios/ORD-8842-benign.json'', JsonFile benign_json),
      (''vehicles/vehicles.json'', JsonFile vehicles_json)]"

lemmas repo_files =
  repo_fixtures_def carriers_json_def inventory_json_def mandate_json_def order_json_def
  adversarial_json_def benign_json_def vehicles_json_def

section \<open>Loading them\<close>

definition repo_order :: order where
  "repo_order =
     \<lparr>od_order_id = ''ORD-8842'', od_sku_id = ''SKU-17'', od_quantity = 10,
      od_cargo_class = ''perishable'', od_destination_zone = ''BLR-SOUTH'',
      od_currency = ''INR'', od_spend_ceiling_minor = 400000\<rparr>"

definition repo_vehicles :: "vehicle list" where
  "repo_vehicles =
     [\<lparr>vh_vehicle_id = ''VEH-COLD-01'', vh_capacity_kg = 1000, vh_refrigerated = True,
       vh_available = True\<rparr>,
      \<lparr>vh_vehicle_id = ''VEH-SMALL-01'', vh_capacity_kg = 100, vh_refrigerated = False,
       vh_available = True\<rparr>]"

definition cold_quote :: carrier_quote where
  "cold_quote =
     \<lparr>cq_quote_id = ''QUOTE-COLD-01'', cq_carrier_id = ''CARRIER-COLD-01'',
      cq_amount_minor = 90000, cq_currency = ''INR'', cq_cold_chain_certified = True,
      cq_lane_supported = True, cq_quote_issuer = ''synthetic_carrier_adapter''\<rparr>"

definition cheap_quote :: carrier_quote where
  "cheap_quote =
     \<lparr>cq_quote_id = ''QUOTE-CHEAP-01'', cq_carrier_id = ''CARRIER-CHEAP-01'',
      cq_amount_minor = 70000, cq_currency = ''INR'', cq_cold_chain_certified = False,
      cq_lane_supported = True, cq_quote_issuer = ''synthetic_carrier_adapter''\<rparr>"

definition repo_mandate :: "governance_mode \<Rightarrow> shipment_mandate" where
  "repo_mandate mode =
     \<lparr>sm_mandate_id = ''M-8842-1'', sm_order_id = ''ORD-8842'', sm_mode = mode,
      sm_currency = ''INR'', sm_spend_ceiling_minor = 400000,
      sm_approval_threshold_minor = 400000, sm_cargo_class = ''perishable'',
      sm_allowed_effect_classes = {EC_READ, EC_REVERSIBLE_WRITE, EC_FINANCIAL_COMMIT,
        EC_PHYSICAL_COMMIT, EC_EXTERNAL_DISCLOSURE},
      sm_policy_version = ''demo-v1''\<rparr>"

definition repo_scenario :: "scenario_name \<Rightarrow> scenario_config" where
  "repo_scenario n =
     (case n of
        SN_BENIGN \<Rightarrow>
          \<lparr>sc_name = SN_BENIGN, sc_prior_committed_minor = 250000, sc_attempted_weight_kg = 500,
           sc_preferred_vehicle_id = ''VEH-COLD-01'', sc_preferred_quote_id = ''QUOTE-COLD-01''\<rparr>
      | SN_ADVERSARIAL \<Rightarrow>
          \<lparr>sc_name = SN_ADVERSARIAL, sc_prior_committed_minor = 365000,
           sc_attempted_weight_kg = 50, sc_preferred_vehicle_id = ''VEH-SMALL-01'',
           sc_preferred_quote_id = ''QUOTE-CHEAP-01''\<rparr>)"

definition repo_inventory :: inventory_fact where
  "repo_inventory =
     \<lparr>if_fact_id = ''WEIGHT-ORD-8842'', if_sku_id = ''SKU-17'', if_available_quantity = 25,
      if_shipment_weight_kg = 500, if_source_id = ''WMS-SNAPSHOT-001'',
      if_source_hash = source_hash ''ORD-8842'' ''WMS-SNAPSHOT-001'' 500\<rparr>"

lemmas loading_defs =
  require_def as_dict_def as_list_def ensure_unique_def count_value_def
  dmember_def py_int_def py_str_def non_negative_int_def

lemma repo_get_order: "get_order repo_fixtures ''ORD-8842'' = Inr repo_order"
  by (simp add: get_order_def order_from_record_def repo_files read_json_def loading_defs repo_order_def)

lemma repo_list_orders: "list_orders repo_fixtures = Inr [repo_order]"
  by (simp add: list_orders_def order_paths_def order_from_record_def starts_with_def
      removeprefix_def repo_files read_json_def loading_defs repo_order_def)

lemma repo_list_vehicles: "list_vehicles repo_fixtures = Inr repo_vehicles"
  by (simp add: list_vehicles_def vehicle_from_record_def repo_files read_json_def loading_defs
      repo_vehicles_def)

lemma repo_list_quotes:
  "list_carrier_quotes repo_fixtures (PStr ''BLR-SOUTH'') = Inr [cold_quote, cheap_quote]"
  by (simp add: list_carrier_quotes_def quote_from_record_def repo_files read_json_def loading_defs
      cold_quote_def cheap_quote_def)

lemma repo_get_inventory: "get_inventory_fact repo_fixtures repo_order = Inr repo_inventory"
  by (simp add: get_inventory_fact_def repo_files read_json_def loading_defs repo_order_def
      repo_inventory_def Let_def)

lemma repo_get_mandate: "get_mandate repo_fixtures repo_order mode = Inr (repo_mandate mode)"
  by (simp add: get_mandate_def mandate_path_def removeprefix_def starts_with_def
      parse_effects_def effect_class_from_def effect_class_of_def effect_class_members_def
      ascii_space_def space2_def space3_def repo_files read_json_def loading_defs repo_order_def
      repo_mandate_def)

lemma repo_read_scenario:
  "read_json repo_fixtures (scenario_path ''ORD-8842'' n) =
     Inr (case n of SN_BENIGN \<Rightarrow> benign_json | SN_ADVERSARIAL \<Rightarrow> adversarial_json)"
  by (cases n) (simp_all add: read_json_def scenario_path_def repo_fixtures_def)

lemma repo_get_scenario: "get_scenario repo_fixtures ''ORD-8842'' n = Inr (repo_scenario n)"
proof -
  have zone: "od_destination_zone repo_order = ''BLR-SOUTH''" by (simp add: repo_order_def)
  have ids: "set (map vh_vehicle_id repo_vehicles) = {''VEH-COLD-01'', ''VEH-SMALL-01''}"
    "set (map cq_quote_id [cold_quote, cheap_quote]) = {''QUOTE-COLD-01'', ''QUOTE-CHEAP-01''}"
    by (auto simp: repo_vehicles_def cold_quote_def cheap_quote_def)
  show ?thesis
    by (cases n)
      (simp_all add: get_scenario_def repo_read_scenario repo_list_vehicles repo_get_order zone
        repo_list_quotes ids benign_json_def adversarial_json_def loading_defs
        repo_scenario_def Let_def del: set_map list.set_map list.map)
qed

lemma repo_validate_all: "validate_all repo_fixtures = Inr ()"
  by (simp add: validate_all_def repo_list_orders repo_list_vehicles repo_get_inventory
      repo_list_quotes repo_get_scenario repo_get_mandate scenario_name_members_def)
    (simp add: repo_order_def repo_list_quotes repo_get_scenario)

section \<open>What loading guarantees\<close>

lemma get_mandate_mode:
  "get_mandate fs o' mode = Inr m \<Longrightarrow> get_mandate fs o' mode' = Inr (m\<lparr>sm_mode := mode'\<rparr>)"
  by (auto simp: get_mandate_def split: if_splits)

lemma non_negative_int_Inr: "non_negative_int v label = Inr i \<longleftrightarrow> v = PInt i \<and> 0 \<le> i"
  by (cases v) (auto simp: non_negative_int_def)

lemma validate_orders_member:
  assumes "validate_orders fs os = Inr ()" "o' \<in> set os"
  shows "\<exists>f q m. get_inventory_fact fs o' = Inr f \<and>
    list_carrier_quotes fs (PStr (od_destination_zone o')) = Inr q \<and>
    get_mandate fs o' GM_ENFORCE = Inr m \<and>
    (\<forall>n. \<exists>c. get_scenario fs (od_order_id o') n = Inr c)"
  using assms
proof (induction os)
  case (Cons p os)
  show ?case
  proof (cases "o' = p")
    case True
    have "\<exists>c. get_scenario fs (od_order_id o') n = Inr c" for n
      using Cons.prems(1) True by (cases n) (auto simp: scenario_name_members_def)
    then show ?thesis using Cons.prems(1) True by auto
  qed (use Cons in auto)
qed simp

text \<open>
  C20. Start-up validation suffices: when \<open>validate_all\<close> accepts the fixture files, then for every
  listed order its stock, its mandate in either mode, its scenarios, the vehicles and the carrier
  quotes of its destination all load.
\<close>

theorem startup_validation_suffices:
  assumes "validate_all fs = Inr ()" "list_orders fs = Inr orders" "o' \<in> set orders"
  shows "\<exists>vs f q m c. list_vehicles fs = Inr vs \<and> get_inventory_fact fs o' = Inr f \<and>
    list_carrier_quotes fs (PStr (od_destination_zone o')) = Inr q \<and>
    get_mandate fs o' mode = Inr m \<and> get_scenario fs (od_order_id o') n = Inr c"
proof -
  obtain vs where "list_vehicles fs = Inr vs" "validate_orders fs orders = Inr ()"
    using assms(1,2) by (auto simp: validate_all_def split: if_splits)
  then show ?thesis
    using validate_orders_member [of fs orders o'] assms(3) get_mandate_mode by blast
qed

theorem startup_validation_suffices_witness:
  "\<exists>vs f q m c. list_vehicles repo_fixtures = Inr vs \<and>
    get_inventory_fact repo_fixtures repo_order = Inr f \<and>
    list_carrier_quotes repo_fixtures (PStr (od_destination_zone repo_order)) = Inr q \<and>
    get_mandate repo_fixtures repo_order GM_SHADOW = Inr m \<and>
    get_scenario repo_fixtures (od_order_id repo_order) SN_ADVERSARIAL = Inr c"
  by (rule startup_validation_suffices [OF repo_validate_all repo_list_orders]) simp

text \<open>
  A mandate that loads agrees with its order in id, currency, spend ceiling and cargo class,
  carries the requested mode, has a ceiling and a threshold that are not negative, and allows at
  least one effect class.
\<close>

theorem mandate_agrees_with_order:
  assumes "get_mandate fs o' mode = Inr m"
  shows "sm_order_id m = od_order_id o' \<and> sm_currency m = od_currency o' \<and>
    sm_spend_ceiling_minor m = od_spend_ceiling_minor o' \<and> sm_cargo_class m = od_cargo_class o' \<and>
    sm_mode m = mode \<and> 0 \<le> sm_spend_ceiling_minor m \<and> 0 \<le> sm_approval_threshold_minor m \<and>
    sm_allowed_effect_classes m \<noteq> {} \<and> \<not> blank (sm_policy_version m)"
  using assms
  by (auto simp: get_mandate_def non_negative_int_Inr py_int_def split: if_splits)

theorem mandate_agrees_with_order_witness:
  "sm_spend_ceiling_minor (repo_mandate GM_ENFORCE) = od_spend_ceiling_minor repo_order"
  using mandate_agrees_with_order [OF repo_get_mandate [of GM_ENFORCE]] by simp

end
