(* ===== verification/Tool_Properties.thy ===== *)
theory Tool_Properties
  imports Tools Append_Only Repo_Fixtures
begin

text \<open>
  What the adapters guarantee under any sequence of calls: the tables only grow and are never
  overwritten, a prepared booking is never both confirmed and cancelled, and the registry that
  the program assembles at start-up is complete.
\<close>

section \<open>Tables\<close>

definition table_le :: "effect_table \<Rightarrow> effect_table \<Rightarrow> bool" where
  "table_le t u \<longleftrightarrow> (\<forall>k v. dget t k = Some v \<longrightarrow> dget u k = Some v)"

lemma table_le_refl [simp]: "table_le t t"
  by (simp add: table_le_def)

lemma table_le_trans: "table_le t u \<Longrightarrow> table_le u w \<Longrightarrow> table_le t w"
  by (simp add: table_le_def)

lemma store_idempotently_cases:
  assumes "store_idempotently t key payload = Inr u"
  obtains (replayed) v where "u = t" "dget t (eq_form key) = Some v" "hashable key"
      "py_eq (PDict v) (PDict payload)"
  | (recorded) "dget t (eq_form key) = None" "u = dput (eq_form key) payload t" "hashable key"
  using assms
  by (cases "dget t (eq_form key)") (auto simp: store_idempotently_def hash_key_def split: if_splits)

lemma store_idempotently_le: "store_idempotently t key payload = Inr u \<Longrightarrow> table_le t u"
  by (erule store_idempotently_cases) (auto simp: table_le_def)

lemma store_idempotently_ids:
  assumes "store_idempotently t key payload = Inr u"
  shows "set (prepared_ids u) \<subseteq> insert (get_none payload ''prepared_action_id'') (set (prepared_ids t))"
  using assms
proof (cases rule: store_idempotently_cases)
  case recorded
  then show ?thesis by (auto simp: prepared_ids_def dput_append)
qed auto

lemma store_idempotently_forms:
  "store_idempotently t key payload = Inr u \<Longrightarrow>
   eq_form ` set (prepared_ids u) \<subseteq>
     insert (eq_form (get_none payload ''prepared_action_id'')) (eq_form ` set (prepared_ids t))"
  using image_mono [OF store_idempotently_ids, of t key payload u eq_form] by simp

definition mocks_le :: "mock_tools \<Rightarrow> mock_tools \<Rightarrow> bool" where
  "mocks_le a b \<longleftrightarrow>
     table_le (mt_dispatch_plans a) (mt_dispatch_plans b) \<and>
     table_le (mt_carrier_selections a) (mt_carrier_selections b) \<and>
     table_le (mt_outbox a) (mt_outbox b) \<and>
     table_le (mt_prepared_bookings a) (mt_prepared_bookings b) \<and>
     table_le (mt_confirmed_bookings a) (mt_confirmed_bookings b) \<and>
     table_le (mt_cancelled_bookings a) (mt_cancelled_bookings b)"

definition exclusive :: "mock_tools \<Rightarrow> bool" where
  "exclusive mt \<longleftrightarrow>
     eq_form ` set (prepared_ids (mt_confirmed_bookings mt)) \<inter>
     eq_form ` set (prepared_ids (mt_cancelled_bookings mt)) = {}"

text \<open>What a call that returns may have changed.\<close>

inductive mock_change :: "mock_tools \<Rightarrow> mock_tools \<Rightarrow> bool" where
  same: "mock_change mt mt"
| plan: "store_idempotently (mt_dispatch_plans mt) k p = Inr t \<Longrightarrow>
    mock_change mt (mt\<lparr>mt_dispatch_plans := t\<rparr>)"
| selection: "store_idempotently (mt_carrier_selections mt) k p = Inr t \<Longrightarrow>
    mock_change mt (mt\<lparr>mt_carrier_selections := t\<rparr>)"
| notice: "store_idempotently (mt_outbox mt) k p = Inr t \<Longrightarrow>
    mock_change mt (mt\<lparr>mt_outbox := t\<rparr>)"
| booking: "store_idempotently (mt_prepared_bookings mt) k p = Inr t \<Longrightarrow>
    mock_change mt (mt\<lparr>mt_prepared_bookings := t\<rparr>)"
| confirmed: "store_idempotently (mt_confirmed_bookings mt) k p = Inr t \<Longrightarrow>
    eq_form (get_none p ''prepared_action_id'')
      \<notin> eq_form ` set (prepared_ids (mt_cancelled_bookings mt)) \<Longrightarrow>
    mock_change mt (mt\<lparr>mt_confirmed_bookings := t\<rparr>)"
| cancelled: "store_idempotently (mt_cancelled_bookings mt) k p = Inr t \<Longrightarrow>
    eq_form (get_none p ''prepared_action_id'')
      \<notin> eq_form ` set (prepared_ids (mt_confirmed_bookings mt)) \<Longrightarrow>
    mock_change mt (mt\<lparr>mt_cancelled_bookings := t\<rparr>)"

lemma stored_value_Inr:
  "stored_value sel upd key payload mt = Inr (v, mt') \<longleftrightarrow>
     (\<exists>t. store_idempotently (sel mt) key payload = Inr t \<and> mt' = upd t mt \<and>
        v = VDict (case dget t (eq_form key) of Some w \<Rightarrow> w | None \<Rightarrow> []))"
  by (auto simp: stored_value_def)

lemma in_ids_False:
  "in_ids v ids = Inr False \<Longrightarrow> eq_form v \<notin> eq_form ` set ids"
  by (auto simp: in_ids_def hash_key_def split: if_splits)

lemma reads_change:
  "mock_get_order fs a mt = Inr (v, mt') \<Longrightarrow> mock_change mt mt'"
  "mock_check_inventory fs a b c mt = Inr (v, mt') \<Longrightarrow> mock_change mt mt'"
  "mock_list_available_vehicles fs a mt = Inr (v, mt') \<Longrightarrow> mock_change mt mt'"
  "mock_list_carrier_quotes fs a b mt = Inr (v, mt') \<Longrightarrow> mock_change mt mt'"
  by (auto simp: mock_get_order_def mock_check_inventory_def mock_list_available_vehicles_def
      mock_list_carrier_quotes_def split: if_splits intro: mock_change.same)

lemma plan_change:
  "mock_create_dispatch_plan fs a b c d e f g mt = Inr (v, mt') \<Longrightarrow> mock_change mt mt'"
  unfolding mock_create_dispatch_plan_def Let_def
  by (auto simp: stored_value_Inr split: if_splits option.splits intro: mock_change.plan)

lemma selection_change:
  "mock_select_carrier_quote fs a b c mt = Inr (v, mt') \<Longrightarrow> mock_change mt mt'"
  unfolding mock_select_carrier_quote_def
  by (auto simp: stored_value_Inr split: if_splits intro: mock_change.selection)

lemma booking_change:
  "mock_prepare_freight_booking fs a b c d e mt = Inr (v, mt') \<Longrightarrow> mock_change mt mt'"
  unfolding mock_prepare_freight_booking_def
  by (auto simp: stored_value_Inr split: if_splits option.splits intro: mock_change.booking)

lemma notice_change:
  "mock_write_tracking_outbox fs a b c d e f mt = Inr (v, mt') \<Longrightarrow> mock_change mt mt'"
  unfolding mock_write_tracking_outbox_def Let_def
  by (auto simp: stored_value_Inr split: if_splits intro: mock_change.notice)

lemma confirm_change:
  assumes "mock_confirm_freight_booking a b c mt = Inr (v, mt')"
  shows "mock_change mt mt'"
proof -
  obtain t where st: "store_idempotently (mt_confirmed_bookings mt) c
      [(''confirmation_id'', PStr (''CONFIRM-'' @ py_str a)), (''prepared_action_id'', a),
       (''action_hash'', b)] = Inr t" and mt': "mt' = mt\<lparr>mt_confirmed_bookings := t\<rparr>"
    and free: "in_ids a (prepared_ids (mt_cancelled_bookings mt)) = Inr False"
    using assms unfolding mock_confirm_freight_booking_def
    by (auto simp: stored_value_Inr split: if_splits)
  show ?thesis
    unfolding mt' by (rule mock_change.confirmed [OF st]) (use in_ids_False [OF free] in simp)
qed

lemma cancel_change:
  assumes "mock_cancel_freight_booking a b c d mt = Inr (v, mt')"
  shows "mock_change mt mt'"
proof -
  obtain t where st: "store_idempotently (mt_cancelled_bookings mt) d
      [(''cancellation_id'', PStr (''CANCEL-'' @ py_str a)), (''prepared_action_id'', a),
       (''status'', PStr ''cancelled''), (''reason_code'', c)] = Inr t"
    and mt': "mt' = mt\<lparr>mt_cancelled_bookings := t\<rparr>"
    and free: "in_ids a (prepared_ids (mt_confirmed_bookings mt)) = Inr False"
    using assms unfolding mock_cancel_freight_booking_def
    by (auto simp: stored_value_Inr split: if_splits)
  show ?thesis
    unfolding mt' by (rule mock_change.cancelled [OF st]) (use in_ids_False [OF free] in simp)
qed

lemmas mock_changes =
  reads_change plan_change selection_change booking_change notice_change confirm_change
  cancel_change

lemma call_handler_change:
  "call_handler fs h args mt = Inr (v, mt') \<Longrightarrow> mock_change mt mt'"
  by (cases h) (auto simp: call_handler_def Let_def intro: mock_changes)

section \<open>Call sequences\<close>

definition run_call ::
  "fixtures \<Rightarrow> tool_handler \<times> pydict \<Rightarrow> mock_tools \<Rightarrow> tool_value result \<times> mock_tools" where
  "run_call fs c mt =
     (case call_handler fs (fst c) (snd c) mt of
        Inl e \<Rightarrow> (Inl e, mt)
      | Inr (v, mt') \<Rightarrow> (Inr v, mt'))"

lemma disjoint_insertI:
  "C' \<subseteq> insert x C \<Longrightarrow> x \<notin> D \<Longrightarrow> C \<inter> D = {} \<Longrightarrow> C' \<inter> D = {}"
  "C' \<subseteq> insert x C \<Longrightarrow> x \<notin> D \<Longrightarrow> D \<inter> C = {} \<Longrightarrow> D \<inter> C' = {}"
  by blast+

lemma mock_change_exclusive: "mock_change mt mt' \<Longrightarrow> exclusive mt \<Longrightarrow> exclusive mt'"
proof (induction rule: mock_change.induct)
  case (confirmed mt k p t)
  then show ?case
    using disjoint_insertI(1) [OF store_idempotently_forms [OF confirmed(1)] confirmed(2)]
    by (simp add: exclusive_def)
next
  case (cancelled mt k p t)
  then show ?case
    using disjoint_insertI(2) [OF store_idempotently_forms [OF cancelled(1)] cancelled(2)]
    by (simp add: exclusive_def)
qed (simp_all add: exclusive_def)

lemma mock_change_le: "mock_change mt mt' \<Longrightarrow> mocks_le mt mt'"
  by (induction rule: mock_change.induct) (auto simp: mocks_le_def dest: store_idempotently_le)

lemma run_call_change: "mock_change mt (snd (run_call fs c mt))"
  by (auto simp: run_call_def intro: mock_change.same call_handler_change
      split: sum.split prod.split)

interpretation mocks: monotone_system exclusive mocks_le "run_call fs"
proof
  fix a b c :: mock_tools and x
  show "mocks_le a a" by (simp add: mocks_le_def)
  show "mocks_le a b \<Longrightarrow> mocks_le b c \<Longrightarrow> mocks_le a c"
    unfolding mocks_le_def by (blast intro: table_le_trans)
  show "exclusive a \<Longrightarrow> exclusive (snd (run_call fs x a))"
    by (rule mock_change_exclusive [OF run_call_change])
  show "exclusive a \<Longrightarrow> mocks_le a (snd (run_call fs x a))"
    by (rule mock_change_le [OF run_call_change])
qed

text \<open>
  C17. No prepared booking is ever both confirmed and cancelled: after any sequence of adapter
  calls on fresh adapters, with any arguments, the ids of the confirmed and of the cancelled
  bookings are disjoint.
\<close>

theorem never_confirmed_and_cancelled:
  "eq_form ` set (prepared_ids (mt_confirmed_bookings (run_all (run_call fs) calls new_mocks))) \<inter>
   eq_form ` set (prepared_ids (mt_cancelled_bookings (run_all (run_call fs) calls new_mocks))) = {}"
  using mocks.run_all_inv [of new_mocks fs calls]
  by (simp add: exclusive_def new_mocks_def prepared_ids_def)

section \<open>Replayed writes\<close>

lemma stored_value_replay:
  assumes "stored_value sel upd key payload mt = Inr (v, mt1)" "table_le (sel mt1) (sel mt2)"
    and "\<And>t m. sel (upd t m) = t" "\<And>m. upd (sel m) m = m"
  shows "stored_value sel upd key payload mt2 = Inr (v, mt2)"
proof -
  obtain t where t: "store_idempotently (sel mt) key payload = Inr t" "mt1 = upd t mt"
    and v: "v = VDict (case dget t (eq_form key) of Some w \<Rightarrow> w | None \<Rightarrow> [])"
    using assms(1) by (auto simp: stored_value_Inr)
  obtain w where w: "dget t (eq_form key) = Some w" "py_eq (PDict w) (PDict payload)" "hashable key"
    using t(1) by (cases rule: store_idempotently_cases) (auto simp: py_eq_refl)
  then have "dget (sel mt2) (eq_form key) = Some w"
    using assms(2,3) t(2) by (simp add: table_le_def)
  then show ?thesis
    using w v assms(4)
    by (simp add: stored_value_def store_idempotently_def hash_key_def)
qed

text \<open>
  A write whose guards do not read the tables: it raises the same exception on all of them or is
  one table operation on all of them.
\<close>

definition plain_write ::
  "(mock_tools \<Rightarrow> effect_table) \<Rightarrow> (effect_table \<Rightarrow> mock_tools \<Rightarrow> mock_tools) \<Rightarrow> mock_op \<Rightarrow> bool" where
  "plain_write sel upd f \<longleftrightarrow>
     (\<exists>e. f = (\<lambda>m. Inl e)) \<or> (\<exists>key payload. f = stored_value sel upd key payload)"

lemma plain_write_base:
  "plain_write sel upd (\<lambda>m. Inl e)"
  "plain_write sel upd (\<lambda>m. stored_value sel upd key payload m)"
  by (auto simp: plain_write_def)

lemma plain_write_bind:
  "(\<And>x. plain_write sel upd (h x)) \<Longrightarrow> plain_write sel upd (\<lambda>m. bindR r (\<lambda>x. h x m))"
  by (cases r) (simp_all add: plain_write_base)

lemma plain_write_if:
  "plain_write sel upd f \<Longrightarrow> plain_write sel upd g \<Longrightarrow>
     plain_write sel upd (\<lambda>m. if b then f m else g m)"
  by (cases b) simp_all

lemma plain_write_option:
  "plain_write sel upd f \<Longrightarrow> (\<And>x. plain_write sel upd (h x)) \<Longrightarrow>
     plain_write sel upd (\<lambda>m. case q of None \<Rightarrow> f m | Some x \<Rightarrow> h x m)"
  by (cases q) simp_all

lemmas plain_write_rules = plain_write_base plain_write_bind plain_write_if plain_write_option

lemma plain_write_replay:
  assumes "plain_write sel upd f" "f mt = Inr (v, mt1)" "mocks_le mt1 mt2"
    and "\<And>a b. mocks_le a b \<Longrightarrow> table_le (sel a) (sel b)"
    and "\<And>t m. sel (upd t m) = t" "\<And>m. upd (sel m) m = m"
  shows "f mt2 = Inr (v, mt2)"
  using assms(1)
proof (unfold plain_write_def, elim disjE exE)
  fix key payload assume f: "f = stored_value sel upd key payload"
  show ?thesis
    using assms(2) unfolding f by (rule stored_value_replay) (use assms(3-6) in auto)
qed (use assms(2) in simp)

lemma plain_writes:
  "plain_write mt_dispatch_plans (\<lambda>t. mt_dispatch_plans_update (\<lambda>_. t))
     (mock_create_dispatch_plan fs a b c d e f g)"
  "plain_write mt_carrier_selections (\<lambda>t. mt_carrier_selections_update (\<lambda>_. t))
     (mock_select_carrier_quote fs a b c)"
  "plain_write mt_prepared_bookings (\<lambda>t. mt_prepared_bookings_update (\<lambda>_. t))
     (mock_prepare_freight_booking fs a b c d e)"
  "plain_write mt_outbox (\<lambda>t. mt_outbox_update (\<lambda>_. t))
     (mock_write_tracking_outbox fs a b c d e f)"
  unfolding mock_create_dispatch_plan_def [abs_def] mock_select_carrier_quote_def [abs_def]
    mock_prepare_freight_booking_def [abs_def] mock_write_tracking_outbox_def [abs_def] Let_def
  by (intro plain_write_rules)+

lemma write_replay:
  assumes "call_handler fs h args mt = Inr (VDict d, mt1)" "mocks_le mt1 mt2"
    and "h \<noteq> H_confirm_freight_booking" "h \<noteq> H_cancel_freight_booking"
  shows "call_handler fs h args mt2 = Inr (VDict d, mt2)"
  using assms
  by (cases h)
    (auto simp: call_handler_def Let_def mocks_le_def
      mock_get_order_def mock_check_inventory_def mock_list_available_vehicles_def
      mock_list_carrier_quotes_def
      intro!: plain_write_replay [OF plain_writes(1)] plain_write_replay [OF plain_writes(2)]
        plain_write_replay [OF plain_writes(3)] plain_write_replay [OF plain_writes(4)]
      split: if_splits)


definition sample_booking :: pydict where
  "sample_booking =
     [(''order_id'', PStr ''ORD-8842''), (''quote_id'', PStr ''QUOTE-COLD-01''),
      (''amount_minor'', PInt 90000), (''currency'', PStr ''INR''),
      (''idempotency_key'', PStr ''booking-1'')]"

lemma sample_booking_call:
  "call_handler repo_fixtures H_prepare_freight_booking sample_booking new_mocks =
     Inr (VDict
       [(''prepared_action_id'', PStr ''PREP-ORD-8842-QUOTE-COLD-01''),
        (''order_id'', PStr ''ORD-8842''), (''quote_id'', PStr ''QUOTE-COLD-01''),
        (''amount_minor'', PInt 90000), (''currency'', PStr ''INR'')],
      new_mocks\<lparr>mt_prepared_bookings := [(PStr ''booking-1'',
       [(''prepared_action_id'', PStr ''PREP-ORD-8842-QUOTE-COLD-01''),
        (''order_id'', PStr ''ORD-8842''), (''quote_id'', PStr ''QUOTE-COLD-01''),
        (''amount_minor'', PInt 90000), (''currency'', PStr ''INR'')])]\<rparr>)"
proof -
  have "get_order repo_fixtures (py_str (PStr ''ORD-8842'')) = Inr repo_order"
    by (simp add: py_str_def repo_get_order)
  then show ?thesis
    by (simp add: call_handler_def bind_arguments_def parameters_def sample_booking_def dmember_def
        mock_prepare_freight_booking_def repo_order_def repo_list_quotes by_id_def dict_get_def
        as_key_def cold_quote_def cheap_quote_def stored_value_def store_idempotently_def
        hash_key_def new_mocks_def Let_def)
      (simp add: py_str_def)
qed


section \<open>The assembled registry\<close>

definition standard_registry :: tool_registry where
  "standard_registry =
     \<lparr>rg_definitions = map (\<lambda>p. (td_name (fst p), fst p)) registrations,
      rg_handlers = map (\<lambda>p. (td_name (fst p), snd p)) registrations\<rparr>"

lemma register_all_fresh:
  assumes "distinct (map (\<lambda>p. td_name (fst p)) ds)"
    and "\<forall>p \<in> set ds. td_name (fst p) \<notin> fst ` set (rg_definitions r)"
    and "fst ` set (rg_handlers r) = fst ` set (rg_definitions r)"
  shows "register_all ds r =
    Inr (r\<lparr>rg_definitions := rg_definitions r @ map (\<lambda>p. (td_name (fst p), fst p)) ds,
           rg_handlers := rg_handlers r @ map (\<lambda>p. (td_name (fst p), snd p)) ds\<rparr>)"
  using assms
proof (induction ds arbitrary: r)
  case (Cons p ds)
  obtain d h where p: "p = (d, h)" by (cases p)
  have none: "dget (rg_definitions r) (td_name d) = None" "dget (rg_handlers r) (td_name d) = None"
    using Cons.prems by (auto simp: p map_of_eq_None_iff)
  let ?r = "r\<lparr>rg_definitions := rg_definitions r @ [(td_name d, d)],
               rg_handlers := rg_handlers r @ [(td_name d, h)]\<rparr>"
  have "\<forall>q \<in> set ds. td_name (fst q) \<noteq> td_name d"
    using Cons.prems(1) by (force simp: p)
  then have "\<forall>q \<in> set ds. td_name (fst q) \<notin> fst ` set (rg_definitions ?r)"
    using Cons.prems(2) by simp
  then have "register_all ds ?r =
      Inr (?r\<lparr>rg_definitions := rg_definitions ?r @ map (\<lambda>p. (td_name (fst p), fst p)) ds,
              rg_handlers := rg_handlers ?r @ map (\<lambda>p. (td_name (fst p), snd p)) ds\<rparr>)"
    using Cons.prems(1,3) by (intro Cons.IH) simp_all
  then show ?case by (simp add: p register_def dmember_def none dput_append)
qed simp

lemma standard_names:
  "map (\<lambda>p. td_name (fst p)) registrations =
     [''get_order'', ''check_inventory'', ''list_available_vehicles'', ''create_dispatch_plan'',
      ''list_carrier_quotes'', ''select_carrier_quote'', ''prepare_freight_booking'',
      ''confirm_freight_booking'', ''cancel_freight_booking'', ''write_tracking_outbox'']"
  by (simp add: registrations_def tool_def_def)

lemma standard_descriptions: "check_descriptions (dvalues (rg_definitions standard_registry)) = Inr ()"
  by (simp add: standard_registry_def registrations_def tool_def_def ascii_space_def space2_def
      space3_def)

lemma build_tool_registry_value: "build_tool_registry = Inr standard_registry"
proof -
  have "register_all registrations empty_registry = Inr standard_registry"
    by (subst register_all_fresh)
      (simp_all only: standard_names, simp_all add: empty_registry_def standard_registry_def)
  moreover have "validate_startup standard_registry = Inr ()"
    using standard_descriptions
    by (simp add: validate_startup_def standard_registry_def comp_def Let_def)
  ultimately show ?thesis by (simp add: build_tool_registry_def)
qed


end
