(* ===== verification/Governor_Properties.thy ===== *)
theory Governor_Properties
  imports Governor_Frame Tool_Properties
begin

text \<open>
  What the governor guarantees about a call: in enforce mode nothing takes effect that the policy
  does not allow, an engine that misbehaves blocks the call, in shadow mode nothing is withheld;
  calls and guided retries are bounded; the accounts move only by confirmation and cancellation;
  a write is performed once per idempotency key; the ledger stays in order.
\<close>

section \<open>Decisions that withhold the tool\<close>

lemma create_approval_effects [keeps]: "keepsI (\<lambda>s. effects s = x) (create_approval args d)"
proof -
  have "keepsI (\<lambda>s. effects s = x) (set_cur (set_prepared_status pid c))"
    "keepsI (\<lambda>s. effects s = x) (set_cur (ts_pending_approval_id_update (\<lambda>_. a)))" for pid c a
    by (rule keepsI_updM, simp)+
  moreover have "keepsI (\<lambda>s. effects s = x) (add_approval a)" for a
    by (rule effects_quiet [OF add_approval_quiet])
  moreover have "keepsI (\<lambda>s. effects s = x) uuid4" "keepsI (\<lambda>s. effects s = x) utc_now"
    by (rule effects_quiet, rule platform_quiet)+
  ultimately show ?thesis
    unfolding create_approval_def Let_def by (intro keeps)
qed

lemma withheld:
  assumes "apply_decision gv p def req args d s = (r, t)" "dc_applied_outcome d \<noteq> DO_ALLOW"
  shows "effects t = effects s" "r = Inr g \<Longrightarrow> gr_value g = None \<and> gr_decision g = d"
proof -
  have "keepsI (\<lambda>u. effects u = effects s) (outcome_event p et d details key)" for et details key
    by (rule effects_quiet [OF record_quiet(3)])
  then have "keepsI (\<lambda>u. effects u = effects s) (apply_decision gv p def req args d)"
    using assms(2) unfolding apply_decision_def Let_def
    by (cases "dc_applied_outcome d") (simp_all, (intro keeps; simp)+)
  from keepsID [OF this _ assms(1)] show "effects t = effects s" by simp
  show "r = Inr g \<Longrightarrow> gr_value g = None \<and> gr_decision g = d"
    using assms
    by (cases "dc_applied_outcome d")
      (auto simp: apply_decision_def Let_def thenM_Inr bindM_Inr tool_result_def)
qed

section \<open>Enforcement\<close>

definition took_effect :: "governed_tool_result result \<Rightarrow> tool_sys \<Rightarrow> tool_sys \<Rightarrow> bool" where
  "took_effect r s t \<longleftrightarrow>
     effects t \<noteq> effects s \<or> (\<exists>g v. r = Inr g \<and> gr_value g = Some v)"

lemma retry_block_applied [simp]: "dc_applied_outcome (retry_block d) = DO_BLOCK"
  by (simp add: retry_block_def)

lemma bounded_allow:
  "dc_applied_outcome (bounded_decision gv p d) = DO_ALLOW \<Longrightarrow>
   dc_applied_outcome d = DO_ALLOW \<and> bounded_decision gv p d = d"
  by (auto simp: bounded_decision_def split: if_splits)

lemma engine_signals_allowed:
  assumes "list_all (\<lambda>x. ps_outcome x = DO_ALLOW) (engine_signals gv tool def req st)"
  obtains xs where "pe_evaluate (gv_engine gv) req st = Inr xs"
    "list_all (\<lambda>x. ps_outcome x = DO_ALLOW) xs" "def \<noteq> None"
  using assms
  by (auto simp: engine_signals_def signal_def Let_def split: option.splits sum.splits if_splits)

text \<open>
  The interface of a policy engine: what it allows is permitted.  The governor relies on nothing
  else of it.
\<close>

locale sound_engine =
  fixes engine :: policy_engine
    and permitted :: "policy_request \<Rightarrow> trajectory_state \<Rightarrow> bool"
  assumes allowed_permitted:
    "pe_evaluate engine req st = Inr xs \<Longrightarrow> list_all (\<lambda>x. ps_outcome x = DO_ALLOW) xs \<Longrightarrow>
     permitted req st"
begin

lemma effect_permitted:
  assumes "gv_engine gv = engine" "ts_mode (cur s) = GM_ENFORCE"
    and run: "execute_tool gv agent tool args s = (r, t)" and "took_effect r s t"
  obtains p req s1 where "proposed gv agent tool (cur s) p"
    "core (cur s1) = core (counted tool (cur s))"
    "fst (build_request gv p (lookup_tool gv tool) args s1) = Inr req" "permitted req (cur s1)"
  using run
proof (cases rule: execute_tool_cases)
  case stopped
  then show ?thesis using assms(4) by (simp add: took_effect_def)
next
  case (decided p req d0 d s1 s2)
  have "dc_applied_outcome d = DO_ALLOW"
    using withheld [OF decided(8)] assms(4) decided(7) by (fastforce simp: took_effect_def)
  then have d0: "dc_applied_outcome d0 = DO_ALLOW" using decided(5) bounded_allow by blast
  have "ts_mode (cur s1) = GM_ENFORCE"
    using core_eqD(1) [OF decided(2)] assms(2) by simp
  then have "ps_outcome (primary_signal (engine_signals gv tool (lookup_tool gv tool) req (cur s1)))
      = DO_ALLOW"
    using d0 decided(4) by (auto simp: decision_on_def)
  then have "permitted req (cur s1)"
    using allowed_permitted assms(1) by (auto simp: primary_allow_iff elim: engine_signals_allowed)
  then show ?thesis using that decided by blast
qed

end

definition policy_spec :: "policy_request \<Rightarrow> trajectory_state \<Rightarrow> bool" where
  "policy_spec req st \<longleftrightarrow>
     ownership_spec req st \<and> provenance_spec req st \<and> cold_chain_spec req st \<and>
     budget_spec req st \<and> separation_spec req st \<and> pii_spec req st"

interpretation reference: sound_engine python_reference_engine policy_spec
proof
  fix req st xs
  assume "pe_evaluate python_reference_engine req st = Inr xs"
    "list_all (\<lambda>x. ps_outcome x = DO_ALLOW) xs"
  then have "allows (evaluate req st)" by (simp add: python_reference_engine_def)
  then show "policy_spec req st"
    unfolding evaluate_def allows_evaluate_all policy_spec_def
    by (simp add: evaluators_def ownership_allows provenance_allows cold_chain_allows
        budget_allows separation_allows pii_allows)
qed

text \<open>What a request says about the call it was built for.\<close>

lemma build_request_fields:
  assumes "fst (build_request gv p def args s) = Inr req"
  shows "pr_principal req = tp_agent p" "pr_action req = tp_tool_name p"
    "get_none (pr_context req) ''arguments'' = PDict (primitive_dict args)"
    "get_none (pr_context req) ''tool_owner'' =
       opt_val (\<lambda>d. PStr (agent_name_value (td_owner d))) def"
    "get_none (pr_context req) ''effect_class'' =
       opt_val (\<lambda>d. PStr (effect_class_value (td_effect_class d))) def"
proof -
  obtain t where run: "build_request gv p def args s = (Inr req, t)"
    using assms by (metis prod.collapse)
  show "pr_principal req = tp_agent p" "pr_action req = tp_tool_name p"
    "get_none (pr_context req) ''arguments'' = PDict (primitive_dict args)"
    "get_none (pr_context req) ''tool_owner'' =
       opt_val (\<lambda>d. PStr (agent_name_value (td_owner d))) def"
    "get_none (pr_context req) ''effect_class'' =
       opt_val (\<lambda>d. PStr (effect_class_value (td_effect_class d))) def"
    using run
    by (auto simp: build_request_def Let_def bindM_Inr uuid4_def get_or_def split: if_splits)
qed


section \<open>Failing closed\<close>

text \<open>An engine that raises, or answers with a code outside the catalogue, on every request.\<close>

definition engine_fails :: "policy_engine \<Rightarrow> bool" where
  "engine_fails e \<longleftrightarrow>
     (\<forall>req st. case pe_evaluate e req st of
        Inl _ \<Rightarrow> True
      | Inr xs \<Rightarrow> list_ex (\<lambda>x. ps_reason_code x \<notin> set REASON_CODES) xs)"

lemma engine_fails_signals:
  assumes "engine_fails (gv_engine gv)"
  shows "\<exists>x. engine_signals gv tool def req st = [x] \<and> ps_outcome x = DO_BLOCK \<and>
    ps_reason_code x = (if def = None then ''UNKNOWN_TOOL'' else ''POLICY_ENGINE_FAILURE'')"
  using assms
  by (cases "pe_evaluate (gv_engine gv) req st")
    (auto simp: engine_fails_def engine_signals_def signal_def split: option.split sum.splits)

text \<open>
  C24. The governor fails closed: in enforce mode with an engine that raises or answers unknown
  codes nothing takes effect, and a call that returns carries an enforced BLOCK with the reason.
\<close>

theorem governor_fails_closed:
  assumes "engine_fails (gv_engine gv)" "ts_mode (cur s) = GM_ENFORCE"
  shows "\<not> took_effect (fst (execute_tool gv agent tool args s)) s
      (snd (execute_tool gv agent tool args s)) \<and>
    (case fst (execute_tool gv agent tool args s) of
       Inl _ \<Rightarrow> True
     | Inr g \<Rightarrow>
         dc_applied_outcome (gr_decision g) = DO_BLOCK \<and> dc_enforced (gr_decision g) \<and>
         dc_reason_code (gr_decision g) =
           (if dget (rg_definitions (gv_registry gv)) tool = None then ''UNKNOWN_TOOL''
            else ''POLICY_ENGINE_FAILURE''))"
proof -
  obtain r t where run: "execute_tool gv agent tool args s = (r, t)" by fastforce
  then show ?thesis
  proof (cases rule: execute_tool_cases)
    case stopped
    then show ?thesis using run by (simp add: took_effect_def)
  next
    case (decided p req d0 d s1 s2)
    obtain x where x: "engine_signals gv tool (lookup_tool gv tool) req (cur s1) = [x]"
      "ps_outcome x = DO_BLOCK"
      "ps_reason_code x = (if lookup_tool gv tool = None then ''UNKNOWN_TOOL'' else ''POLICY_ENGINE_FAILURE'')"
      using engine_fails_signals [OF assms(1)] by blast
    have "ts_mode (cur s1) = GM_ENFORCE"
      using core_eqD(1) [OF decided(2)] assms(2) by simp
    then have d0: "dc_applied_outcome d0 = DO_BLOCK" "dc_enforced d0"
      "dc_reason_code d0 = ps_reason_code x"
      using decided(4) x by (auto simp: decision_on_def primary_signal_def)
    then have d: "d = d0" using decided(5) by (simp add: bounded_decision_def)
    have "effects t = effects s" "r = Inr g \<Longrightarrow> gr_value g = None \<and> gr_decision g = d" for g
      using withheld [OF decided(8)] d d0 decided(7) by auto
    then show ?thesis
      using run d d0 x by (cases r) (auto simp: took_effect_def lookup_tool_def)
  qed
qed

section \<open>Shadow mode\<close>

text \<open>
  C25. Shadow mode observes and never withholds: whatever the engine answers, a call of a
  registered tool that returns has run the tool and carries its value, with an unenforced decision
  that applies ALLOW and still records the policy outcome, which is the outcome of highest
  precedence among the recorded signals.
\<close>

theorem shadow_mode_never_withholds:
  assumes "ts_mode (cur s) = GM_SHADOW" "dget (rg_definitions (gv_registry gv)) tool = Some def"
    and "fst (execute_tool gv agent tool args s) = Inr g"
  shows "gr_value g \<noteq> None \<and> gr_pending_approval g = None \<and> \<not> dc_enforced (gr_decision g) \<and>
    dc_applied_outcome (gr_decision g) = DO_ALLOW \<and>
    (\<exists>req st. let signals = engine_signals gv tool (Some def) req st in
       dc_policy_outcome (gr_decision g) = ps_outcome (primary_signal signals) \<and>
       (\<forall>x \<in> set signals.
          precedence (ps_outcome x) \<le> precedence (dc_policy_outcome (gr_decision g))))"
proof -
  obtain t where "execute_tool gv agent tool args s = (Inr g, t)"
    using assms(3) by (metis prod.collapse)
  then show ?thesis
  proof (cases rule: execute_tool_cases)
    case (decided p req d0 d s1 s2)
    have mode: "ts_mode (cur s1) = GM_SHADOW"
      using core_eqD(1) [OF decided(2)] assms(1) by simp
    have d: "d = d0" "dc_applied_outcome d0 = DO_ALLOW" "\<not> dc_enforced d0"
      using decided(4,5) mode by (auto simp: decision_on_def bounded_decision_def)
    let ?signals = "engine_signals gv tool (Some def) req (cur s1)"
    have lk: "lookup_tool gv tool = Some def" using assms(2) by (simp add: lookup_tool_def)
    have "gr_decision g = d \<and> gr_value g \<noteq> None \<and> gr_pending_approval g = None"
      using decided(8) d lk by (auto simp: apply_decision_def bindM_Inr tool_result_def)
    moreover have "dc_policy_outcome d = ps_outcome (primary_signal ?signals)"
      using decided(4) d lk by (simp add: decision_on_def)
    moreover have "\<forall>x \<in> set ?signals.
        precedence (ps_outcome x) \<le> precedence (ps_outcome (primary_signal ?signals))"
      using primary_signal_cases [of ?signals] by auto
    ultimately show ?thesis using d unfolding Let_def by metis
  qed simp
qed

section \<open>Bounds\<close>


text \<open>How often the trajectory's history shows an attempt, against the counter of calls.\<close>

definition attempts :: "trajectory_state \<Rightarrow> nat" where
  "attempts st = length (filter (\<lambda>e. te_event_type e = ET_TOOL_ATTEMPTED) (ts_events st))"

definition counts :: "nat \<Rightarrow> nat \<Rightarrow> tool_sys \<Rightarrow> bool" where
  "counts a k s \<longleftrightarrow> attempts (cur s) \<le> a \<and> ts_tool_call_count (cur s) = k"

lemma append_event_counts:
  assumes "append_event d s = (r, t)"
  shows "attempts (cur t) \<le> attempts (cur s) + (if ed_event_type d = ET_TOOL_ATTEMPTED then 1 else 0)"
    "ts_tool_call_count (cur t) = ts_tool_call_count (cur s)"
  using assms
  by (cases rule: append_event_cases;
      auto simp: attempts_def appended_cur_def is_new_event_def new_event_def)+

lemma append_event_keeps_counts [keeps]:
  "ed_event_type d \<noteq> ET_TOOL_ATTEMPTED \<Longrightarrow> keepsI (counts a k) (append_event d)"
  by (rule keepsII, frule append_event_counts(1), drule append_event_counts(2))
    (simp add: counts_def)

lemma set_cur_counts [keeps]:
  "(\<And>st. ts_events (f st) = ts_events st \<and> ts_tool_call_count (f st) = ts_tool_call_count st) \<Longrightarrow>
   keepsI (counts a k) (set_cur f)"
  by (rule keepsI_updM) (simp add: counts_def attempts_def)

lemma other_counts [keeps]:
  "keepsI (counts a k) (set_db g)"
  "keepsI (counts a k) (updM (tools_update h))"
  "keepsI (counts a k) utc_now" "keepsI (counts a k) uuid4" "keepsI (counts a k) elapsed_ms"
  "keepsI (counts a k) persist_state"
  by (simp_all add: keepsI_def counts_def attempts_def utc_now_def uuid4_def elapsed_ms_def
      persist_state_def Let_def)

lemma ed_event_type_tool_event [simp]:
  "ed_event_type (tool_event et summary agent tool effect details key) = et"
  by (simp add: tool_event_def)

lemma ed_event_type_decision [simp]: "ed_event_type (decision_event d) = ET_POLICY_DECIDED"
  by (simp add: decision_event_def Let_def)

lemma set_prepared_status_counts [simp]:
  "ts_events (set_prepared_status pid c st) = ts_events st"
  "ts_tool_call_count (set_prepared_status pid c st) = ts_tool_call_count st"
  by (simp_all add: set_prepared_status_def split: option.split)

lemma steps_counts [keeps]:
  "keepsI (counts a k) (append_decision d)"
  "keepsI (counts a k) (add_approval x)"
  "keepsI (counts a k) (put_effect_receipt rc)"
  "keepsI (counts a k) (named_prepared args)"
  unfolding append_decision_def add_approval_def put_effect_receipt_def named_prepared_def Let_def
  by (intro keeps; simp)+

lemma execute_counts [keeps]: "keepsI (counts a k) (execute fs rg tool args)"
  unfolding execute_def by (intro keeps; simp)

lemma decide_counts: "keepsI (counts a k) (decide gv p def args)"
  unfolding decide_def build_request_def approval_context_def make_decision_def record_decision_def
    Let_def
  by (intro keeps; simp)

lemma receipt_counts [keeps]:
  "keepsI (counts a k) (execute_with_durable_receipt gv tool effect args)"
  unfolding execute_with_durable_receipt_def by (intro keeps)

lemma apply_decision_counts: "keepsI (counts a k) (apply_decision gv p def req args d)"
  unfolding apply_decision_def perform_def outcome_event_def record_failure_def
    create_approval_def apply_confirmation_def apply_cancellation_def Let_def
  by (intro keeps; simp)

lemma propose_counts:
  assumes "propose gv agent tool args s = (r, t)" "counts a k s"
  shows "counts (Suc a) (Suc k) t"
proof -
  obtain p where run: "propose gv agent tool args s =
      bindM (append_event (attempted p)) (\<lambda>_. returnM (p, lookup_tool gv tool)) (after_counting tool s)"
    using propose_run by blast
  obtain r' where ap: "append_event (attempted p) (after_counting tool s) = (r', t)"
    using assms(1) run by (auto simp: bindM_def split: prod.splits sum.splits)
  show ?thesis
    using append_event_counts [OF ap] assms(2)
    by (auto simp: counts_def after_counting_def counted_def attempts_def split: if_splits)
qed

lemma execute_tool_counts:
  assumes run: "execute_tool gv agent tool args s = (r, t)" and c: "counts a k s"
  shows "counts a k t \<or> counts (Suc a) (Suc k) t \<and> int k < gv_max_tool_calls gv"
proof (cases "int (ts_tool_call_count (cur s)) \<ge> gv_max_tool_calls gv")
  case True
  then show ?thesis using assms by (auto simp: execute_tool_def)
next
  case False
  obtain rp s1 where pr: "propose gv agent tool args s = (rp, s1)" by fastforce
  have keep: "keepsI (counts (Suc a) (Suc k))
      (bindM (decide gv p def args) (\<lambda>(request, d). apply_decision gv p def request args d))" for p def
    by (intro keeps decide_counts apply_decision_counts)
  have "counts (Suc a) (Suc k) t"
    using propose_counts [OF pr c] run False pr
    by (cases rp) (auto simp: execute_tool_def bindM_run intro: keepsID [OF keep])
  then show ?thesis using False c by (simp add: counts_def)
qed

section \<open>Sequences of calls\<close>

text \<open>A governed call as a command of the process that holds one trajectory object.\<close>

type_synonym call = "agent_name \<times> string \<times> pydict"

definition governed_call :: "governor \<Rightarrow> call \<Rightarrow> governed_tool_result top" where
  "governed_call gv c = (case c of (agent, tool, args) \<Rightarrow> execute_tool gv agent tool args)"

lemma calls_counted:
  assumes "counts a k s" "a \<le> k" "int k \<le> gv_max_tool_calls gv"
  shows "\<exists>a' k'. counts a' k' (run_all (governed_call gv) cs s) \<and> a' \<le> k' \<and>
    int k' \<le> gv_max_tool_calls gv"
  using assms
proof (induction cs arbitrary: s a k)
  case (Cons c cs)
  obtain agent tool args where c: "c = (agent, tool, args)" by (cases c)
  obtain r t where run: "execute_tool gv agent tool args s = (r, t)" by fastforce
  from execute_tool_counts [OF run Cons.prems(1)] show ?case
  proof
    assume "counts a k t"
    then show ?thesis using Cons run by (simp add: c governed_call_def)
  next
    assume "counts (Suc a) (Suc k) t \<and> int k < gv_max_tool_calls gv"
    then show ?thesis
      using Cons.IH [of "Suc a" "Suc k" t] Cons.prems run by (simp add: c governed_call_def)
  qed
qed auto

text \<open>
  C27. Attempts are bounded: from a trajectory whose history shows no attempt beyond its counter,
  whatever calls are made, the history never shows more attempts than the limit of calls, and the
  counter stays within the limit.
\<close>

theorem tool_calls_are_bounded:
  assumes "attempts (cur s) \<le> ts_tool_call_count (cur s)"
    and "int (ts_tool_call_count (cur s)) \<le> gv_max_tool_calls gv"
  shows "int (attempts (cur (run_all (governed_call gv) cs s))) \<le> gv_max_tool_calls gv \<and>
    int (ts_tool_call_count (cur (run_all (governed_call gv) cs s))) \<le> gv_max_tool_calls gv"
  using calls_counted [of "attempts (cur s)" "ts_tool_call_count (cur s)" s gv cs] assms
  by (auto simp: counts_def)

text \<open>Governed calls are operations of the append-only repository.\<close>

interpretation governed: append_only ledger_inv "\<lambda>s t. grows (db s) (db t)" "governed_call gv"
  ms_history ms_verified for gv
  by (rule append_only_store) (auto simp: governed_call_def intro: keeps split: prod.split)

text \<open>
  C28. Governed calls keep the ledger: after any sequence of calls, with any policy engine and
  whatever the tools raise, every retained trace verifies and extends what was retained before.
\<close>

theorem governed_calls_keep_the_ledger:
  assumes "ledger_inv s" "get_events (db s) tid = Inr es"
  shows "\<exists>later v. get_events (db (run_all (governed_call gv) cs s)) tid = Inr (es @ later) \<and>
    verify_trace (db (run_all (governed_call gv) cs s)) tid = Inr v \<and> vr_valid v"
proof -
  have h: "ms_history (run_all (governed_call gv) [] s) tid = Some es"
    using assms(2) by (auto simp: get_events_def get_state_def ms_history_def split: option.splits)
  obtain h' where h': "ms_history (run_all (governed_call gv) cs s) tid = Some h'" "prefix es h'"
    using governed.history_grows [OF assms(1) h, of cs] by auto
  then have "ms_verified (run_all (governed_call gv) cs s) tid"
    using governed.always_verified assms(1) by blast
  with h' show ?thesis
    by (auto simp: ms_verified_def ms_history_def get_events_def get_state_def prefix_def)
qed

end
