(* ===== verification/Governor_Effects.thy ===== *)
theory Governor_Effects
  imports Governor_Properties
begin

text \<open>
  The effects of governed calls: how the accounts of a trajectory move, and that a write is
  performed once per idempotency key and trace.
\<close>

section \<open>Accounts\<close>

lemma core_quiet: "(\<And>c m. keepsI (quiet c m) op) \<Longrightarrow> keepsI (\<lambda>s. core (cur s) = c) op"
  by (auto simp: keepsI_def quiet_def)

lemma execute_core [keeps]: "keepsI (\<lambda>s. core (cur s) = c) (execute fs rg tool args)"
proof -
  have "keepsI (\<lambda>s. core (cur s) = c) (updM (tools_update h))" for h
    by (rule keepsI_updM) simp
  then show ?thesis unfolding execute_def by (intro keeps)
qed

lemma receipt_core [keeps]:
  "keepsI (\<lambda>s. core (cur s) = c) (execute_with_durable_receipt gv tool effect args)"
  unfolding execute_with_durable_receipt_def
  by (intro keeps core_quiet [OF platform_quiet(1)] core_quiet [OF put_effect_receipt_quiet])

text \<open>The step that follows a successful tool, before the effect is entered in the history.\<close>

definition account_step :: "string \<Rightarrow> pydict \<Rightarrow> tool_value \<Rightarrow> unit top" where
  "account_step tool args v =
     (if tool = ''confirm_freight_booking'' then apply_confirmation args v
      else if tool = ''cancel_freight_booking'' then apply_cancellation args
      else returnM ())"

lemma perform_cases:
  assumes "perform gv p def req args s = (r, t)"
  obtains (failed) e where "r = Inl e" "core (cur t) = core (cur s)"
  | (ran) v s1 h where "core (cur s1) = core (cur s)"
      "thenM (account_step (tp_tool_name p) args v)
         (thenM (set_cur (\<lambda>st. st\<lparr>ts_effect_history := ts_effect_history st @ [h]\<rparr>)) (returnM v)) s1
       = (r, t)"
proof -
  let ?tool = "tp_tool_name p"
  define run where "run = catchM (execute_with_durable_receipt gv ?tool (td_effect_class def) args)
    (\<lambda>e. if manifest_exc e
         then thenM (record_failure (tp_agent p) ?tool (tp_effect_class p) (exc_message e)
                (tp_proposal_id p)) (raiseM e)
         else
           let message = ''Tool '' @ ?tool @ '' failed unexpectedly.'' in
           thenM (record_failure (tp_agent p) ?tool (tp_effect_class p) message (tp_proposal_id p))
             (raiseM (Manifest ToolExecutionError message)))"
  define note' :: "tool_value \<Rightarrow> trace_event top" where "note' v = append_event
    (tool_event ET_TOOL_SUCCEEDED (?tool @ '' completed successfully.'') (tp_agent p) ?tool
      (tp_effect_class p) [(''result'', safe_result ?tool v)]
      (Some (''proposal:'' @ tp_proposal_id p @ '':succeeded'')))" for v
  define h where "h = \<lparr>er_tool_name = ?tool, er_effect_class = td_effect_class def,
    er_resource_id = pr_resource_id req, er_actor = agent_name_value (tp_agent p)\<rparr>"
  have eq: "perform gv p def req args = bindM run (\<lambda>v. bindM (note' v) (\<lambda>_.
      thenM (account_step ?tool args v)
        (thenM (set_cur (\<lambda>st. st\<lparr>ts_effect_history := ts_effect_history st @ [h]\<rparr>)) (returnM v))))"
    by (simp add: perform_def account_step_def run_def note'_def h_def Let_def)
  have k1: "keepsI (\<lambda>u. core (cur u) = core (cur s)) run"
    unfolding run_def Let_def by (intro keeps core_quiet [OF record_quiet(2)])
  have k2: "keepsI (\<lambda>u. core (cur u) = core (cur s)) (note' v)" for v
    unfolding note'_def by (rule core_quiet [OF append_event_quiet])
  obtain r1 s1 where 1: "run s = (r1, s1)" by fastforce
  have c1: "core (cur s1) = core (cur s)" using keepsID [OF k1 _ 1] by simp
  show ?thesis
  proof (cases r1)
    case (Inl e)
    then show ?thesis using assms eq 1 c1 failed by (auto simp: bindM_run)
  next
    case (Inr v)
    obtain r2 s2 where 2: "note' v s1 = (r2, s2)" by fastforce
    have c2: "core (cur s2) = core (cur s)" using keepsID [OF k2 c1 2] .
    then show ?thesis
      using assms eq 1 2 Inr failed ran [of s2 v h] by (cases r2) (auto simp: bindM_run)
  qed
qed

lemma set_prepared_status_spend [simp]:
  "ts_spend_reserved_minor (set_prepared_status pid c st) = ts_spend_reserved_minor st"
  "ts_spend_committed_minor (set_prepared_status pid c st) = ts_spend_committed_minor st"
  "dget (ts_prepared_actions (set_prepared_status pid c st)) pid' =
     (if pid' = pid then map_option (pa_status_update (\<lambda>_. c)) (dget (ts_prepared_actions st) pid)
      else dget (ts_prepared_actions st) pid')"
  by (simp_all add: set_prepared_status_def split: option.split)

definition same_spend :: "trajectory_state \<Rightarrow> trajectory_state \<Rightarrow> bool" where
  "same_spend st st' \<longleftrightarrow>
     ts_spend_committed_minor st' = ts_spend_committed_minor st \<and>
     ts_spend_reserved_minor st' = ts_spend_reserved_minor st"

text \<open>
  The reservation of an action is released, by an action that was open to it and within what is
  reserved; a confirmation commits the amount.
\<close>

definition released ::
  "trajectory_state \<Rightarrow> trajectory_state \<Rightarrow> pydict \<Rightarrow> commitment_status \<Rightarrow> bool" where
  "released st st' args c \<longleftrightarrow>
     (\<exists>v p. dget args ''prepared_action_id'' = Some v \<and>
        dget (ts_prepared_actions st) (py_str v) = Some p \<and>
        dget (ts_prepared_actions st') (py_str v) = Some (p\<lparr>pa_status := c\<rparr>) \<and>
        pa_status p \<noteq> CS_CONFIRMED \<and> pa_status p \<noteq> c \<and>
        pa_amount_minor p \<le> ts_spend_reserved_minor st \<and>
        ts_spend_reserved_minor st' = ts_spend_reserved_minor st - pa_amount_minor p \<and>
        ts_spend_committed_minor st' = ts_spend_committed_minor st +
          (if c = CS_CONFIRMED then pa_amount_minor p else 0))"

lemma named_prepared_cases:
  obtains (missing) e where "named_prepared args s = (Inl e, s)"
  | (found) v p where "named_prepared args s = (Inr (py_str v, p), s)"
      "dget args ''prepared_action_id'' = Some v"
      "dget (ts_prepared_actions (cur s)) (py_str v) = Some p"
proof (cases "dget args ''prepared_action_id''")
  case None
  then show ?thesis using missing by (simp add: named_prepared_def)
next
  case (Some v)
  then show ?thesis
    using missing found
    by (cases "dget (ts_prepared_actions (cur s)) (py_str v)") (auto simp: named_prepared_def)
qed

lemma releasedI:
  assumes "dget args ''prepared_action_id'' = Some v"
    and "dget (ts_prepared_actions st) (py_str v) = Some p"
    and "pa_status p \<noteq> CS_CONFIRMED" "pa_status p \<noteq> c"
    and "pa_amount_minor p \<le> ts_spend_reserved_minor st"
    and "ts_prepared_actions st' = ts_prepared_actions (set_prepared_status (py_str v) c st)"
    and "ts_spend_reserved_minor st' = ts_spend_reserved_minor st - pa_amount_minor p"
    and "ts_spend_committed_minor st' = ts_spend_committed_minor st +
          (if c = CS_CONFIRMED then pa_amount_minor p else 0)"
  shows "released st st' args c"
  unfolding released_def using assms by (intro exI [of _ v] exI [of _ p]) simp

lemma same_spend_refl [simp]: "same_spend st st"
  by (simp add: same_spend_def)

lemma apply_confirmation_accounts:
  assumes "apply_confirmation args v s = (r, t)"
  shows "same_spend (cur s) (cur t) \<or> released (cur s) (cur t) args CS_CONFIRMED"
proof (cases rule: named_prepared_cases [of args s])
  case missing
  then show ?thesis using assms by (simp add: apply_confirmation_def bindM_run)
next
  case (found pv p)
  note run = assms [unfolded apply_confirmation_def bindM_run(1) [where m = "named_prepared args" and s = s, OF found(1)], simplified]
  consider "pa_status p = CS_CONFIRMED" | "ts_spend_reserved_minor (cur s) < pa_amount_minor p"
    | (go) "pa_status p \<noteq> CS_CONFIRMED" "\<not> ts_spend_reserved_minor (cur s) < pa_amount_minor p"
    by blast
  then show ?thesis
  proof cases
    case go
    show ?thesis
    proof (cases "confirmation_id v")
      case (Inl e)
      then show ?thesis using run go by (auto simp: same_spend_def)
    next
      case (Inr c)
      have "released (cur s) (cur t) args CS_CONFIRMED"
        by (rule releasedI [OF found(2,3)]) (use run go Inr in auto)
      then show ?thesis ..
    qed
  qed (use run in \<open>auto split: if_splits\<close>)
qed

lemma apply_cancellation_accounts:
  assumes "apply_cancellation args s = (r, t)"
  shows "same_spend (cur s) (cur t) \<or> released (cur s) (cur t) args CS_CANCELLED"
proof (cases rule: named_prepared_cases [of args s])
  case missing
  then show ?thesis using assms by (simp add: apply_cancellation_def bindM_run)
next
  case (found pv p)
  note run = assms [unfolded apply_cancellation_def bindM_run(1) [where m = "named_prepared args" and s = s, OF found(1)], simplified]
  consider "pa_status p = CS_CANCELLED" | "pa_status p = CS_CONFIRMED"
    | "ts_spend_reserved_minor (cur s) < pa_amount_minor p"
    | (go) "pa_status p \<noteq> CS_CANCELLED" "pa_status p \<noteq> CS_CONFIRMED"
        "\<not> ts_spend_reserved_minor (cur s) < pa_amount_minor p"
    by blast
  then show ?thesis
  proof cases
    case go
    have "released (cur s) (cur t) args CS_CANCELLED"
      by (rule releasedI [OF found(2,3)]) (use run go in auto)
    then show ?thesis ..
  qed (use run in \<open>auto split: if_splits\<close>)
qed

lemma same_spend_core: "core st = core st' \<Longrightarrow> same_spend st st'"
  using core_eqD(5,6) [of st st'] by (simp add: same_spend_def)

lemma account_step_accounts:
  assumes "account_step tool args v s = (r, t)"
  shows "same_spend (cur s) (cur t) \<or>
    tool = ''confirm_freight_booking'' \<and> released (cur s) (cur t) args CS_CONFIRMED \<or>
    tool = ''cancel_freight_booking'' \<and> released (cur s) (cur t) args CS_CANCELLED"
  using assms apply_confirmation_accounts [of args v s r t] apply_cancellation_accounts [of args s r t]
  by (auto simp: account_step_def same_spend_def split: if_splits)

definition accounts_move :: "string \<Rightarrow> pydict \<Rightarrow> trajectory_state \<Rightarrow> trajectory_state \<Rightarrow> bool" where
  "accounts_move tool args st st' \<longleftrightarrow>
     same_spend st st' \<or>
     tool = ''confirm_freight_booking'' \<and> released st st' args CS_CONFIRMED \<or>
     tool = ''cancel_freight_booking'' \<and> released st st' args CS_CANCELLED"

lemma accounts_move_cong:
  assumes "ts_prepared_actions st = ts_prepared_actions s2"
    "ts_spend_committed_minor st = ts_spend_committed_minor s2"
    "ts_spend_reserved_minor st = ts_spend_reserved_minor s2"
    "ts_prepared_actions st' = ts_prepared_actions t2"
    "ts_spend_committed_minor st' = ts_spend_committed_minor t2"
    "ts_spend_reserved_minor st' = ts_spend_reserved_minor t2"
  shows "accounts_move tool args st st' = accounts_move tool args s2 t2"
  using assms by (simp add: accounts_move_def same_spend_def released_def)

lemma perform_accounts:
  assumes "perform gv p def req args s = (r, t)"
  shows "accounts_move (tp_tool_name p) args (cur s) (cur t)"
  using assms
proof (cases rule: perform_cases)
  case failed
  then show ?thesis by (simp add: accounts_move_def same_spend_core)
next
  case (ran v s1 h)
  obtain r' t' where step: "account_step (tp_tool_name p) args v s1 = (r', t')" by fastforce
  have "accounts_move (tp_tool_name p) args (cur s1) (cur t')"
    using account_step_accounts [OF step] by (simp add: accounts_move_def)
  moreover have "ts_prepared_actions (cur t) = ts_prepared_actions (cur t')"
    "ts_spend_committed_minor (cur t) = ts_spend_committed_minor (cur t')"
    "ts_spend_reserved_minor (cur t) = ts_spend_reserved_minor (cur t')"
    using ran(2) step by (cases r'; auto simp: thenM_run)+
  ultimately show ?thesis
    using core_eqD(4,5,6) [OF ran(1)]
      accounts_move_cong [of "cur s" "cur s1" "cur t" "cur t'" "tp_tool_name p" args] by simp
qed

text \<open>
  C29. The accounts move only by confirmation and cancellation: a call leaves committed and
  reserved spend as they are, or it confirmed or cancelled the prepared action it names, which was
  neither confirmed nor in that state before and whose amount was covered by the reservation; the
  amount is released, and committed exactly when it was confirmed.
\<close>

theorem accounts_move_only_by_commitment:
  "accounts_move tool args (cur s) (cur (snd (execute_tool gv agent tool args s)))"
proof -
  obtain r t where run: "execute_tool gv agent tool args s = (r, t)" by fastforce
  then show ?thesis
  proof (cases rule: execute_tool_cases)
    case stopped
    then show ?thesis using run by (simp add: accounts_move_def same_spend_def effects_def)
  next
    case (decided p req d0 d s1 s2)
    have s2: "ts_prepared_actions (cur s2) = ts_prepared_actions (cur s)"
      "ts_spend_committed_minor (cur s2) = ts_spend_committed_minor (cur s)"
      "ts_spend_reserved_minor (cur s2) = ts_spend_reserved_minor (cur s)"
      using arg_cong [OF decided(6), of ts_prepared_actions] decided(7)
      by (simp_all add: effects_def)
    have tool: "tp_tool_name p = tool" using decided(1) by (simp add: proposed_def)
    have "accounts_move tool args (cur s2) (cur t)"
    proof (cases "dc_applied_outcome d = DO_ALLOW")
      case False
      then have "effects t = effects s2" using withheld(1) [OF decided(8)] by simp
      then show ?thesis by (simp add: accounts_move_def same_spend_def effects_def)
    next
      case True
      show ?thesis
      proof (cases "lookup_tool gv tool")
        case None
        then show ?thesis
          using decided(8) True by (simp add: apply_decision_def accounts_move_def)
      next
        case (Some def)
        obtain rp where "perform gv p def req args s2 = (rp, t)"
          using decided(8) True Some
          by (auto simp: apply_decision_def bindM_def split: prod.splits sum.splits)
        from perform_accounts [OF this] tool show ?thesis by simp
      qed
    qed
    then show ?thesis
      using s2 run accounts_move_cong [of "cur s2" "cur s" "cur t" "cur t" tool args] by simp
  qed
qed

section \<open>Receipts\<close>

text \<open>The trace is the same and every receipt of \<open>R\<close> is still the one under its key.\<close>

definition retains :: "string \<Rightarrow> (string \<times> string, effect_receipt) dict \<Rightarrow> tool_sys \<Rightarrow> bool" where
  "retains tid R s \<longleftrightarrow>
     ts_trace_id (cur s) = tid \<and>
     (\<forall>k v. dget R k = Some v \<longrightarrow> dget (ms_effect_receipts (db s)) k = Some v)"

lemma append_event_retains [keeps]: "keepsI (retains tid R) (append_event d)"
proof (rule keepsII)
  fix s r t
  assume "retains tid R s" and run: "append_event d s = (r, t)"
  then show "retains tid R t"
    by (cases rule: append_event_cases [OF run])
      (auto simp: retains_def appended_cur_def appended_db_def Let_def)
qed

lemma set_cur_retains [keeps]:
  "(\<And>st. ts_trace_id (f st) = ts_trace_id st) \<Longrightarrow> keepsI (retains tid R) (set_cur f)"
  by (rule keepsI_updM) (simp add: retains_def)

lemma other_retains [keeps]:
  "keepsI (retains tid R) (set_db (\<lambda>ms. ms\<lparr>ms_approvals := h ms\<rparr>))"
  "keepsI (retains tid R) (updM (tools_update g))"
  "keepsI (retains tid R) utc_now" "keepsI (retains tid R) uuid4" "keepsI (retains tid R) elapsed_ms"
  "keepsI (retains tid R) persist_state"
  by (simp_all add: keepsI_def retains_def utc_now_def uuid4_def elapsed_ms_def persist_state_def
      Let_def)

lemma put_effect_receipt_retains [keeps]: "keepsI (retains tid R) (put_effect_receipt rc)"
proof (rule keepsII)
  fix s r t
  assume "retains tid R s" "put_effect_receipt rc s = (r, t)"
  then show "retains tid R t"
    by (cases "dget (ms_effect_receipts (db s)) (rc_trace_id rc, rc_key_hash rc)")
      (auto simp: put_effect_receipt_def retains_def split: if_splits)
qed

lemma trace_id_prepared [simp]: "ts_trace_id (set_prepared_status pid c st) = ts_trace_id st"
  by (simp add: set_prepared_status_def split: option.split)

lemma steps_retains [keeps]:
  "keepsI (retains tid R) (append_decision d)"
  "keepsI (retains tid R) (add_approval x)"
  "keepsI (retains tid R) (named_prepared args)"
  "keepsI (retains tid R) (execute fs rg tool args')"
  unfolding append_decision_def add_approval_def named_prepared_def execute_def Let_def
  by (intro keeps; simp)+

lemma receipt_retains [keeps]:
  "keepsI (retains tid R) (execute_with_durable_receipt gv tool effect args)"
  unfolding execute_with_durable_receipt_def by (intro keeps)

lemma execute_tool_retains: "keepsI (retains tid R) (execute_tool gv agent tool args)"
  unfolding execute_tool_def propose_def decide_def build_request_def approval_context_def
    make_decision_def record_decision_def apply_decision_def perform_def outcome_event_def
    record_failure_def create_approval_def apply_confirmation_def apply_cancellation_def Let_def
  by (intro keeps; simp)

interpretation receipts: monotone_system "retains tid R" "\<lambda>s t. True" "governed_call gv" for tid R gv
proof
  show "retains tid R s \<Longrightarrow> retains tid R (snd (governed_call gv c s))" for s c
    using execute_tool_retains by (auto simp: governed_call_def keepsI_def split: prod.splits)
qed simp_all

lemma receipt_recorded:
  assumes "execute_with_durable_receipt gv tool effect args s = (Inr v, t)" "effect \<noteq> EC_READ"
    and "str_of (get_none args ''idempotency_key'') = Some key"
  obtains kh fp rc where "opaque_key_hash key = Inr kh" "effect_fingerprint tool args = Inr fp"
    "ts_trace_id (cur t) = ts_trace_id (cur s)"
    "dget (ms_effect_receipts (db t)) (ts_trace_id (cur s), kh) = Some rc"
    "rc_fingerprint rc = fp" "v = VDict (rc_result rc)"
proof -
  obtain kh fp where k: "opaque_key_hash key = Inr kh" "effect_fingerprint tool args = Inr fp"
    using assms by (auto simp: execute_with_durable_receipt_def bindM_Inr)
  have tid: "ts_trace_id (cur t) = ts_trace_id (cur s)"
    using keepsID [OF receipt_retains [of "ts_trace_id (cur s)" "[]"] _ assms(1)]
    by (simp add: retains_def)
  show ?thesis
  proof (cases "get_effect_receipt (db s) (ts_trace_id (cur s)) kh")
    case (Some rc)
    then show ?thesis
      using assms k by (intro that [OF k tid, of rc])
        (auto simp: execute_with_durable_receipt_def get_effect_receipt_def split: if_splits)
  next
    case None
    then obtain w u where ex: "execute (gv_loader gv) (gv_registry gv) tool args s = (Inr w, u)"
      using assms k by (auto simp: execute_with_durable_receipt_def bindM_Inr)
    obtain d now r u' stored where
      mk: "make_effect_receipt (ts_trace_id (cur s)) tool kh fp (primitive_dict d) now = Inr r"
      and put: "put_effect_receipt r u' = (Inr stored, t)" "v = VDict (rc_result stored)"
      using assms k None ex
      by (cases w) (auto simp: execute_with_durable_receipt_def bindM_run bindM_Inr)
    have r: "rc_trace_id r = ts_trace_id (cur s)" "rc_key_hash r = kh" "rc_fingerprint r = fp"
      using mk by (auto simp: make_effect_receipt_def split: if_splits)
    obtain stored where "dget (ms_effect_receipts (db t)) (ts_trace_id (cur s), kh) = Some stored"
      "rc_fingerprint stored = fp" "v = VDict (rc_result stored)"
      using put r
      by (auto simp: put_effect_receipt_def Let_def thenM_Inr split: option.splits if_splits)
    then show ?thesis using that [OF k tid] by blast
  qed
qed

text \<open>
  C30. A write runs once per idempotency key and trace: once a write has returned a value under its
  key, then after any further governed calls the same write returns that value and changes
  nothing, and a different tool or different arguments under that key are refused with
  EffectReceiptConflictError when their fingerprint differs.
\<close>

theorem durable_writes_run_once:
  assumes "execute_with_durable_receipt gv tool effect args s = (Inr v, t)" "effect \<noteq> EC_READ"
    and "str_of (get_none args ''idempotency_key'') = Some key"
    and u: "u = run_all (governed_call gv) cs t"
  shows "execute_with_durable_receipt gv tool effect args u = (Inr v, u) \<and>
    (\<forall>tool' effect' args' fp'. effect' \<noteq> EC_READ \<longrightarrow>
       str_of (get_none args' ''idempotency_key'') = Some key \<longrightarrow>
       effect_fingerprint tool' args' = Inr fp' \<longrightarrow> effect_fingerprint tool args \<noteq> Inr fp' \<longrightarrow>
       execute_with_durable_receipt gv tool' effect' args' u =
         (Inl (Manifest EffectReceiptConflictError
            ''An effect idempotency key was reused with different arguments.''), u))"
proof -
  obtain kh fp rc where rc: "opaque_key_hash key = Inr kh" "effect_fingerprint tool args = Inr fp"
    "ts_trace_id (cur t) = ts_trace_id (cur s)"
    "dget (ms_effect_receipts (db t)) (ts_trace_id (cur s), kh) = Some rc"
    "rc_fingerprint rc = fp" "v = VDict (rc_result rc)"
    using receipt_recorded [OF assms(1-3)] .
  have "retains (ts_trace_id (cur s)) [((ts_trace_id (cur s), kh), rc)] u"
    unfolding u by (rule receipts.run_all_inv) (simp add: retains_def rc)
  then have u': "ts_trace_id (cur u) = ts_trace_id (cur s)"
    "get_effect_receipt (db u) (ts_trace_id (cur u)) kh = Some rc"
    by (auto simp: retains_def get_effect_receipt_def)
  show ?thesis
    using rc u' assms(2,3) by (simp add: execute_with_durable_receipt_def)
qed

end
