(* ===== verification/Store_Properties.thy ===== *)
theory Store_Properties
  imports Store_Invariants
begin

text \<open>
  The properties of the memory store as theorems over its operations: every reachable store
  verifies, histories only grow, replays are idempotent, stale writers and conflicting replays
  are rejected, a failed append changes nothing, and an altered summary is found.
\<close>

section \<open>What an append leaves behind\<close>

lemma append_event_recorded:
  assumes "append_event d s = (Inr e, t)" and "ed_idempotency_key d = Some key"
  obtains fp where "event_description_fingerprint (ts_trace_id (cur s)) d key = Inr fp"
    "dget (ms_event_replays (db t)) (ts_trace_id (cur s), key) = Some (fp, e)"
  using assms(1)
  by (cases rule: append_event_cases)
    (use assms(2) that in \<open>auto simp: find_replay_def append_ready_def appended_db_def Let_def
      split: sum.splits option.splits if_splits\<close>)

text \<open>An append that is ready and whose event can be hashed goes through.\<close>

lemma append_event_success:
  assumes "append_ready s d head fp"
    and "calculate_event_hash (new_event (ts_trace_id (cur s)) d head
      (wd_uuids (wld s) (wd_uuid_pos (wld s))) (wd_clock (wld s) (wd_clock_pos (wld s)))) = Inr h"
  obtains e t where "append_event d s = (Inr e, t)" "cur t = appended_cur (cur s) e"
    "db t = appended_db (db s) (cur s) d fp e" "is_new_event (ts_trace_id (cur s)) d head e"
  using assms
  by (auto simp: append_ready_def append_event_def assert_revision_def record_event_run' Let_def)

lemma append_event_replay:
  assumes "dget (ms_runs (db s)) tid = Some st" "ts_trace_id (cur s) = tid"
    and "ts_storage_revision (cur s) = ts_storage_revision st"
    and "ed_idempotency_key d = Some key"
    and "dget (ms_event_replays (db s)) (tid, key) = Some (fp, e)"
    and "event_description_fingerprint tid d key = Inr fp'"
  shows "append_event d s =
    (if fp = fp' then Inr e
     else Inl (Manifest LedgerIdempotencyConflictError
            (''Ledger idempotency key '' @ key @ '' was reused with different event fields.'')), s)"
  using assms by (simp add: append_event_def assert_revision_def find_replay_def Let_def)

lemma replay_persists:
  assumes "ledger_inv t" "dget (ms_event_replays (db t)) k = Some v"
  shows "dget (ms_event_replays (db (run_all exec_cmd cs t))) k = Some v"
  using repo.run_all_le [OF assms(1), of cs] assms(2) by (cases k; cases v) (simp add: grows_def)

lemma append_event_inv: "ledger_inv s \<Longrightarrow> append_event d s = (r, t) \<Longrightarrow> ledger_inv t"
  using append_keeps [of "db s" s d r t] by (simp add: ledger_from_def)

lemma stored_trace_id:
  "ledger_inv s \<Longrightarrow> dget (ms_runs (db s)) tid = Some st \<Longrightarrow> ts_trace_id st = tid"
  using store_okD by (auto simp: ledger_inv_def run_ok_def)

lemma get_state_Inr [simp]: "get_state ms tid = Inr st \<longleftrightarrow> dget (ms_runs ms) tid = Some st"
  by (simp add: get_state_def split: option.split)

section \<open>A sample run\<close>

definition sample_world :: world where
  "sample_world =
     \<lparr>wd_uuids = show_nat, wd_clock = int, wd_latency = (\<lambda>_. FFinite 0 ''0.0''),
      wd_uuid_pos = 0, wd_clock_pos = 0, wd_latency_pos = 0\<rparr>"

definition sample_sys :: store_sys where
  "sample_sys =
     run_all exec_cmd [Create (new_trajectory ''TR-1'' ''ORD-1'')]
       \<lparr>cur = new_trajectory ''TR-0'' ''ORD-0'', db = empty_store, wld = sample_world\<rparr>"

definition sample_description :: event_description where
  "sample_description =
     \<lparr>ed_event_type = ET_RUN_COMPLETED, ed_summary = ''Completed.'',
      ed_details = [(''attempt'', PInt 1)], ed_agent = None, ed_tool_name = None,
      ed_effect_class = None, ed_idempotency_key = Some ''run:completed''\<rparr>"

lemma sample_sys_eq:
  "sample_sys =
     \<lparr>cur = new_trajectory ''TR-1'' ''ORD-1'',
      db = empty_store\<lparr>ms_runs := [(''TR-1'', new_trajectory ''TR-1'' ''ORD-1'')],
             ms_heads := [(''TR-1'', genesis_head ''TR-1'' 0)]\<rparr>,
      wld = sample_world\<lparr>wd_clock_pos := 1\<rparr>\<rparr>"
  by (simp add: sample_sys_def create_object_def create_run_def new_trajectory_def
      empty_store_def dmember_def make_stored_trace_def sample_world_def Let_def)

lemma sample_inv: "ledger_inv sample_sys"
  unfolding sample_sys_def by (rule repo.run_all_inv) (simp add: ledger_inv_def)

lemma sample_append:
  obtains e t where "append_event sample_description sample_sys = (Inr e, t)"
    "dget (ms_runs (db t)) ''TR-1'' = Some (cur t)" "ts_trace_id (cur t) = ''TR-1''"
    "ts_events (cur t) = [e]" "ts_storage_revision (cur t) = 1"
    "te_summary e = ''Completed.''" "te_event_type e = ET_RUN_COMPLETED" "details_ok e"
proof -
  let ?e0 = "new_event ''TR-1'' sample_description (genesis_head ''TR-1'' 0) (show_nat 0) 1"
  obtain h where h: "calculate_event_hash ?e0 = Inr h"
    using calculate_event_hash_normal [of ?e0 "PDict [(''attempt'', PInt 1)]"]
    by (simp add: new_event_def sample_description_def)
  have "event_description_fingerprint ''TR-1'' sample_description ''run:completed'' =
      Inr (the (case event_description_fingerprint ''TR-1'' sample_description ''run:completed'' of
        Inr fp \<Rightarrow> Some fp | Inl _ \<Rightarrow> None))"
    by (simp add: event_description_fingerprint_def event_description_payload_def
        hash_payload_def canonical_json_def sample_description_def)
  then obtain fp where
    fp: "event_description_fingerprint ''TR-1'' sample_description ''run:completed'' = Inr fp"
    by blast
  have "append_ready sample_sys sample_description (genesis_head ''TR-1'' 0) (Some fp)"
    using fp
    by (simp add: append_ready_def sample_sys_eq find_replay_def new_trajectory_def
        empty_store_def genesis_head_def sample_description_def)
  then show ?thesis
  proof (rule append_event_success)
    show "calculate_event_hash (new_event (ts_trace_id (cur sample_sys)) sample_description
      (genesis_head ''TR-1'' 0) (wd_uuids (wld sample_sys) (wd_uuid_pos (wld sample_sys)))
      (wd_clock (wld sample_sys) (wd_clock_pos (wld sample_sys)))) = Inr h"
      using h by (simp add: sample_sys_eq sample_world_def new_trajectory_def)
  qed (rule that, auto simp: appended_db_def appended_cur_def sample_sys_eq is_new_event_def
      new_event_def sample_description_def new_trajectory_def Let_def)
qed

section \<open>The ledger's guarantees\<close>






text \<open>
  C10. A writer that read the trace before another append went through is rejected: its own
  append raises \<open>TraceRevisionConflictError\<close> and leaves the store and its object as they were.
\<close>

theorem stale_writer_rejected:
  assumes "append_event d s = (Inr e, t)" "db t \<noteq> db s"
    and "ts_trace_id stale = ts_trace_id (cur s)"
    and "ts_storage_revision stale = ts_storage_revision (cur s)"
  shows "append_event d' (t\<lparr>cur := stale\<rparr>) =
    (Inl (Manifest TraceRevisionConflictError
       (''Trace '' @ ts_trace_id stale @ '' revision changed.'')), t\<lparr>cur := stale\<rparr>)"
  using assms(1)
proof (cases rule: append_event_cases)
  case (appended e head fp)
  then show ?thesis
    using assms(3,4)
    by (simp add: append_event_def appended_db_def appended_cur_def assert_revision_def Let_def)
qed (use assms(2) in auto)

theorem stale_writer_rejected_witness:
  "\<exists>e t. append_event sample_description sample_sys = (Inr e, t) \<and>
     append_event sample_description (t\<lparr>cur := new_trajectory ''TR-1'' ''ORD-1''\<rparr>) =
       (Inl (Manifest TraceRevisionConflictError
          (''Trace '' @ ts_trace_id (new_trajectory ''TR-1'' ''ORD-1'') @ '' revision changed.'')),
        t\<lparr>cur := new_trajectory ''TR-1'' ''ORD-1''\<rparr>)"
proof -
  obtain e t where run: "append_event sample_description sample_sys = (Inr e, t)"
    and st: "dget (ms_runs (db t)) ''TR-1'' = Some (cur t)" "ts_storage_revision (cur t) = 1"
    by (rule sample_append)
  have "dget (ms_runs (db sample_sys)) ''TR-1'' = Some (new_trajectory ''TR-1'' ''ORD-1'')"
    by (simp add: sample_sys_eq)
  moreover have "ts_storage_revision (new_trajectory ''TR-1'' ''ORD-1'') = 0"
    by (simp add: new_trajectory_def)
  ultimately have "db t \<noteq> db sample_sys"
    using st by (metis option.inject zero_neq_one)
  then show ?thesis
    using stale_writer_rejected [OF run, of "new_trajectory ''TR-1'' ''ORD-1''"] run
    by (auto simp: sample_sys_eq new_trajectory_def)
qed

text \<open>
  C11. An append that raises leaves the trajectory object and every table of the store unchanged;
  one that returns has added its event at the end, or returned the recorded one unchanged.
\<close>

theorem failed_append_changes_nothing:
  "case append_event d s of
     (Inl e, t) \<Rightarrow> cur t = cur s \<and> db t = db s
   | (Inr e, t) \<Rightarrow> ts_events (cur t) = ts_events (cur s) @ [e] \<or>
       (t = s \<and> (\<exists>key fp. ed_idempotency_key d = Some key \<and>
          dget (ms_event_replays (db s)) (ts_trace_id (cur s), key) = Some (fp, e)))"
proof -
  obtain r t where run: "append_event d s = (r, t)" by fastforce
  then show ?thesis
    by (cases rule: append_event_cases)
      (use run in \<open>auto simp: appended_cur_def find_replay_def
        split: option.splits sum.splits if_splits\<close>)
qed

text \<open>
  C12. Tampering with a stored summary is detected: after \<open>tamper_event_summary_for_demo\<close> replaced
  the summary at a sequence number by a different text, \<open>verify_trace\<close> fails with
  \<open>EVENT_HASH_MISMATCH\<close> at that number, having accepted the events before it, unless the hashed
  texts of the two events are a SHA-256 collision.
\<close>

theorem tampering_is_detected:
  assumes "ledger_inv s" "tamper_event_summary_for_demo tid n replacement s = (Inr res, t)"
    and "get_events (db s) tid = Inr es" "e = es ! nat (n - 1)"
    and "details_ok e" "te_summary e \<noteq> replacement"
  shows "(\<exists>v. verify_trace (db t) tid = Inr v \<and> \<not> vr_valid v \<and>
       vr_failure_code v = Some ''EVENT_HASH_MISMATCH'' \<and> vr_first_bad_sequence v = Some n \<and>
       vr_checked_event_count v = n - 1)
    \<or> texts_collide e (e\<lparr>te_summary := replacement\<rparr>)"
proof -
  let ?i = "nat (n - 1)"
  let ?e' = "e\<lparr>te_summary := replacement\<rparr>"
  obtain st where st: "dget (ms_runs (db s)) tid = Some st" "ts_events st = es"
    using assms(3) by (auto simp: get_events_def)
  have n: "1 \<le> n" "n \<le> int (length es)"
    and t: "dget (ms_runs (db t)) tid = Some (st\<lparr>ts_events := es[?i := ?e'],
      ts_storage_revision := ts_storage_revision st + 1\<rparr>)" "ms_heads (db t) = ms_heads (db s)"
    using assms(2,4) st
    by (auto simp: tamper_event_summary_for_demo_def Let_def split: if_splits)
  obtain head where head: "dget (ms_heads (db s)) tid = Some head"
    "vr_valid (verify_chain tid es head)"
    using assms(1) st store_okD [of "db s" tid st]
    by (auto simp: ledger_inv_def run_ok_def verify_chain_iff)
  have i: "?i < length es" using n by linarith
  have es: "es = take ?i es @ e # drop (Suc ?i) es"
    unfolding assms(4) by (rule id_take_nth_drop [OF i])
  have es': "es[?i := ?e'] = take ?i es @ ?e' # drop (Suc ?i) es"
    using i by (rule upd_conv_take_nth_drop)
  have "verify_trace (db t) tid = Inr (verify_chain tid (es[?i := ?e']) head)"
    using t head(1) by (simp add: verify_trace_def)
  then show ?thesis
    using summary_change_detected [of tid "take ?i es" e "drop (Suc ?i) es" head replacement]
      head(2) es assms(5,6) n i
    by (auto simp: es' simp del: id_take_nth_drop)
qed

theorem tampering_is_detected_witness:
  "\<exists>s t res e. tamper_event_summary_for_demo ''TR-1'' 1 ''Altered.'' (s :: store_sys) = (Inr res, t) \<and>
     get_events (db s) ''TR-1'' = Inr [e] \<and>
     ((\<exists>v. verify_trace (db t) ''TR-1'' = Inr v \<and> \<not> vr_valid v \<and>
        vr_failure_code v = Some ''EVENT_HASH_MISMATCH'' \<and> vr_first_bad_sequence v = Some 1 \<and>
        vr_checked_event_count v = 1 - 1)
      \<or> texts_collide e (e\<lparr>te_summary := ''Altered.''\<rparr>))"
proof -
  obtain e s where run: "append_event sample_description sample_sys = (Inr e, s)"
    and s: "dget (ms_runs (db s)) ''TR-1'' = Some (cur s)" "ts_events (cur s) = [e]"
      "te_summary e = ''Completed.''" "te_event_type e = ET_RUN_COMPLETED" "details_ok e"
    by (rule sample_append)
  have "\<not> blank ''Altered.''" by (simp add: ascii_space_def space2_def space3_def)
  then obtain res t where tamper:
    "tamper_event_summary_for_demo ''TR-1'' 1 ''Altered.'' s = (Inr res, t)"
    using s
    by (simp add: tamper_event_summary_for_demo_def terminal_event_def Let_def del: blank.simps)
  have es: "get_events (db s) ''TR-1'' = Inr [e]" using s by (simp add: get_events_def)
  show ?thesis
    using tampering_is_detected [OF append_event_inv [OF sample_inv run] tamper es] tamper es s(3,5)
    by fastforce
qed

section \<open>Detached transitions\<close>

lemma commit_events_links:
  assumes "commit_events tid es (st, head) = Inr (st', head')"
    and "linked tid 1 GENESIS_HASH (ts_events st)" "head_ok head (ts_events st)"
    and "\<forall>e \<in> set es. te_trace_id e = tid \<and> te_schema_version e = LEDGER_SCHEMA_VERSION"
    and "ts_next_sequence st = int (length (ts_events st)) + 1"
  shows "linked tid 1 GENESIS_HASH (ts_events st') \<and> head_ok head' (ts_events st') \<and>
    ts_next_sequence st' = int (length (ts_events st')) + 1 \<and>
    ts_events st' = ts_events st @ es \<and> ts_decisions st' = ts_decisions st \<and>
    ts_trace_id st' = ts_trace_id st \<and> ts_storage_revision st' = ts_storage_revision st"
  using assms
proof (induction es arbitrary: st head)
  case (Cons e es)
  let ?st = "st\<lparr>ts_events := ts_events st @ [e], ts_next_sequence := te_sequence e + 1\<rparr>"
  have e: "te_sequence e = int (length (ts_events st)) + 1"
    "event_ok tid (1 + int (length (ts_events st))) (end_hash GENESIS_HASH (ts_events st)) e"
    and run: "commit_events tid es (?st, head_after tid e (length (ts_events ?st))) = Inr (st', head')"
    using Cons.prems by (auto simp: head_ok_def event_ok_def Let_def split: if_splits)
  have "linked tid 1 GENESIS_HASH (ts_events ?st)"
    "head_ok (head_after tid e (length (ts_events ?st))) (ts_events ?st)"
    using Cons.prems(2,3) e by (simp_all add: linked_append head_ok_def head_after_def)
  from Cons.IH [OF run this] Cons.prems(4) e(1) show ?case by auto
qed auto

lemma commit_decisions_appends:
  "commit_decisions ds st = Inr st' \<Longrightarrow> st' = st\<lparr>ts_decisions := ts_decisions st @ ds\<rparr>"
proof (induction ds arbitrary: st)
  case (Cons d ds)
  then show ?case by (fastforce split: if_splits)
qed simp

text \<open>The tables that hold the ledger, which the receipts do not touch.\<close>

lemma commit_receipts_frame:
  "commit_receipts rs s = (r, t) \<Longrightarrow>
   cur t = cur s \<and> ms_runs (db t) = ms_runs (db s) \<and> ms_heads (db t) = ms_heads (db s) \<and>
   ms_event_replays (db t) = ms_event_replays (db s)"
  by (induction rs arbitrary: s) (fastforce simp: Let_def split: option.splits if_splits)+

lemma put_frames [simp]:
  "ms_runs (put_approvals as ms) = ms_runs ms" "ms_heads (put_approvals as ms) = ms_heads ms"
  "ms_event_replays (put_approvals as ms) = ms_event_replays ms"
  "ms_effect_receipts (put_approvals as ms) = ms_effect_receipts ms"
  "ms_runs (put_replays rs ms) = ms_runs ms" "ms_heads (put_replays rs ms) = ms_heads ms"
  "ms_event_replays (put_replays rs ms) = ms_event_replays ms"
  "ms_effect_receipts (put_replays rs ms) = ms_effect_receipts ms"
  by (simp_all add: put_approvals_def put_replays_def)

lemma commit_transition_steps:
  assumes "commit_transition t s = (Inr res, u)"
  obtains stored head st1 head1 v where
    "dget (ms_runs (db s)) (tt_trace_id t) = Some stored"
    "ts_storage_revision stored = tt_expected_revision t"
    "dget (ms_heads (db s)) (tt_trace_id t) = Some head"
    "commit_events (tt_trace_id t) (tt_events t)
       ((tt_state t)\<lparr>ts_storage_revision := tt_expected_revision t,
          ts_events := ts_events stored, ts_decisions := ts_decisions stored\<rparr>, head)
     = Inr (st1, head1)"
    "commit_receipts (tt_effect_receipts t)
       (s\<lparr>db := put_replays (tt_replay_records t)
                 (put_approvals (tt_approval_upserts t) (db s))\<rparr>) = (Inr (), v)"
    "u = v\<lparr>db := (db v)\<lparr>ms_heads := dput (tt_trace_id t) head1 (ms_heads (db v)),
       ms_runs := dput (ts_trace_id st1)
         (st1\<lparr>ts_decisions := ts_decisions st1 @ tt_decisions t,
              ts_storage_revision := ts_storage_revision st1 + 1\<rparr>) (ms_runs (db v))\<rparr>\<rparr>"
  using assms
  by (auto simp: commit_transition_def Let_def bindM_Inr thenM_Inr make_stored_trace_def
      dest!: commit_decisions_appends split: option.splits if_splits prod.splits)

lemma commit_transition_ledger:
  assumes "commit_transition t s = (Inr res, u)" "check_transition t = Inr t"
    and "dget (ms_runs (db s)) (tt_trace_id t) = Some stored" "run_ok (db s) (tt_trace_id t) stored"
    and "\<forall>e \<in> set (tt_events t). te_schema_version e = LEDGER_SCHEMA_VERSION"
    and "ts_next_sequence (tt_state t) = ts_next_sequence stored"
  obtains st where "ms_runs (db u) = dput (tt_trace_id t) st (ms_runs (db s))"
    "run_ok (db u) (tt_trace_id t) st" "ts_events st = ts_events stored @ tt_events t"
    "ts_decisions st = ts_decisions stored @ tt_decisions t"
    "ts_storage_revision st = ts_storage_revision stored + 1" "cur u = cur s"
    "ms_event_replays (db u) = ms_event_replays (db s)"
    "\<And>tid. tid \<noteq> tt_trace_id t \<Longrightarrow> dget (ms_heads (db u)) tid = dget (ms_heads (db s)) tid"
  using assms(1)
proof (rule commit_transition_steps)
  fix stored' head st1 head1 v
  let ?tid = "tt_trace_id t"
  assume st: "dget (ms_runs (db s)) ?tid = Some stored'"
    and rev: "ts_storage_revision stored' = tt_expected_revision t"
    and head: "dget (ms_heads (db s)) ?tid = Some head"
    and ev: "commit_events ?tid (tt_events t)
       ((tt_state t)\<lparr>ts_storage_revision := tt_expected_revision t,
          ts_events := ts_events stored', ts_decisions := ts_decisions stored'\<rparr>, head)
     = Inr (st1, head1)"
    and rc: "commit_receipts (tt_effect_receipts t)
       (s\<lparr>db := put_replays (tt_replay_records t)
                 (put_approvals (tt_approval_upserts t) (db s))\<rparr>) = (Inr (), v)"
    and u: "u = v\<lparr>db := (db v)\<lparr>ms_heads := dput ?tid head1 (ms_heads (db v)),
       ms_runs := dput (ts_trace_id st1)
         (st1\<lparr>ts_decisions := ts_decisions st1 @ tt_decisions t,
              ts_storage_revision := ts_storage_revision st1 + 1\<rparr>) (ms_runs (db v))\<rparr>\<rparr>"
  have ids: "ts_trace_id (tt_state t) = ?tid" "\<forall>e \<in> set (tt_events t). te_trace_id e = ?tid"
    using assms(2) by (auto simp: check_transition_def split: if_splits)
  have eq: "stored' = stored" using st assms(3) by simp
  note st1 = commit_events_links [OF ev] and frame = commit_receipts_frame [OF rc, simplified]
  show thesis
    by (rule that [of "st1\<lparr>ts_decisions := ts_decisions st1 @ tt_decisions t,
          ts_storage_revision := ts_storage_revision st1 + 1\<rparr>"])
      (use st1 frame u ids rev assms(4-6) head in \<open>auto simp: run_ok_def eq\<close>)
qed

text \<open>
  A detached transition keeps the ledger in order: when \<open>commit_transition\<close> accepts a
  transition that passed \<open>TraceTransition\<close>'s checks, whose events carry the ledger's schema
  version and whose state has the stored next sequence, then every trace still verifies, exactly
  the transition's events and decisions were appended and the revision went up by one.
\<close>

theorem commit_transition_keeps_ledger:
  assumes "ledger_inv s" "check_transition t = Inr t" "commit_transition t s = (Inr res, u)"
    and "\<forall>e \<in> set (tt_events t). te_schema_version e = LEDGER_SCHEMA_VERSION"
    and "get_state (db s) (tt_trace_id t) = Inr stored"
    and "ts_next_sequence (tt_state t) = ts_next_sequence stored"
  shows "ledger_inv u \<and> (\<exists>st. get_state (db u) (tt_trace_id t) = Inr st \<and>
    ts_events st = ts_events stored @ tt_events t \<and>
    ts_decisions st = ts_decisions stored @ tt_decisions t \<and>
    ts_storage_revision st = ts_storage_revision stored + 1)"
proof -
  have st: "dget (ms_runs (db s)) (tt_trace_id t) = Some stored" using assms(5) by simp
  have so: "store_ok (db s)" and at: "attached (db s) (cur s)"
    using assms(1) by (simp_all add: ledger_inv_def)
  show ?thesis
  proof (rule commit_transition_ledger [OF assms(3,2) st store_okD [OF so st] assms(4,6)])
    fix st' assume runs: "ms_runs (db u) = dput (tt_trace_id t) st' (ms_runs (db s))"
      and new: "run_ok (db u) (tt_trace_id t) st'" "ts_events st' = ts_events stored @ tt_events t"
      "ts_decisions st' = ts_decisions stored @ tt_decisions t"
      "ts_storage_revision st' = ts_storage_revision stored + 1" "cur u = cur s"
      "ms_event_replays (db u) = ms_event_replays (db s)"
      "\<And>tid. tid \<noteq> tt_trace_id t \<Longrightarrow> dget (ms_heads (db u)) tid = dget (ms_heads (db s)) tid"
    have "store_ok (db u)"
      by (rule store_ok_put [OF so runs]) (use new st in auto)
    moreover have "attached (db u) (cur u)"
      using at st by (auto simp: attached_def runs new)
    ultimately show ?thesis using new by (simp add: ledger_inv_def runs)
  qed
qed

definition sample_transition :: trace_transition where
  "sample_transition =
     \<lparr>tt_trace_id = ''TR-1'', tt_expected_revision = 0,
      tt_state = (new_trajectory ''TR-1'' ''ORD-1'')\<lparr>ts_status := RS_RUNNING\<rparr>, tt_events = [],
      tt_decisions = [], tt_approval_upserts = [], tt_replay_records = [],
      tt_effect_receipts = []\<rparr>"

theorem commit_transition_keeps_ledger_witness:
  "\<exists>res u. commit_transition sample_transition sample_sys = (Inr res, u) \<and>
     ledger_inv u \<and> (\<exists>st. get_state (db u) (tt_trace_id sample_transition) = Inr st \<and>
    ts_events st = ts_events (new_trajectory ''TR-1'' ''ORD-1'') @ tt_events sample_transition \<and>
    ts_decisions st =
      ts_decisions (new_trajectory ''TR-1'' ''ORD-1'') @ tt_decisions sample_transition \<and>
    ts_storage_revision st = ts_storage_revision (new_trajectory ''TR-1'' ''ORD-1'') + 1)"
proof -
  obtain res u where run: "commit_transition sample_transition sample_sys = (Inr res, u)"
    by (simp add: commit_transition_def sample_transition_def sample_sys_eq new_trajectory_def
        make_stored_trace_def Let_def)
  show ?thesis
    using run commit_transition_keeps_ledger [OF sample_inv _ run,
        of "new_trajectory ''TR-1'' ''ORD-1''"]
    by (simp add: check_transition_def sample_sys_eq)
      (simp add: sample_transition_def new_trajectory_def)
qed

definition conflict_approval :: approval_record where
  "conflict_approval =
     \<lparr>ar_approval_id = ''APR-1'', ar_trace_id = ''TR-1'', ar_prepared_action_id = ''PA-1'',
      ar_action_hash = ''a'', ar_state_hash = ''s'', ar_policy_version = ''demo-v1'',
      ar_reason_code = ''SPEND_APPROVAL_REQUIRED'', ar_status = AS_PENDING_APPROVAL, ar_created_at = 0,
      ar_expires_at = 1, ar_version = 1, ar_decided_at = None, ar_decision = None,
      ar_approver_label = None, ar_comment = None, ar_decision_idempotency_key = None\<rparr>"

definition conflict_receipt :: "string \<Rightarrow> effect_receipt" where
  "conflict_receipt fp =
     \<lparr>rc_trace_id = ''TR-1'', rc_tool_name = ''prepare_booking'', rc_key_hash = ''k'',
      rc_fingerprint = fp, rc_result = [], rc_created_at = 0\<rparr>"


end
