(* ===== verification/Governor_Liveness.thy ===== *)
theory Governor_Liveness
  imports Governor_Effects Store_Properties
begin

text \<open>
  A governed call within the limit comes to a recorded decision.  What it needs of the platform is
  an up-to-date trajectory object, identifiers that are not in use yet, and values that have a
  canonical text.
\<close>

section \<open>Values with a canonical text\<close>

definition normal :: "pyval \<Rightarrow> bool" where
  "normal v \<longleftrightarrow> (\<exists>n. normalize v = Inr n)"

lemma normal_simps [simp]:
  "normal PNone" "normal (PBool b)" "normal (PInt i)" "normal (PStr x)" "normal (PEnum l x)"
  "normal (PFloat (FFinite q r))"
  by (simp_all add: normal_def)

lemma normal_PDict [simp]: "normal (PDict d) \<longleftrightarrow> list_all (\<lambda>p. normal (snd p)) d"
proof -
  have "(\<exists>n. seq_items (map (map_prod id normalize) d) = Inr n) \<longleftrightarrow> list_all (\<lambda>p. normal (snd p)) d"
    by (induction d) (auto simp: normal_def)
  then show ?thesis by (auto simp: normal_def)
qed

lemma normal_PList [simp]: "normal (PList xs) \<longleftrightarrow> list_all normal xs"
proof -
  have "(\<exists>n. seqR (map normalize xs) = Inr n) \<longleftrightarrow> list_all normal xs"
    by (induction xs) (auto simp: normal_def)
  then show ?thesis by (auto simp: normal_def)
qed

lemma normal_opt_str [simp]: "normal (opt_str x)"
  by (cases x) simp_all

lemma normal_enum [simp]: "normal (enum_val c x)" "normal (opt_val agent_val a)"
  "normal (opt_val effect_val b)"
  by (cases a; cases b; simp add: enum_val_def)+

lemma normal_dput: "list_all (\<lambda>p. normal (snd p)) d \<Longrightarrow> normal v \<Longrightarrow>
    list_all (\<lambda>p. normal (snd p)) (dput k v d)"
  by (induction d) auto

lemma normal_filter: "list_all P d \<Longrightarrow> list_all P (filter Q d)"
  by (induction d) auto

lemma normal_dpop_all: "list_all P d \<Longrightarrow> list_all P (dpop_all ks d)"
  unfolding dpop_all_def by (induction ks arbitrary: d) (auto simp: dpop_def normal_filter)

section \<open>Appending\<close>

text \<open>The caller's object is at the stored revision.\<close>

definition live :: "'z store_sys_scheme \<Rightarrow> bool" where
  "live s \<longleftrightarrow> ledger_inv s \<and>
     (\<exists>stored. dget (ms_runs (db s)) (ts_trace_id (cur s)) = Some stored \<and>
        ts_storage_revision (cur s) = ts_storage_revision stored)"

definition key_free :: "'z store_sys_scheme \<Rightarrow> string \<Rightarrow> bool" where
  "key_free s key \<longleftrightarrow> dget (ms_event_replays (db s)) (ts_trace_id (cur s), key) = None"

lemma append_event_lives:
  fixes s :: tool_sys
  assumes "live s" "normal (PDict (ed_details d))"
    and free: "\<And>key. ed_idempotency_key d = Some key \<Longrightarrow> key_free s key"
  obtains e t where "append_event d s = (Inr e, t)" "live t" "cur t = appended_cur (cur s) e"
    "te_event_type e = ed_event_type d" "tools t = tools s"
    "\<And>k. ed_idempotency_key d \<noteq> Some k \<Longrightarrow> key_free t k = key_free s k"
proof -
  let ?tid = "ts_trace_id (cur s)"
  obtain n where n: "normalize (PDict (ed_details d)) = Inr n"
    using assms(2) by (auto simp: normal_def)
  obtain stored where st: "dget (ms_runs (db s)) ?tid = Some stored"
    "ts_storage_revision (cur s) = ts_storage_revision stored"
    and inv: "ledger_inv s" using assms(1) by (auto simp: live_def)
  obtain head where head: "dget (ms_heads (db s)) ?tid = Some head" "head_ok head (ts_events stored)"
    "ts_next_sequence stored = int (length (ts_events stored)) + 1"
    using inv st(1) by (auto simp: ledger_inv_def dest!: store_okD simp: run_ok_def)
  have seq: "ts_next_sequence (cur s) = lh_sequence head + 1"
    using inv st head attachedD [of "db s" "cur s" stored]
    by (simp add: ledger_inv_def head_ok_def)
  have "\<exists>fp. event_description_fingerprint ?tid d key = Inr fp" for key
  proof -
    have "normal (event_description_payload ?tid d key)"
      using assms(2) by (simp add: event_description_payload_def)
    then show ?thesis
      by (auto simp: normal_def event_description_fingerprint_def hash_payload_def
          canonical_json_def)
  qed
  then obtain F where "\<And>key. event_description_fingerprint ?tid d key = Inr (F key)" by metis
  then obtain fp where ready: "append_ready s d head fp"
    using st head(1) seq free
    by (cases "ed_idempotency_key d") (auto simp: append_ready_def find_replay_def key_free_def)
  let ?e0 = "new_event ?tid d head (wd_uuids (wld s) (wd_uuid_pos (wld s)))
    (wd_clock (wld s) (wd_clock_pos (wld s)))"
  have "calculate_event_hash ?e0 = Inr (sha256_text (json_dumps json_quote (payload_form ?e0 n)))"
    by (rule calculate_event_hash_normal) (simp add: new_event_def n del: normalize.simps)
  from append_event_success [OF ready this]
  obtain e t where run: "append_event d s = (Inr e, t)" "cur t = appended_cur (cur s) e"
    "db t = appended_db (db s) (cur s) d fp e" "is_new_event ?tid d head e" .
  have "tools t = tools s"
    using keepsID [OF append_event_quiet quietI run(1)] by (simp add: quiet_def)
  moreover have "live t"
    using append_event_inv [OF inv run(1)] run(2,3)
    by (simp add: live_def appended_db_def appended_cur_def Let_def)
  moreover have "te_event_type e = ed_event_type d"
    using run(4) by (auto simp: is_new_event_def new_event_def)
  moreover have "key_free t k = key_free s k" if "ed_idempotency_key d \<noteq> Some k" for k
    using run(2,3) that
    by (cases "ed_idempotency_key d"; cases fp)
      (auto simp: key_free_def appended_db_def appended_cur_def Let_def)
  ultimately show ?thesis using that run by blast
qed

lemma append_event_live:
  fixes s :: tool_sys
  assumes "live s" "normal (PDict (ed_details d))" "ed_idempotency_key d = Some key" "key_free s key"
  obtains e t where "append_event d s = (Inr e, t)" "live t" "cur t = appended_cur (cur s) e"
    "te_event_type e = ed_event_type d" "tools t = tools s"
    "\<And>k. k \<noteq> key \<Longrightarrow> key_free t k = key_free s k"
  using append_event_lives [OF assms(1,2)] assms(3,4) by (metis option.inject)

section \<open>The platform's supplies\<close>

definition supplies :: "(nat \<Rightarrow> string) \<Rightarrow> (nat \<Rightarrow> pyfloat) \<Rightarrow> tool_sys \<Rightarrow> bool" where
  "supplies U L s \<longleftrightarrow> wd_uuids (wld s) = U \<and> wd_latency (wld s) = L"

lemma supplies_basic [keeps]:
  "keepsI (supplies U L) utc_now" "keepsI (supplies U L) uuid4" "keepsI (supplies U L) elapsed_ms"
  "keepsI (supplies U L) (set_db f)" "keepsI (supplies U L) (set_cur g)"
  "keepsI (supplies U L) (updM (tools_update h))" "keepsI (supplies U L) persist_state"
  by (simp_all add: keepsI_def supplies_def utc_now_def uuid4_def elapsed_ms_def persist_state_def
      Let_def)

lemma supplies_updM [keeps]: "(\<And>s. wld (f s) = wld s) \<Longrightarrow> keepsI (supplies U L) (updM f)"
  by (rule keepsI_updM) (simp add: supplies_def)

lemma append_event_supplies [keeps]: "keepsI (supplies U L) (append_event d)"
  unfolding append_event_def record_event_def Let_def by (intro keeps; simp)

lemma propose_supplies: "keepsI (supplies U L) (propose gv agent tool args)"
  unfolding propose_def Let_def by (intro keeps)

lemma build_request_supplies: "keepsI (supplies U L) (build_request gv p def args)"
  unfolding build_request_def approval_context_def Let_def by (intro keeps)

section \<open>Stages\<close>

lemma live_cong:
  "live s \<Longrightarrow> db t = db s \<Longrightarrow> ledger_fields (cur t) = ledger_fields (cur s) \<Longrightarrow> live t"
  by (auto simp: live_def ledger_inv_def attached_def ledger_fields_def)

lemma live_same_data: "live s \<Longrightarrow> same_data s t \<Longrightarrow> live t"
  by (auto simp: same_data_def intro: live_cong)

lemma key_free_cong:
  "db t = db s \<Longrightarrow> ts_trace_id (cur t) = ts_trace_id (cur s) \<Longrightarrow> key_free t k = key_free s k"
  by (simp add: key_free_def)

lemma propose_live:
  assumes "live s" "normal (PDict (primitive_dict args))"
    and pid: "pid = ''PROP-'' @ wd_uuids (wld s) (wd_uuid_pos (wld s))"
    and "key_free s (''proposal:'' @ pid @ '':attempted'')"
  obtains p t where "propose gv agent tool args s = (Inr (p, lookup_tool gv tool), t)" "live t"
    "tp_proposal_id p = pid"
    "\<And>k. k \<noteq> ''proposal:'' @ pid @ '':attempted'' \<Longrightarrow> key_free t k = key_free s k"
proof -
  let ?s = "after_counting tool s"
  obtain p where p: "tp_arguments p = safe_arguments tool args" "tp_proposal_id p = pid"
    and run: "propose gv agent tool args s =
      bindM (append_event (attempted p)) (\<lambda>_. returnM (p, lookup_tool gv tool)) ?s"
    using propose_run [of gv agent tool s args] unfolding pid .
  have data: "db ?s = db s" "ledger_fields (cur ?s) = ledger_fields (cur s)"
    "ts_trace_id (cur ?s) = ts_trace_id (cur s)"
    by (simp_all add: after_counting_def counted_def)
  have "normal (PDict (ed_details (attempted p)))"
    using assms(2)
    by (simp add: attempted_def tool_event_def p safe_arguments_def Let_def normal_dpop_all)
  moreover have "ed_idempotency_key (attempted p) = Some (''proposal:'' @ pid @ '':attempted'')"
    by (simp add: attempted_def tool_event_def p)
  moreover have free: "key_free ?s k = key_free s k" for k
    using data by (simp add: key_free_def)
  ultimately obtain e t where "append_event (attempted p) ?s = (Inr e, t)" "live t"
    "\<And>k. k \<noteq> ''proposal:'' @ pid @ '':attempted'' \<Longrightarrow> key_free t k = key_free ?s k"
    using append_event_live [OF live_cong [OF assms(1) data(1,2)]] assms(4) by metis
  then show ?thesis using that run p free by (simp add: bindM_run)
qed

lemma build_request_live:
  assumes "resource_context (gv_loader gv) (cur s) (tp_tool_name p) (primitive_dict args) = Inr res"
  obtains req t where "build_request gv p def args s = (Inr req, t)"
proof -
  have "\<exists>a u. approval_context s = (Inr a, u)"
    by (cases "ts_pending_approval_id (cur s)";
        cases "dget (ms_approvals (db s)) (the (ts_pending_approval_id (cur s)))")
      (auto simp: approval_context_def get_approval_def Let_def)
  then obtain a u where ap: "approval_context s = (Inr a, u)" by blast
  obtain c u' where
    "(if tp_tool_name p \<in> {''confirm_freight_booking'', ''cancel_freight_booking''}
      then bindM approval_context (\<lambda>a. returnM (ctx @ [(''approval'', PDict a)]))
      else returnM ctx) s = (Inr (c ctx), u')" for ctx
  proof (cases "tp_tool_name p \<in> {''confirm_freight_booking'', ''cancel_freight_booking''}")
    case True
    then show ?thesis
      using ap that [of "\<lambda>ctx. ctx @ [(''approval'', PDict a)]" u] by (simp add: bindM_run)
  qed (use that [of "\<lambda>ctx. ctx" s] in simp)
  then show ?thesis
    using that assms by (simp add: build_request_def Let_def bindM_run)
qed

lemma make_decision_fields:
  assumes "make_decision gv p req signals ms s = (Inr d, t)"
  shows "dc_guidance d \<in> {None, Some (merge_guidance (if signals = [] then [default_signal] else signals))}"
    "dc_evaluation_ms d = ms" "dc_proposal_id d = tp_proposal_id p"
    "dc_decision_id d \<in> range (\<lambda>k. ''DEC-'' @ wd_uuids (wld s) k)"
  using assms by (auto simp: make_decision_def Let_def split: if_splits)

lemma merge_guidance_normal:
  assumes "\<And>x g. x \<in> set signals \<Longrightarrow> ps_guidance x = Some g \<Longrightarrow> normal (PDict g)"
  shows "normal (PDict (merge_guidance signals))"
proof -
  have put: "list_all (\<lambda>p. normal (snd p)) (fold (\<lambda>(k, v). dput k v) u g)"
    if "list_all (\<lambda>p. normal (snd p)) u" "list_all (\<lambda>p. normal (snd p)) g" for u g
    using that by (induction u arbitrary: g) (auto simp: normal_dput)
  have "list_all (\<lambda>p. normal (snd p)) (fold (\<lambda>x g. case ps_guidance x of None \<Rightarrow> g
      | Some u \<Rightarrow> fold (\<lambda>(k, v). dput k v) u g) signals g)"
    if "list_all (\<lambda>p. normal (snd p)) g" for g
    using that assms
  proof (induction signals arbitrary: g)
    case (Cons x xs)
    have "list_all (\<lambda>p. normal (snd p)) (case ps_guidance x of None \<Rightarrow> g
        | Some u \<Rightarrow> fold (\<lambda>(k, v). dput k v) u g)"
      using Cons.prems(1) Cons.prems(2) [of x] by (cases "ps_guidance x") (auto intro!: put)
    moreover have "normal (PDict g)" if "y \<in> set xs" "ps_guidance y = Some g" for y g
      using Cons.prems(2) [of y g] that by simp
    ultimately show ?case using Cons.IH by simp
  qed simp
  then show ?thesis by (simp add: merge_guidance_def)
qed

lemma decide_live:
  assumes "live s" "supplies U L s" "\<And>k. \<exists>q r. L k = FFinite q r"
    and res: "resource_context (gv_loader gv) (cur s) (tp_tool_name p) (primitive_dict args) = Inr res"
    and guidance: "\<And>req st x g. x \<in> set (engine_signals gv (tp_tool_name p) def req st) \<Longrightarrow>
      ps_guidance x = Some g \<Longrightarrow> normal (PDict g)"
    and ids: "\<And>d k. d \<in> set (ts_decisions (cur s)) \<Longrightarrow> dc_decision_id d \<noteq> ''DEC-'' @ U k"
    and "key_free s (''proposal:'' @ tp_proposal_id p @ '':decision'')"
  obtains req d t where "decide gv p def args s = (Inr (req, d), t)" "live t"
    "\<And>k. k \<noteq> ''proposal:'' @ tp_proposal_id p @ '':decision'' \<Longrightarrow> key_free t k = key_free s k"
proof -
  obtain req s1 where rq: "build_request gv p def args s = (Inr req, s1)"
    using build_request_live [OF res] .
  have s1: "same_data s s1" by (rule same_dataD [OF build_request_same rq])
  have sup: "supplies U L s1" using keepsID [OF build_request_supplies assms(2) rq] .
  let ?s1 = "s1\<lparr>wld := (wld s1)\<lparr>wd_latency_pos := Suc (wd_latency_pos (wld s1))\<rparr>\<rparr>"
  let ?ms = "wd_latency (wld s1) (wd_latency_pos (wld s1))"
  let ?signals = "engine_signals gv (tp_tool_name p) def req (cur s1)"
  obtain rd s2 where md: "make_decision gv p req ?signals ?ms ?s1 = (rd, s2)" by fastforce
  then obtain d0 where d0: "rd = Inr d0" and s2: "same_data ?s1 s2"
    using make_decision_run by metis
  note fields = make_decision_fields [OF md [unfolded d0]]
  have data: "same_data s s2" using s1 s2 by (simp add: same_data_def)
  define d where "d = bounded_decision gv p d0"
  have ms: "\<exists>q r. dc_evaluation_ms d0 = FFinite q r"
    using fields(2) sup assms(3) by (simp add: supplies_def)
  have "normal (guidance_or_empty d0)"
    using fields(1) merge_guidance_normal [of ?signals] guidance merge_guidance_normal [of "[default_signal]"]
    by (auto simp: guidance_or_empty_def default_signal_def signal_def split: if_splits)
  then have d: "dc_decision_id d = dc_decision_id d0" "dc_proposal_id d = tp_proposal_id p"
    "normal (guidance_or_empty d)" "\<exists>q r. dc_evaluation_ms d = FFinite q r"
    using fields(3) ms
    by (simp_all add: d_def bounded_decision_def retry_block_def guidance_or_empty_def)
  have fresh: "\<not> list_ex (\<lambda>x. dc_decision_id x = dc_decision_id d) (ts_decisions (cur s2))"
    using ids fields(4) sup data d(1) by (auto simp: list_ex_iff supplies_def same_data_def)
  have "live s2" using live_same_data [OF assms(1) data] .
  then obtain s3 where ad: "append_decision d s2 = (Inr (), s3)" "db s3 = (db s2)\<lparr>ms_runs :=
      dput (ts_trace_id (cur s2)) (cur s3) (ms_runs (db s2))\<rparr>" "ts_trace_id (cur s3) = ts_trace_id (cur s2)"
    using fresh
    by (auto simp: live_def append_decision_def assert_revision_def persist_state_def Let_def)
  have "ledger_inv s3"
    using keepsID [OF append_decision_keeps [of "db s2"] _ ad(1)] \<open>live s2\<close>
    by (simp add: live_def ledger_from_def)
  then have live3: "live s3" using ad(2,3) by (simp add: live_def)
  have free3: "key_free s3 k = key_free s k" for k
    using ad(2,3) data by (simp add: key_free_def same_data_def)
  have rec: "normal (PDict (ed_details (decision_event d)))"
    "ed_idempotency_key (decision_event d) = Some (''proposal:'' @ tp_proposal_id p @ '':decision'')"
    using d by (auto simp: decision_event_def tool_event_def list_all_iff signal_entry_def Let_def)
  obtain e t where ae: "append_event (decision_event d) s3 = (Inr e, t)" "live t"
    "\<And>k. k \<noteq> ''proposal:'' @ tp_proposal_id p @ '':decision'' \<Longrightarrow> key_free t k = key_free s3 k"
    using append_event_live [OF live3 rec] assms(7) free3 by metis
  have "decide gv p def args s = (Inr (req, d), t)"
    using rq md d0 ad(1) ae(1)
    by (auto simp: decide_def record_decision_def bindM_run thenM_run d_def bounded_decision_def Let_def)
  then show ?thesis using that ae free3 by blast
qed

lemma resource_context_core:
  assumes "core a = core b"
  shows "resource_context fs a tool args = resource_context fs b tool args"
proof -
  have "ts_order a = ts_order b" "ts_order_id a = ts_order_id b"
    "ts_prepared_actions a = ts_prepared_actions b"
    using arg_cong [OF assms, of ts_order] arg_cong [OF assms, of ts_order_id] core_eqD(4) [OF assms]
    by (simp_all add: core_def)
  then show ?thesis by (cases "ts_order b") (simp_all add: resource_context_def)
qed

lemma resource_context_counted:
  "resource_context fs (counted t st) tool args = resource_context fs st tool args"
  by (cases "ts_order st") (simp_all add: resource_context_def counted_def)

text \<open>The recorded decisions are as given.\<close>

definition decisions_are :: "decision list \<Rightarrow> tool_sys \<Rightarrow> bool" where
  "decisions_are ds s \<longleftrightarrow> ts_decisions (cur s) = ds"

lemma decisions_quiet: "(\<And>c m. keepsI (quiet c m) op) \<Longrightarrow> keepsI (decisions_are ds) op"
  by (auto simp: keepsI_def quiet_def decisions_are_def) (metis core_eqD(3))

lemma decisions_updM [keeps]:
  "(\<And>s. ts_decisions (cur (f s)) = ts_decisions (cur s)) \<Longrightarrow> keepsI (decisions_are ds) (updM f)"
  by (rule keepsI_updM) (simp add: decisions_are_def)

lemmas decisions_steps [keeps] =
  decisions_quiet [OF append_event_quiet] decisions_quiet [OF platform_quiet(1)]
  decisions_quiet [OF platform_quiet(2)] decisions_quiet [OF add_approval_quiet]
  decisions_quiet [OF put_effect_receipt_quiet]

lemma set_prepared_status_decisions [simp]:
  "ts_decisions (set_prepared_status pid c st) = ts_decisions st"
  by (simp add: set_prepared_status_def split: option.split)

lemma apply_decision_decisions: "keepsI (decisions_are ds) (apply_decision gv p def req args d)"
  unfolding apply_decision_def perform_def outcome_event_def record_failure_def create_approval_def
    execute_with_durable_receipt_def execute_def named_prepared_def apply_confirmation_def
    apply_cancellation_def Let_def
  by (intro keeps; simp)

text \<open>
  C31. Every call within the limit comes to a recorded decision: with an up-to-date trajectory
  object, unused identifiers, arguments and guidance that have a canonical text, and a resource
  that can be looked up, the call leaves exactly one more decision in the trajectory, made for
  this agent and this tool.
\<close>

theorem calls_come_to_a_decision:
  assumes "live s" "int (ts_tool_call_count (cur s)) < gv_max_tool_calls gv"
    and "normal (PDict (primitive_dict args))" "\<And>k. \<exists>q r. wd_latency (wld s) k = FFinite q r"
    and "resource_context (gv_loader gv) (cur s) tool (primitive_dict args) = Inr res"
    and "\<And>req st x g. x \<in> set (engine_signals gv tool (lookup_tool gv tool) req st) \<Longrightarrow>
      ps_guidance x = Some g \<Longrightarrow> normal (PDict g)"
    and "\<And>d k. d \<in> set (ts_decisions (cur s)) \<Longrightarrow> dc_decision_id d \<noteq> ''DEC-'' @ wd_uuids (wld s) k"
    and "\<And>x. key_free s (''proposal:PROP-'' @ wd_uuids (wld s) (wd_uuid_pos (wld s)) @ x)"
  shows "\<exists>d. ts_decisions (cur (snd (execute_tool gv agent tool args s))) =
      ts_decisions (cur s) @ [d] \<and> dc_agent d = agent \<and> dc_tool_name d = tool"
proof -
  let ?pid = "''PROP-'' @ wd_uuids (wld s) (wd_uuid_pos (wld s))"
  let ?def = "lookup_tool gv tool"
  have free: "key_free s (''proposal:'' @ ?pid @ x)" for x
    using assms(8) [of x] by simp
  obtain p s1 where pr: "propose gv agent tool args s = (Inr (p, ?def), s1)" "live s1"
    "tp_proposal_id p = ?pid"
    and keys: "\<And>k. k \<noteq> ''proposal:'' @ ?pid @ '':attempted'' \<Longrightarrow> key_free s1 k = key_free s k"
    by (rule propose_live [OF assms(1,3) refl free, of gv agent tool], rule that)
  have free1: "key_free s1 (''proposal:'' @ ?pid @ '':decision'')"
    using keys [of "''proposal:'' @ ?pid @ '':decision''"] free by simp
  note p = propose_cases [OF pr(1)]
  have tool: "tp_tool_name p = tool" using p(3) by (simp add: proposed_def)
  have core1: "core (cur s1) = core (counted tool (cur s))" by (rule p(1))
  have sup: "supplies (wd_uuids (wld s)) (wd_latency (wld s)) s1"
    using keepsID [OF propose_supplies _ pr(1)] by (simp add: supplies_def)
  have dec1: "ts_decisions (cur s1) = ts_decisions (cur s)" using core_eqD(3) [OF core1] by simp
  have "resource_context (gv_loader gv) (cur s1) tool (primitive_dict args) = Inr res"
    using assms(5) resource_context_core [OF core1] by (simp add: resource_context_counted)
  then obtain req d s2 where de: "decide gv p ?def args s1 = (Inr (req, d), s2)"
    using decide_live [OF pr(2) sup assms(4), of gv p args res ?def] assms(6,7) tool dec1 free1 pr(3)
    by metis
  obtain r t where ap: "apply_decision gv p ?def req args d s2 = (r, t)" by fastforce
  have run: "execute_tool gv agent tool args s = (r, t)"
    using assms(2) pr(1) de ap by (simp add: execute_tool_def bindM_run)
  from de have "ts_decisions (cur s2) = ts_decisions (cur s) @ [d] \<and> dc_agent d = agent \<and>
      dc_tool_name d = tool"
  proof (cases rule: decide_cases)
    case (decided req' d0 d' s1')
    have "ts_decisions (core (cur s2)) = ts_decisions (cur s) @ [d]"
      using decided dec1 by simp
    moreover have "dc_agent d = agent" "dc_tool_name d = tool"
      using decided(1,3,4) p(3)
      by (auto simp: decision_on_def bounded_decision_def retry_block_def proposed_def)
    ultimately show ?thesis by simp
  qed simp
  then show ?thesis
    using keepsID [OF apply_decision_decisions _ ap] run by (auto simp: decisions_are_def)
qed

section \<open>A sample call\<close>

text \<open>A governor as the runtime assembles it, over the repository's own fixtures.\<close>

definition sample_governor :: governor where
  "sample_governor =
     \<lparr>gv_registry = standard_registry, gv_engine = python_reference_engine,
      gv_loader = repo_fixtures, gv_max_tool_calls = 30, gv_max_guided_attempts = 2\<rparr>"

definition sample_trajectory :: "governance_mode \<Rightarrow> trajectory_state" where
  "sample_trajectory mode =
     (new_trajectory ''TR-1'' ''ORD-8842'')\<lparr>ts_mode := mode, ts_mandate := Some (repo_mandate mode),
        ts_tool_call_count := 1, ts_guide_attempts := [(''get_order'', 1)]\<rparr>"

definition sample_run :: "governance_mode \<Rightarrow> tool_sys" where
  "sample_run mode =
     \<lparr>cur = sample_trajectory mode,
      db = empty_store\<lparr>ms_runs := [(''TR-1'', sample_trajectory mode)],
                       ms_heads := [(''TR-1'', genesis_head ''TR-1'' 0)]\<rparr>,
      wld = sample_world, tools = new_mocks\<rparr>"

lemma sample_run_live: "live (sample_run mode)"
proof -
  have "ledger_inv (sample_run mode)"
    by (auto simp: ledger_inv_def sample_run_def store_ok_def run_ok_def attached_def
        sample_trajectory_def new_trajectory_def empty_store_def genesis_head_def head_ok_def)
  then show ?thesis
    by (simp add: live_def sample_run_def sample_trajectory_def new_trajectory_def)
qed

lemma sample_key_free [simp]: "key_free (sample_run mode) k"
  by (simp add: key_free_def sample_run_def empty_store_def)

abbreviation sample_args :: pydict where
  "sample_args \<equiv> [(''order_id'', PStr ''ORD-8842'')]"

section \<open>The reference engine's guidance\<close>

definition printable :: "policy_signal \<Rightarrow> bool" where
  "printable x \<longleftrightarrow> (\<forall>g. ps_guidance x = Some g \<longrightarrow> normal (PDict g))"

lemma printable_families:
  "signals_all printable (ownership_and_mandate req st)"
  "signals_all printable (provenance req' st')"
  "signals_all printable (cold_chain req'' st'')"
  unfolding ownership_and_mandate_def prepared_named_def provenance_def cold_chain_def Let_def
  by (intro signals_rules;
      simp add: printable_def required_fact_def opt_val_def split: option.split)+

lemma printable_commitments:
  "signals_all printable (commitment_budget req st)"
  "signals_all printable (separation_of_duties req' st')"
  "signals_all printable (pii_boundary req'' st'')"
  unfolding commitment_budget_def separation_of_duties_def separation_cancel_def
    separation_confirm_def pii_boundary_def Let_def prod.case
  by (intro signals_rules; simp add: printable_def)+

lemma reference_printable:
  assumes "gv_engine gv = python_reference_engine"
    and "x \<in> set (engine_signals gv tool def req st)" "ps_guidance x = Some g"
  shows "normal (PDict g)"
proof -
  have "list_all printable xs" if "evaluate req st = Inr xs" for xs
    using that unfolding evaluate_def
    by (rule evaluate_all_Inr) (auto simp: evaluators_def intro: printable_families printable_commitments)
  then show ?thesis
    using assms
    by (auto simp: engine_signals_def python_reference_engine_def list_all_iff printable_def Let_def
        split: option.splits sum.splits if_splits)
qed

section \<open>A read runs to its end\<close>

lemma perform_read_live:
  assumes "live s" "td_effect_class def = EC_READ"
    and "tp_tool_name p \<notin> {''confirm_freight_booking'', ''cancel_freight_booking''}"
    and ex: "execute (gv_loader gv) (gv_registry gv) (tp_tool_name p) args s = (Inr v, s1)"
    and "cur s1 = cur s" "db s1 = db s" "normal (safe_result (tp_tool_name p) v)"
    and "key_free s (''proposal:'' @ tp_proposal_id p @ '':succeeded'')"
  obtains t where "perform gv p def req args s = (Inr v, t)"
proof -
  let ?tool = "tp_tool_name p"
  let ?d = "tool_event ET_TOOL_SUCCEEDED (?tool @ '' completed successfully.'') (tp_agent p) ?tool
    (tp_effect_class p) [(''result'', safe_result ?tool v)]
    (Some (''proposal:'' @ tp_proposal_id p @ '':succeeded''))"
  have "live s1" by (rule live_cong [OF assms(1)]) (simp_all add: assms(5,6))
  moreover have "normal (PDict (ed_details ?d))"
    "ed_idempotency_key ?d = Some (''proposal:'' @ tp_proposal_id p @ '':succeeded'')"
    using assms(7) by (simp_all add: tool_event_def)
  moreover have "key_free s1 (''proposal:'' @ tp_proposal_id p @ '':succeeded'')"
    using assms(5,6,8) by (simp add: key_free_def)
  ultimately obtain e s2 where ap: "append_event ?d s1 = (Inr e, s2)"
    using append_event_live by metis
  have run: "execute_with_durable_receipt gv ?tool (td_effect_class def) args s = (Inr v, s1)"
    using ex assms(2) by (simp add: execute_with_durable_receipt_def)
  show ?thesis
    using that run ap assms(3)
    by (auto simp: perform_def catchM_def bindM_run thenM_run Let_def)
qed

section \<open>The sample call returns its order\<close>

definition get_order_def' :: tool_definition where
  "get_order_def' = tool_def ''get_order'' INVENTORY EC_READ ''Read one synthetic order.''"

lemma sample_lookup: "lookup_tool sample_governor ''get_order'' = Some get_order_def'"
  by (simp add: lookup_tool_def sample_governor_def standard_registry_def registrations_def
      tool_def_def get_order_def'_def)

lemma sample_engine [simp]: "gv_engine sample_governor = python_reference_engine"
  by (simp add: sample_governor_def)

lemma sample_execute:
  "execute (gv_loader sample_governor) (gv_registry sample_governor) ''get_order'' sample_args s =
     (Inr (VOrder repo_order), s)"
  by (simp add: execute_def get_definition_def sample_governor_def standard_registry_def
      registrations_def tool_def_def call_handler_def bind_arguments_def parameters_def dmember_def
      mock_get_order_def py_str_def repo_get_order)

lemma read_evaluates:
  assumes "pr_action req = ''get_order''" "pr_principal req = INVENTORY"
    and "get_none (pr_context req) ''tool_owner'' = PStr (agent_name_value INVENTORY)"
    and "get_none (pr_context req) ''effect_class'' = PStr (effect_class_value EC_READ)"
    and "ts_mandate st = Some (repo_mandate mode)" "ts_policy_version st = ''demo-v1''"
  shows "evaluate req st = Inr []"
proof -
  have "as_key (PStr (effect_class_value EC_READ)) = Inr (Some (effect_class_value EC_READ))"
    by (simp add: as_key_def)
  moreover have "effect_class_value EC_READ \<in>
      effect_class_value ` sm_allowed_effect_classes (repo_mandate mode)"
    by (simp add: repo_mandate_def)
  ultimately have "ownership_and_mandate req st = Inr []"
    using assms by (auto simp: ownership_and_mandate_def repo_mandate_def ENGINE_POLICY_VERSION_def)
  then show ?thesis
    using assms
    by (simp add: evaluate_def evaluators_def provenance_def cold_chain_def commitment_budget_def
        separation_of_duties_def pii_boundary_def)
qed

lemma sample_call:
  obtains g t where
    "execute_tool sample_governor INVENTORY ''get_order'' sample_args (sample_run mode) = (Inr g, t)"
    "gr_value g = Some (VOrder repo_order)"
proof -
  let ?s = "sample_run mode" and ?gv = sample_governor
  let ?pid = "''PROP-'' @ wd_uuids (wld ?s) (wd_uuid_pos (wld ?s))"
  let ?def = "lookup_tool ?gv ''get_order''"
  have st: "ts_mandate (cur ?s) = Some (repo_mandate mode)" "ts_policy_version (cur ?s) = ''demo-v1''"
    "ts_decisions (cur ?s) = []"
    by (simp_all add: sample_run_def sample_trajectory_def new_trajectory_def)
  obtain p s1 where pr: "propose ?gv INVENTORY ''get_order'' sample_args ?s = (Inr (p, ?def), s1)"
    "live s1" "tp_proposal_id p = ?pid"
    and keys1: "\<And>k. k \<noteq> ''proposal:'' @ ?pid @ '':attempted'' \<Longrightarrow> key_free s1 k = key_free ?s k"
    by (rule propose_live [where s = ?s and args = sample_args and gv = ?gv and agent = INVENTORY
          and tool = "''get_order''", OF sample_run_live _ refl sample_key_free], simp, rule that)
  note p = propose_cases [OF pr(1)]
  have p': "tp_tool_name p = ''get_order''" "tp_agent p = INVENTORY"
    using p(3) by (simp_all add: proposed_def)
  have core1: "ts_mandate (cur s1) = Some (repo_mandate mode)" "ts_policy_version (cur s1) = ''demo-v1''"
    "ts_decisions (cur s1) = []"
    using arg_cong [OF p(1), of ts_mandate] arg_cong [OF p(1), of ts_policy_version]
      arg_cong [OF p(1), of ts_decisions] st by (simp_all add: counted_def)
  have res: "resource_context (gv_loader ?gv) (cur s1) (tp_tool_name p) (primitive_dict sample_args) = Inr []"
    by (simp add: resource_context_def p')
  have sup: "supplies (wd_uuids sample_world) (wd_latency sample_world) s1"
    using keepsID [OF propose_supplies _ pr(1)] by (simp add: supplies_def sample_run_def)
  have lat: "\<exists>q r. wd_latency sample_world k = FFinite q r" for k
    by (simp add: sample_world_def)
  have free: "key_free s1 (''proposal:'' @ tp_proposal_id p @ '':decision'')"
    "key_free s1 (''proposal:'' @ tp_proposal_id p @ '':succeeded'')"
    using keys1 pr(3) by simp_all
  obtain req d s2 where de: "decide ?gv p ?def sample_args s1 = (Inr (req, d), s2)" "live s2"
    and keys2: "\<And>k. k \<noteq> ''proposal:'' @ tp_proposal_id p @ '':decision'' \<Longrightarrow> key_free s2 k = key_free s1 k"
  proof (rule decide_live [OF pr(2) sup lat res, of ?def])
    show "normal (PDict g)" if "x \<in> set (engine_signals ?gv (tp_tool_name p) ?def req st)"
      "ps_guidance x = Some g" for req st x g
      using reference_printable [OF _ that] by (simp add: sample_governor_def)
    show "dc_decision_id x \<noteq> ''DEC-'' @ wd_uuids sample_world k"
      if "x \<in> set (ts_decisions (cur s1))" for x k
      using that core1(3) by simp
  qed (rule free(1), rule that)
  have allow: "dc_applied_outcome d = DO_ALLOW"
    using de(1)
  proof (cases rule: decide_cases)
    case (decided req' d0 d' s')
    have "evaluate req (cur s1) = Inr []"
      using build_request_fields [of ?gv p ?def sample_args s1 req] decided(1,2) p' core1
      by (intro read_evaluates [of _ _ mode]) (auto simp: sample_lookup get_order_def'_def tool_def_def)
    then have "engine_signals ?gv (tp_tool_name p) ?def req (cur s1) = []"
      by (simp add: engine_signals_def sample_lookup python_reference_engine_def)
    then show ?thesis
      using decided(1,3,4)
      by (auto simp: decision_on_def primary_signal_def default_signal_def bounded_decision_def)
  qed simp
  have "normal (safe_result ''get_order'' (VOrder repo_order))"
    by (simp add: safe_result_def value_obj_def order_obj_def)
  moreover have "key_free s2 (''proposal:'' @ tp_proposal_id p @ '':succeeded'')"
    using keys2 free(2) by simp
  ultimately obtain t where "perform ?gv p get_order_def' req sample_args s2 = (Inr (VOrder repo_order), t)"
    using perform_read_live [OF de(2), of get_order_def' p ?gv sample_args "VOrder repo_order" s2 req]
      sample_execute [of s2] p' by (auto simp: get_order_def'_def tool_def_def)
  then have "apply_decision ?gv p ?def req sample_args d s2 =
      (Inr ((tool_result d)\<lparr>gr_value := Some (VOrder repo_order)\<rparr>), t)"
    using allow by (simp add: apply_decision_def sample_lookup bindM_run)
  moreover have "int (ts_tool_call_count (cur ?s)) < gv_max_tool_calls ?gv"
    by (simp add: sample_run_def sample_trajectory_def new_trajectory_def sample_governor_def)
  ultimately show ?thesis
    using that pr(1) de(1) by (simp add: execute_tool_def bindM_run)
qed

section \<open>Witnesses\<close>

lemma sample_took_effect:
  "took_effect (fst (execute_tool sample_governor INVENTORY ''get_order'' sample_args (sample_run mode)))
     (sample_run mode)
     (snd (execute_tool sample_governor INVENTORY ''get_order'' sample_args (sample_run mode)))"
  by (rule sample_call [of mode]) (simp add: took_effect_def)

lemma sample_mode [simp]: "ts_mode (cur (sample_run mode)) = mode"
  by (simp add: sample_run_def sample_trajectory_def)


definition raising_engine :: policy_engine where
  "raising_engine =
     \<lparr>pe_name = ''raising'', pe_bundle_hash = None,
      pe_evaluate = (\<lambda>_ _. Inl (PyExc RuntimeError ''unreachable''))\<rparr>"

theorem governor_fails_closed_witness:
  "\<not> took_effect
     (fst (execute_tool (sample_governor\<lparr>gv_engine := raising_engine\<rparr>) INVENTORY ''get_order''
        sample_args (sample_run GM_ENFORCE)))
     (sample_run GM_ENFORCE)
     (snd (execute_tool (sample_governor\<lparr>gv_engine := raising_engine\<rparr>) INVENTORY ''get_order''
        sample_args (sample_run GM_ENFORCE)))"
proof -
  have "engine_fails raising_engine" by (simp add: engine_fails_def raising_engine_def)
  then show ?thesis
    using governor_fails_closed [of "sample_governor\<lparr>gv_engine := raising_engine\<rparr>"
        "sample_run GM_ENFORCE" INVENTORY "''get_order''" sample_args] by simp
qed

theorem shadow_mode_never_withholds_witness:
  "\<exists>g. fst (execute_tool sample_governor INVENTORY ''get_order'' sample_args (sample_run GM_SHADOW))
     = Inr g \<and> gr_value g \<noteq> None \<and> \<not> dc_enforced (gr_decision g)"
proof -
  obtain g t where "execute_tool sample_governor INVENTORY ''get_order'' sample_args
      (sample_run GM_SHADOW) = (Inr g, t)" by (rule sample_call [of GM_SHADOW])
  then show ?thesis
    using shadow_mode_never_withholds [of "sample_run GM_SHADOW" sample_governor "''get_order''"
        get_order_def' INVENTORY sample_args g] sample_lookup
    by (simp add: lookup_tool_def)
qed


theorem tool_calls_are_bounded_witness:
  "int (attempts (cur (run_all (governed_call sample_governor)
      (replicate 40 (INVENTORY, ''get_order'', sample_args)) (sample_run GM_ENFORCE)))) \<le> 30"
  using tool_calls_are_bounded [of "sample_run GM_ENFORCE" sample_governor
      "replicate 40 (INVENTORY, ''get_order'', sample_args)"]
  by (simp add: sample_run_def sample_trajectory_def new_trajectory_def attempts_def
      sample_governor_def)

theorem governed_calls_keep_the_ledger_witness:
  "\<exists>later v. get_events (db (run_all (governed_call sample_governor)
       [(INVENTORY, ''get_order'', sample_args), (CARRIER, ''unregistered'', [])]
       (sample_run GM_ENFORCE))) ''TR-1'' = Inr ([] @ later) \<and>
     verify_trace (db (run_all (governed_call sample_governor)
       [(INVENTORY, ''get_order'', sample_args), (CARRIER, ''unregistered'', [])]
       (sample_run GM_ENFORCE))) ''TR-1'' = Inr v \<and> vr_valid v"
proof (rule governed_calls_keep_the_ledger)
  show "ledger_inv (sample_run GM_ENFORCE)" using sample_run_live [of GM_ENFORCE] by (simp add: live_def)
  show "get_events (db (sample_run GM_ENFORCE)) ''TR-1'' = Inr []"
    by (simp add: get_events_def sample_run_def sample_trajectory_def new_trajectory_def)
qed

theorem calls_come_to_a_decision_witness:
  "\<exists>d. ts_decisions (cur (snd (execute_tool sample_governor INVENTORY ''get_order'' sample_args
       (sample_run GM_ENFORCE)))) = [d] \<and> dc_agent d = INVENTORY"
proof -
  have "\<exists>d. ts_decisions (cur (snd (execute_tool sample_governor INVENTORY ''get_order'' sample_args
      (sample_run GM_ENFORCE)))) = ts_decisions (cur (sample_run GM_ENFORCE)) @ [d] \<and>
      dc_agent d = INVENTORY \<and> dc_tool_name d = ''get_order''"
  proof (rule calls_come_to_a_decision [OF sample_run_live])
    show "normal (PDict g)"
      if "x \<in> set (engine_signals sample_governor ''get_order''
            (lookup_tool sample_governor ''get_order'') req st)" "ps_guidance x = Some g" for req st x g
      using reference_printable [OF sample_engine that] .
    show "resource_context (gv_loader sample_governor) (cur (sample_run GM_ENFORCE)) ''get_order''
        (primitive_dict sample_args) = Inr []"
      by (simp add: resource_context_def)
  qed (simp_all add: sample_run_def sample_world_def sample_governor_def sample_trajectory_def
      new_trajectory_def key_free_def empty_store_def)
  moreover have "ts_decisions (cur (sample_run GM_ENFORCE)) = []"
    by (simp add: sample_run_def sample_trajectory_def new_trajectory_def)
  ultimately show ?thesis by auto
qed

abbreviation sample_write :: pydict where
  "sample_write \<equiv>
     [(''prepared_action_id'', PStr ''PREP-1''), (''action_hash'', PStr ''sha256:0''),
      (''idempotency_key'', PStr ''confirm-1'')]"

lemma sample_run_fields:
  "ts_trace_id (cur (sample_run mode)) = ''TR-1''"
  "ms_effect_receipts (db (sample_run mode)) = []"
  "dmember ''TR-1'' (ms_runs (db (sample_run mode)))"
  "tools (sample_run mode) = new_mocks"
  by (simp_all add: sample_run_def sample_trajectory_def new_trajectory_def empty_store_def
      dmember_def)

lemma sample_write_runs:
  "\<exists>v t. execute_with_durable_receipt sample_governor ''confirm_freight_booking''
     EC_FINANCIAL_COMMIT sample_write (sample_run GM_ENFORCE) = (Inr v, t)"
proof -
  have "\<exists>v mt. execute (gv_loader sample_governor) (gv_registry sample_governor)
      ''confirm_freight_booking'' sample_write (sample_run GM_ENFORCE) =
      (Inr (VDict v), (sample_run GM_ENFORCE)\<lparr>tools := mt\<rparr>)"
    by (simp add: execute_def get_definition_def sample_governor_def standard_registry_def
      registrations_def tool_def_def call_handler_def bind_arguments_def parameters_def
      mock_confirm_freight_booking_def check_prepared_def prepared_ids_def in_ids_def hash_key_def
      stored_value_def store_idempotently_def sample_run_fields new_mocks_def dmember_def)
      (rule exI, rule refl)
  then obtain v mt where ex: "execute (gv_loader sample_governor) (gv_registry sample_governor)
      ''confirm_freight_booking'' sample_write (sample_run GM_ENFORCE) =
      (Inr (VDict v), (sample_run GM_ENFORCE)\<lparr>tools := mt\<rparr>)" by blast
  have "\<exists>fp. effect_fingerprint ''confirm_freight_booking'' sample_write = Inr fp"
    by (simp add: effect_fingerprint_def canonical_json_def)
  then obtain fp where fp: "effect_fingerprint ''confirm_freight_booking'' sample_write = Inr fp" ..
  have kh: "opaque_key_hash ''confirm-1'' = Inr (sha256_hex ''confirm-1'')"
    "sha256_hex ''confirm-1'' \<noteq> []"
    by (simp add: opaque_key_hash_def) (metis length_0_conv sha256_hex_shape(1) zero_neq_numeral)
  show ?thesis
    using ex fp kh
    by (auto simp: execute_with_durable_receipt_def str_of_def get_effect_receipt_def bindM_run
        make_effect_receipt_def put_effect_receipt_def sample_run_fields Let_def)
qed

theorem durable_writes_run_once_witness:
  "\<exists>v t. execute_with_durable_receipt sample_governor ''confirm_freight_booking''
       EC_FINANCIAL_COMMIT sample_write (sample_run GM_ENFORCE) = (Inr v, t) \<and>
     execute_with_durable_receipt sample_governor ''confirm_freight_booking'' EC_FINANCIAL_COMMIT
       sample_write (run_all (governed_call sample_governor) [(INVENTORY, ''get_order'', sample_args)] t)
     = (Inr v, run_all (governed_call sample_governor) [(INVENTORY, ''get_order'', sample_args)] t)"
proof -
  obtain v t where run: "execute_with_durable_receipt sample_governor ''confirm_freight_booking''
    EC_FINANCIAL_COMMIT sample_write (sample_run GM_ENFORCE) = (Inr v, t)"
    using sample_write_runs by blast
  from durable_writes_run_once [OF run _ _ refl, of "''confirm-1''"
      "[(INVENTORY, ''get_order'', sample_args)]"] run
  show ?thesis by (auto simp: str_of_def simp del: run_all.simps)
qed

end
