(* ===== verification/Runtime_Invariants.thy ===== *)
theory Runtime_Invariants
  imports Service Governor_Liveness
begin

text \<open>
  What the runtime keeps.  The roles and the orchestrator touch the system only through governed
  calls, run events, the creation of a run and assignments outside the ledger's fields; whatever
  these keep, a whole run, its resumption and its cancellation keep.
\<close>

lemma prod_case3_keeps [keeps]:
  "(\<And>a b c. keepsI I (f a b c)) \<Longrightarrow> keepsI I g \<Longrightarrow>
   keepsI I (case (x, y, z) of (Some a, Some b, Some c) \<Rightarrow> f a b c | _ \<Rightarrow> g)"
  by (cases x; cases y; cases z) simp_all

lemma prod_case2_keeps [keeps]:
  "(\<And>a b. keepsI I (f a b)) \<Longrightarrow> keepsI I g \<Longrightarrow>
   keepsI I (case (x, y) of (Some a, Some b) \<Rightarrow> f a b | _ \<Rightarrow> g)"
  by (cases x; cases y) simp_all

lemma value_of_keeps [keeps]: "keepsI I (value_of g)"
  unfolding value_of_def by (intro keeps)

lemma inventory_option_keeps [keeps]:
  "(\<And>o'. keepsI I (f o')) \<Longrightarrow> keepsI I g \<Longrightarrow>
   keepsI I (case v of Some (VOrder o') \<Rightarrow> f o' | _ \<Rightarrow> g)"
  "(\<And>x. keepsI I (h x)) \<Longrightarrow> keepsI I g \<Longrightarrow>
   keepsI I (case v of Some (VFact x) \<Rightarrow> h x | _ \<Rightarrow> g)"
  by (auto split: option.split tool_value.split)

lemma exc_keeps [keeps]:
  "(\<And>c m. keepsI I (f c m)) \<Longrightarrow> (\<And>k m. keepsI I (g k m)) \<Longrightarrow>
   keepsI I (case e of Manifest c m \<Rightarrow> f c m | PyExc k m \<Rightarrow> g k m)"
  by (cases e) simp_all

lemma set_cur_ledger_simps [simp]:
  "ledger_fields (st\<lparr>ts_order := a\<rparr>) = ledger_fields st"
  "ledger_fields (st\<lparr>ts_inventory_fact := b\<rparr>) = ledger_fields st"
  "ledger_fields (st\<lparr>ts_facts := c\<rparr>) = ledger_fields st"
  "ledger_fields (st\<lparr>ts_selected_vehicle := d\<rparr>) = ledger_fields st"
  "ledger_fields (st\<lparr>ts_dispatch_plan_id := e\<rparr>) = ledger_fields st"
  "ledger_fields (st\<lparr>ts_selected_quote := f\<rparr>) = ledger_fields st"
  "ledger_fields (st\<lparr>ts_carrier_selection_id := e\<rparr>) = ledger_fields st"
  "ledger_fields (st\<lparr>ts_quoted_by := e\<rparr>) = ledger_fields st"
  "ledger_fields (st\<lparr>ts_prepared_actions := g\<rparr>) = ledger_fields st"
  "ledger_fields (st\<lparr>ts_prepared_by := h\<rparr>) = ledger_fields st"
  "ledger_fields (st\<lparr>ts_approved_by := e\<rparr>) = ledger_fields st"
  "ledger_fields (st\<lparr>ts_notification_id := e\<rparr>) = ledger_fields st"
  "ledger_fields (st\<lparr>ts_current_agent := h\<rparr>) = ledger_fields st"
  "ledger_fields (st\<lparr>ts_status := k\<rparr>) = ledger_fields st"
  "ledger_fields (st\<lparr>ts_error := e\<rparr>) = ledger_fields st"
  "ledger_fields (st\<lparr>ts_terminal_reason := e\<rparr>) = ledger_fields st"
  by (simp_all add: ledger_fields_def)

lemma ledger_fields_stage [simp]: "ledger_fields (mark_agent_stage n st) = ledger_fields st"
  by (simp add: mark_agent_stage_def)

text \<open>An invariant that every operation of a role keeps.\<close>

definition role_keeps :: "(tool_sys \<Rightarrow> bool) \<Rightarrow> role \<Rightarrow> bool" where
  "role_keeps I r \<longleftrightarrow>
     (\<forall>gv. keepsI I (rl_run r gv) \<and> (\<forall>a. keepsI I (rl_resume_booking r gv a)) \<and>
       (\<forall>a reason. keepsI I (rl_cancel_booking r gv a reason)))"

locale runtime_invariant =
  fixes I :: "tool_sys \<Rightarrow> bool"
  assumes call_keeps: "keepsI I (execute_tool gv agent tool args)"
    and event_keeps: "keepsI I (run_event et summary who details key)"
    and clock_keeps: "keepsI I utc_now"
    and uuid_keeps: "keepsI I uuid4"
    and create_keeps: "keepsI I (create_object st)"
    and assign_keeps: "(\<And>st. ledger_fields (f st) = ledger_fields st) \<Longrightarrow> keepsI I (set_cur f)"
begin

lemmas base = call_keeps event_keeps clock_keeps uuid_keeps create_keeps assign_keeps

lemma prepared_keeps: "keepsI I (build_prepared_action st pid quote amount currency who)"
  unfolding build_prepared_action_def Let_def by (intro keeps base)

lemma project_keeps: "keepsI I (project fs agent tool args v)"
  unfolding project_def project_prepared_def Let_def by (intro keeps base prepared_keeps; simp)

lemma inventory_keeps: "keepsI I (inventory_run gv)"
  unfolding inventory_run_def Let_def by (intro keeps base project_keeps)

lemma dispatch_keeps: "keepsI I (dispatch_run gv)"
  unfolding dispatch_run_def dispatch_retry_def Let_def by (intro keeps base project_keeps)

lemma carrier_keeps:
  "keepsI I (carrier_run gv)"
  "keepsI I (resume_booking gv a)"
  "keepsI I (cancel_booking gv a reason)"
  unfolding carrier_run_def carrier_select_def select_quote_def carrier_prepare_def
    resume_booking_def cancel_booking_def Let_def
  by (intro keeps base project_keeps; simp)+

lemma communications_keeps: "keepsI I (communications_run gv)"
  unfolding communications_run_def by (intro keeps base project_keeps)

lemma legacy_roles_keep: "r \<in> set legacy_roles \<Longrightarrow> role_keeps I r"
  by (auto simp: legacy_roles_def plain_role_def carrier_role_def role_keeps_def
      intro: keeps inventory_keeps dispatch_keeps carrier_keeps communications_keeps)

lemma run_roles_keeps:
  "(\<And>r. r \<in> set rs \<Longrightarrow> role_keeps I r) \<Longrightarrow> keepsI I (run_roles gv rs)"
proof (induction rs)
  case (Cons r rs)
  then have "keepsI I (rl_run r gv)" "keepsI I (run_roles gv rs)"
    by (simp_all add: role_keeps_def)
  then show ?case unfolding run_roles.simps by (intro keeps base; simp)
qed (simp add: keeps)

lemma handle_failure_keeps: "keepsI I (handle_failure oc e)"
  unfolding handle_failure_def by (intro keeps base; simp)

lemma find_role_member: "find_role rs n = Inr r \<Longrightarrow> r \<in> set rs"
  by (induction rs) (auto split: if_splits)

lemma run_keeps:
  assumes "\<And>r. r \<in> set (oc_roles oc) \<Longrightarrow> role_keeps I r"
  shows "keepsI I (run oc order_id mode scenario m c)"
  unfolding run_def finish_run_def Let_def
  by (intro keeps base handle_failure_keeps run_roles_keeps assms; simp)

lemma keepsI_bind_found:
  "(\<And>r. find_role rs n = Inr r \<Longrightarrow> keepsI I (f r)) \<Longrightarrow> keepsI I (bindM (liftR (find_role rs n)) f)"
  by (cases "find_role rs n") (auto simp: keepsI_def)

lemma resume_keeps:
  assumes "\<And>r. r \<in> set (oc_roles oc) \<Longrightarrow> role_keeps I r"
  shows "keepsI I (resume_approved oc a)"
proof -
  have "keepsI I (rl_resume_booking r gv a)" "keepsI I (rl_run r gv)"
    if "find_role (oc_roles oc) n = Inr r" for r gv n
    using assms [OF find_role_member [OF that]] by (simp_all add: role_keeps_def)
  then show ?thesis
    unfolding resume_approved_def resume_body_def
    by (intro keepsI_bind_found keepsI_bindM [OF keepsI_basic(3)] keepsI_if)
      (intro keeps base handle_failure_keeps; simp)+
qed

lemma cancel_keeps:
  assumes "\<And>r. r \<in> set (oc_roles oc) \<Longrightarrow> role_keeps I r"
  shows "keepsI I (cancel_pending oc a reason)"
proof -
  have "keepsI I (rl_cancel_booking r gv a reason)"
    if "find_role (oc_roles oc) n = Inr r" for r gv n
    using assms [OF find_role_member [OF that]] by (simp add: role_keeps_def)
  then show ?thesis
    unfolding cancel_pending_def
    by (intro keepsI_bind_found keepsI_bindM [OF keepsI_basic(3)] keepsI_if)
      (intro keeps base; simp)+
qed

end

section \<open>Invariants of the store\<close>

text \<open>
  The governor itself touches the system only through the operations of the store and of the
  tools; an invariant that these keep is an invariant of the runtime.
\<close>

locale store_invariant =
  fixes I :: "tool_sys \<Rightarrow> bool"
  assumes append_keeps: "keepsI I (append_event d)"
    and decision_keeps: "keepsI I (append_decision dec)"
    and approval_keeps: "keepsI I (add_approval a)"
    and receipt_keeps: "keepsI I (put_effect_receipt rc)"
    and tool_keeps: "keepsI I (execute fs rg tool args)"
    and world_keeps: "keepsI I utc_now" "keepsI I uuid4" "keepsI I elapsed_ms"
    and created_keeps: "keepsI I (create_object st)"
    and cur_keeps: "(\<And>st. ledger_fields (f st) = ledger_fields st) \<Longrightarrow> keepsI I (set_cur f)"
begin

lemmas store_base = append_keeps decision_keeps approval_keeps receipt_keeps tool_keeps
  world_keeps created_keeps cur_keeps

lemma stages_keep:
  "keepsI I (named_prepared args)"
  "keepsI I (execute_with_durable_receipt gv tool effect args')"
  "keepsI I (record_failure agent tool' effect' message pid)"
  "keepsI I (create_approval args'' d)"
  unfolding named_prepared_def execute_with_durable_receipt_def record_failure_def
    create_approval_def Let_def
  by (intro keeps store_base; simp)+

lemma execute_tool_keeps: "keepsI I (execute_tool gv agent tool args)"
  unfolding execute_tool_def propose_def decide_def build_request_def approval_context_def
    make_decision_def record_decision_def apply_decision_def perform_def outcome_event_def
    apply_confirmation_def apply_cancellation_def Let_def
  by (intro keeps stages_keep store_base; simp)

lemma run_event_keeps: "keepsI I (run_event et summary who details key)"
  unfolding run_event_def by (intro keeps store_base)

end

sublocale store_invariant \<subseteq> runtime_invariant
  by unfold_locales
    (intro execute_tool_keeps run_event_keeps store_base; simp)+

section \<open>The ledger\<close>

interpretation ledger: store_invariant "ledger_from ms0" for ms0
  by unfold_locales (intro keeps; simp)+

end
