(* ===== verification/Service_Properties.thy ===== *)
theory Service_Properties
  imports Runtime_Invariants
begin

text \<open>
  Properties of the application service: the histories it leaves verify and only grow, and an
  approval is decided at most once, whatever sequence of requests arrives.
\<close>

section \<open>Requests\<close>

text \<open>The requests that change the state, on a service with the deterministic roles.\<close>

datatype service_cmd =
    StartRun string string string
  | ResolveApproval string string string "string option" int string
  | ExpireDue

definition legacy_service :: "governor \<Rightarrow> fixtures \<Rightarrow> runtime_settings \<Rightarrow> run_service" where
  "legacy_service gv fs settings =
     \<lparr>sv_orchestrator =
       \<lparr>oc_roles = legacy_roles, oc_governor = gv, oc_loader = fs, oc_settings = settings\<rparr>\<rparr>"

fun exec_service :: "run_service \<Rightarrow> service_cmd \<Rightarrow> unit top" where
  "exec_service sv (StartRun order_id mode scenario) =
     bindM (start_run sv order_id mode scenario) (\<lambda>_. returnM ())"
| "exec_service sv (ResolveApproval aid d label comment' version key) =
     bindM (resolve_approval sv aid d label comment' version key) (\<lambda>_. returnM ())"
| "exec_service sv ExpireDue = bindM (expire_due_approvals sv) (\<lambda>_. returnM ())"

lemma legacy_service_simps [simp]:
  "oc_roles (sv_orchestrator (legacy_service gv fs settings)) = legacy_roles"
  by (simp add: legacy_service_def)

section \<open>The ledger under requests\<close>

lemma load_state_ledger [keeps]: "keepsI (ledger_from ms0) (load_state tid)"
proof (rule keepsII)
  fix s t :: tool_sys and r
  assume inv: "ledger_from ms0 s" and run: "load_state tid s = (r, t)"
  show "ledger_from ms0 t"
  proof (cases "dget (ms_runs (db s)) tid")
    case None
    then show ?thesis
      using inv run by (auto simp: load_state_def load_trace_def get_state_def)
  next
    case (Some st)
    have "ts_trace_id st = tid"
      using inv Some store_okD by (auto simp: ledger_from_def ledger_inv_def run_ok_def)
    moreover have "t = s \<or> t = s\<lparr>cur := st\<rparr>"
      using run Some
      by (auto simp: load_state_def load_trace_def get_state_def make_stored_trace_def
          split: if_splits)
    ultimately show ?thesis
      using inv Some by (auto simp: ledger_from_def ledger_inv_def attached_def)
  qed
qed

lemma resolution_keeps [keeps]: "keepsI I (resolution sv aid replay)"
  unfolding resolution_def by (intro keeps)

context runtime_invariant
begin

lemma legacy_keeps:
  "keepsI I (run (sv_orchestrator (legacy_service gv fs settings)) oid mode scenario m c)"
  "keepsI I (resume_approved (sv_orchestrator (legacy_service gv' fs' settings')) a)"
  "keepsI I (cancel_pending (sv_orchestrator (legacy_service gv'' fs'' settings'')) a' reason)"
  by (rule run_keeps resume_keeps cancel_keeps, simp add: legacy_roles_keep)+

lemma start_run_keeps: "keepsI I (start_run (legacy_service gv fs settings) oid mode scenario)"
  unfolding start_run_def by (intro keeps legacy_keeps)

lemma continue_keeps:
  "keepsI I (continue_resolved_approval (legacy_service gv fs settings) a)"
  unfolding continue_resolved_approval_def Let_def
  by (intro keeps base legacy_keeps; simp)

end

lemma expire_locked_ledger [keeps]:
  "keepsI (ledger_from ms0) (expire_locked (legacy_service gv fs settings) a)"
  unfolding expire_locked_def by (intro keeps ledger.run_event_keeps ledger.legacy_keeps)

lemma resolve_new_ledger [keeps]:
  "keepsI (ledger_from ms0) (resolve_new (legacy_service gv fs settings) aid c)"
  unfolding resolve_new_def Let_def by (intro keeps ledger.continue_keeps)

lemma resolve_approval_ledger:
  "keepsI (ledger_from ms0)
     (resolve_approval (legacy_service gv fs settings) aid d label comment' version key)"
  unfolding resolve_approval_def resolve_command_def by (intro keeps)

lemma expire_each_ledger [keeps]:
  "keepsI (ledger_from ms0) (expire_each (legacy_service gv fs settings) now as)"
proof (induction as)
  case (Cons a as)
  then show ?case unfolding expire_each.simps by (intro keeps Cons.IH)
qed (simp add: keepsI_def)

lemma exec_service_ledger:
  "keepsI (ledger_from ms0) (exec_service (legacy_service gv fs settings) c)"
  by (cases c; simp; intro keeps ledger.start_run_keeps resolve_approval_ledger)
    (simp add: expire_due_approvals_def keeps)

interpretation service: append_only ledger_inv "\<lambda>s t. grows (db s) (db t)"
  "exec_service (legacy_service gv fs settings)" ms_history ms_verified for gv fs settings
  by (rule append_only_store) (rule exec_service_ledger)

section \<open>Decisions on approvals\<close>

abbreviation approvals :: "'z store_sys_scheme \<Rightarrow> (string, approval_record) dict" where
  "approvals s \<equiv> ms_approvals (db s)"

definition keyed :: "(string, approval_record) dict \<Rightarrow> bool" where
  "keyed A \<longleftrightarrow> distinct (map fst A) \<and> (\<forall>aid a. dget A aid = Some a \<longrightarrow> ar_approval_id a = aid)"

text \<open>What an approval is bound to when it is created.\<close>

definition binding ::
  "approval_record \<Rightarrow> string \<times> string \<times> string \<times> string \<times> string \<times> string \<times> string \<times> int \<times> int" where
  "binding a =
     (ar_approval_id a, ar_trace_id a, ar_prepared_action_id a, ar_action_hash a, ar_state_hash a,
      ar_policy_version a, ar_reason_code a, ar_created_at a, ar_expires_at a)"

definition decided_from :: "approval_record \<Rightarrow> approval_record \<Rightarrow> bool" where
  "decided_from a b \<longleftrightarrow>
     ar_status a = AS_PENDING_APPROVAL \<and> ar_status b \<noteq> AS_PENDING_APPROVAL \<and>
     ar_version b = ar_version a + 1 \<and> binding b = binding a"

definition follows ::
  "(string, approval_record) dict \<Rightarrow> (string, approval_record) dict \<Rightarrow> bool" where
  "follows A B \<longleftrightarrow>
     (\<forall>aid a. dget A aid = Some a \<longrightarrow> (\<exists>b. dget B aid = Some b \<and> (b = a \<or> decided_from a b)))"

lemma follows_refl [simp]: "follows A A"
  by (simp add: follows_def)

lemma follows_trans: "follows A B \<Longrightarrow> follows B C \<Longrightarrow> follows A C"
  unfolding follows_def decided_from_def by metis

text \<open>Every approval of \<open>A\<close> is untouched.\<close>

definition kept :: "(string, approval_record) dict \<Rightarrow> 'z store_sys_scheme \<Rightarrow> bool" where
  "kept A s \<longleftrightarrow>
     keyed (approvals s) \<and> (\<forall>aid a. dget A aid = Some a \<longrightarrow> dget (approvals s) aid = Some a)"

lemma kept_follows: "kept A s \<Longrightarrow> follows A (approvals s)"
  by (simp add: kept_def follows_def)

lemma kept_frame [keeps]:
  "(\<And>ms. ms_approvals (f ms) = ms_approvals ms) \<Longrightarrow> keepsI (kept A) (set_db f)"
  "keepsI (kept A) (set_cur g)"
  "keepsI (kept A) utc_now" "keepsI (kept A) uuid4"
  by (auto simp: keepsI_def kept_def utc_now_def uuid4_def)

lemma persist_kept [keeps]: "keepsI (kept A) persist_state"
  unfolding persist_state_def by (rule keepsI_updM) (simp add: kept_def Let_def)

lemma record_event_kept [keeps]: "keepsI (kept A) (record_event tid d fp e)"
  unfolding record_event_def
  by (intro keeps keepsI_updM) (auto simp: kept_def split: option.splits intro!: keeps)

lemma append_event_kept [keeps]: "keepsI (kept A) (append_event d)"
  unfolding append_event_def Let_def by (intro keeps)

lemma append_decision_kept [keeps]: "keepsI (kept A) (append_decision dec)"
  unfolding append_decision_def Let_def by (intro keeps)

lemma put_effect_receipt_kept [keeps]: "keepsI (kept A) (put_effect_receipt rc)"
  unfolding put_effect_receipt_def Let_def by (intro keeps; simp)

lemma tools_kept [keeps]:
  fixes A :: "(string, approval_record) dict"
  shows "keepsI (kept A) (execute fs rg tool args)" "keepsI (kept A) elapsed_ms"
  unfolding execute_def
  by (intro keeps keepsI_updM, simp add: kept_def) (simp add: keepsI_def kept_def elapsed_ms_def)

lemma keyed_dput: "keyed A \<Longrightarrow> keyed (dput (ar_approval_id a) a A)"
  by (simp add: keyed_def dput_distinct)

lemma add_approval_kept [keeps]: "keepsI (kept A) (add_approval a)"
proof (rule keepsII)
  fix s t :: "'a store_sys_scheme" and r
  assume "kept A s" "add_approval a s = (r, t)"
  then show "kept A t"
    by (cases "dget (ms_runs (db s)) (ts_trace_id (cur s))"; cases "assert_revision (cur s)
          (the (dget (ms_runs (db s)) (ts_trace_id (cur s))))")
      (auto simp: add_approval_def persist_state_def Let_def kept_def keyed_dput dmember_def
        split: if_splits)
qed

lemma create_object_kept [keeps]: "keepsI (kept A) (create_object st)"
proof (rule keepsII)
  fix s t :: "'a store_sys_scheme" and r
  assume inv: "kept A s" and run: "create_object st s = (r, t)"
  have "keepsI (kept A) (create_run :: ('a, stored_trace) op)"
    unfolding create_run_def Let_def
    by (intro keeps keepsI_updM) (simp_all add: kept_def)
  then have "kept A (snd (create_run (s\<lparr>cur := st\<rparr>)))"
    using inv by (simp add: keepsI_def kept_def)
  then show "kept A t"
    using run by (auto simp: create_object_def kept_def split: prod.splits sum.splits)
qed

interpretation approvals: store_invariant "kept A" for A
  by unfold_locales (intro keeps)+

section \<open>One decision\<close>

definition ends :: "('s \<Rightarrow> bool) \<Rightarrow> ('s \<Rightarrow> bool) \<Rightarrow> ('s, 'e, 'a) SE \<Rightarrow> bool" where
  "ends P Q m \<longleftrightarrow> (\<forall>s. P s \<longrightarrow> Q (snd (m s)))"

lemma ends_keeps: "keepsI P m \<Longrightarrow> (\<And>s. P s \<Longrightarrow> Q s) \<Longrightarrow> ends P Q m"
  by (simp add: ends_def keepsI_def)

lemma ends_bind:
  "keepsI P m \<Longrightarrow> (\<And>s. P s \<Longrightarrow> Q s) \<Longrightarrow> (\<And>a. ends P Q (f a)) \<Longrightarrow> ends P Q (bindM m f)"
  by (force simp: ends_def keepsI_def bindM_def split: prod.splits sum.splits)

lemma ends_then:
  "keepsI P m \<Longrightarrow> (\<And>s. P s \<Longrightarrow> Q s) \<Longrightarrow> ends P Q k \<Longrightarrow> ends P Q (thenM m k)"
  by (simp add: thenM_def ends_bind)

text \<open>A guard that handles its own failures and raises again.\<close>

lemma ends_guard:
  assumes "keepsI P m" and "\<And>e. ends P Q (h e)" and "\<And>e s. \<exists>e' t. h e s = (Inl e', t)"
    and "ends P Q k"
  shows "ends P Q (thenM (catchM m h) k)"
  unfolding ends_def
proof (intro allI impI)
  fix s assume P: "P s"
  obtain r t where m: "m s = (r, t)" by fastforce
  then have t: "P t" using assms(1) P by (metis keepsI_def snd_conv)
  show "Q (snd (thenM (catchM m h) k s))"
  proof (cases r)
    case (Inl e)
    obtain e' u where h: "h e t = (Inl e', u)" using assms(3) by blast
    then have "Q u" using assms(2) t by (metis ends_def snd_conv)
    then show ?thesis using m Inl h by (simp add: thenM_def bindM_def catchM_def)
  next
    case (Inr a)
    then show ?thesis using m t assms(4) by (simp add: thenM_def bindM_def catchM_def ends_def)
  qed
qed

lemma resolve_decides:
  "ar_status a = AS_PENDING_APPROVAL \<Longrightarrow> resolve a c s = (r, t) \<Longrightarrow>
   approvals t = approvals s \<and> (\<exists>b. r = Inr b \<and> decided_from a b)"
  by (auto simp: resolve_def decided_from_def binding_def utc_now_def)

lemma expire_decides:
  "ar_status a = AS_PENDING_APPROVAL \<Longrightarrow> expire a s = (r, t) \<Longrightarrow>
   approvals t = approvals s \<and> (\<exists>b. r = Inr b \<and> decided_from a b)"
  by (auto simp: expire_def decided_from_def binding_def utc_now_def)

definition stands :: "(string, approval_record) dict \<Rightarrow> 'z store_sys_scheme \<Rightarrow> bool" where
  "stands A s \<longleftrightarrow> approvals s = A"

text \<open>At most the approval \<open>a\<close> has been decided.\<close>

definition moved ::
  "(string, approval_record) dict \<Rightarrow> approval_record \<Rightarrow> 'z store_sys_scheme \<Rightarrow> bool" where
  "moved A a s \<longleftrightarrow>
     kept A s \<or> (\<exists>b. decided_from a b \<and> kept (dput (ar_approval_id a) b A) s)"

lemma stands_kept: "keyed A \<Longrightarrow> stands A s \<Longrightarrow> kept A s"
  by (simp add: stands_def kept_def)

lemma stands_moved: "keyed A \<Longrightarrow> stands A s \<Longrightarrow> moved A a s"
  by (simp add: moved_def stands_kept)

lemma moved_follows:
  assumes "moved A a s" and "dget A (ar_approval_id a) = Some a"
  shows "keyed (approvals s)" "follows A (approvals s)"
proof -
  show "keyed (approvals s)" using assms by (auto simp: moved_def kept_def)
  have "follows A (dput (ar_approval_id a) b A)" if "decided_from a b" for b
    using that assms(2) by (auto simp: follows_def)
  then show "follows A (approvals s)"
    using assms(1) kept_follows follows_trans unfolding moved_def by blast
qed

lemma stands_world [keeps]:
  "keepsI (stands A) utc_now" "keepsI (stands A) (load_state tid)"
  "keepsI (stands A) (validate_pending a st c)"
  unfolding load_state_def validate_pending_def
  by (simp add: keepsI_def stands_def utc_now_def,
      (intro keeps keepsI_updM, simp add: stands_def), (intro keeps, simp add: keepsI_def stands_def utc_now_def))

text \<open>The decision is stored, and what follows touches no approval.\<close>

lemma ends_replace:
  fixes k :: "('z, 'r) op"
  assumes A: "keyed A" "dget A (ar_approval_id a) = Some a" and b: "decided_from a b"
    and k: "keepsI (kept (dput (ar_approval_id a) b A)) k"
  shows "ends (stands A) (moved A a) (thenM (replace_approval b) k)"
  unfolding ends_def
proof (intro allI impI)
  fix s :: "'z store_sys_scheme"
  assume s: "stands A s"
  let ?t = "s\<lparr>db := (db s)\<lparr>ms_approvals := dput (ar_approval_id a) b A\<rparr>\<rparr>"
  have id: "ar_approval_id b = ar_approval_id a" and v: "ar_version b = ar_version a + 1"
    using b by (simp_all add: decided_from_def binding_def)
  have "replace_approval b s = (Inr (), ?t)"
    using s A id v by (simp add: replace_approval_def stands_def)
  moreover have "kept (dput (ar_approval_id a) b A) ?t"
    using A keyed_dput [OF A(1), of b] id by (simp add: kept_def)
  ultimately have "kept (dput (ar_approval_id a) b A) (snd (thenM (replace_approval b) k s))"
    using k by (simp add: keepsI_def thenM_run(1))
  then show "moved A a (snd (thenM (replace_approval b) k s))"
    using b by (auto simp: moved_def)
qed

lemma ends_decided:
  fixes m :: "('z, approval_record) op"
  assumes "\<And>s r t. m s = (r, t) \<Longrightarrow> approvals t = approvals s \<and> (\<exists>b. r = Inr b \<and> decided_from a b)"
    and "\<And>b. decided_from a b \<Longrightarrow> ends (stands A) Q (f b)"
  shows "ends (stands A) Q (bindM m f)"
  unfolding ends_def
proof (intro allI impI)
  fix s :: "'z store_sys_scheme"
  assume s: "stands A s"
  obtain r t where m: "m s = (r, t)" by fastforce
  then obtain b where b: "r = Inr b" "decided_from a b" and t: "stands A t"
    using assms(1) [OF m] s by (auto simp: stands_def)
  then show "Q (snd (bindM m f s))"
    using assms(2) [OF b(2)] m by (simp add: ends_def bindM_run(1))
qed

lemma record_replay_kept [keeps]: "keepsI (kept A) (record_approval_replay aid key fp)"
  unfolding record_approval_replay_def by (intro keeps) simp

lemma ends_expire:
  assumes "keyed A" "dget A (ar_approval_id a) = Some a" "ar_status a = AS_PENDING_APPROVAL"
  shows "ends (stands A) (moved A a) (expire_locked (legacy_service gv fs settings) a)"
  unfolding expire_locked_def
  by (rule ends_decided [OF expire_decides [OF assms(3)]], assumption)
    (intro ends_replace assms keeps approvals.run_event_keeps approvals.legacy_keeps)

lemma ends_raise: "ends P Q m \<Longrightarrow> ends P Q (bindM m (\<lambda>_. raiseM e))"
  by (force simp: ends_def bindM_def split: prod.splits sum.splits)

lemma raise_again: "\<exists>e' t. (bindM m (\<lambda>_. raiseM e)) s = (Inl e', t)"
  by (auto simp: bindM_def split: prod.splits sum.splits)

text \<open>The handler of a pending approval: validation, the decision and what it sets off.\<close>

lemma ends_pending:
  assumes A: "keyed A" "dget A (ar_approval_id a) = Some a" and p: "ar_status a = AS_PENDING_APPROVAL"
    and k: "\<And>A b. keepsI (kept A) (k b)"
  shows "ends (stands A) (moved A a)
     (thenM (load_state tid) (bindM (getM cur) (\<lambda>st.
        thenM (catchM (validate_pending a st c)
          (\<lambda>e. if expired_exc e
               then bindM (expire_locked (legacy_service gv fs settings) a) (\<lambda>_. raiseM e)
               else raiseM e))
        (bindM (resolve a c) (\<lambda>b. thenM (replace_approval b) (k b))))))"
proof (intro ends_then [OF stands_world(2)] ends_bind [OF keepsI_basic(3)]
    ends_guard [OF stands_world(3)] stands_moved [OF A(1)])
  fix e
  show "ends (stands A) (moved A a)
      (if expired_exc e then bindM (expire_locked (legacy_service gv fs settings) a) (\<lambda>_. raiseM e)
       else raiseM e)"
    by (simp add: ends_raise [OF ends_expire [OF A p]]
        ends_keeps [OF keepsI_basic(2) stands_moved [OF A(1)]])
  show "\<exists>e' t.
      (if expired_exc e then bindM (expire_locked (legacy_service gv fs settings) a) (\<lambda>_. raiseM e)
       else raiseM e) s = (Inl e', t)" for s
    using raise_again by auto
next
  show "ends (stands A) (moved A a) (bindM (resolve a c) (\<lambda>b. thenM (replace_approval b) (k b)))"
    by (rule ends_decided [OF resolve_decides [OF p]], assumption) (intro ends_replace A k)
qed

lemma ends_resolve_new:
  assumes A: "keyed A" "dget A aid = Some a"
  shows "ends (stands A) (moved A a) (resolve_new (legacy_service gv fs settings) aid c)"
proof -
  have id: "dget A (ar_approval_id a) = Some a" using A by (auto simp: keyed_def)
  note pending = ends_pending [OF A(1) id]
  have rest: "keepsI (kept B) (thenM (continue_resolved_approval (legacy_service gv fs settings) b)
      (thenM (record_approval_replay aid key fp) (resolution sv aid replay)))" for B b key fp sv replay
    by (intro keeps approvals.continue_keeps)
  have again: "keepsI (kept A) (thenM (load_state tid) (bindM (getM (\<lambda>s. ts_status (cur s))) (\<lambda>status.
      thenM (if status = RS_PENDING_APPROVAL
             then continue_resolved_approval (legacy_service gv fs settings) b else returnM ())
      (thenM (record_approval_replay aid key fp) (resolution sv aid True)))))" for tid b key fp sv
    unfolding load_state_def by (intro keeps approvals.continue_keeps)
  show ?thesis
    unfolding ends_def
  proof (intro allI impI)
    fix s :: tool_sys
    assume s: "stands A s"
    then have get: "get_approval (db s) aid = Inr a"
      using A(2) by (simp add: get_approval_def stands_def)
    consider "ar_status a = AS_EXPIRED" | "ar_status a = AS_PENDING_APPROVAL"
      | "ar_status a \<noteq> AS_EXPIRED" "ar_status a \<noteq> AS_PENDING_APPROVAL" by blast
    then show "moved A a (snd (resolve_new (legacy_service gv fs settings) aid c s))"
    proof cases
      case 1
      then show ?thesis using get s stands_moved [OF A(1)] by (simp add: resolve_new_def Let_def)
    next
      case 2
      then show ?thesis using pending [OF 2 rest] get s by (simp add: resolve_new_def Let_def ends_def)
    next
      case 3
      then show ?thesis
        using again s stands_kept [OF A(1) s] get
        by (simp add: resolve_new_def Let_def keepsI_def moved_def)
    qed
  qed
qed

lemma resolve_approval_follows:
  assumes "keyed (approvals s)"
    and "resolve_approval (legacy_service gv fs settings) aid d label comment' version key s = (r, t)"
  shows "keyed (approvals t)" "follows (approvals s) (approvals t)"
proof -
  have "keyed (approvals t) \<and> follows (approvals s) (approvals t)"
  proof (cases "t = s")
    case False
    then obtain c where run: "resolve_new (legacy_service gv fs settings) aid c s = (r, t)"
      using assms(2)
      by (auto simp: resolve_approval_def resolve_command_def bindM_def
          split: option.splits if_splits sum.splits prod.splits)
    with False obtain a where a: "dget (approvals s) aid = Some a"
      by (cases "dget (approvals s) aid") (auto simp: resolve_new_def get_approval_def)
    have "moved (approvals s) a t"
      using ends_resolve_new [OF assms(1) a, of gv fs settings c] run
      by (auto simp: ends_def stands_def)
    then show ?thesis
      using moved_follows [of "approvals s" a t] a assms(1) by (auto simp: keyed_def)
  qed (use assms(1) in simp)
  then show "keyed (approvals t)" "follows (approvals s) (approvals t)" by simp_all
qed

section \<open>Expiry\<close>

lemma listed_approvals:
  assumes "keyed A" and "A = ms_approvals ms" and "as = list_approvals ms None (Some status)"
  shows "distinct (map ar_approval_id as)"
    "\<And>a. a \<in> set as \<Longrightarrow> dget A (ar_approval_id a) = Some a \<and> ar_status a = status"
proof -
  have set: "set as = {a \<in> snd ` set A. ar_status a = status}"
    using assms by (auto simp: list_approvals_def)
  have "map ar_approval_id (map snd A) = map fst A"
    using assms(1) by (auto simp: keyed_def)
  moreover have "distinct (map fst A)"
    using assms(1) by (simp add: keyed_def)
  ultimately have d: "distinct (map ar_approval_id (map snd A))" by metis
  then have "distinct (map snd A)" "inj_on ar_approval_id (snd ` set A)"
    by (simp_all only: distinct_map set_map)
  moreover have "as = sort_key (\<lambda>a. (ar_created_at a, ar_approval_id a))
      (filter (\<lambda>a. ar_status a = status) (map snd A))"
    using assms by (simp add: list_approvals_def Let_def)
  ultimately show "distinct (map ar_approval_id as)"
    using set by (auto simp: distinct_map intro: inj_on_subset)
  show "dget A (ar_approval_id a) = Some a \<and> ar_status a = status" if "a \<in> set as" for a
    using that set assms(1) by (auto simp: keyed_def)
qed

lemma moved_others:
  "moved A a s \<Longrightarrow> aid \<noteq> ar_approval_id a \<Longrightarrow> dget A aid = Some b \<Longrightarrow>
   dget (approvals s) aid = Some b"
  by (auto simp: moved_def kept_def)

lemma ends_returned: "ends P Q m \<Longrightarrow> ends P Q (bindM m (\<lambda>x. returnM (f x)))"
  by (force simp: ends_def bindM_def split: prod.splits sum.splits)

lemma expire_each_follows:
  assumes "keyed (approvals s)" and "distinct (map ar_approval_id as)"
    and "\<And>a. a \<in> set as \<Longrightarrow>
           dget (approvals s) (ar_approval_id a) = Some a \<and> ar_status a = AS_PENDING_APPROVAL"
    and "expire_each (legacy_service gv fs settings) now as s = (r, t)"
  shows "keyed (approvals t) \<and> follows (approvals s) (approvals t)"
  using assms
proof (induction as arbitrary: s r t)
  case Nil
  then show ?case by simp
next
  case (Cons a as)
  let ?m = "if now \<ge> ar_expires_at a
            then thenM (load_state (ar_trace_id a))
                   (bindM (expire_locked (legacy_service gv fs settings) a) (\<lambda>x. returnM [x]))
            else returnM []"
  obtain q u where m: "?m s = (q, u)" by fastforce
  have a: "dget (approvals s) (ar_approval_id a) = Some a" "ar_status a = AS_PENDING_APPROVAL"
    using Cons.prems by simp_all
  have "ends (stands (approvals s)) (moved (approvals s) a) ?m"
  proof (cases "now \<ge> ar_expires_at a")
    case True
    show ?thesis
      unfolding if_P [OF True]
      by (intro ends_then [OF stands_world(2)] ends_returned ends_expire Cons.prems(1) a
          stands_moved [OF Cons.prems(1)])
  qed (simp add: ends_def stands_moved [OF Cons.prems(1)])
  then have mv: "moved (approvals s) a u" using m by (auto simp: ends_def stands_def)
  note uf = moved_follows [OF mv a(1)]
  show ?case
  proof (cases q)
    case (Inl e)
    then have "t = u" using Cons.prems(4) m by (simp add: bindM_run(2))
    then show ?thesis using uf by simp
  next
    case (Inr xs)
    then obtain r' where rest: "expire_each (legacy_service gv fs settings) now as u = (r', t)"
      using Cons.prems(4) m by (auto simp: bindM_def split: prod.splits sum.splits)
    have still: "dget (approvals u) (ar_approval_id b) = Some b \<and> ar_status b = AS_PENDING_APPROVAL"
      if "b \<in> set as" for b
    proof -
      have "ar_approval_id b \<noteq> ar_approval_id a" using Cons.prems(2) that by (auto simp: image_iff)
      then show ?thesis using moved_others [OF mv] Cons.prems(3) [of b] that by simp
    qed
    have "distinct (map ar_approval_id as)" using Cons.prems(2) by simp
    from Cons.IH [OF uf(1) this still rest] show ?thesis
      using follows_trans [OF uf(2)] by simp
  qed
qed

lemma expire_due_follows:
  assumes "keyed (approvals s)"
    and "expire_due_approvals (legacy_service gv fs settings) s = (r, t)"
  shows "keyed (approvals t) \<and> follows (approvals s) (approvals t)"
proof -
  obtain now u where u: "utc_now s = (Inr now, u)" "db u = db s"
    by (simp add: utc_now_def)
  let ?due = "list_approvals (db s) None (Some AS_PENDING_APPROVAL)"
  have "expire_each (legacy_service gv fs settings) now ?due u = (r, t)"
    using assms(2) u by (simp add: expire_due_approvals_def utc_now_def)
  then show ?thesis
    using expire_each_follows [of u ?due gv fs settings now r t] assms(1) u(2)
      listed_approvals [OF assms(1) refl refl, where status=AS_PENDING_APPROVAL]
    by simp
qed

lemma exec_service_follows:
  assumes "keyed (approvals s)" and "exec_service (legacy_service gv fs settings) c s = (r, t)"
  shows "keyed (approvals t) \<and> follows (approvals s) (approvals t)"
proof (cases c)
  case (StartRun oid mode scenario)
  then have "kept (approvals s) t"
    using assms keepsID [OF approvals.start_run_keeps [of "approvals s"], of s]
    by (auto simp: kept_def bindM_def split: prod.splits sum.splits)
  then show ?thesis using kept_follows by (auto simp: kept_def)
next
  case (ResolveApproval aid d label comment' version key)
  then obtain r' where
    "resolve_approval (legacy_service gv fs settings) aid d label comment' version key s = (r', t)"
    using assms(2) by (auto simp: bindM_def split: prod.splits sum.splits)
  then show ?thesis by (intro conjI resolve_approval_follows [OF assms(1)])
next
  case ExpireDue
  then show ?thesis
    using assms expire_due_follows [OF assms(1), of gv fs settings]
    by (auto simp: bindM_def split: prod.splits sum.splits)
qed

interpretation decisions: monotone_system "\<lambda>s. keyed (approvals s)"
  "\<lambda>s t. follows (approvals s) (approvals t)" "exec_service (legacy_service gv fs settings)"
  for gv fs settings
proof
  fix s t u :: tool_sys and c
  show "follows (approvals s) (approvals s)" by simp
  show "follows (approvals s) (approvals t) \<Longrightarrow> follows (approvals t) (approvals u) \<Longrightarrow>
      follows (approvals s) (approvals u)"
    by (rule follows_trans)
  show "keyed (approvals (snd (exec_service (legacy_service gv fs settings) c s)))"
    "follows (approvals s) (approvals (snd (exec_service (legacy_service gv fs settings) c s)))"
    if "keyed (approvals s)"
    using exec_service_follows [OF that] by (metis prod.collapse)+
qed

section \<open>Replays\<close>

abbreviation replays :: "'z store_sys_scheme \<Rightarrow> (string \<times> string, string) dict" where
  "replays s \<equiv> ms_approval_replays (db s)"

definition recalls :: "(string \<times> string, string) dict \<Rightarrow> 'z store_sys_scheme \<Rightarrow> bool" where
  "recalls R s \<longleftrightarrow> (\<forall>k v. dget R k = Some v \<longrightarrow> dget (replays s) k = Some v)"

lemma recalls_frame [keeps]:
  "(\<And>s. replays (f s) = replays s) \<Longrightarrow> keepsI (recalls R) (updM f)"
  "keepsI (recalls R) utc_now" "keepsI (recalls R) uuid4" "keepsI (recalls R) elapsed_ms"
  "keepsI (recalls R) persist_state"
  by (simp_all add: keepsI_def recalls_def utc_now_def uuid4_def elapsed_ms_def persist_state_def
      Let_def)

lemma store_recalls [keeps]:
  fixes dec :: decision
  shows "keepsI (recalls R) (append_event d)" "keepsI (recalls R) (append_decision dec)"
    "keepsI (recalls R) (add_approval a)" "keepsI (recalls R) (put_effect_receipt rc)"
    "keepsI (recalls R) (execute fs rg tool args)"
  unfolding append_event_def record_event_def append_decision_def add_approval_def
    put_effect_receipt_def execute_def Let_def
  by (intro keeps; simp)+

lemma create_object_recalls [keeps]: "keepsI (recalls R) (create_object st)"
proof (rule keepsII)
  fix s t :: "'a store_sys_scheme" and r
  assume inv: "recalls R s" and run: "create_object st s = (r, t)"
  have "keepsI (recalls R) (create_run :: ('a, stored_trace) op)"
    unfolding create_run_def Let_def by (intro keeps; simp)
  then have "recalls R (snd (create_run (s\<lparr>cur := st\<rparr>)))"
    using inv by (simp add: keepsI_def recalls_def)
  then show "recalls R t"
    using run by (auto simp: create_object_def recalls_def split: prod.splits sum.splits)
qed

interpretation replays: store_invariant "recalls R" for R
  by unfold_locales (intro keeps; simp)+

lemma service_recalls [keeps]:
  "keepsI (recalls R) (load_state tid)" "keepsI (recalls R) (replace_approval b)"
  "keepsI (recalls R) (validate_pending a st c)" "keepsI (recalls R) (resolve a' c')"
  "keepsI (recalls R) (expire a'')"
  "keepsI (recalls R) (expire_locked (legacy_service gv fs settings) x)"
  unfolding load_state_def replace_approval_def validate_pending_def resolve_def expire_def
    expire_locked_def
  by (intro keeps replays.run_event_keeps replays.legacy_keeps; simp)+

lemma record_replay_recalls:
  "dget R (aid, key) = None \<Longrightarrow> keepsI (recalls R) (record_approval_replay aid key fp)"
  unfolding record_approval_replay_def by (rule keepsI_updM) (simp add: recalls_def)

lemma resolve_new_recalls:
  "dget R (aid, ac_idempotency_key c) = None \<Longrightarrow>
   keepsI (recalls R) (resolve_new (legacy_service gv fs settings) aid c)"
  unfolding resolve_new_def Let_def by (intro keeps replays.continue_keeps record_replay_recalls)

lemma resolve_command_recalls: "keepsI (recalls R) (resolve_command (legacy_service gv fs settings) aid c)"
proof (rule keepsII)
  fix s t :: tool_sys and r
  assume inv: "recalls R s" and run: "resolve_command (legacy_service gv fs settings) aid c s = (r, t)"
  show "recalls R t"
  proof (cases "t = s")
    case False
    then have new: "dget (replays s) (aid, ac_idempotency_key c) = None"
      "resolve_new (legacy_service gv fs settings) aid c s = (r, t)"
      using run
      by (auto simp: resolve_command_def get_approval_replay_fingerprint_def bindM_def
          split: option.splits if_splits sum.splits prod.splits)
    then have "dget R (aid, ac_idempotency_key c) = None"
      using inv by (cases "dget R (aid, ac_idempotency_key c)") (auto simp: recalls_def)
    then show ?thesis using keepsID [OF resolve_new_recalls inv new(2)] by simp
  qed (use inv in simp)
qed

lemma expire_each_recalls [keeps]:
  "keepsI (recalls R) (expire_each (legacy_service gv fs settings) now as)"
proof (induction as)
  case (Cons a as)
  then show ?case unfolding expire_each.simps by (intro keeps Cons.IH)
qed (simp add: keepsI_def)

lemma exec_service_recalls: "keepsI (recalls R) (exec_service (legacy_service gv fs settings) c)"
  by (cases c; simp; intro keeps replays.start_run_keeps)
    (simp_all add: expire_due_approvals_def resolve_approval_def resolve_command_recalls keeps)

interpretation recalled: monotone_system "recalls R" "\<lambda>s t. True"
  "exec_service (legacy_service gv fs settings)" for R gv fs settings
  by unfold_locales (use exec_service_recalls in \<open>auto simp: keepsI_def\<close>)

text \<open>A command that has been carried out, with the approval it decided.\<close>

definition settled :: "'z store_sys_scheme \<Rightarrow> string \<Rightarrow> approval_command \<Rightarrow> approval_record \<Rightarrow> bool" where
  "settled s aid c a \<longleftrightarrow>
     dget (replays s) (aid, ac_idempotency_key c) = Some (approval_fingerprint c) \<and>
     dget (approvals s) aid = Some a \<and> ar_status a \<noteq> AS_PENDING_APPROVAL \<and>
     dmember (ar_trace_id a) (ms_runs (db s))"

lemma settled_stays:
  assumes "ledger_inv s" "keyed (approvals s)" "settled s aid c a"
  shows "settled (run_all (exec_service (legacy_service gv fs settings)) cs s) aid c a"
proof -
  let ?u = "run_all (exec_service (legacy_service gv fs settings)) cs s"
  have "recalls (replays s) ?u"
    by (rule recalled.run_all_inv) (simp add: recalls_def)
  moreover have "follows (approvals s) (approvals ?u)"
    using decisions.run_all_le [OF assms(2)] .
  moreover have "grows (db s) (db ?u)"
    using service.run_all_le [OF assms(1)] .
  ultimately show ?thesis
    using assms(3)
    by (fastforce simp: settled_def recalls_def follows_def decided_from_def grows_def dmember_def)
qed

lemma resolution_Inr:
  "resolution sv aid replay s = (Inr r, t) \<longleftrightarrow>
     t = s \<and> (\<exists>a. dget (approvals s) aid = Some a \<and>
       r = \<lparr>rn_approval = a, rn_run = summary_of sv (cur s), rn_idempotent_replay = replay\<rparr>)"
  by (auto simp: resolution_def get_approval_def split: option.splits)

lemma load_state_Inr:
  assumes "load_state tid s = (Inr x, t)"
  shows "dmember tid (ms_runs (db s))" "approvals t = approvals s"
  using assms
  by (auto simp: load_state_def load_trace_def get_state_def dmember_def bindM_def
      split: option.splits sum.splits)

text \<open>A first resolution leaves its command settled.\<close>

lemma fresh_resolution_settles:
  assumes inv: "ledger_inv s" "keyed (approvals s)"
    and run: "resolve_new (legacy_service gv fs settings) aid c s = (Inr r, t)"
    and first: "\<not> rn_idempotent_replay r"
  shows "settled t aid c (rn_approval r)"
proof -
  let ?sv = "legacy_service gv fs settings"
  obtain a where a: "dget (approvals s) aid = Some a"
    using run by (cases "dget (approvals s) aid") (auto simp: resolve_new_def get_approval_def)
  have p: "ar_status a = AS_PENDING_APPROVAL"
    using run a first
    by (auto simp: resolve_new_def get_approval_def Let_def thenM_Inr bindM_Inr resolution_Inr
        split: if_splits)
  obtain s1 s2 s3 s4 s5 st b where
    l: "load_state (ar_trace_id a) s = (Inr (), s1)"
    and v: "catchM (validate_pending a st c)
          (\<lambda>e. if expired_exc e then bindM (expire_locked ?sv a) (\<lambda>_. raiseM e) else raiseM e) s1
          = (Inr (), s2)"
    and rs: "resolve a c s2 = (Inr b, s3)" and rp: "replace_approval b s3 = (Inr (), s4)"
    and co: "continue_resolved_approval ?sv b s4 = (Inr (), s5)"
    and rc: "thenM (record_approval_replay aid (ac_idempotency_key c) (approval_fingerprint c))
          (resolution ?sv aid False) s5 = (Inr r, t)"
    using run a p
    by (auto simp: resolve_new_def get_approval_def Let_def thenM_Inr bindM_Inr)
  have id: "ar_approval_id a = aid" using a inv(2) by (auto simp: keyed_def)
  have b: "decided_from a b" "approvals s3 = approvals s2" using resolve_decides [OF p rs] by auto
  have "validate_pending a st c s1 = (Inr (), s2)"
    using v raise_again [of "expire_locked ?sv a"]
    by (auto simp: catchM_def bindM_def split: prod.splits sum.splits if_splits)
  then have s3: "approvals s3 = approvals s"
    using keepsID [OF stands_world(3) [of "approvals s1"]] load_state_Inr(2) [OF l] b(2)
    by (simp add: stands_def)
  have b': "ar_approval_id b = aid" "ar_trace_id b = ar_trace_id a"
    using b(1) id by (simp_all add: decided_from_def binding_def)
  have "s4 = s3\<lparr>db := (db s3)\<lparr>ms_approvals := dput aid b (approvals s)\<rparr>\<rparr>"
    using rp a b' by (auto simp: replace_approval_def s3 split: if_splits)
  then have "kept (dput aid b (approvals s)) s4"
    using keyed_dput [OF inv(2), of b] b' by (simp add: kept_def)
  then have "kept (dput aid b (approvals s)) s5"
    using keepsID [OF approvals.continue_keeps _ co] by blast
  then have "dget (approvals s5) aid = Some b" by (simp add: kept_def)
  then have t: "dget (replays t) (aid, ac_idempotency_key c) = Some (approval_fingerprint c)"
    "dget (approvals t) aid = Some b" "rn_approval r = b"
    using rc by (auto simp: record_approval_replay_def resolution_Inr)
  have "grows (db s) (db t)"
    using keepsID [OF resolve_new_ledger _ run, of "db s"] inv(1) by (simp add: ledger_from_def)
  then have "dmember (ar_trace_id b) (ms_runs (db t))"
    using load_state_Inr(1) [OF l] b'(2) by (fastforce simp: grows_def dmember_def)
  then show ?thesis using t b(1) by (simp add: settled_def decided_from_def)
qed

section \<open>Theorems\<close>




text \<open>
  The checks of a pending approval accept exactly the commands that name its current version
  before it expires, on a trace that waits for this approval with the prepared action, its
  hashes, mandate, policy version, spend and quote as they were when it was prepared, by an
  approver other than the preparer.\<close>

theorem pending_validation_is_exact:
  "fst (validate_pending a st c s) = Inr () \<longleftrightarrow>
     ar_status a = AS_PENDING_APPROVAL \<and> ac_expected_version c = ar_version a \<and>
     clock_now s < ar_expires_at a \<and>
     (\<exists>p. dget (ts_prepared_actions st) (ar_prepared_action_id a) = Some p \<and>
        approval_bound a st p \<and>
        casefold (ac_approver_label c) \<noteq> casefold (agent_name_value (pa_prepared_by p)))"
  by (simp add: validate_pending_iff validate_binding_iff)

section \<open>Witnesses\<close>

definition sample_approval :: "approval_status \<Rightarrow> approval_record" where
  "sample_approval status =
     \<lparr>ar_approval_id = ''APR-1'', ar_trace_id = ''TR-1'', ar_prepared_action_id = ''PREP-1'',
      ar_action_hash = ''sha256:a'', ar_state_hash = ''sha256:s'', ar_policy_version = ''demo-v1'',
      ar_reason_code = ''APPROVAL_REQUIRED'', ar_status = status, ar_created_at = 0,
      ar_expires_at = 5, ar_version = 1, ar_decided_at = None, ar_decision = None,
      ar_approver_label = None, ar_comment = None, ar_decision_idempotency_key = None\<rparr>"

abbreviation sample_command :: approval_command where
  "sample_command \<equiv>
     \<lparr>ac_decision = AD_APPROVE, ac_approver_label = ''duty manager'', ac_comment = None,
      ac_expected_version = 1, ac_idempotency_key = ''k1''\<rparr>"

text \<open>The sample run with an approval and, when it is decided, the command that decided it.\<close>

definition sample_waiting :: "approval_status \<Rightarrow> tool_sys" where
  "sample_waiting status =
     (sample_run GM_ENFORCE)\<lparr>db := (db (sample_run GM_ENFORCE))\<lparr>
        ms_approvals := [(''APR-1'', sample_approval status)],
        ms_approval_replays := [((''APR-1'', ''k1''), approval_fingerprint sample_command)]\<rparr>\<rparr>"

abbreviation sample_service :: run_service where
  "sample_service \<equiv> legacy_service sample_governor (gv_loader sample_governor) default_settings"

lemma sample_waiting_facts:
  "ledger_inv (sample_waiting status)" "keyed (approvals (sample_waiting status))"
  "approvals (sample_waiting status) = [(''APR-1'', sample_approval status)]"
proof -
  have "ledger_inv (sample_run GM_ENFORCE)" using sample_run_live by (simp add: live_def)
  then show "ledger_inv (sample_waiting status)"
    using ledger_from_frame [of "db (sample_run GM_ENFORCE)" "sample_run GM_ENFORCE" "sample_waiting status"]
    by (simp add: ledger_from_def sample_waiting_def)
qed (simp_all add: sample_waiting_def keyed_def sample_approval_def)




end
