(* ===== verification/Run_Outcomes.thy ===== *)
theory Run_Outcomes
  imports Service_Properties
begin

text \<open>
  How a run ends, for any roles whatever: the orchestrator's status, stage and acting role agree,
  a paused run waits for an approval, and a resumed or cancelled run is over.
\<close>

section \<open>What an event leaves alone\<close>

abbreviation view ::
  "trajectory_state \<Rightarrow> run_status \<times> workflow_stage \<times> agent_name option \<times> string option" where
  "view st \<equiv>
     (ts_status st, ts_workflow_stage st, ts_current_agent st, ts_pending_approval_id st)"

lemma run_event_core:
  assumes "run_event et summary who details key s = (r, t)"
  shows "core (cur t) = core (cur s)"
proof -
  have "keepsI (quiet c m) (run_event et summary who details key)" for c m
    unfolding run_event_def by (intro keeps)
  from keepsID [OF this quietI assms] show ?thesis by (simp add: quiet_def)
qed

lemma core_view: "core a = core b \<Longrightarrow> view a = view b \<and> ts_terminal_reason a = ts_terminal_reason b"
  by (auto simp: core_def dest: arg_cong [where f=ts_status] arg_cong [where f=ts_workflow_stage]
      arg_cong [where f=ts_current_agent] arg_cong [where f=ts_pending_approval_id]
      arg_cong [where f=ts_terminal_reason])

lemmas run_event_view = core_view [OF run_event_core]

lemma has_pending_view: "view a = view b \<Longrightarrow> has_pending a = has_pending b"
  by (simp add: has_pending_def)

section \<open>The loop over the roles\<close>

lemma run_roles_waits:
  assumes "run_roles gv rs s = (Inr x, t)" and "\<not> has_pending (cur s)" and "has_pending (cur t)"
  shows "ts_workflow_stage (cur t) = WS_AWAITING_APPROVAL"
  using assms
proof (induction rs arbitrary: s)
  case (Cons r rs)
  let ?s = "s\<lparr>cur := (cur s)\<lparr>ts_current_agent := Some (rl_name r)\<rparr>\<rparr>"
  obtain s1 s2 summary where
    "run_event ET_AGENT_STARTED (agent_name_value (rl_name r) @ '' agent started.'')
       (Some (rl_name r)) [] None ?s = (Inr (), s1)"
    and run: "rl_run r gv s1 = (Inr summary, s2)"
    and rest: "thenM
          (if has_pending (cur s2) then
             thenM (set_cur (ts_workflow_stage_update (\<lambda>_. WS_AWAITING_APPROVAL)))
               (run_event ET_AGENT_PAUSED summary (Some (rl_name r)) [] None)
           else
             thenM (set_cur (mark_agent_stage (rl_name r)))
               (run_event ET_AGENT_COMPLETED summary (Some (rl_name r)) [] None))
          (run_roles gv rs) s2 = (Inr x, t)"
    using Cons.prems(1,2) by (auto simp: thenM_Inr bindM_Inr)
  show ?case
  proof (cases "has_pending (cur s2)")
    case True
    then obtain s3 where ev: "run_event ET_AGENT_PAUSED summary (Some (rl_name r)) [] None
        (s2\<lparr>cur := (cur s2)\<lparr>ts_workflow_stage := WS_AWAITING_APPROVAL\<rparr>\<rparr>) = (Inr (), s3)"
      and "run_roles gv rs s3 = (Inr x, t)"
      using rest by (auto simp: thenM_Inr)
    moreover have "has_pending (cur s3)"
      using run_event_view [OF ev] True by (simp add: has_pending_def)
    ultimately show ?thesis
      using run_event_view [OF ev] by (cases rs) auto
  next
    case False
    then obtain s3 where ev: "run_event ET_AGENT_COMPLETED summary (Some (rl_name r)) [] None
        (s2\<lparr>cur := mark_agent_stage (rl_name r) (cur s2)\<rparr>) = (Inr (), s3)"
      and rr: "run_roles gv rs s3 = (Inr x, t)"
      using rest by (auto simp: thenM_Inr)
    have "\<not> has_pending (cur s3)"
      using run_event_view [OF ev] False by (simp add: has_pending_def mark_agent_stage_def)
    then show ?thesis using Cons.IH [OF rr] Cons.prems(3) by simp
  qed
qed simp

section \<open>Endings\<close>

definition ended :: "trajectory_state \<Rightarrow> bool" where
  "ended st \<longleftrightarrow> ts_current_agent st = None \<and>
     ((ts_status st, ts_workflow_stage st) \<in>
        {(RS_COMPLETED, WS_COMPLETE), (RS_BLOCKED, WS_BLOCKED), (RS_FAILED, WS_FAILED)} \<or>
      (ts_status st, ts_workflow_stage st) = (RS_PENDING_APPROVAL, WS_AWAITING_APPROVAL) \<and>
        has_pending st)"

lemma handle_failure_ends:
  assumes "handle_failure oc e s = (r, t)"
  shows "(ts_status (cur t), ts_workflow_stage (cur t)) \<in> {(RS_BLOCKED, WS_BLOCKED), (RS_FAILED, WS_FAILED)}"
    "ts_current_agent (cur t) = None"
  using assms
  by (auto simp: handle_failure_def split: exc.splits if_splits dest!: run_event_view)

lemma finish_run_ends:
  assumes "finish_run oc oid s = (r, t)"
    and "has_pending (cur s) \<Longrightarrow> ts_workflow_stage (cur s) = WS_AWAITING_APPROVAL"
  shows "ended (cur t)"
  using assms
  by (auto simp: finish_run_def ended_def has_pending_def split: if_splits dest!: run_event_view)

lemma run_body_ends:
  assumes "catchM (thenM (run_roles gv rs) (finish_run oc oid)) (handle_failure oc') s = (Inr x, t)"
    and "\<not> has_pending (cur s)"
  shows "ended (cur t)"
proof -
  obtain q u where body: "thenM (run_roles gv rs) (finish_run oc oid) s = (q, u)" by fastforce
  show ?thesis
  proof (cases q)
    case (Inl e)
    then have "handle_failure oc' e u = (Inr x, t)" using assms(1) body by (simp add: catchM_def)
    from handle_failure_ends [OF this] show ?thesis by (auto simp: ended_def)
  next
    case (Inr y)
    obtain w v where v: "run_roles gv rs s = (Inr w, v)" "finish_run oc oid v = (Inr y, u)"
      using body [unfolded Inr] by (elim thenM_InrE)
    have "t = u" using assms(1) body Inr by (simp add: catchM_def)
    then show ?thesis
      using finish_run_ends [OF v(2) run_roles_waits [OF v(1) assms(2)]] by simp
  qed
qed

lemma create_object_cur:
  assumes "create_object st s = (Inr x, t)"
  shows "core (cur t) = core st"
proof -
  obtain q u where q: "create_run (s\<lparr>cur := st\<rparr>) = (q, u)" by fastforce
  then show ?thesis
    using assms by (cases rule: create_run_cases [OF q]) (auto simp: create_object_def created_def Let_def)
qed

lemma run_ends:
  assumes "run oc order_id mode scenario mandate config s = (Inr st, t)"
  shows "ended st \<and> cur t = st"
proof -
  obtain m c s1 s2 s3 s4 tid summary details key x y z where
    cr: "create_object ((new_trajectory tid order_id)\<lparr>ts_status := RS_RUNNING, ts_mode := mode,
           ts_scenario := scenario, ts_scenario_config := Some c, ts_mandate := Some m,
           ts_policy_version := sm_policy_version m,
           ts_spend_committed_minor := sc_prior_committed_minor c\<rparr>) s1 = (Inr x, s2)"
    and ev: "run_event ET_RUN_STARTED summary None details key s2 = (Inr y, s3)"
    and body: "catchM (thenM (run_roles (oc_governor oc) (oc_roles oc)) (finish_run oc order_id))
           (handle_failure oc) s3 = (Inr z, s4)"
    and end': "(getM cur :: trajectory_state top) s4 = (Inr st, t)"
    using assms unfolding run_def Let_def by (elim bindM_InrE thenM_InrE) (rule that)
  have "\<not> has_pending (cur s2)"
    using core_view [OF create_object_cur [OF cr]] by (simp add: has_pending_def new_trajectory_def)
  then have "\<not> has_pending (cur s3)"
    using run_event_view [OF ev] by (simp add: has_pending_def)
  then show ?thesis using run_body_ends [OF body] end' by auto
qed

section \<open>The caller's object stays current\<close>

definition in_step :: "'z store_sys_scheme \<Rightarrow> bool" where
  "in_step s \<longleftrightarrow> (\<exists>stored. dget (ms_runs (db s)) (ts_trace_id (cur s)) = Some stored \<and>
     ts_storage_revision (cur s) = ts_storage_revision stored)"

lemma live_iff: "live s \<longleftrightarrow> ledger_inv s \<and> in_step s"
  by (simp add: live_def in_step_def)

lemma append_event_in_step [keeps]: "keepsI in_step (append_event d)"
proof (rule keepsII)
  fix s t :: "'a store_sys_scheme" and r
  assume "in_step s" and run: "append_event d s = (r, t)"
  then show "in_step t"
    by (cases rule: append_event_cases [OF run])
      (auto simp: in_step_def appended_cur_def appended_db_def Let_def)
qed

lemma in_step_frame [keeps]:
  "(\<And>ms. ms_runs (f ms) = ms_runs ms) \<Longrightarrow> keepsI in_step (set_db f)"
  "(\<And>st. ts_trace_id (g st) = ts_trace_id st \<and> ts_storage_revision (g st) = ts_storage_revision st) \<Longrightarrow>
    keepsI in_step (set_cur g)"
  "keepsI in_step utc_now" "keepsI in_step uuid4" "keepsI in_step persist_state"
  by (auto simp: keepsI_def in_step_def utc_now_def uuid4_def persist_state_def Let_def)

lemma steps_in_step [keeps]:
  "keepsI in_step (append_decision dec)" "keepsI in_step (add_approval a)"
  "keepsI in_step (put_effect_receipt rc)"
  unfolding append_decision_def add_approval_def put_effect_receipt_def Let_def
  by (intro keeps; simp)+

lemma tools_in_step [keeps]: "keepsI in_step (execute fs rg tool args)" "keepsI in_step elapsed_ms"
  unfolding execute_def
  by (intro keeps keepsI_updM, simp add: in_step_def) (simp add: keepsI_def in_step_def elapsed_ms_def)

lemma create_object_in_step [keeps]: "keepsI in_step (create_object st)"
proof (rule keepsII)
  fix s t :: "'a store_sys_scheme" and r
  assume s: "in_step s" and run: "create_object st s = (r, t)"
  obtain q u where q: "create_run (s\<lparr>cur := st\<rparr>) = (q, u)" by fastforce
  then show "in_step t"
    using s run by (cases rule: create_run_cases [OF q])
      (auto simp: create_object_def created_def Let_def in_step_def)
qed

lemma keepsI_live: "(\<And>ms0. keepsI (ledger_from ms0) m) \<Longrightarrow> keepsI in_step m \<Longrightarrow> keepsI live m"
  by (auto simp: keepsI_def live_iff ledger_from_def) (metis grows_refl)

interpretation current: store_invariant live
proof unfold_locales
  fix f :: "trajectory_state \<Rightarrow> trajectory_state"
  assume f: "\<And>st. ledger_fields (f st) = ledger_fields st"
  then have "ts_trace_id (f st) = ts_trace_id st \<and> ts_storage_revision (f st) = ts_storage_revision st" for st
    using f [of st] by (simp add: ledger_fields_def)
  then show "keepsI live (set_cur f)" using f by (intro keepsI_live keeps)
qed (intro keepsI_live keeps)+

section \<open>Runs return\<close>

lemma run_event_returns:
  assumes "live s" "normal (PDict details)" "\<And>k. key = Some k \<Longrightarrow> key_free s k"
  shows "\<exists>t. run_event et summary who details key s = (Inr (), t) \<and> live t"
proof -
  let ?d = "\<lparr>ed_event_type = et, ed_summary = summary, ed_details = details, ed_agent = who,
    ed_tool_name = None, ed_effect_class = None, ed_idempotency_key = key\<rparr>"
  have "\<exists>e t. append_event ?d s = (Inr e, t) \<and> live t"
    by (rule append_event_lives [OF assms(1), of ?d]) (use assms(2,3) in auto)
  then show ?thesis by (auto simp: run_event_def bindM_run(1))
qed

lemma failure_details_normal [simp]: "normal (PDict (failure_details oc e who))"
  by (cases e) (auto simp: failure_details_def)

lemma live_status:
  "live s \<Longrightarrow> live (s\<lparr>cur := (cur s)\<lparr>ts_status := a, ts_workflow_stage := b, ts_current_agent := c,
     ts_error := d\<rparr>\<rparr>)"
  by (erule live_cong) simp_all

lemma handle_failure_returns:
  assumes "live s"
  shows "\<exists>t. handle_failure oc e s = (Inr (), t)"
proof -
  have ok: "\<exists>t. run_event et summary who details None (s\<lparr>cur := (cur s)\<lparr>ts_status := a,
      ts_workflow_stage := b, ts_current_agent := c, ts_error := d\<rparr>\<rparr>) = (Inr (), t)"
    if "normal (PDict details)" for et summary who details a b c d
    using run_event_returns [OF live_status [OF assms] that] by blast
  show ?thesis
  proof (cases e)
    case (Manifest c m)
    then show ?thesis
      using failure_details_normal [of oc e "ts_current_agent (cur s)"]
      by (cases "isinstance c PolicyBlockedError") (simp_all add: handle_failure_def ok)
  next
    case (PyExc k m)
    then show ?thesis
      using failure_details_normal [of oc e "ts_current_agent (cur s)"]
      by (simp add: handle_failure_def ok)
  qed
qed

lemma started_details_normal:
  assumes "validate_settings (oc_settings oc) = Inr ()"
  shows "normal (PDict (started_details oc mode scenario m v))"
proof -
  have "timeout_ok (se_timeout_seconds (oc_settings oc))"
    using assms by (auto simp: validate_settings_def split: if_splits sum.splits)
  then show ?thesis
    by (cases "se_timeout_seconds (oc_settings oc)")
      (auto simp: started_details_def describe_settings_def timeout_ok_def)
qed

lemma create_object_fresh:
  assumes inv: "ledger_inv s" and fresh: "dget (ms_runs (db s)) (ts_trace_id st) = None"
    and st: "ts_events st = []" "ts_next_sequence st = 1"
  shows "\<exists>t. create_object st s = (Inr (), t) \<and> live t \<and> (\<forall>k. key_free t k)"
proof -
  obtain q u where q: "create_run (s\<lparr>cur := st\<rparr>) = (q, u)" by fastforce
  from q show ?thesis
  proof (cases rule: create_run_cases)
    case (raised e)
    then show ?thesis
      using q fresh st by (simp add: create_run_def dmember_def Let_def make_stored_trace_def)
  next
    case created
    then have run: "create_object st s = (Inr (), u)" using q by (simp add: create_object_def)
    have "ledger_inv u"
      using keepsID [OF create_object_keeps _ run, of "db s"] inv by (simp add: ledger_from_def)
    moreover have "in_step u" using created by (auto simp: created_def in_step_def Let_def)
    moreover have "dget (ms_event_replays (db s)) (ts_trace_id st, k) = None" for k
      using inv fresh
      by (cases "dget (ms_event_replays (db s)) (ts_trace_id st, k)")
        (fastforce simp: ledger_inv_def store_ok_def replay_ok_def)+
    then have "key_free u k" for k
      using created by (auto simp: created_def Let_def key_free_def)
    ultimately show ?thesis using run by (auto simp: live_iff)
  qed
qed

lemma legacy_run_returns:
  assumes "ledger_inv s" "oc_roles oc = legacy_roles" "validate_settings (oc_settings oc) = Inr ()"
    and "get_order (oc_loader oc) order_id = Inr o'"
    and fresh: "dget (ms_runs (db s)) (''TR-'' @ wd_uuids (wld s) (wd_uuid_pos (wld s))) = None"
  shows "\<exists>st t. run oc order_id mode scenario (Some m) (Some c) s = (Inr st, t) \<and> ended st"
proof -
  let ?s = "s\<lparr>wld := (wld s)\<lparr>wd_uuid_pos := Suc (wd_uuid_pos (wld s))\<rparr>\<rparr>"
  let ?st = "(new_trajectory (''TR-'' @ wd_uuids (wld s) (wd_uuid_pos (wld s))) order_id)\<lparr>
     ts_status := RS_RUNNING, ts_mode := mode, ts_scenario := scenario, ts_scenario_config := Some c,
     ts_mandate := Some m, ts_policy_version := sm_policy_version m,
     ts_spend_committed_minor := sc_prior_committed_minor c\<rparr>"
  obtain s2 where cr: "create_object ?st ?s = (Inr (), s2)" "live s2" "\<And>k. key_free s2 k"
    using create_object_fresh [of ?s ?st] assms(1) fresh by (auto simp: new_trajectory_def)
  obtain s3 where ev: "run_event ET_RUN_STARTED (''Started '' @ scenario_name_value scenario @
      '' journey for '' @ order_id @ '' in '' @ governance_mode_value mode @ '' mode.'') None
      (started_details oc mode scenario m (ts_policy_version ?st))
      (Some (''run:'' @ ts_trace_id ?st @ '':started'')) s2 = (Inr (), s3)" "live s3"
    using run_event_returns [OF cr(2) started_details_normal [OF assms(3)]] cr(3) by blast
  obtain q u where body: "thenM (run_roles (oc_governor oc) (oc_roles oc)) (finish_run oc order_id) s3
      = (q, u)" by fastforce
  have "keepsI live (thenM (run_roles (oc_governor oc) (oc_roles oc)) (finish_run oc order_id))"
    unfolding finish_run_def
    by (intro keeps current.base current.run_roles_keeps)
      (simp_all add: assms(2) current.legacy_roles_keep)
  from keepsID [OF this ev(2) body] have u: "live u" .
  obtain x v where "catchM (thenM (run_roles (oc_governor oc) (oc_roles oc)) (finish_run oc order_id))
      (handle_failure oc) s3 = (Inr x, v)"
    using body handle_failure_returns [OF u, of oc "projl q"] by (cases q) (auto simp: catchM_def)
  then have "run oc order_id mode scenario (Some m) (Some c) s = (Inr (cur v), v)"
    using assms(4) cr(1) ev(1)
    by (simp add: run_def Let_def uuid4_def bindM_run thenM_run)
  with run_ends [OF this] show ?thesis by blast
qed

text \<open>
  C35. A run that returns has ended in one of four ways, whatever its roles did, raised or left
  behind: completed, blocked or failed, with the matching stage, or paused at the approval
  stage with an approval to wait for; no role is acting any more, and the returned object is
  the one that is stored from then on.\<close>

theorem runs_end_in_a_matching_stage:
  assumes "run oc order_id mode scenario mandate config s = (Inr st, t)"
  shows "ended st \<and> cur t = st"
  by (rule run_ends) (rule assms)


section \<open>Witnesses\<close>

definition sample_orchestrator :: orchestrator where
  "sample_orchestrator =
     \<lparr>oc_roles = legacy_roles, oc_governor = sample_governor, oc_loader = gv_loader sample_governor,
      oc_settings = default_settings\<rparr>"

lemma sample_orchestrator_facts:
  "ledger_inv (sample_run mode)" "oc_roles sample_orchestrator = legacy_roles"
  "validate_settings (oc_settings sample_orchestrator) = Inr ()"
  "get_order (oc_loader sample_orchestrator) ''ORD-8842'' = Inr repo_order"
  "dget (ms_runs (db (sample_run mode)))
     (''TR-'' @ wd_uuids (wld (sample_run mode)) (wd_uuid_pos (wld (sample_run mode)))) = None"
  using sample_run_live [of mode]
  by (simp_all add: live_def sample_orchestrator_def default_settings_def validate_settings_def
      timeout_ok_def sample_governor_def repo_get_order sample_run_def sample_world_def
      show_nat.simps digit_char_def)


theorem runs_end_in_a_matching_stage_witness:
  "\<exists>st t. run sample_orchestrator ''ORD-8842'' GM_ENFORCE SN_BENIGN (Some (repo_mandate GM_ENFORCE))
     (Some (repo_scenario SN_BENIGN)) (sample_run GM_ENFORCE) = (Inr st, t) \<and> ended st \<and> cur t = st"
proof -
  obtain st t where run: "run sample_orchestrator ''ORD-8842'' GM_ENFORCE SN_BENIGN
      (Some (repo_mandate GM_ENFORCE)) (Some (repo_scenario SN_BENIGN)) (sample_run GM_ENFORCE) = (Inr st, t)"
    using legacy_run_returns [OF sample_orchestrator_facts] by blast
  with runs_end_in_a_matching_stage [OF run] show ?thesis by blast
qed

end
