(* ===== verification/Dashboard.thy ===== *)
theory Dashboard
  imports Governor
begin

text \<open>
  \<open>packages/projections/dashboard.py\<close>: the read model of the dashboard, and what its numbers mean:
  the risk score against its declared method, and the spend line against the trajectory.
\<close>

section \<open>Projections\<close>

record risk_signal_point =
  rp_sequence :: int
  rp_decision_id :: string
  rp_family :: string
  rp_reason_code :: string
  rp_outcome :: decision_outcome
  rp_delta :: int
  rp_total :: int

record spend_point =
  sp_sequence :: int
  sp_label :: string
  sp_committed_minor :: int
  sp_reserved_minor :: int
  sp_projected_minor :: int
  sp_ceiling_minor :: int

record weight_attempt =
  wa_sequence :: int
  wa_proposal_id :: string
  wa_attempted_value :: int
  wa_unit :: string
  wa_fact_id :: string
  wa_policy_outcome :: decision_outcome
  wa_reason_code :: string

record weight_provenance_projection =
  wp_fact_id :: string
  wp_authoritative_value :: int
  wp_unit :: string
  wp_source_id :: string
  wp_source_hash :: string
  wp_attempts :: "weight_attempt list"
  wp_final_value :: "int option"

record dashboard_projection =
  dp_trace_id :: string
  dp_risk_signal_score :: int
  dp_risk_signal_method :: string
  dp_risk_points :: "risk_signal_point list"
  dp_spend_points :: "spend_point list"
  dp_weight_provenance :: "weight_provenance_projection option"
  dp_booking_confirmation_count :: nat
  dp_notification_count :: nat
  dp_exact_once_status :: string
  dp_failure_code :: "string option"

definition RISK_SIGNAL_METHOD :: string where
  "RISK_SIGNAL_METHOD = ''20_per_unique_non_allow_policy_family_capped_100''"

definition exact_once_status :: "trajectory_state \<Rightarrow> nat \<Rightarrow> nat \<Rightarrow> string" where
  "exact_once_status st bookings notifications =
     (if bookings > 1 \<or> notifications > 1 then ''violation''
      else if bookings = 1 \<and> notifications = 1 then ''confirmed_once''
      else if bookings = 1 then ''confirmation_once''
      else if ts_status st = RS_PENDING_APPROVAL then ''awaiting_approval''
      else if ts_status st = RS_CANCELLED then ''cancelled_without_confirmation''
      else ''no_commitment'')"

text \<open>The loop over \<open>reversed(state.events)\<close>.\<close>

fun failure_in :: "trace_event list \<Rightarrow> string option" where
  "failure_in [] = None"
| "failure_in (e # es) =
     (if te_event_type e \<noteq> ET_RUN_FAILED then failure_in es
      else
        case str_of (get_none (te_details e) ''error_code'') of
          Some code \<Rightarrow> Some code
        | None \<Rightarrow> Some ''UNEXPECTED_ERROR'')"

definition failure_code :: "trajectory_state \<Rightarrow> string option" where
  "failure_code st = failure_in (rev (ts_events st))"

fun collect_sequences :: "(string, int) dict \<Rightarrow> trace_event list \<Rightarrow> (string, int) dict" where
  "collect_sequences values [] = values"
| "collect_sequences values (e # es) =
     collect_sequences
       (if te_event_type e \<noteq> ET_POLICY_DECIDED then values
        else
          case str_of (get_none (te_details e) ''decision_id'') of
            Some i \<Rightarrow> dput i (te_sequence e) values
          | None \<Rightarrow> values)
       es"

definition decision_sequences :: "trajectory_state \<Rightarrow> (string, int) dict" where
  "decision_sequences st = collect_sequences [] (ts_events st)"

section \<open>Risk\<close>

record risk_state =
  ri_seen :: "string list"
  ri_total :: int
  ri_points :: "risk_signal_point list"

text \<open>The body of the inner loop, for a decision at the given sequence number.\<close>

definition risk_signal :: "int \<Rightarrow> decision \<Rightarrow> policy_signal \<Rightarrow> risk_state \<Rightarrow> risk_state" where
  "risk_signal sequence d p ri =
     (if ps_outcome p = DO_ALLOW then ri
      else if ps_family p \<in> set (ri_seen ri) then ri
      else
        let total = min 100 (ri_total ri + 20) in
        \<lparr>ri_seen = ps_family p # ri_seen ri, ri_total = total,
         ri_points = ri_points ri @
           [\<lparr>rp_sequence = sequence, rp_decision_id = dc_decision_id d, rp_family = ps_family p,
             rp_reason_code = ps_reason_code p, rp_outcome = ps_outcome p,
             rp_delta = total - ri_total ri, rp_total = total\<rparr>]\<rparr>)"

definition risk_decision :: "(string, int) dict \<Rightarrow> decision \<Rightarrow> risk_state \<Rightarrow> risk_state" where
  "risk_decision sequences d ri =
     (case dget sequences (dc_decision_id d) of
        None \<Rightarrow> ri
      | Some sequence \<Rightarrow> fold (risk_signal sequence d) (dc_reasons d) ri)"

definition build_risk_points :: "trajectory_state \<Rightarrow> risk_signal_point list" where
  "build_risk_points st =
     ri_points (fold (risk_decision (decision_sequences st)) (ts_decisions st)
       \<lparr>ri_seen = [], ri_total = 0, ri_points = []\<rparr>)"

section \<open>Spend\<close>

fun collect_prepares :: "(string, int) dict \<Rightarrow> trace_event list \<Rightarrow> (string, int) dict" where
  "collect_prepares seqs [] = seqs"
| "collect_prepares seqs (e # es) =
     collect_prepares
       (if te_event_type e \<noteq> ET_TOOL_SUCCEEDED \<or> te_tool_name e \<noteq> Some ''prepare_freight_booking''
        then seqs
        else
          case get_or (te_details e) ''result'' (PDict []) of
            PDict result \<Rightarrow>
              (case str_of (get_none result ''prepared_action_id'') of
                 Some i \<Rightarrow> dput i (te_sequence e) seqs
               | None \<Rightarrow> seqs)
          | _ \<Rightarrow> seqs)
       es"

definition prepared_point :: "int \<Rightarrow> int \<Rightarrow> prepared_action \<Rightarrow> spend_point" where
  "prepared_point limit sequence p =
     \<lparr>sp_sequence = sequence, sp_label = ''prepared'',
      sp_committed_minor = pa_spend_committed_at_prepare_minor p,
      sp_reserved_minor = pa_spend_reserved_after_minor p,
      sp_projected_minor = pa_spend_committed_at_prepare_minor p + pa_spend_reserved_after_minor p,
      sp_ceiling_minor = limit\<rparr>"

definition final_label :: "trajectory_state \<Rightarrow> string" where
  "final_label st =
     (if ts_status st = RS_PENDING_APPROVAL then ''pending''
      else if ts_status st = RS_CANCELLED then ''cancelled''
      else if (case ts_confirmed_booking_id st of None \<Rightarrow> False | Some b \<Rightarrow> b \<noteq> []) then ''confirmed''
      else ''current'')"

definition final_point :: "int \<Rightarrow> trajectory_state \<Rightarrow> spend_point" where
  "final_point limit st =
     \<lparr>sp_sequence = (if ts_events st = [] then 1 else te_sequence (last (ts_events st))),
      sp_label = final_label st, sp_committed_minor = ts_spend_committed_minor st,
      sp_reserved_minor = ts_spend_reserved_minor st,
      sp_projected_minor = ts_spend_committed_minor st + ts_spend_reserved_minor st,
      sp_ceiling_minor = limit\<rparr>"

definition start_point :: "int \<Rightarrow> trajectory_state \<Rightarrow> spend_point" where
  "start_point limit st =
     (let initial = (case ts_scenario_config st of
                       None \<Rightarrow> 0 | Some c \<Rightarrow> sc_prior_committed_minor c) in
      \<lparr>sp_sequence = 1, sp_label = ''start'', sp_committed_minor = initial, sp_reserved_minor = 0,
       sp_projected_minor = initial, sp_ceiling_minor = limit\<rparr>)"

definition prepared_points :: "int \<Rightarrow> trajectory_state \<Rightarrow> spend_point list" where
  "prepared_points limit st =
     (let seqs = collect_prepares [] (ts_events st);
          items = sort_key (\<lambda>p. (case dget seqs (pa_prepared_action_id p) of
                                   None \<Rightarrow> 10 ^ 9 | Some n \<Rightarrow> n, pa_prepared_action_id p))
                    (dvalues (ts_prepared_actions st))
      in List.map_filter (\<lambda>p. map_option (\<lambda>n. prepared_point limit n p)
           (dget seqs (pa_prepared_action_id p))) items)"

definition build_spend_points :: "trajectory_state \<Rightarrow> spend_point list" where
  "build_spend_points st =
     (case ts_mandate st of
        None \<Rightarrow> []
      | Some m \<Rightarrow>
          let limit = sm_spend_ceiling_minor m;
              points = start_point limit st # prepared_points limit st
          in if last points \<noteq> final_point limit st then points @ [final_point limit st]
             else points)"

section \<open>Weight\<close>

text \<open>\<open>isinstance(v, int) and not isinstance(v, bool)\<close>.\<close>

definition int_of :: "pyval \<Rightarrow> int option" where
  "int_of v = (case v of PInt i \<Rightarrow> Some i | _ \<Rightarrow> None)"

definition attempt_of ::
  "(string, decision) dict \<Rightarrow> trace_event \<Rightarrow> weight_attempt option" where
  "attempt_of decisions e =
     (case (str_of (get_none (te_details e) ''proposal_id''),
            get_or (te_details e) ''arguments'' (PDict [])) of
        (Some proposal_id, PDict arguments) \<Rightarrow>
          (case (int_of (get_none arguments ''weight_value''), dget decisions proposal_id) of
             (Some attempted, Some d) \<Rightarrow>
               Some \<lparr>wa_sequence = te_sequence e, wa_proposal_id = proposal_id,
                     wa_attempted_value = attempted,
                     wa_unit = py_str (get_or arguments ''weight_unit'' (PStr [])),
                     wa_fact_id = py_str (get_or arguments ''weight_fact_id'' (PStr [])),
                     wa_policy_outcome = dc_policy_outcome d, wa_reason_code = dc_reason_code d\<rparr>
           | _ \<Rightarrow> None)
      | _ \<Rightarrow> None)"

fun weight_events ::
  "(string, decision) dict \<Rightarrow> weight_attempt list \<Rightarrow> int option \<Rightarrow> trace_event list
    \<Rightarrow> weight_attempt list \<times> int option" where
  "weight_events decisions attempts final [] = (attempts, final)"
| "weight_events decisions attempts final (e # es) =
     (if te_tool_name e \<noteq> Some ''create_dispatch_plan'' then weight_events decisions attempts final es
      else if te_event_type e = ET_TOOL_ATTEMPTED then
        weight_events decisions
          (case attempt_of decisions e of None \<Rightarrow> attempts | Some a \<Rightarrow> attempts @ [a]) final es
      else if te_event_type e = ET_TOOL_SUCCEEDED then
        weight_events decisions attempts
          (case get_or (te_details e) ''result'' (PDict []) of
             PDict result \<Rightarrow>
               (case int_of (get_none result ''weight_kg'') of Some v \<Rightarrow> Some v | None \<Rightarrow> final)
           | _ \<Rightarrow> final) es
      else weight_events decisions attempts final es)"

definition build_weight_provenance ::
  "trajectory_state \<Rightarrow> weight_provenance_projection option" where
  "build_weight_provenance st =
     (case find (\<lambda>f. nf_name f = ''shipment_weight'') (dvalues (ts_facts st)) of
        None \<Rightarrow> None
      | Some f \<Rightarrow>
          let decisions = fold (\<lambda>d. dput (dc_proposal_id d) d) (ts_decisions st) [];
              (attempts, final) = weight_events decisions [] None (ts_events st)
          in Some \<lparr>wp_fact_id = nf_fact_id f, wp_authoritative_value = nf_value f,
                   wp_unit = nf_unit f, wp_source_id = nf_source_id f,
                   wp_source_hash = nf_source_hash f, wp_attempts = attempts,
                   wp_final_value = final\<rparr>)"

definition effect_count :: "string \<Rightarrow> trajectory_state \<Rightarrow> nat" where
  "effect_count tool st = length (filter (\<lambda>r. er_tool_name r = tool) (ts_effect_history st))"

definition build_dashboard_projection :: "trajectory_state \<Rightarrow> dashboard_projection" where
  "build_dashboard_projection st =
     (let risk_points = build_risk_points st;
          bookings = effect_count ''confirm_freight_booking'' st;
          notifications = effect_count ''write_tracking_outbox'' st
      in \<lparr>dp_trace_id = ts_trace_id st,
          dp_risk_signal_score = (if risk_points = [] then 0 else rp_total (last risk_points)),
          dp_risk_signal_method = RISK_SIGNAL_METHOD, dp_risk_points = risk_points,
          dp_spend_points = build_spend_points st,
          dp_weight_provenance = build_weight_provenance st,
          dp_booking_confirmation_count = bookings, dp_notification_count = notifications,
          dp_exact_once_status = exact_once_status st bookings notifications,
          dp_failure_code = failure_code st\<rparr>)"

section \<open>The risk score\<close>

text \<open>The families that a decision on record has flagged.\<close>

definition flagged :: "decision \<Rightarrow> string set" where
  "flagged d = ps_family ` {p \<in> set (dc_reasons d). ps_outcome p \<noteq> DO_ALLOW}"

definition flagged_families :: "trajectory_state \<Rightarrow> string set" where
  "flagged_families st =
     \<Union> (flagged ` {d \<in> set (ts_decisions st). dget (decision_sequences st) (dc_decision_id d) \<noteq> None})"

definition risk_ok :: "string set \<Rightarrow> risk_state \<Rightarrow> bool" where
  "risk_ok F ri \<longleftrightarrow>
     set (ri_seen ri) = F \<and> ri_total ri = min 100 (20 * int (card F)) \<and> distinct (ri_seen ri) \<and>
     (if ri_points ri = [] then ri_total ri = 0 else rp_total (last (ri_points ri)) = ri_total ri) \<and>
     sum_list (map rp_delta (ri_points ri)) = ri_total ri \<and>
     map rp_family (ri_points ri) = rev (ri_seen ri)"

lemma risk_signal_ok:
  assumes "risk_ok F ri"
  shows "risk_ok (if ps_outcome p = DO_ALLOW then F else insert (ps_family p) F)
    (risk_signal sequence d p ri)"
proof (cases "ps_outcome p = DO_ALLOW \<or> ps_family p \<in> F")
  case True
  have "risk_signal sequence d p ri = ri"
    using True assms by (auto simp: risk_ok_def risk_signal_def)
  moreover have "(if ps_outcome p = DO_ALLOW then F else insert (ps_family p) F) = F"
    using True by auto
  ultimately show ?thesis using assms by simp
next
  case False
  have "finite F" "F = set (ri_seen ri)" using assms by (auto simp: risk_ok_def)
  then have card: "card (insert (ps_family p) F) = Suc (card F)" using False by simp
  have "ri_total ri = min 100 (20 * int (card F))" using assms by (simp add: risk_ok_def)
  then have total: "min 100 (ri_total ri + 20) = min 100 (20 * int (Suc (card F)))" by (simp add: min_def)
  have "risk_signal sequence d p ri =
      \<lparr>ri_seen = ps_family p # ri_seen ri, ri_total = min 100 (ri_total ri + 20),
       ri_points = ri_points ri @
         [\<lparr>rp_sequence = sequence, rp_decision_id = dc_decision_id d, rp_family = ps_family p,
           rp_reason_code = ps_reason_code p, rp_outcome = ps_outcome p,
           rp_delta = min 100 (ri_total ri + 20) - ri_total ri,
           rp_total = min 100 (ri_total ri + 20)\<rparr>]\<rparr>"
    using False \<open>F = set (ri_seen ri)\<close> by (simp add: risk_signal_def Let_def)
  then show ?thesis
    using assms False card unfolding total by (simp add: risk_ok_def)
qed

lemma risk_signals_ok:
  "risk_ok F ri \<Longrightarrow>
   risk_ok (F \<union> ps_family ` {p \<in> set ps. ps_outcome p \<noteq> DO_ALLOW}) (fold (risk_signal n d) ps ri)"
proof (induction ps arbitrary: F ri)
  case (Cons p ps)
  have "F \<union> ps_family ` {q \<in> set (p # ps). ps_outcome q \<noteq> DO_ALLOW} =
      (if ps_outcome p = DO_ALLOW then F else insert (ps_family p) F) \<union>
      ps_family ` {q \<in> set ps. ps_outcome q \<noteq> DO_ALLOW}"
    by auto
  with Cons.IH [OF risk_signal_ok [OF Cons.prems]] show ?case by simp
qed simp

lemma risk_decisions_ok:
  "risk_ok F ri \<Longrightarrow>
   risk_ok (F \<union> \<Union> (flagged ` {d \<in> set ds. dget seqs (dc_decision_id d) \<noteq> None}))
     (fold (risk_decision seqs) ds ri)"
proof (induction ds arbitrary: F ri)
  case (Cons d ds)
  let ?G = "\<lambda>ds. \<Union> (flagged ` {d \<in> set ds. dget seqs (dc_decision_id d) \<noteq> None})"
  show ?case
  proof (cases "dget seqs (dc_decision_id d)")
    case None
    have "?G (d # ds) = ?G ds" using None by auto
    then show ?thesis using Cons.IH [OF Cons.prems] None by (simp add: risk_decision_def)
  next
    case (Some n)
    have "?G (d # ds) = flagged d \<union> ?G ds" using Some by auto
    moreover have "risk_ok (F \<union> flagged d) (risk_decision seqs d ri)"
      using risk_signals_ok [OF Cons.prems] Some by (simp add: risk_decision_def flagged_def)
    ultimately show ?thesis using Cons.IH [of "F \<union> flagged d"] by (simp add: Un_assoc)
  qed
qed simp

lemma risk_points_ok:
  obtains ri where "build_risk_points st = ri_points ri" "risk_ok (flagged_families st) ri"
proof
  let ?ri = "fold (risk_decision (decision_sequences st)) (ts_decisions st)
    \<lparr>ri_seen = [], ri_total = 0, ri_points = []\<rparr>"
  show "build_risk_points st = ri_points ?ri" by (simp add: build_risk_points_def)
  show "risk_ok (flagged_families st) ?ri"
  proof -
    have "risk_ok {} \<lparr>ri_seen = [], ri_total = 0, ri_points = []\<rparr>" by (simp add: risk_ok_def)
    from risk_decisions_ok [OF this] show ?thesis by (simp add: flagged_families_def)
  qed
qed

text \<open>
  C37. The dashboard's risk score is what its declared method says: twenty for each distinct
  policy family that a decision on record flagged with an outcome other than ALLOW, capped at
  one hundred; the plotted increments add up to it and each family is plotted once.\<close>

theorem risk_score_is_its_method:
  "dp_risk_signal_score (build_dashboard_projection st) =
     min 100 (20 * int (card (flagged_families st))) \<and>
   sum_list (map rp_delta (dp_risk_points (build_dashboard_projection st))) =
     dp_risk_signal_score (build_dashboard_projection st) \<and>
   set (map rp_family (dp_risk_points (build_dashboard_projection st))) = flagged_families st \<and>
   distinct (map rp_family (dp_risk_points (build_dashboard_projection st)))"
proof -
  obtain ri where ri: "build_risk_points st = ri_points ri" "risk_ok (flagged_families st) ri"
    by (rule risk_points_ok)
  then have "map rp_family (ri_points ri) = rev (ri_seen ri)" "set (ri_seen ri) = flagged_families st"
    "distinct (ri_seen ri)"
    by (simp_all add: risk_ok_def)
  then show ?thesis
    using ri by (auto simp: build_dashboard_projection_def Let_def risk_ok_def split: if_splits)
qed

section \<open>The spend line\<close>

text \<open>
  On every point of the dashboard's spend line the projection is the committed and the
  reserved amount together and the ceiling is that of the mandate; the line starts with what was
  committed before the run and ends with the trajectory's current amounts; between them it shows
  each prepared action at most as often as it is on record.\<close>

theorem spend_line_is_consistent:
  assumes "ts_mandate st = Some m"
  shows "(\<forall>p \<in> set (dp_spend_points (build_dashboard_projection st)).
       sp_projected_minor p = sp_committed_minor p + sp_reserved_minor p \<and>
       sp_ceiling_minor p = sm_spend_ceiling_minor m) \<and>
     hd (dp_spend_points (build_dashboard_projection st)) = start_point (sm_spend_ceiling_minor m) st \<and>
     last (dp_spend_points (build_dashboard_projection st)) = final_point (sm_spend_ceiling_minor m) st \<and>
     length (dp_spend_points (build_dashboard_projection st)) \<le> length (ts_prepared_actions st) + 2"
proof -
  let ?c = "sm_spend_ceiling_minor m"
  have mid: "sp_projected_minor p = sp_committed_minor p + sp_reserved_minor p \<and> sp_ceiling_minor p = ?c"
    if "p \<in> set (prepared_points ?c st)" for p
    using that
    by (auto simp: prepared_points_def Let_def List.map_filter_def prepared_point_def)
  have "length (prepared_points ?c st) \<le> length (ts_prepared_actions st)"
    by (simp add: prepared_points_def Let_def List.map_filter_def)
      (metis (no_types, lifting) length_filter_le length_map length_sort)
  then show ?thesis
    using assms mid
    by (auto simp: build_dashboard_projection_def Let_def build_spend_points_def start_point_def
        final_point_def split: if_splits)
qed

theorem spend_line_is_consistent_witness:
  "last (dp_spend_points (build_dashboard_projection
     ((new_trajectory ''TR-1'' ''ORD-1'')\<lparr>ts_mandate := Some
        \<lparr>sm_mandate_id = ''M-1'', sm_order_id = ''ORD-1'', sm_mode = GM_ENFORCE, sm_currency = ''INR'',
         sm_spend_ceiling_minor = 10, sm_approval_threshold_minor = 5, sm_cargo_class = ''frozen'',
         sm_allowed_effect_classes = {}, sm_policy_version = ''demo-v1''\<rparr>,
        ts_spend_committed_minor := 4\<rparr>)))
   = \<lparr>sp_sequence = 1, sp_label = ''current'', sp_committed_minor = 4, sp_reserved_minor = 0,
      sp_projected_minor = 4, sp_ceiling_minor = 10\<rparr>"
  using spend_line_is_consistent [of "(new_trajectory ''TR-1'' ''ORD-1'')\<lparr>ts_mandate := Some
        \<lparr>sm_mandate_id = ''M-1'', sm_order_id = ''ORD-1'', sm_mode = GM_ENFORCE, sm_currency = ''INR'',
         sm_spend_ceiling_minor = 10, sm_approval_threshold_minor = 5, sm_cargo_class = ''frozen'',
         sm_allowed_effect_classes = {}, sm_policy_version = ''demo-v1''\<rparr>,
        ts_spend_committed_minor := 4\<rparr>"]
  by (simp add: final_point_def new_trajectory_def final_label_def)

end
