(* ===== verification/Observer.thy ===== *)
theory Observer
  imports Runtime_Invariants
begin

text \<open>
  \<open>packages/governor/observer.py\<close>: the boundary that records governed calls without deciding on
  them.
\<close>

record observer =
  ob_registry :: tool_registry
  ob_loader :: fixtures
  ob_max_tool_calls :: int

definition observed_arguments :: "string \<Rightarrow> pydict \<Rightarrow> pydict" where
  "observed_arguments tool_name arguments =
     (let safe = primitive_dict arguments in
      if tool_name = ''write_tracking_outbox'' \<and> dmember ''message'' safe
      then dput ''message'' (PStr ''[synthetic tracking message]'') safe else safe)"

definition observed_event ::
  "event_type \<Rightarrow> string \<Rightarrow> agent_name \<Rightarrow> string \<Rightarrow> effect_class \<Rightarrow> pydict \<Rightarrow> unit top" where
  "observed_event et summary agent tool_name effect details =
     bindM (append_event (tool_event et summary agent tool_name (Some effect) details None))
     (\<lambda>_. returnM ())"

definition observed_failure :: "agent_name \<Rightarrow> string \<Rightarrow> effect_class \<Rightarrow> string \<Rightarrow> unit top" where
  "observed_failure agent tool_name effect message =
     observed_event ET_TOOL_FAILED message agent tool_name effect [(''error'', PStr message)]"

text \<open>The tool itself, with the handlers that record its failure.\<close>

definition attempt_tool ::
  "observer \<Rightarrow> agent_name \<Rightarrow> string \<Rightarrow> effect_class \<Rightarrow> pydict \<Rightarrow> tool_value top" where
  "attempt_tool ob agent tool_name effect arguments =
     catchM (execute (ob_loader ob) (ob_registry ob) tool_name arguments)
       (\<lambda>e. if manifest_exc e
            then thenM (observed_failure agent tool_name effect (exc_message e)) (raiseM e)
            else
              let message = ''Tool '' @ tool_name @ '' failed unexpectedly.'' in
              thenM (observed_failure agent tool_name effect message)
                (raiseM (Manifest ToolExecutionError message)))"

definition observe_tool :: "observer \<Rightarrow> agent_name \<Rightarrow> string \<Rightarrow> pydict \<Rightarrow> tool_value top" where
  "observe_tool ob agent tool_name arguments =
     bindM (liftR (get_definition (ob_registry ob) tool_name)) (\<lambda>d.
     if td_owner d \<noteq> agent
     then raiseM (Manifest ToolOwnershipError
            (''Agent '' @ agent_name_value agent @ '' does not own tool '' @ tool_name @ ''.''))
     else
       bindM (getM cur) (\<lambda>st.
       if int (ts_tool_call_count st) \<ge> ob_max_tool_calls ob
       then raiseM (Manifest ToolExecutionError
              (''Trace '' @ ts_trace_id st @ '' exceeded the tool-call limit.''))
       else
         let effect = td_effect_class d in
         thenM (set_cur (\<lambda>st. st\<lparr>ts_tool_call_count := Suc (ts_tool_call_count st)\<rparr>))
         (thenM (observed_event ET_TOOL_ATTEMPTED
            (agent_name_value agent @ '' attempted '' @ tool_name @ ''.'') agent tool_name effect
            [(''arguments'', PDict (observed_arguments tool_name arguments))])
         (thenM (observed_event ET_GOVERNANCE_OBSERVED
            (''Observed '' @ tool_name @ ''; Checkpoint 1 does not enforce business policy.'')
            agent tool_name effect
            [(''outcome'', PStr ''ALLOW''), (''enforced'', PBool False),
             (''reason_code'', PStr ''CHECKPOINT_1_OBSERVE_ONLY'')])
         (bindM (attempt_tool ob agent tool_name effect arguments) (\<lambda>v.
          thenM (observed_event ET_TOOL_SUCCEEDED (tool_name @ '' completed successfully.'')
            agent tool_name effect [(''result'', to_primitive (value_obj v))])
          (returnM v)))))))"

section \<open>What is recorded\<close>

context store_invariant
begin

lemma observe_tool_keeps: "keepsI I (observe_tool ob agent tool args)"
  unfolding observe_tool_def attempt_tool_def observed_failure_def observed_event_def Let_def
  by (intro keeps store_base; simp)

end

lemma observed_event_cur:
  assumes "observed_event et summary agent tool effect details s = (Inr x, t)"
  obtains e where "cur t = appended_cur (cur s) e" "te_event_type e = et"
    "te_agent e = Some agent" "te_tool_name e = Some tool" "tools t = tools s"
proof -
  let ?d = "tool_event et summary agent tool (Some effect) details None"
  obtain e where run: "append_event ?d s = (Inr e, t)"
    using assms by (auto simp: observed_event_def bindM_Inr)
  then show ?thesis
  proof (cases rule: append_event_cases)
    case (replayed e' fp)
    then show ?thesis by (simp add: find_replay_def tool_event_def)
  next
    case (appended e' head fp)
    then show ?thesis
      using that [of e'] tools_more [of t s]
      by (auto simp: is_new_event_def new_event_def tool_event_def)
  qed simp
qed

lemma execute_cur:
  assumes "execute fs rg tool args s = (r, t)"
  shows "cur t = cur s"
proof -
  have "keepsI (\<lambda>u. cur u = cur s) (execute fs rg tool args)"
    unfolding execute_def by (intro keeps keepsI_updM) simp
  from keepsID [OF this refl assms] show ?thesis .
qed

lemma attempt_tool_cur:
  assumes "attempt_tool ob agent tool effect args s = (Inr v, t)"
  shows "cur t = cur s"
  using assms execute_cur
  by (auto simp: attempt_tool_def catchM_def thenM_def bindM_def Let_def
      split: prod.splits sum.splits if_splits)

text \<open>
  An observed call that returns was made by the owner of the tool within the call limit, and
  it is on record: the trajectory has exactly three more events, the attempt, the observation and
  the success, all of this agent and tool, and counts one more call.\<close>

theorem observed_calls_are_recorded:
  assumes "observe_tool ob agent tool args s = (Inr v, t)"
  shows "\<exists>d e1 e2 e3. get_definition (ob_registry ob) tool = Inr d \<and> td_owner d = agent \<and>
     int (ts_tool_call_count (cur s)) < ob_max_tool_calls ob \<and>
     ts_tool_call_count (cur t) = Suc (ts_tool_call_count (cur s)) \<and>
     ts_events (cur t) = ts_events (cur s) @ [e1, e2, e3] \<and>
     map te_event_type [e1, e2, e3] = [ET_TOOL_ATTEMPTED, ET_GOVERNANCE_OBSERVED, ET_TOOL_SUCCEEDED] \<and>
     map te_agent [e1, e2, e3] = replicate 3 (Some agent) \<and>
     map te_tool_name [e1, e2, e3] = replicate 3 (Some tool)"
proof -
  obtain d where d: "get_definition (ob_registry ob) tool = Inr d" "td_owner d = agent"
    "int (ts_tool_call_count (cur s)) < ob_max_tool_calls ob"
    using assms by (auto simp: observe_tool_def bindM_Inr split: if_splits sum.splits)
  let ?s0 = "s\<lparr>cur := (cur s)\<lparr>ts_tool_call_count := Suc (ts_tool_call_count (cur s))\<rparr>\<rparr>"
  have "thenM (observed_event ET_TOOL_ATTEMPTED (agent_name_value agent @ '' attempted '' @ tool @ ''.'')
        agent tool (td_effect_class d) [(''arguments'', PDict (observed_arguments tool args))])
      (thenM (observed_event ET_GOVERNANCE_OBSERVED
         (''Observed '' @ tool @ ''; Checkpoint 1 does not enforce business policy.'') agent tool
         (td_effect_class d) [(''outcome'', PStr ''ALLOW''), (''enforced'', PBool False),
             (''reason_code'', PStr ''CHECKPOINT_1_OBSERVE_ONLY'')])
      (bindM (attempt_tool ob agent tool (td_effect_class d) args) (\<lambda>v.
       thenM (observed_event ET_TOOL_SUCCEEDED (tool @ '' completed successfully.'') agent tool
         (td_effect_class d) [(''result'', to_primitive (value_obj v))]) (returnM v)))) ?s0 = (Inr v, t)"
    using assms d by (simp add: observe_tool_def Let_def)
  then obtain x1 x2 x3 s1 s2 s3 t' w m1 m2 m3 d1 d2 d3 where
    ev: "observed_event ET_TOOL_ATTEMPTED m1 agent tool (td_effect_class d) d1 ?s0 = (Inr x1, s1)"
      "observed_event ET_GOVERNANCE_OBSERVED m2 agent tool (td_effect_class d) d2 s1 = (Inr x2, s2)"
      "observed_event ET_TOOL_SUCCEEDED m3 agent tool (td_effect_class d) d3 s3 = (Inr x3, t')"
    and ex: "attempt_tool ob agent tool (td_effect_class d) args s2 = (Inr w, s3)"
    and ret: "(returnM w :: tool_value top) t' = (Inr v, t)"
    by (elim thenM_InrE bindM_InrE) (rule that)
  have "t' = t" using ret by simp
  obtain e1 e2 e3 where e:
    "cur s1 = appended_cur (cur ?s0) e1" "te_event_type e1 = ET_TOOL_ATTEMPTED"
      "te_agent e1 = Some agent" "te_tool_name e1 = Some tool"
    "cur s2 = appended_cur (cur s1) e2" "te_event_type e2 = ET_GOVERNANCE_OBSERVED"
      "te_agent e2 = Some agent" "te_tool_name e2 = Some tool"
    "cur t = appended_cur (cur s3) e3" "te_event_type e3 = ET_TOOL_SUCCEEDED"
      "te_agent e3 = Some agent" "te_tool_name e3 = Some tool"
    using observed_event_cur [OF ev(1)] observed_event_cur [OF ev(2)]
      observed_event_cur [OF ev(3) [unfolded \<open>t' = t\<close>]] by metis
  have "cur s3 = cur s2"
    using attempt_tool_cur [OF ex] .
  then have "ts_events (cur t) = ts_events (cur s) @ [e1, e2, e3]"
    "ts_tool_call_count (cur t) = Suc (ts_tool_call_count (cur s))"
    by (simp_all add: e appended_cur_def)
  then show ?thesis using d e by (intro exI [of _ d] exI [of _ e1] exI [of _ e2] exI [of _ e3])
      (simp add: numeral_3_eq_3)
qed

section \<open>Witness\<close>

definition sample_observer :: observer where
  "sample_observer =
     \<lparr>ob_registry = gv_registry sample_governor, ob_loader = gv_loader sample_governor,
      ob_max_tool_calls = 20\<rparr>"

lemma observed_event_lives:
  assumes "live s" "normal (PDict details)"
  shows "\<exists>t. observed_event et summary agent tool effect details s = (Inr (), t) \<and> live t"
proof -
  have "\<exists>e t. append_event (tool_event et summary agent tool (Some effect) details None) s = (Inr e, t) \<and> live t"
    by (rule append_event_lives [OF assms(1), of "tool_event et summary agent tool (Some effect) details None"])
      (use assms(2) in \<open>auto simp: tool_event_def\<close>)
  then show ?thesis by (auto simp: observed_event_def bindM_run(1))
qed

lemma sample_observed:
  "\<exists>t. observe_tool sample_observer INVENTORY ''get_order'' sample_args (sample_run GM_SHADOW) =
     (Inr (VOrder repo_order), t)"
proof -
  let ?s = "sample_run GM_SHADOW"
  let ?s0 = "?s\<lparr>cur := (cur ?s)\<lparr>ts_tool_call_count := Suc (ts_tool_call_count (cur ?s))\<rparr>\<rparr>"
  have d: "get_definition (ob_registry sample_observer) ''get_order'' = Inr get_order_def'"
    using sample_lookup by (simp add: get_definition_def sample_observer_def lookup_tool_def)
  have "live ?s0" by (rule live_cong [OF sample_run_live]) simp_all
  moreover have "normal (PDict [(''arguments'', PDict (observed_arguments ''get_order'' sample_args))])"
    by (simp add: observed_arguments_def)
  ultimately obtain s1 where s1: "observed_event ET_TOOL_ATTEMPTED
      (agent_name_value INVENTORY @ '' attempted '' @ ''get_order'' @ ''.'') INVENTORY ''get_order'' EC_READ
      [(''arguments'', PDict (observed_arguments ''get_order'' sample_args))] ?s0 = (Inr (), s1)" "live s1"
    using observed_event_lives by blast
  have "normal (PDict [(''outcome'', PStr ''ALLOW''), (''enforced'', PBool False),
      (''reason_code'', PStr ''CHECKPOINT_1_OBSERVE_ONLY'')])" by simp
  then obtain s2 where s2: "observed_event ET_GOVERNANCE_OBSERVED
      (''Observed '' @ ''get_order'' @ ''; Checkpoint 1 does not enforce business policy.'') INVENTORY
      ''get_order'' EC_READ [(''outcome'', PStr ''ALLOW''), (''enforced'', PBool False),
             (''reason_code'', PStr ''CHECKPOINT_1_OBSERVE_ONLY'')] s1 = (Inr (), s2)" "live s2"
    using observed_event_lives [OF s1(2)] by blast
  have ex: "attempt_tool sample_observer INVENTORY ''get_order'' EC_READ sample_args s2 =
      (Inr (VOrder repo_order), s2)"
    using sample_execute by (simp add: attempt_tool_def catchM_def sample_observer_def)
  have "normal (PDict [(''result'', to_primitive (value_obj (VOrder repo_order)))])"
    by (simp add: value_obj_def order_obj_def)
  then obtain t where t: "observed_event ET_TOOL_SUCCEEDED (''get_order'' @ '' completed successfully.'')
      INVENTORY ''get_order'' EC_READ [(''result'', to_primitive (value_obj (VOrder repo_order)))] s2 =
      (Inr (), t)"
    using observed_event_lives [OF s2(2)] by blast
  have "td_owner get_order_def' = INVENTORY" "td_effect_class get_order_def' = EC_READ"
    "int (ts_tool_call_count (cur ?s)) < ob_max_tool_calls sample_observer"
    by (simp_all add: get_order_def'_def tool_def_def sample_observer_def sample_run_def
        sample_trajectory_def new_trajectory_def)
  then show ?thesis
    using d s1(1) s2(1) ex t by (simp add: observe_tool_def Let_def thenM_run(1) bindM_run(1))
qed

theorem observed_calls_are_recorded_witness:
  "\<exists>t e1 e2 e3. observe_tool sample_observer INVENTORY ''get_order'' sample_args (sample_run GM_SHADOW) =
     (Inr (VOrder repo_order), t) \<and> ts_events (cur t) = [e1, e2, e3] \<and>
     te_event_type e2 = ET_GOVERNANCE_OBSERVED"
proof -
  obtain t where t: "observe_tool sample_observer INVENTORY ''get_order'' sample_args
      (sample_run GM_SHADOW) = (Inr (VOrder repo_order), t)"
    using sample_observed by blast
  moreover have "ts_events (cur (sample_run GM_SHADOW)) = []"
    by (simp add: sample_run_def sample_trajectory_def new_trajectory_def)
  ultimately show ?thesis using observed_calls_are_recorded [OF t] by auto
qed

end
