(* ===== verification/Civil_Time.thy ===== *)
theory Civil_Time
  imports Keyspace
begin

text \<open>
  Instants as text: the calendar computation is inverted by \<open>date.toordinal\<close>, and
  \<open>datetime.fromisoformat\<close> reads back what the codecs and the ledger write.
\<close>

section \<open>The calendar\<close>

definition is_leap :: "int \<Rightarrow> bool" where
  "is_leap y \<longleftrightarrow> y mod 4 = 0 \<and> (y mod 100 \<noteq> 0 \<or> y mod 400 = 0)"

definition days_in_month :: "int \<Rightarrow> int \<Rightarrow> int" where
  "days_in_month y m = (if m = 2 \<and> is_leap y then 29 else month_days m)"

definition days_before_year :: "int \<Rightarrow> int" where
  "days_before_year y = (let w = y - 1 in w * 365 + w div 4 - w div 100 + w div 400)"

definition days_from_civil :: "int \<Rightarrow> int \<Rightarrow> int \<Rightarrow> int" where
  "days_from_civil y m d =
     days_before_year y + month_start m + (if m > 2 \<and> is_leap y then 1 else 0) + d - 719163"

lemma twelve: "1 \<le> (m :: int) \<Longrightarrow> m \<le> 12 \<Longrightarrow> m \<in> {1, 2, 3, 4, 5, 6, 7, 8, 9, 10, 11, 12}"
  by simp presburger

definition placed :: "bool \<Rightarrow> int \<Rightarrow> int \<Rightarrow> int \<Rightarrow> bool" where
  "placed leap n m d \<longleftrightarrow> 1 \<le> m \<and> m \<le> 12 \<and> 1 \<le> d \<and> d \<le> (if m = 2 \<and> leap then 29 else month_days m) \<and>
    month_start m + (if m > 2 \<and> leap then 1 else 0) + d = n + 1"

lemma month_and_day:
  assumes "0 \<le> n" "n < 365" "month_and_day leap n = (m, d)"
  shows "placed leap n m d"
proof -
  define e where "e = (n + 50) div 32"
  have e: "32 * e \<le> n + 50" "n + 50 < 32 * e + 32" "1 \<le> e" "e \<le> 12"
    using assms(1,2) unfolding e_def by linarith+
  have md: "(m, d) = (let preceding = month_start e + (if e > 2 \<and> leap then 1 else 0)
      in if preceding > n
         then (e - 1, n - (preceding - (month_days (e - 1) + (if e - 1 = 2 \<and> leap then 1 else 0))) + 1)
         else (e, n - preceding + 1))"
    using assms(3) unfolding month_and_day_def e_def [symmetric] Let_def by (rule sym)
  from twelve [OF e(3,4)] show ?thesis
    unfolding insert_iff empty_iff
    apply (elim disjE)
    using md e assms(1,2)
    by (cases leap; simp add: month_start_def month_days_def placed_def split: if_splits)+
qed

lemma year_parts:
  fixes a b c k :: int
  assumes "0 \<le> b" "b \<le> 3" "0 \<le> c" "c \<le> 24" "0 \<le> k" "k \<le> 3"
    and y: "y = a * 400 + 1 + b * 100 + c * 4 + k"
  shows "days_before_year y = 146097 * a + 36524 * b + 1461 * c + 365 * k"
    "is_leap y \<longleftrightarrow> k = 3 \<and> (c \<noteq> 24 \<or> b = 3)"
proof -
  have w: "(y - 1) div 4 = 100 * a + 25 * b + c" "(y - 1) div 100 = 4 * a + b" "(y - 1) div 400 = a"
    using assms by (auto intro!: int_div_pos_eq [where r="k"] int_div_pos_eq [where r="4 * c + k"]
        int_div_pos_eq [where r="100 * b + 4 * c + k"])
  then show "days_before_year y = 146097 * a + 36524 * b + 1461 * c + 365 * k"
    using y by (simp add: days_before_year_def Let_def)
  have "y mod 4 = 0 \<longleftrightarrow> k = 3" "y mod 100 = 0 \<longleftrightarrow> k = 3 \<and> c = 24"
    "y mod 400 = 0 \<longleftrightarrow> k = 3 \<and> c = 24 \<and> b = 3"
  proof -
    have wrap: "(x + M * q) mod M = 0 \<longleftrightarrow> x = M" if "0 < x" "x \<le> M" for x M q :: int
      using that by (cases "x = M") auto
    show "y mod 4 = 0 \<longleftrightarrow> k = 3" using wrap [of "k + 1" 4 "100 * a + 25 * b + c"] assms by (simp add: algebra_simps)
    show "y mod 100 = 0 \<longleftrightarrow> k = 3 \<and> c = 24"
      using wrap [of "4 * c + k + 1" 100 "4 * a + b"] assms by (simp add: algebra_simps) linarith
    show "y mod 400 = 0 \<longleftrightarrow> k = 3 \<and> c = 24 \<and> b = 3"
      using wrap [of "100 * b + 4 * c + k + 1" 400 a] assms by (simp add: algebra_simps) linarith
  qed
  then show "is_leap y \<longleftrightarrow> k = 3 \<and> (c \<noteq> 24 \<or> b = 3)"
    by (auto simp: is_leap_def)
qed

lemma civil_inverse:
  assumes "civil_from_days z = (y, m, d)"
  shows "days_from_civil y m d = z" "1 \<le> m" "m \<le> 12" "1 \<le> d" "d \<le> days_in_month y m"
proof -
  define a b c k n where "a = (z + 719162) div 146097"
    and "b = (z + 719162) mod 146097 div 36524"
    and "c = (z + 719162) mod 146097 mod 36524 div 1461"
    and "k = (z + 719162) mod 146097 mod 36524 mod 1461 div 365"
    and "n = (z + 719162) mod 146097 mod 36524 mod 1461 mod 365"
  have z: "z + 719162 = 146097 * a + 36524 * b + 1461 * c + 365 * k + n"
    by (simp add: a_def b_def c_def k_def n_def)
  have bounds: "0 \<le> b" "b \<le> 4" "0 \<le> c" "c \<le> 24" "0 \<le> k" "k \<le> 4" "0 \<le> n" "n < 365"
    by (simp_all add: b_def c_def k_def n_def)
  have sums: "365 * k + n < 1461" "1461 * c + 365 * k + n < 36524"
    "36524 * b + 1461 * c + 365 * k + n < 146097"
    by (simp_all add: b_def c_def k_def n_def)
  have run: "(y, m, d) =
      (if k = 4 \<or> b = 4 then (a * 400 + 1 + b * 100 + c * 4 + k - 1, 12, 31)
       else case month_and_day (k = 3 \<and> (c \<noteq> 24 \<or> b = 3)) n of
         (m, d) \<Rightarrow> (a * 400 + 1 + b * 100 + c * 4 + k, m, d))"
    using assms unfolding civil_from_days_def a_def b_def c_def k_def n_def Let_def by (rule sym)
  have "days_from_civil y m d = z \<and> 1 \<le> m \<and> m \<le> 12 \<and> 1 \<le> d \<and> d \<le> days_in_month y m"
  proof (cases "k = 4 \<or> b = 4")
    case True
    have "is_leap y \<and> days_before_year y + 366 = z + 719163 \<and> m = 12 \<and> d = 31"
    proof (cases "b = 4")
      case True
      then have "c = 0" "k = 0" "n = 0" using bounds sums by linarith+
      then show ?thesis
        using year_parts [of 3 24 3 y a] run z True by auto
    next
      case False
      then have "k = 4" "n = 0" "c \<le> 23" using \<open>k = 4 \<or> b = 4\<close> bounds sums by linarith+
      then show ?thesis
        using year_parts [of b c 3 y a] run z False bounds by auto
    qed
    then show ?thesis
      by (auto simp: days_from_civil_def days_in_month_def month_start_def month_days_def)
  next
    case False
    obtain m' d' where md: "month_and_day (k = 3 \<and> (c \<noteq> 24 \<or> b = 3)) n = (m', d')" by fastforce
    have y: "y = a * 400 + 1 + b * 100 + c * 4 + k" "m = m'" "d = d'"
      using run False md by simp_all
    have "b \<le> 3" "k \<le> 3" using False bounds by linarith+
    note parts = year_parts [OF bounds(1) this(1) bounds(3,4,5) this(2) y(1)]
    have "placed (is_leap y) n m d"
      using month_and_day [OF bounds(7,8) md] y parts(2) by simp
    then show ?thesis
      using parts(1) z by (auto simp: placed_def days_from_civil_def days_in_month_def)
  qed
  then show "days_from_civil y m d = z" "1 \<le> m" "m \<le> 12" "1 \<le> d" "d \<le> days_in_month y m"
    by simp_all
qed

section \<open>Reading an instant\<close>

text \<open>
  \<open>datetime.fromisoformat\<close> on the extended form
  \<open>YYYY-MM-DD*HH:MM:SS[.ffffff][+HH:MM]\<close> with fields in range.  What the interpreter makes
  of any other text differs between its versions and is the argument \<open>other\<close>.
\<close>

definition number_at :: "string \<Rightarrow> nat \<Rightarrow> nat \<Rightarrow> int option" where
  "number_at s i w =
     (let t = take w (drop i s)
      in if length t = w \<and> list_all is_digit t then Some (int (read_digits 0 t)) else None)"

definition iso_fields :: "string \<Rightarrow> int list option" where
  "iso_fields s =
     (if 19 \<le> length s \<and> s ! 4 = CHR ''-'' \<and> s ! 7 = CHR ''-'' \<and> s ! 13 = CHR '':'' \<and> s ! 16 = CHR '':''
      then those [number_at s 0 4, number_at s 5 2, number_at s 8 2,
                  number_at s 11 2, number_at s 14 2, number_at s 17 2]
      else None)"

definition civil_instant :: "int list \<Rightarrow> int option" where
  "civil_instant fs =
     (case fs of
        [y, m, d, h, mi, sec] \<Rightarrow>
          if 1 \<le> y \<and> 1 \<le> m \<and> m \<le> 12 \<and> 1 \<le> d \<and> d \<le> days_in_month y m \<and> h < 24 \<and> mi < 60 \<and> sec < 60
          then Some ((days_from_civil y m d * 86400 + h * 3600 + mi * 60 + sec) * 1000000)
          else None
      | _ \<Rightarrow> None)"

definition iso_subsecond :: "string \<Rightarrow> (int \<times> string) option" where
  "iso_subsecond r =
     (if r \<noteq> [] \<and> hd r = CHR ''.'' then map_option (\<lambda>n. (n, drop 7 r)) (number_at r 1 6)
      else Some (0, r))"

text \<open>The offset from UTC in microseconds, if there is one.\<close>

definition iso_offset :: "string \<Rightarrow> int option option" where
  "iso_offset r =
     (if r = [] then Some None
      else if length r = 6 \<and> hd r \<in> {CHR ''+'', CHR ''-''} \<and> r ! 3 = CHR '':'' then
        (case (number_at r 1 2, number_at r 4 2) of
           (Some h, Some m) \<Rightarrow>
             if h < 24 \<and> m < 60
             then Some (Some ((if hd r = CHR ''-'' then -1 else 1) * (h * 3600 + m * 60) * 1000000))
             else None
         | _ \<Rightarrow> None)
      else None)"

definition iso_extended :: "string \<Rightarrow> pydatetime option" where
  "iso_extended s =
     (case (Option.bind (iso_fields s) civil_instant, iso_subsecond (drop 19 s)) of
        (Some t, Some (us, r)) \<Rightarrow>
          (case iso_offset r of
             Some None \<Rightarrow> Some (Naive (t + us))
           | Some (Some off) \<Rightarrow> Some (Aware (t + us - off))
           | None \<Rightarrow> None)
      | _ \<Rightarrow> None)"

definition fromisoformat :: "(string \<Rightarrow> pydatetime result) \<Rightarrow> string \<Rightarrow> pydatetime result" where
  "fromisoformat other s = (case iso_extended s of Some dt \<Rightarrow> Inr dt | None \<Rightarrow> other s)"

text \<open>The instants that a UTC datetime represents: years 1 to 9999.\<close>

definition representable :: "int \<Rightarrow> bool" where
  "representable t \<longleftrightarrow>
     (case civil_from_days (t div 1000000 div 86400) of (y, _, _) \<Rightarrow> 1 \<le> y \<and> y \<le> 9999)"

definition astimezone_utc :: "int \<Rightarrow> int result" where
  "astimezone_utc t =
     (if representable t then Inr t else Inl (PyExc OverflowError ''date value out of range''))"

text \<open>\<open>value.replace("Z", "+00:00")\<close>\<close>

definition replace_Z :: "string \<Rightarrow> string" where
  "replace_Z s = concat (map (\<lambda>c. if c = CHR ''Z'' then ''+00:00'' else [c]) s)"

lemma pad_digits:
  assumes "0 < w" "0 \<le> i" "i < 10 ^ w"
  shows "length (pad w i) = w" "list_all is_digit (pad w i)" "int (read_digits 0 (pad w i)) = i"
proof -
  have "nat i < 10 ^ w" using assms(2,3) by (simp add: nat_less_iff)
  then show "length (pad w i) = w" using assms(1) by (simp add: pad_def zfill_length)
  show "list_all is_digit (pad w i)" "int (read_digits 0 (pad w i)) = i"
    using assms(2) by (simp_all add: pad_def)
qed

lemma pad2:
  assumes "0 \<le> i" "i < 100"
  obtains a b where "pad 2 i = [a, b]" "list_all is_digit [a, b]" "int (read_digits 0 [a, b]) = i"
  using pad_digits [of 2 i] assms that by (auto simp: length_Suc_conv numeral_eq_Suc)

lemma replace_Z_simps [simp]:
  "replace_Z (s @ t) = replace_Z s @ replace_Z t"
  "replace_Z [] = []"
  "replace_Z (c # cs) = (if c = CHR ''Z'' then ''+00:00'' else [c]) @ replace_Z cs"
  by (simp_all add: replace_Z_def)

lemma replace_Z_digits: "list_all is_digit s \<Longrightarrow> replace_Z s = s"
  by (induction s) (auto simp: is_digit_def)

lemma number_at_split:
  assumes "s = xs @ p @ ys" "length xs = i" "length p = w" "list_all is_digit p"
  shows "number_at s i w = Some (int (read_digits 0 p))"
  using assms by (simp add: number_at_def)

lemma iso_offset_utc: "iso_offset ''+00:00'' = Some (Some 0)"
  by (simp add: iso_offset_def number_at_def is_digit_def digit_val_def)

lemma iso_extended_text:
  assumes y: "1 \<le> y" "y \<le> 9999" and m: "1 \<le> m" "m \<le> 12" and d: "1 \<le> d" "d \<le> days_in_month y m"
    and h: "0 \<le> h" "h < 24" and mi: "0 \<le> mi" "mi < 60" and sec: "0 \<le> sec" "sec < 60"
    and us: "0 \<le> us" "us < 1000000"
  shows "iso_extended (pad 4 y @ ''-'' @ pad 2 m @ ''-'' @ pad 2 d @ ''T'' @ pad 2 h @ '':'' @ pad 2 mi
      @ '':'' @ pad 2 sec @ ''.'' @ pad 6 us @ ''+00:00'')
    = Some (Aware ((days_from_civil y m d * 86400 + h * 3600 + mi * 60 + sec) * 1000000 + us))"
    (is "iso_extended ?s = _")
proof -
  have d': "d < 100" using d(2) twelve [OF m] by (auto simp: days_in_month_def month_days_def split: if_splits)
  note ps = pad_digits [of 4 y] pad_digits [of 2 m] pad_digits [of 2 d] pad_digits [of 2 h]
    pad_digits [of 2 mi] pad_digits [of 2 sec] pad_digits [of 6 us]
  have len: "length (pad 4 y) = 4" "length (pad 2 m) = 2" "length (pad 2 d) = 2" "length (pad 2 h) = 2"
    "length (pad 2 mi) = 2" "length (pad 2 sec) = 2" "length (pad 6 us) = 6"
    using ps assms d' by simp_all
  have dig: "list_all is_digit (pad 4 y)" "list_all is_digit (pad 2 m)" "list_all is_digit (pad 2 d)"
    "list_all is_digit (pad 2 h)" "list_all is_digit (pad 2 mi)" "list_all is_digit (pad 2 sec)"
    "list_all is_digit (pad 6 us)"
    using ps assms d' by simp_all
  have val: "int (read_digits 0 (pad 4 y)) = y" "int (read_digits 0 (pad 2 m)) = m"
    "int (read_digits 0 (pad 2 d)) = d" "int (read_digits 0 (pad 2 h)) = h"
    "int (read_digits 0 (pad 2 mi)) = mi" "int (read_digits 0 (pad 2 sec)) = sec"
    "int (read_digits 0 (pad 6 us)) = us"
    using ps assms d' by simp_all
  have at: "number_at ?s 0 4 = Some y" "number_at ?s 5 2 = Some m" "number_at ?s 8 2 = Some d"
    "number_at ?s 11 2 = Some h" "number_at ?s 14 2 = Some mi" "number_at ?s 17 2 = Some sec"
    using len dig val by (simp_all add: number_at_def)
  have fields: "iso_fields ?s = Some [y, m, d, h, mi, sec]"
    using at len by (simp add: iso_fields_def nth_append)
  have sub: "iso_subsecond (''.'' @ pad 6 us @ ''+00:00'') = Some (us, ''+00:00'')"
    using len dig val by (simp add: iso_subsecond_def number_at_def)
  have "drop 19 ?s = ''.'' @ pad 6 us @ ''+00:00''" using len by simp
  then show ?thesis
    using fields sub iso_offset_utc assms by (simp add: iso_extended_def civil_instant_def)
qed

lemma replace_Z_pad: "0 < w \<Longrightarrow> 0 \<le> i \<Longrightarrow> i < 10 ^ w \<Longrightarrow> replace_Z (pad w i) = pad w i"
  by (intro replace_Z_digits pad_digits)

lemma iso_read_text:
  assumes "1 \<le> y" "y \<le> 9999" "1 \<le> m" "m \<le> 12" "1 \<le> d" "d \<le> days_in_month y m"
    and "0 \<le> h" "h < 24" "0 \<le> mi" "mi < 60" "0 \<le> sec" "sec < 60" "0 \<le> us" "us < 1000000"
  shows "fromisoformat other (replace_Z (pad 4 y @ ''-'' @ pad 2 m @ ''-'' @ pad 2 d @ ''T'' @ pad 2 h
      @ '':'' @ pad 2 mi @ '':'' @ pad 2 sec @ ''.'' @ pad 6 us @ ''Z''))
    = Inr (Aware ((days_from_civil y m d * 86400 + h * 3600 + mi * 60 + sec) * 1000000 + us))"
proof -
  have "d < 100"
    using assms(6) twelve [OF assms(3,4)] by (auto simp: days_in_month_def month_days_def split: if_splits)
  then show ?thesis
    using assms iso_extended_text [OF assms] by (simp add: fromisoformat_def replace_Z_pad)
qed

lemma time_of_day:
  fixes r :: int
  assumes "0 \<le> r" "r < 86400"
  obtains h mi sec where "r div 3600 = h" "r mod 3600 div 60 = mi" "r mod 60 = sec"
    "0 \<le> h" "h < 24" "0 \<le> mi" "mi < 60" "0 \<le> sec" "sec < 60" "h * 3600 + mi * 60 + sec = r"
proof (rule that)
  have "r mod 3600 div 60 * 60 + r mod 60 = r mod 3600"
    using mod_mod_cancel [of 60 3600 r] div_mult_mod_eq [of "r mod 3600" 60] by simp
  then show "r div 3600 * 3600 + r mod 3600 div 60 * 60 + r mod 60 = r"
    using div_mult_mod_eq [of r 3600] by linarith
  show "0 \<le> r div 3600" "r div 3600 < 24" "0 \<le> r mod 3600 div 60" "r mod 3600 div 60 < 60"
    "0 \<le> r mod 60" "r mod 60 < 60"
    using assms by linarith+
qed simp_all

lemma iso_micro_read:
  assumes "representable t"
  shows "fromisoformat other (replace_Z (iso_micro t)) = Inr (Aware t)"
proof -
  define u r us where "u = t div 1000000" and "r = u mod 86400" and "us = t mod 1000000"
  obtain y m d where c: "civil_from_days (u div 86400) = (y, m, d)" using prod_cases3 by blast
  have y: "1 \<le> y" "y \<le> 9999" using assms c by (simp_all add: representable_def u_def)
  note inv = civil_inverse [OF c]
  have us: "0 \<le> us" "us < 1000000" by (simp_all add: us_def)
  have "0 \<le> r" "r < 86400" by (simp_all add: r_def)
  then obtain h mi sec where r: "r div 3600 = h" "r mod 3600 div 60 = mi" "r mod 60 = sec"
    "0 \<le> h" "h < 24" "0 \<le> mi" "mi < 60" "0 \<le> sec" "sec < 60" "h * 3600 + mi * 60 + sec = r"
    by (rule time_of_day)
  have "iso_micro t = pad 4 y @ ''-'' @ pad 2 m @ ''-'' @ pad 2 d @ ''T''
      @ pad 2 h @ '':'' @ pad 2 mi @ '':'' @ pad 2 sec @ ''.'' @ pad 6 us @ ''Z''"
    unfolding iso_micro_def iso_seconds_def iso_date_def Let_def u_def [symmetric] r_def [symmetric]
      us_def [symmetric] c r
    by simp
  moreover have "(u div 86400 * 86400 + h * 3600 + mi * 60 + sec) * 1000000 + us = t"
  proof -
    have "u div 86400 * 86400 + r = u" by (simp add: r_def)
    moreover have "u * 1000000 + us = t" by (simp add: u_def us_def)
    ultimately show ?thesis using r(10) by (simp add: add.assoc)
  qed
  ultimately show ?thesis using iso_read_text [OF y inv(2-5) r(4-9) us] inv(1) by simp
qed

end
