(* ===== verification/Json_Reader.thy ===== *)
theory Json_Reader
  imports Civil_Time
begin

text \<open>
  \<open>json.loads\<close>, as the codecs use it on stored documents, and that it reads back what
  \<open>json.dumps\<close> wrote.  The conversion of a float literal is an argument.
\<close>

section \<open>Strings\<close>

text \<open>The UTF-8 bytes of a code point.\<close>

definition utf8_of :: "nat \<Rightarrow> string" where
  "utf8_of n =
     (if n < 128 then [char_of n]
      else if n < 2048 then [char_of (192 + n div 64), char_of (128 + n mod 64)]
      else if n < 65536
        then [char_of (224 + n div 4096), char_of (128 + n div 64 mod 64), char_of (128 + n mod 64)]
      else [char_of (240 + n div 262144), char_of (128 + n div 4096 mod 64),
            char_of (128 + n div 64 mod 64), char_of (128 + n mod 64)])"

definition hex_digit_value :: "char \<Rightarrow> nat option" where
  "hex_digit_value c =
     (let n = (of_char c :: nat) in
      if is_digit c then Some (n - 48)
      else if 97 \<le> n \<and> n \<le> 102 then Some (n - 87)
      else if 65 \<le> n \<and> n \<le> 70 then Some (n - 55)
      else None)"

definition read_hex4 :: "string \<Rightarrow> (nat \<times> string) option" where
  "read_hex4 s =
     (case s of
        a # b # c # d # r \<Rightarrow>
          (case (hex_digit_value a, hex_digit_value b, hex_digit_value c, hex_digit_value d) of
             (Some w, Some x, Some y, Some z) \<Rightarrow> Some (4096 * w + 256 * x + 16 * y + z, r)
           | _ \<Rightarrow> None)
      | _ \<Rightarrow> None)"

text \<open>A \<open>\u\<close> escape, with the second half of a surrogate pair when there is one.\<close>

definition read_unicode :: "string \<Rightarrow> (string \<times> string) option" where
  "read_unicode s =
     (case read_hex4 s of
        None \<Rightarrow> None
      | Some (n, r) \<Rightarrow>
          if 55296 \<le> n \<and> n \<le> 56319 \<and> take 2 r = [backslash, CHR ''u'']
          then (case read_hex4 (drop 2 r) of
                  Some (m, r') \<Rightarrow>
                    if 56320 \<le> m \<and> m \<le> 57343
                    then Some (utf8_of (65536 + (n - 55296) * 1024 + (m - 56320)), r')
                    else Some (utf8_of n, r)
                | None \<Rightarrow> None)
          else Some (utf8_of n, r))"

definition simple_escape :: "char \<Rightarrow> char option" where
  "simple_escape c =
     (if c = dquote \<or> c = backslash \<or> c = CHR ''/'' then Some c
      else if c = CHR ''n'' then Some (CHR 0x0A)
      else if c = CHR ''r'' then Some (CHR 0x0D)
      else if c = CHR ''t'' then Some (CHR 0x09)
      else if c = CHR ''f'' then Some (CHR 0x0C)
      else if c = CHR ''b'' then Some (CHR 0x08)
      else None)"

text \<open>The text after an opening quote; every step uses up input.\<close>

lemma read_hex4_shorter: "read_hex4 s = Some (n, r) \<Longrightarrow> length r < length s"
  by (auto simp: read_hex4_def split: list.splits option.splits)

lemma read_unicode_shorter: "read_unicode s = Some (x, r) \<Longrightarrow> length r < length s"
  by (auto simp: read_unicode_def split: option.splits if_splits dest!: read_hex4_shorter)

function (sequential) read_string :: "string \<Rightarrow> (string \<times> string) option" where
  "read_string [] = None"
| "read_string (c # cs) =
     (if c = dquote then Some ([], cs)
      else if c = backslash then
        (case cs of
           [] \<Rightarrow> None
         | e # r \<Rightarrow>
             if e = CHR ''u'' then
               (case read_unicode r of
                  None \<Rightarrow> None
                | Some (x, r') \<Rightarrow> map_option (map_prod (append x) id) (read_string r'))
             else
               (case simple_escape e of
                  None \<Rightarrow> None
                | Some x \<Rightarrow> map_option (map_prod (Cons x) id) (read_string r)))
      else if (of_char c :: nat) < 32 then None
      else map_option (map_prod (Cons c) id) (read_string cs))"
  by pat_completeness auto
termination
  by (relation "measure length") (auto dest: read_unicode_shorter)

lemma hex_digit_read: "n < 16 \<Longrightarrow> hex_digit_value (hex_digit n) = Some n"
proof -
  assume "n < 16"
  then have "n \<in> {0, 1, 2, 3, 4, 5, 6, 7, 8, 9, 10, 11, 12, 13, 14, 15}"
    by (simp only: insert_iff empty_iff) presburger
  then show ?thesis
    by (elim insertE emptyE) (simp_all add: hex_digit_value_def hex_digit_def is_digit_def)
qed

lemma read_control:
  assumes "(of_char c :: nat) < 32"
  shows "read_unicode (CHR ''0'' # CHR ''0'' # hex_digit (of_char c div 16) # hex_digit (of_char c mod 16) # r)
    = Some ([c], r)"
proof -
  have "(of_char c :: nat) div 16 < 16" "(of_char c :: nat) mod 16 < 16" using assms by simp_all
  then show ?thesis
    using assms
    by (simp add: read_unicode_def read_hex4_def hex_digit_read utf8_of_def
        hex_digit_value_def [of "CHR ''0''"] is_digit_def)
qed

lemma read_escaped: "read_string (esc_char c @ r) = map_option (map_prod (Cons c) id) (read_string r)"
proof -
  have app: "append [c] = Cons c" by (rule ext) simp
  consider (control) "(of_char c :: nat) < 32" | (quoted) "c = dquote \<or> c = backslash"
    | (plain) "\<not> (of_char c :: nat) < 32" "c \<noteq> dquote" "c \<noteq> backslash"
    by blast
  then show ?thesis
  proof cases
    case control
    show ?thesis
    proof (cases "(of_char c :: nat) \<in> {8, 9, 10, 12, 13}")
      case True
      then have "\<exists>d \<in> {CHR 0x08, CHR 0x09, CHR 0x0A, CHR 0x0C, CHR 0x0D}. (of_char c :: nat) = of_char d"
        by (auto simp del: of_char_eq_iff)
      then have "c \<in> {CHR 0x08, CHR 0x09, CHR 0x0A, CHR 0x0C, CHR 0x0D}"
        by (simp only: of_char_eq_iff) blast
      then show ?thesis
        by (elim insertE emptyE)
          (simp_all add: esc_char_def simple_escape_def backslash_def dquote_def)
    next
      case False
      have esc: "esc_char c @ r = backslash # CHR ''u'' # CHR ''0'' # CHR ''0'' #
          hex_digit (of_char c div 16) # hex_digit (of_char c mod 16) # r"
        using control False by (simp add: esc_char_def Let_def)
      show ?thesis
        unfolding esc by (simp add: read_control [OF control] backslash_def dquote_def app)
    qed
  next
    case quoted
    then show ?thesis
      by (auto simp: esc_char_def simple_escape_def backslash_def dquote_def)
  next
    case plain
    then have "(of_char c :: nat) \<noteq> 34" "(of_char c :: nat) \<noteq> 92"
      by (metis of_char_dquote of_char_eq_iff) (metis plain(3) of_char_backslash of_char_eq_iff)
    then have "esc_char c = [c]" using plain(1) by (simp add: esc_char_def Let_def)
    then show ?thesis using plain by simp
  qed
qed

lemma read_quoted: "read_string (concat (map esc_char s) @ dquote # r) = Some (s, r)"
  by (induction s) (simp_all add: read_escaped)

section \<open>Numbers\<close>

text \<open>
  The scanner's number: an integer part, an optional fraction and an optional exponent; a point
  or an exponent letter without digits is left in the input.
\<close>

definition digits_of :: "string \<Rightarrow> string \<times> string" where
  "digits_of s = (takeWhile is_digit s, dropWhile is_digit s)"

definition take_sign :: "char set \<Rightarrow> string \<Rightarrow> string \<times> string" where
  "take_sign signs s =
     (case s of c # r \<Rightarrow> if c \<in> signs then ([c], r) else ([], s) | [] \<Rightarrow> ([], []))"

definition int_part :: "string \<Rightarrow> (string \<times> string) option" where
  "int_part s =
     (let sign = fst (take_sign {CHR ''-''} s); t = snd (take_sign {CHR ''-''} s) in
      if t = [] then None
      else if hd t = CHR ''0'' then Some (sign @ ''0'', tl t)
      else if is_digit (hd t) then Some (sign @ fst (digits_of t), snd (digits_of t))
      else None)"

definition fraction_part :: "string \<Rightarrow> string \<times> string" where
  "fraction_part s =
     (case s of
        c # r \<Rightarrow>
          if c = CHR ''.'' \<and> fst (digits_of r) \<noteq> []
          then (c # fst (digits_of r), snd (digits_of r)) else ([], s)
      | [] \<Rightarrow> ([], s))"

definition exponent_part :: "string \<Rightarrow> string \<times> string" where
  "exponent_part s =
     (case s of
        c # r \<Rightarrow>
          let sign = fst (take_sign {CHR ''-'', CHR ''+''} r);
              t = snd (take_sign {CHR ''-'', CHR ''+''} r)
          in if c \<in> {CHR ''e'', CHR ''E''} \<and> fst (digits_of t) \<noteq> []
             then (c # sign @ fst (digits_of t), snd (digits_of t)) else ([], s)
      | [] \<Rightarrow> ([], s))"

definition int_value :: "string \<Rightarrow> int" where
  "int_value s =
     (case s of
        c # r \<Rightarrow> if c = CHR ''-'' then - int (read_digits 0 r) else int (read_digits 0 s)
      | [] \<Rightarrow> 0)"

definition read_number :: "(string \<Rightarrow> pyfloat) \<Rightarrow> string \<Rightarrow> (pyval \<times> string) option" where
  "read_number fl s =
     (case int_part s of
        None \<Rightarrow> None
      | Some (i, r1) \<Rightarrow>
          let (f, r2) = fraction_part r1; (e, r3) = exponent_part r2 in
          Some (if f = [] \<and> e = [] then PInt (int_value i) else PFloat (fl (i @ f @ e)), r3))"

text \<open>What follows a value never continues a number.\<close>

definition number_end :: "string \<Rightarrow> bool" where
  "number_end r \<longleftrightarrow> r = [] \<or> \<not> is_digit (hd r) \<and> hd r \<notin> {CHR ''.'', CHR ''e'', CHR ''E'', CHR ''-'', CHR ''+''}"

lemma tail_number_end: "tail_ok r \<Longrightarrow> number_end r"
  by (cases r) (auto simp: number_end_def is_digit_def)

lemma digits_append:
  "number_end x \<Longrightarrow> digits_of (s @ x) = (fst (digits_of s), snd (digits_of s) @ x)"
  by (cases x) (auto simp: digits_of_def number_end_def takeWhile_append dropWhile_append
      list_all_iff takeWhile_eq_all_conv [THEN iffD2] dest: set_takeWhileD)

lemma digits_self:
  "list_all is_digit ds \<Longrightarrow> number_end x \<Longrightarrow> digits_of (ds @ x) = (ds, x)"
  by (cases x) (auto simp: digits_of_def number_end_def list_all_iff)

lemma take_sign_append:
  "number_end x \<Longrightarrow> signs \<subseteq> {CHR ''-'', CHR ''+''} \<Longrightarrow>
   take_sign signs (s @ x) = (fst (take_sign signs s), snd (take_sign signs s) @ x)"
  by (cases s; cases x) (auto simp: take_sign_def number_end_def)

lemma digits_end: "number_end x \<Longrightarrow> fst (digits_of x) = []"
  by (cases x) (auto simp: digits_of_def number_end_def)

lemma no_parts:
  "number_end x \<Longrightarrow> fraction_part x = ([], x) \<and> exponent_part x = ([], x)"
  by (cases x) (auto simp: number_end_def fraction_part_def exponent_part_def split: prod.splits)

lemma show_nat_zero: "show_nat n = CHR ''0'' # cs \<Longrightarrow> cs = []"
proof (induction n arbitrary: cs rule: show_nat.induct)
  case (1 n)
  show ?case
  proof (cases "n < 10")
    case False
    then obtain c ds where q: "show_nat (n div 10) = c # ds"
      by (cases "show_nat (n div 10)") simp_all
    have "c = CHR ''0''" using 1(2) False q by (simp add: show_nat.simps [of n])
    with 1(1) [OF False] q have "show_nat (n div 10) = ''0''" by simp
    then have "n div 10 = 0" using read_show_nat [of "n div 10"] by (simp add: digit_val_def)
    then show ?thesis using False by simp
  qed (use 1(2) in \<open>simp add: show_nat.simps [of n]\<close>)
qed

lemma read_int_text:
  assumes "number_end x"
  shows "read_number fl (show_int i @ x) = Some (PInt i, x)"
proof -
  obtain c ds where n: "show_nat (nat \<bar>i\<bar>) = c # ds" by (cases "show_nat (nat \<bar>i\<bar>)") simp_all
  have d: "is_digit c" "list_all is_digit (c # ds)" using show_nat_digits [of "nat \<bar>i\<bar>"] n by simp_all
  have z: "c = CHR ''0'' \<Longrightarrow> ds = []" using show_nat_zero n by blast
  have "int_part (show_int i @ x) = Some (show_int i, x)"
    using d n z assms digits_self [OF d(2) assms]
    by (auto simp: int_part_def take_sign_def show_int_def digits_of_def Let_def split: if_splits)
  moreover have "int_value (show_int i) = i"
    using read_show_nat [of "nat \<bar>i\<bar>"] n d by (auto simp: int_value_def show_int_def split: if_splits)
  ultimately show ?thesis using no_parts [OF assms] by (simp add: read_number_def)
qed

text \<open>A float literal that the scanner reads to its end, to the float it is the \<open>repr\<close> of.\<close>

definition reads_float :: "(string \<Rightarrow> pyfloat) \<Rightarrow> pyfloat \<Rightarrow> bool" where
  "reads_float fl f \<longleftrightarrow>
     (case f of FFinite q r \<Rightarrow> read_number fl r = Some (PFloat (FFinite q r), []) | _ \<Rightarrow> False)"

lemma int_part_append:
  assumes "int_part s = Some (i, r)" "number_end x"
  shows "int_part (s @ x) = Some (i, r @ x)"
proof -
  let ?t = "snd (take_sign {CHR ''-''} s)"
  have "?t \<noteq> []" using assms(1) by (auto simp: int_part_def)
  then show ?thesis
    using assms take_sign_append [OF assms(2), of "{CHR ''-''}" s] digits_append [OF assms(2), of ?t]
    by (auto simp: int_part_def Let_def split: if_splits)
qed

lemma fraction_part_append:
  "fraction_part s = (f, r) \<Longrightarrow> number_end x \<Longrightarrow> fraction_part (s @ x) = (f, r @ x)"
  using no_parts [of x]
  by (cases s) (auto simp: fraction_part_def digits_append split: if_splits)

lemma exponent_part_append:
  assumes "exponent_part s = (e, r)" "number_end x"
  shows "exponent_part (s @ x) = (e, r @ x)"
proof (cases s)
  case Nil
  then show ?thesis using assms no_parts [OF assms(2)] by (simp add: exponent_part_def)
next
  case (Cons c t)
  then show ?thesis
    using assms(1) take_sign_append [OF assms(2), of "{CHR ''-'', CHR ''+''}" t]
      digits_append [OF assms(2), of "snd (take_sign {CHR ''-'', CHR ''+''} t)"]
    by (auto simp: exponent_part_def Let_def split: if_splits)
qed

lemma read_float_text:
  assumes "reads_float fl f" "number_end x"
  shows "read_number fl (float_repr f @ x) = Some (PFloat f, x)"
proof -
  obtain q r where f: "f = FFinite q r" "read_number fl r = Some (PFloat f, [])"
    using assms(1) by (auto simp: reads_float_def split: pyfloat.splits)
  obtain i r1 where i: "int_part r = Some (i, r1)"
    using f(2) by (auto simp: read_number_def split: option.splits)
  obtain g r2 e r3 where ge: "fraction_part r1 = (g, r2)" "exponent_part r2 = (e, r3)" by fastforce
  then show ?thesis
    using f i int_part_append [OF i assms(2)] fraction_part_append [OF ge(1) assms(2)]
      exponent_part_append [OF ge(2) assms(2)]
    by (simp add: read_number_def float_repr_def)
qed

section \<open>Values\<close>

definition skip_space :: "string \<Rightarrow> string" where
  "skip_space s = dropWhile (\<lambda>c. c \<in> {CHR '' '', CHR 0x09, CHR 0x0A, CHR 0x0D}) s"

definition json_word :: "string \<Rightarrow> (pyval \<times> string) option" where
  "json_word s =
     (if take 4 s = ''null'' then Some (PNone, drop 4 s)
      else if take 4 s = ''true'' then Some (PBool True, drop 4 s)
      else if take 5 s = ''false'' then Some (PBool False, drop 5 s)
      else if take 3 s = ''NaN'' then Some (PFloat FNan, drop 3 s)
      else if take 8 s = ''Infinity'' then Some (PFloat (FInf True), drop 8 s)
      else if take 9 s = ''-Infinity'' then Some (PFloat (FInf False), drop 9 s)
      else None)"

definition json_scalar :: "(string \<Rightarrow> pyfloat) \<Rightarrow> string \<Rightarrow> (pyval \<times> string) option" where
  "json_scalar fl s =
     (case json_word s of
        Some p \<Rightarrow> Some p
      | None \<Rightarrow>
          if s \<noteq> [] \<and> hd s = dquote then map_option (map_prod PStr id) (read_string (tl s))
          else read_number fl s)"

text \<open>
  The first argument bounds the nesting of calls; \<open>json_loads\<close> gives twice the length of the
  text, and no two nested calls leave the input where it was.
\<close>

fun json_value :: "(string \<Rightarrow> pyfloat) \<Rightarrow> nat \<Rightarrow> string \<Rightarrow> (pyval \<times> string) option"
  and json_elements :: "(string \<Rightarrow> pyfloat) \<Rightarrow> nat \<Rightarrow> pyval list \<Rightarrow> string \<Rightarrow> (pyval \<times> string) option"
  and json_members :: "(string \<Rightarrow> pyfloat) \<Rightarrow> nat \<Rightarrow> pydict \<Rightarrow> string \<Rightarrow> (pyval \<times> string) option"
where
  "json_value fl 0 s = None"
| "json_value fl (Suc n) s =
     (if s \<noteq> [] \<and> hd s = CHR ''['' then
        (let t = skip_space (tl s) in
         if t \<noteq> [] \<and> hd t = CHR '']'' then Some (PList [], tl t) else json_elements fl n [] t)
      else if s \<noteq> [] \<and> hd s = CHR ''{'' then
        (let t = skip_space (tl s) in
         if t \<noteq> [] \<and> hd t = CHR ''}'' then Some (PDict [], tl t) else json_members fl n [] t)
      else json_scalar fl s)"
| "json_elements fl 0 acc s = None"
| "json_elements fl (Suc n) acc s =
     (case json_value fl n s of
        None \<Rightarrow> None
      | Some (v, r) \<Rightarrow>
          let t = skip_space r in
          if t \<noteq> [] \<and> hd t = CHR '']'' then Some (PList (acc @ [v]), tl t)
          else if t \<noteq> [] \<and> hd t = CHR '','' then json_elements fl n (acc @ [v]) (skip_space (tl t))
          else None)"
| "json_members fl 0 acc s = None"
| "json_members fl (Suc n) acc s =
     (if s = [] \<or> hd s \<noteq> dquote then None
      else
        case read_string (tl s) of
          None \<Rightarrow> None
        | Some (k, r) \<Rightarrow>
            let t = skip_space r in
            if t = [] \<or> hd t \<noteq> CHR '':'' then None
            else
              case json_value fl n (skip_space (tl t)) of
                None \<Rightarrow> None
              | Some (v, r') \<Rightarrow>
                  let u = skip_space r'; acc' = dput k v acc in
                  if u \<noteq> [] \<and> hd u = CHR ''}'' then Some (PDict acc', tl u)
                  else if u \<noteq> [] \<and> hd u = CHR '','' then json_members fl n acc' (skip_space (tl u))
                  else None)"

definition json_loads :: "(string \<Rightarrow> pyfloat) \<Rightarrow> string \<Rightarrow> pyval result" where
  "json_loads fl s =
     (case json_value fl (2 * length s + 2) (skip_space s) of
        Some (v, r) \<Rightarrow>
          if skip_space r = [] then Inr v else Inl (PyExc ValueError ''Extra data'')
      | None \<Rightarrow> Inl (PyExc ValueError ''Expecting value''))"

section \<open>Reading back\<close>

text \<open>Values that the text determines: floats that read back and dictionaries with distinct keys.\<close>

primrec readable :: "(string \<Rightarrow> pyfloat) \<Rightarrow> pyval \<Rightarrow> bool" where
  "readable fl PNone = True"
| "readable fl (PBool b) = True"
| "readable fl (PInt i) = True"
| "readable fl (PFloat f) = reads_float fl f"
| "readable fl (PStr s) = True"
| "readable fl (PEnum l v) = False"
| "readable fl (PDatetime t) = False"
| "readable fl (PList xs) = list_all id (map (readable fl) xs)"
| "readable fl (PTuple xs) = False"
| "readable fl (PSet xs) = False"
| "readable fl (PDict kvs) =
     (distinct (map fst kvs) \<and> list_all snd (map (map_prod id (readable fl)) kvs))"
| "readable fl (PObj c kvs) = False"

lemma reads_float_head:
  assumes "reads_float fl f"
  obtains c cs where "float_repr f = c # cs" "is_digit c \<or> c = CHR ''-'' \<and> cs \<noteq> [] \<and> is_digit (hd cs)"
proof -
  obtain q r where f: "f = FFinite q r" "read_number fl r \<noteq> None"
    using assms by (auto simp: reads_float_def split: pyfloat.splits)
  then have "int_part r \<noteq> None" by (auto simp: read_number_def split: option.splits)
  then show ?thesis
    using that f(1)
    by (cases r) (auto simp: int_part_def take_sign_def float_repr_def Let_def is_digit_def split: if_splits)
qed

lemma show_int_head:
  obtains c cs where "show_int i = c # cs" "is_digit c \<or> c = CHR ''-'' \<and> cs \<noteq> [] \<and> is_digit (hd cs)"
proof -
  obtain c ds where "show_nat (nat \<bar>i\<bar>) = c # ds" "is_digit c"
    using show_nat_digits [of "nat \<bar>i\<bar>"] by (cases "show_nat (nat \<bar>i\<bar>)") auto
  then show ?thesis using that by (cases "i < 0") (auto simp: show_int_def)
qed

lemma number_not_word:
  assumes "is_digit c \<or> c = CHR ''-'' \<and> cs \<noteq> [] \<and> is_digit (hd cs)"
  shows "json_word (c # cs) = None"
proof -
  have letter: "x \<noteq> d" if "is_digit x" "\<not> is_digit d" for x d using that by blast
  have no: "\<not> is_digit (CHR ''n'')" "\<not> is_digit (CHR ''t'')" "\<not> is_digit (CHR ''f'')"
    "\<not> is_digit (CHR ''N'')" "\<not> is_digit (CHR ''I'')" "\<not> is_digit (CHR ''-'')"
    by (simp_all add: is_digit_def)
  from assms show ?thesis
  proof (elim disjE conjE)
    assume "is_digit c"
    then show ?thesis using no by (simp add: json_word_def letter)
  next
    assume "c = CHR ''-''" "cs \<noteq> []" "is_digit (hd cs)"
    then show ?thesis using no by (cases cs) (simp_all add: json_word_def letter)
  qed
qed
lemma number_scalar:
  assumes "s = c # cs" "is_digit c \<or> c = CHR ''-'' \<and> cs \<noteq> [] \<and> is_digit (hd cs)"
  shows "json_scalar fl (s @ r) = read_number fl (s @ r)"
proof -
  have "json_word (c # (cs @ r)) = None"
    using assms(2) by (intro number_not_word) auto
  moreover have "c \<noteq> dquote" using assms(2) by (auto simp: is_digit_def dquote_def)
  ultimately show ?thesis using assms(1) by (simp add: json_scalar_def)
qed

definition white :: "char \<Rightarrow> bool" where
  "white c \<longleftrightarrow> c \<in> {CHR '' '', CHR 0x09, CHR 0x0A, CHR 0x0D}"

lemma skip_space_Cons [simp]: "skip_space (c # cs) = (if white c then skip_space cs else c # cs)"
  by (simp add: skip_space_def white_def)

lemma skip_space_Nil [simp]: "skip_space [] = []"
  by (simp add: skip_space_def)

lemma not_white [simp]:
  "\<not> white (CHR '','')" "\<not> white (CHR '':'')" "\<not> white (CHR '']'')" "\<not> white (CHR ''}'')"
  "\<not> white (CHR ''['')" "\<not> white (CHR ''{'')" "\<not> white dquote"
  "\<not> white (CHR ''n'')" "\<not> white (CHR ''t'')" "\<not> white (CHR ''f'')" "\<not> white (CHR ''-'')"
  by (simp_all add: white_def dquote_def)

lemma digit_not_white: "is_digit c \<Longrightarrow> \<not> white c \<and> c \<notin> {CHR '']'', CHR ''['', CHR ''{'', CHR ''}''}"
  by (auto simp: is_digit_def white_def)

text \<open>The first character of a printed value is not skipped and closes nothing.\<close>

lemma readable_head:
  assumes "readable fl v"
  obtains c cs where "json_print v = c # cs" "\<not> white c" "c \<noteq> CHR '']''"
proof (cases v)
  case (PInt i)
  then show ?thesis using that by (rule_tac show_int_head [of i]) (auto dest: digit_not_white)
next
  case (PFloat f)
  then show ?thesis
    using assms that by (rule_tac reads_float_head [of fl f]) (auto dest: digit_not_white)
next
  case (PBool b)
  then show ?thesis using that by (cases b) (simp_all add: white_def)
qed (use assms that in \<open>auto simp: json_quote_def dquote_def white_def split: if_splits\<close>)

lemma scalar_value:
  assumes "s = c # cs" "c \<notin> {CHR ''['', CHR ''{''}" "length s \<le> n"
  shows "json_value fl n (s @ r) = json_scalar fl (s @ r)"
  using assms by (cases n) auto

lemma number_head:
  "is_digit c \<or> c = CHR ''-'' \<and> cs \<noteq> [] \<and> is_digit (hd cs) \<Longrightarrow> c \<notin> {CHR ''['', CHR ''{''}"
  by (auto simp: is_digit_def)

lemma quoted_scalar: "json_scalar fl (json_quote s @ r) = Some (PStr s, r)"
proof -
  have "json_word (json_quote s @ r) = None"
    by (simp add: json_quote_def json_word_def dquote_def)
  then show ?thesis using read_quoted [of s r] by (simp add: json_scalar_def json_quote_def)
qed

lemma word_scalar:
  "json_scalar fl (''null'' @ r) = Some (PNone, r)"
  "json_scalar fl (''true'' @ r) = Some (PBool True, r)"
  "json_scalar fl (''false'' @ r) = Some (PBool False, r)"
  by (simp_all add: json_scalar_def json_word_def)

text \<open>A value reads back in front of any text that may follow it.\<close>

definition reads_back :: "(string \<Rightarrow> pyfloat) \<Rightarrow> pyval \<Rightarrow> bool" where
  "reads_back fl v \<longleftrightarrow>
     (\<forall>n r. length (json_print v) \<le> n \<longrightarrow> tail_ok r \<longrightarrow>
        json_value fl n (json_print v @ r) = Some (v, r))"

lemma reads_backD:
  "reads_back fl v \<Longrightarrow> length (json_print v) \<le> n \<Longrightarrow> tail_ok r \<Longrightarrow>
   json_value fl n (json_print v @ r) = Some (v, r)"
  by (simp add: reads_back_def)

lemma elements_back:
  assumes "xs \<noteq> []" "\<And>x. x \<in> set xs \<Longrightarrow> reads_back fl x \<and> readable fl x"
    "length (join '','' (map json_print xs)) < n"
  shows "json_elements fl n acc (join '','' (map json_print xs) @ CHR '']'' # r)
    = Some (PList (acc @ xs), r)"
  using assms
proof (induction xs arbitrary: n acc)
  case (Cons x xs)
  obtain m where n: "n = Suc m" using Cons.prems(3) by (cases n) simp_all
  have x: "reads_back fl x" using Cons.prems(2) by simp
  show ?case
  proof (cases "xs = []")
    case True
    then show ?thesis
      using reads_backD [OF x, of m "CHR '']'' # r"] Cons.prems(3) n by simp
  next
    case False
    then obtain y ys where xs: "xs = y # ys" by (cases xs) auto
    then have "readable fl y" using Cons.prems(2) by simp
    then obtain c cs where "json_print y = c # cs" "\<not> white c" by (rule readable_head)
    then have "skip_space (join '','' (map json_print xs) @ CHR '']'' # r)
        = join '','' (map json_print xs) @ CHR '']'' # r"
      using xs by (simp add: join_Cons)
    then show ?thesis
      using reads_backD [OF x, of m "CHR '','' # join '','' (map json_print xs) @ CHR '']'' # r"]
        Cons.IH [of m "acc @ [x]"] Cons.prems n False
      by (simp add: join_Cons)
  qed
qed simp

lemma members_back:
  assumes "kvs \<noteq> []" "\<And>k v. (k, v) \<in> set kvs \<Longrightarrow> reads_back fl v \<and> readable fl v"
    "distinct (map fst (acc @ kvs))"
    "length (join '','' (map (\<lambda>p. json_quote (fst p) @ '':'' @ json_print (snd p)) kvs)) < n"
  shows "json_members fl n acc
      (join '','' (map (\<lambda>p. json_quote (fst p) @ '':'' @ json_print (snd p)) kvs) @ CHR ''}'' # r)
    = Some (PDict (acc @ kvs), r)"
  using assms
proof (induction kvs arbitrary: n acc)
  case (Cons p kvs)
  let ?m = "\<lambda>p. json_quote (fst p) @ '':'' @ json_print (snd p)"
  obtain m where n: "n = Suc m" using Cons.prems(4) by (cases n) simp_all
  obtain k v where p: "p = (k, v)" by (cases p)
  have v: "reads_back fl v" "readable fl v" using Cons.prems(2) [of k v] p by simp_all
  obtain c cs where c: "json_print v = c # cs" "\<not> white c" using readable_head [OF v(2)] .
  have acc: "dput k v acc = acc @ [(k, v)]"
    using Cons.prems(3) p by (intro dput_append) (auto simp: map_of_eq_None_iff)
  have val: "json_value fl m (c # cs @ t) = Some (v, t)" if "tail_ok t" for t
    using reads_backD [OF v(1), of m t] that Cons.prems(4) n p c(1) by (simp add: join_Cons)
  have key: "read_string (concat (map esc_char k) @ dquote # t) = Some (k, t)" for t
    by (rule read_quoted)
  show ?case
  proof (cases "kvs = []")
    case True
    then show ?thesis using val n p c key acc by (simp add: json_quote_def)
  next
    case False
    then obtain q qs where kvs: "kvs = q # qs" by (cases kvs) auto
    then have skip: "skip_space (join '','' (map ?m kvs) @ CHR ''}'' # r)
        = join '','' (map ?m kvs) @ CHR ''}'' # r"
      by (simp add: join_Cons json_quote_def)
    have rest: "reads_back fl w \<and> readable fl w" if "(l, w) \<in> set kvs" for l w
      using Cons.prems(2) [of l w] that by simp
    have IH: "json_members fl m (acc @ [(k, v)]) (join '','' (map ?m kvs) @ CHR ''}'' # r)
        = Some (PDict (acc @ (k, v) # kvs), r)"
      using Cons.IH [of "acc @ [(k, v)]" m, OF False rest] Cons.prems(3,4) n p False by (simp add: join_Cons)
    show ?thesis using val n p c key acc False IH skip by (simp add: join_Cons json_quote_def)
  qed
qed simp

lemma readable_reads_back: "readable fl v \<Longrightarrow> reads_back fl v"
proof (induction v)
  case (PInt i)
  obtain c cs where i: "show_int i = c # cs" "is_digit c \<or> c = CHR ''-'' \<and> cs \<noteq> [] \<and> is_digit (hd cs)"
    by (rule show_int_head)
  show ?case
    using scalar_value [OF i(1)] number_scalar [OF i] number_head [OF i(2)]
    by (simp add: reads_back_def read_int_text tail_number_end)
next
  case (PFloat f)
  then have f: "reads_float fl f" by simp
  obtain c cs where i: "float_repr f = c # cs" "is_digit c \<or> c = CHR ''-'' \<and> cs \<noteq> [] \<and> is_digit (hd cs)"
    using reads_float_head [OF f] .
  show ?case
    using scalar_value [OF i(1)] number_scalar [OF i] number_head [OF i(2)] read_float_text [OF f]
    by (simp add: reads_back_def tail_number_end)
next
  case (PStr s)
  have "json_quote s = dquote # tl (json_quote s)" by (simp add: json_quote_def)
  from scalar_value [OF this] show ?case
    by (simp add: reads_back_def quoted_scalar dquote_def)
next
  case PNone
  show ?case using scalar_value [of "''null''"] word_scalar [of fl] by (simp add: reads_back_def)
next
  case (PBool b)
  show ?case
    using scalar_value [of "''true''"] scalar_value [of "''false''"] word_scalar [of fl]
    by (cases b) (simp_all add: reads_back_def)
next
  case (PList xs)
  then have xs: "reads_back fl x \<and> readable fl x" if "x \<in> set xs" for x
    using that by (auto simp: list_all_iff)
  show ?case
    unfolding reads_back_def
  proof (intro allI impI)
    fix n r assume n: "length (json_print (PList xs)) \<le> n"
    then obtain m where m: "n = Suc m" by (cases n) simp_all
    show "json_value fl n (json_print (PList xs) @ r) = Some (PList xs, r)"
    proof (cases xs)
      case (Cons y ys)
      then obtain c cs where "json_print y = c # cs" "\<not> white c" "c \<noteq> CHR '']''"
        using xs [of y] by (auto elim: readable_head)
      then show ?thesis
        using elements_back [of xs fl m "[]" r] xs n m Cons by (simp add: join_Cons)
    qed (use m in simp)
  qed
next
  case (PDict kvs)
  then have kvs: "reads_back fl v \<and> readable fl v" if "(k, v) \<in> set kvs" for k v
    using that by (force simp: list_all_iff snds.simps)
  let ?m = "\<lambda>p. json_quote (fst p) @ '':'' @ json_print (snd p)"
  have printed: "json_print (PDict kvs) = ''{'' @ join '','' (map ?m kvs) @ ''}''"
    by (simp add: o_def)
  show ?case
    unfolding reads_back_def printed
  proof (intro allI impI)
    fix n r assume n: "length (''{'' @ join '','' (map ?m kvs) @ ''}'') \<le> n"
    then obtain m where m: "n = Suc m" by (cases n) simp_all
    show "json_value fl n ((''{'' @ join '','' (map ?m kvs) @ ''}'') @ r) = Some (PDict kvs, r)"
    proof (cases kvs)
      case (Cons y ys)
      then show ?thesis
        using members_back [of kvs fl "[]" m r] kvs PDict.prems n m
        by (simp add: join_Cons json_quote_def dquote_def white_def)
    qed (use m in simp)
  qed
qed simp_all

subsection \<open>Whole documents\<close>

text \<open>What is read is the value with the keys of every dictionary in the order of the text.\<close>

primrec key_sorted :: "pyval \<Rightarrow> pyval" where
  "key_sorted PNone = PNone"
| "key_sorted (PBool b) = PBool b"
| "key_sorted (PInt i) = PInt i"
| "key_sorted (PFloat f) = PFloat f"
| "key_sorted (PStr s) = PStr s"
| "key_sorted (PEnum l v) = PEnum l v"
| "key_sorted (PDatetime t) = PDatetime t"
| "key_sorted (PList xs) = PList (map key_sorted xs)"
| "key_sorted (PTuple xs) = PTuple (map key_sorted xs)"
| "key_sorted (PSet xs) = PSet (map key_sorted xs)"
| "key_sorted (PDict kvs) = PDict (sort_key fst (map (map_prod id key_sorted) kvs))"
| "key_sorted (PObj c kvs) = PObj c (map (map_prod id key_sorted) kvs)"

abbreviation sorted_dict :: "pydict \<Rightarrow> pydict" where
  "sorted_dict d \<equiv> sort_key fst (map (map_prod id key_sorted) d)"

lemma distinct_keys_sort [simp]: "distinct (map fst (sort_key f xs)) \<longleftrightarrow> distinct (map fst xs)"
  by (simp add: distinct_map)

lemma readable_sorted: "readable fl v \<Longrightarrow> readable fl (key_sorted v)"
proof (induction v)
  case (PDict kvs)
  then have "readable fl (key_sorted v)" if "(k, v) \<in> set kvs" for k v
    using that by (force simp: list_all_iff snds.simps)
  moreover have "distinct (map fst (sort_key fst (map (map_prod id key_sorted) kvs)))"
    using PDict.prems by (simp add: o_def)
  ultimately show ?case by (auto simp: list_all_iff)
qed (auto simp: list_all_iff)

lemma dumps_print: "readable fl v \<Longrightarrow> json_dumps json_quote v = json_print (key_sorted v)"
proof (induction v)
  case (PDict kvs)
  have "json_dumps json_quote v = json_print (key_sorted v)"
    if "p \<in> set kvs" "v \<in> Basic_BNFs.snds p" for p v
    using PDict that by (auto simp: list_all_iff snds.simps)
  then have "map (map_prod id (json_dumps json_quote)) kvs
      = map (map_prod id json_print) (map (map_prod id key_sorted) kvs)"
    by (auto simp: prod.map_comp snds.simps)
  then show ?case
    by (simp add: sort_key_map_prod del: map_map)
qed (auto simp: list_all_iff float_repr_def reads_float_def o_def split: pyfloat.splits
      intro!: arg_cong [where f = "join _"])

lemma json_loads_dumps:
  assumes "readable fl v"
  shows "json_loads fl (json_dumps json_quote v) = Inr (key_sorted v)"
proof -
  let ?s = "json_print (key_sorted v)"
  have ok: "readable fl (key_sorted v)" by (rule readable_sorted [OF assms])
  obtain c cs where "?s = c # cs" "\<not> white c" using readable_head [OF ok] .
  then have "skip_space ?s = ?s" by simp
  moreover have "json_value fl (2 * length ?s + 2) ?s = Some (key_sorted v, [])"
    using reads_backD [OF readable_reads_back [OF ok], of "2 * length ?s + 2" "[]"] by simp
  ultimately show ?thesis by (simp add: json_loads_def dumps_print [OF assms])
qed

end
