(* ===== verification/Codec.thy ===== *)
theory Codec
  imports Json_Reader
begin

text \<open>
  \<open>packages/storage/codec.py\<close>: the versioned JSON documents in which the durable store keeps
  its records.  Encoding normalises an object, wraps it in an envelope and writes canonical
  JSON; decoding checks the envelope and rebuilds the object.  A rebuilt object is a \<open>PObj\<close>
  with the values found in the document: the constructors of the dataclasses check no types.
\<close>

section \<open>The interpreter's conversions\<close>

text \<open>
  What the decoders get from the interpreter beyond what the encoders write: the float of a
  literal, \<open>fromisoformat\<close> of a text that is not in extended form, and \<open>dict\<close> of a non-empty
  list.
\<close>

record reader =
  rd_float :: "string \<Rightarrow> pyfloat"
  rd_iso :: "string \<Rightarrow> pydatetime result"
  rd_pairs :: "pyval list \<Rightarrow> pydict result"

definition type_error :: "string \<Rightarrow> 'a result" where
  "type_error m = Inl (PyExc TypeError m)"

definition value_error :: "string \<Rightarrow> 'a result" where
  "value_error m = Inl (PyExc ValueError m)"

text \<open>\<open>v[k]\<close>, \<open>v.items()\<close>, \<open>iter(v)\<close> and \<open>dict(v)\<close> of a value read from JSON.\<close>

definition item :: "pydict \<Rightarrow> string \<Rightarrow> pyval result" where
  "item d k = (case dget d k of Some v \<Rightarrow> Inr v | None \<Rightarrow> Inl (PyExc KeyError k))"

definition subscript :: "pyval \<Rightarrow> string \<Rightarrow> pyval result" where
  "subscript v k = (case v of PDict d \<Rightarrow> item d k | _ \<Rightarrow> type_error ''not subscriptable by a string'')"

definition items_of :: "pyval \<Rightarrow> pydict result" where
  "items_of v = (case v of PDict d \<Rightarrow> Inr d | _ \<Rightarrow> Inl (PyExc AttributeError ''items''))"

definition iterate :: "pyval \<Rightarrow> pyval list result" where
  "iterate v =
     (case v of
        PList xs \<Rightarrow> Inr xs
      | PDict d \<Rightarrow> Inr (map (PStr \<circ> fst) d)
      | PStr s \<Rightarrow> Inr (map (\<lambda>c. PStr [c]) s)
      | _ \<Rightarrow> type_error ''object is not iterable'')"

definition to_dict :: "reader \<Rightarrow> pyval \<Rightarrow> pydict result" where
  "to_dict rd v =
     (case v of
        PDict d \<Rightarrow> Inr d
      | PList xs \<Rightarrow> if xs = [] then Inr [] else rd_pairs rd xs
      | PStr s \<Rightarrow> if s = [] then Inr [] else value_error ''dictionary update sequence''
      | _ \<Rightarrow> type_error ''object is not iterable'')"

text \<open>\<open>Enum(v)\<close>: only the text of a value is one; every other value raises \<open>ValueError\<close>.\<close>

definition as_enum :: "string \<Rightarrow> (string \<Rightarrow> 'm option) \<Rightarrow> pyval \<Rightarrow> pyval result" where
  "as_enum cls find_member v =
     (case v of
        PStr s \<Rightarrow>
          (case find_member s of
             Some _ \<Rightarrow> Inr (enum_val cls s)
           | None \<Rightarrow> value_error (s @ '' is not a valid '' @ cls))
      | _ \<Rightarrow> value_error (''not a valid '' @ cls))"

text \<open>\<open>Enum(payload[k]) if payload.get(k) else None\<close>\<close>

definition optional :: "(pyval \<Rightarrow> pyval result) \<Rightarrow> pyval \<Rightarrow> pyval result" where
  "optional f v = (if truthy v then f v else Inr PNone)"

definition object :: "string \<Rightarrow> (string \<times> pyval result) list \<Rightarrow> pyval result" where
  "object cls parts = bindR (seq_items parts) (\<lambda>d. Inr (PObj cls d))"

text \<open>\<open>Cls(**v)\<close> for a dataclass with the given fields and defaults.\<close>

definition from_kwargs :: "string \<Rightarrow> (string \<times> pyval option) list \<Rightarrow> pyval \<Rightarrow> pyval result" where
  "from_kwargs cls params v =
     (case v of
        PDict d \<Rightarrow>
          if \<not> list_all (\<lambda>p. dmember (fst p) params) d then type_error ''unexpected keyword argument''
          else if \<not> list_all (\<lambda>p. snd p \<noteq> None \<or> dmember (fst p) d) params
            then type_error ''missing required arguments''
          else Inr (PObj cls (map (\<lambda>p. (fst p, get_or d (fst p) (case snd p of None \<Rightarrow> PNone | Some x \<Rightarrow> x))) params))
      | _ \<Rightarrow> type_error ''argument after ** must be a mapping'')"

section \<open>Objects as values\<close>

abbreviation instant_val :: "int \<Rightarrow> pyval" where
  "instant_val t \<equiv> PDatetime (Aware t)"

abbreviation outcome_val :: "decision_outcome \<Rightarrow> pyval" where
  "outcome_val x \<equiv> enum_val ''DecisionOutcome'' (decision_outcome_value x)"

abbreviation mode_val :: "governance_mode \<Rightarrow> pyval" where
  "mode_val x \<equiv> enum_val ''GovernanceMode'' (governance_mode_value x)"

abbreviation scenario_val :: "scenario_name \<Rightarrow> pyval" where
  "scenario_val x \<equiv> enum_val ''ScenarioName'' (scenario_name_value x)"

definition event_obj :: "trace_event \<Rightarrow> pyval" where
  "event_obj e = PObj ''TraceEvent''
     [(''event_id'', PStr (te_event_id e)), (''trace_id'', PStr (te_trace_id e)),
      (''sequence'', PInt (te_sequence e)),
      (''event_type'', enum_val ''EventType'' (event_type_value (te_event_type e))),
      (''summary'', PStr (te_summary e)), (''details'', PDict (te_details e)),
      (''agent'', opt_val agent_val (te_agent e)), (''tool_name'', opt_str (te_tool_name e)),
      (''effect_class'', opt_val effect_val (te_effect_class e)),
      (''occurred_at'', instant_val (te_occurred_at e)),
      (''schema_version'', PStr (te_schema_version e)),
      (''previous_hash'', PStr (te_previous_hash e)), (''event_hash'', PStr (te_event_hash e)),
      (''idempotency_key'', opt_str (te_idempotency_key e))]"

definition signal_obj :: "policy_signal \<Rightarrow> pyval" where
  "signal_obj g = PObj ''PolicySignal''
     [(''family'', PStr (ps_family g)), (''policy_id'', PStr (ps_policy_id g)),
      (''outcome'', outcome_val (ps_outcome g)), (''reason_code'', PStr (ps_reason_code g)),
      (''because'', PStr (ps_because g)), (''guidance'', opt_val PDict (ps_guidance g))]"

definition decision_obj :: "decision \<Rightarrow> pyval" where
  "decision_obj d = PObj ''Decision''
     [(''decision_id'', PStr (dc_decision_id d)), (''request_id'', PStr (dc_request_id d)),
      (''trace_id'', PStr (dc_trace_id d)), (''proposal_id'', PStr (dc_proposal_id d)),
      (''agent'', agent_val (dc_agent d)), (''tool_name'', PStr (dc_tool_name d)),
      (''effect_class'', opt_val effect_val (dc_effect_class d)),
      (''policy_outcome'', outcome_val (dc_policy_outcome d)),
      (''applied_outcome'', outcome_val (dc_applied_outcome d)),
      (''enforced'', PBool (dc_enforced d)), (''reason_code'', PStr (dc_reason_code d)),
      (''because'', PStr (dc_because d)),
      (''reasons'', PTuple (map signal_obj (dc_reasons d))),
      (''guidance'', opt_val PDict (dc_guidance d)),
      (''policy_version'', PStr (dc_policy_version d)),
      (''engine_name'', PStr (dc_engine_name d)),
      (''evaluation_ms'', PFloat (dc_evaluation_ms d)),
      (''policy_bundle_hash'', opt_str (dc_policy_bundle_hash d)),
      (''created_at'', instant_val (dc_created_at d))]"

definition head_obj :: "ledger_head \<Rightarrow> pyval" where
  "head_obj h = PObj ''LedgerHead''
     [(''trace_id'', PStr (lh_trace_id h)), (''sequence'', PInt (lh_sequence h)),
      (''event_count'', PInt (lh_event_count h)), (''event_hash'', PStr (lh_event_hash h)),
      (''schema_version'', PStr (lh_schema_version h)),
      (''updated_at'', instant_val (lh_updated_at h))]"

primrec replay_kind_value :: "replay_kind \<Rightarrow> string" where
  "replay_kind_value RK_EVENT = ''event''"
| "replay_kind_value RK_APPROVAL = ''approval''"

definition replay_kind_of :: "string \<Rightarrow> replay_kind option" where
  "replay_kind_of s = find (\<lambda>m. replay_kind_value m = s) [RK_EVENT, RK_APPROVAL]"

definition replay_obj :: "replay_record \<Rightarrow> pyval" where
  "replay_obj r = PObj ''ReplayRecord''
     [(''trace_id'', PStr (rr_trace_id r)),
      (''kind'', enum_val ''ReplayKind'' (replay_kind_value (rr_kind r))),
      (''key_hash'', PStr (rr_key_hash r)), (''fingerprint'', PStr (rr_fingerprint r)),
      (''result_reference'', PStr (rr_result_reference r)),
      (''created_at'', instant_val (rr_created_at r))]"

definition receipt_obj :: "effect_receipt \<Rightarrow> pyval" where
  "receipt_obj r = PObj ''EffectReceipt''
     [(''trace_id'', PStr (rc_trace_id r)), (''tool_name'', PStr (rc_tool_name r)),
      (''key_hash'', PStr (rc_key_hash r)), (''fingerprint'', PStr (rc_fingerprint r)),
      (''result'', PDict (rc_result r)), (''created_at'', instant_val (rc_created_at r))]"

text \<open>A frozen set of effect classes, in the order of the values.\<close>

definition effects_by_value :: "effect_class list" where
  "effects_by_value =
     [EC_EXTERNAL_DISCLOSURE, EC_FINANCIAL_COMMIT, EC_PHYSICAL_COMMIT, EC_READ, EC_REVERSIBLE_WRITE]"

definition effect_set :: "effect_class set \<Rightarrow> pyval" where
  "effect_set S = PSet (map effect_val (filter (\<lambda>c. c \<in> S) effects_by_value))"

definition mandate_obj :: "shipment_mandate \<Rightarrow> pyval" where
  "mandate_obj m = PObj ''ShipmentMandate''
     [(''mandate_id'', PStr (sm_mandate_id m)), (''order_id'', PStr (sm_order_id m)),
      (''mode'', mode_val (sm_mode m)), (''currency'', PStr (sm_currency m)),
      (''spend_ceiling_minor'', PInt (sm_spend_ceiling_minor m)),
      (''approval_threshold_minor'', PInt (sm_approval_threshold_minor m)),
      (''cargo_class'', PStr (sm_cargo_class m)),
      (''allowed_effect_classes'', effect_set (sm_allowed_effect_classes m)),
      (''policy_version'', PStr (sm_policy_version m))]"

definition scenario_obj :: "scenario_config \<Rightarrow> pyval" where
  "scenario_obj c = PObj ''ScenarioConfig''
     [(''name'', scenario_val (sc_name c)),
      (''prior_committed_minor'', PInt (sc_prior_committed_minor c)),
      (''attempted_weight_kg'', PInt (sc_attempted_weight_kg c)),
      (''preferred_vehicle_id'', PStr (sc_preferred_vehicle_id c)),
      (''preferred_quote_id'', PStr (sc_preferred_quote_id c))]"

definition fact_obj :: "numeric_fact \<Rightarrow> pyval" where
  "fact_obj f = PObj ''NumericFact''
     [(''fact_id'', PStr (nf_fact_id f)), (''name'', PStr (nf_name f)), (''value'', PInt (nf_value f)),
      (''unit'', PStr (nf_unit f)), (''source_id'', PStr (nf_source_id f)),
      (''source_hash'', PStr (nf_source_hash f)), (''created_by_tool'', PStr (nf_created_by_tool f))]"

definition effect_obj :: "effect_record \<Rightarrow> pyval" where
  "effect_obj r = PObj ''EffectRecord''
     [(''tool_name'', PStr (er_tool_name r)), (''effect_class'', effect_val (er_effect_class r)),
      (''resource_id'', PStr (er_resource_id r)), (''actor'', PStr (er_actor r))]"

definition dict_val :: "('v \<Rightarrow> pyval) \<Rightarrow> (string, 'v) dict \<Rightarrow> pyval" where
  "dict_val f d = PDict (map (map_prod id f) d)"

definition state_obj :: "trajectory_state \<Rightarrow> pyval" where
  "state_obj s = PObj ''TrajectoryState''
     [(''trace_id'', PStr (ts_trace_id s)), (''order_id'', PStr (ts_order_id s)),
      (''status'', enum_val ''RunStatus'' (run_status_value (ts_status s))),
      (''current_agent'', opt_val agent_val (ts_current_agent s)), (''mode'', mode_val (ts_mode s)),
      (''scenario'', scenario_val (ts_scenario s)),
      (''scenario_config'', opt_val scenario_obj (ts_scenario_config s)),
      (''mandate'', opt_val mandate_obj (ts_mandate s)),
      (''policy_version'', PStr (ts_policy_version s)),
      (''workflow_stage'', enum_val ''WorkflowStage'' (workflow_stage_value (ts_workflow_stage s))),
      (''order'', opt_val order_obj (ts_order s)),
      (''inventory_fact'', opt_val inventory_obj (ts_inventory_fact s)),
      (''facts'', dict_val fact_obj (ts_facts s)),
      (''selected_vehicle'', opt_val vehicle_obj (ts_selected_vehicle s)),
      (''selected_quote'', opt_val quote_obj (ts_selected_quote s)),
      (''dispatch_plan_id'', opt_str (ts_dispatch_plan_id s)),
      (''carrier_selection_id'', opt_str (ts_carrier_selection_id s)),
      (''prepared_actions'', dict_val prepared_obj (ts_prepared_actions s)),
      (''confirmed_booking_id'', opt_str (ts_confirmed_booking_id s)),
      (''pending_approval_id'', opt_str (ts_pending_approval_id s)),
      (''spend_committed_minor'', PInt (ts_spend_committed_minor s)),
      (''spend_reserved_minor'', PInt (ts_spend_reserved_minor s)),
      (''decisions'', PList (map decision_obj (ts_decisions s))),
      (''guide_attempts'', dict_val (PInt \<circ> int) (ts_guide_attempts s)),
      (''effect_history'', PList (map effect_obj (ts_effect_history s))),
      (''quoted_by'', opt_str (ts_quoted_by s)),
      (''prepared_by'', opt_val agent_val (ts_prepared_by s)),
      (''approved_by'', opt_str (ts_approved_by s)),
      (''notification_id'', opt_str (ts_notification_id s)),
      (''events'', PList (map event_obj (ts_events s))),
      (''next_sequence'', PInt (ts_next_sequence s)),
      (''tool_call_count'', PInt (int (ts_tool_call_count s))),
      (''error'', opt_str (ts_error s)), (''terminal_reason'', opt_str (ts_terminal_reason s)),
      (''storage_revision'', PInt (ts_storage_revision s))]"

section \<open>Documents\<close>

definition STATE_SCHEMA_VERSION :: string where "STATE_SCHEMA_VERSION = ''trace-state-v1''"

definition STORAGE_SCHEMA_VERSION :: string where "STORAGE_SCHEMA_VERSION = ''manifest-storage-v1''"

definition MAX_PERSISTED_ITEM_BYTES :: nat where "MAX_PERSISTED_ITEM_BYTES = 350000"

definition EVENT_RECORD_SCHEMA_VERSION :: string where
  "EVENT_RECORD_SCHEMA_VERSION = ''trace-event-record-v1''"

definition DECISION_RECORD_SCHEMA_VERSION :: string where
  "DECISION_RECORD_SCHEMA_VERSION = ''decision-record-v1''"

definition APPROVAL_RECORD_SCHEMA_VERSION :: string where
  "APPROVAL_RECORD_SCHEMA_VERSION = ''approval-record-v1''"

definition HEAD_RECORD_SCHEMA_VERSION :: string where
  "HEAD_RECORD_SCHEMA_VERSION = ''ledger-head-record-v1''"

definition REPLAY_RECORD_SCHEMA_VERSION :: string where
  "REPLAY_RECORD_SCHEMA_VERSION = ''replay-record-v1''"

definition EFFECT_RECORD_SCHEMA_VERSION :: string where
  "EFFECT_RECORD_SCHEMA_VERSION = ''effect-receipt-v1''"

primrec wire :: "pyval \<Rightarrow> pyval result" where
  "wire PNone = Inr PNone"
| "wire (PBool b) = Inr (PBool b)"
| "wire (PInt i) = Inr (PInt i)"
| "wire (PFloat f) = Inr (PFloat f)"
| "wire (PStr s) = Inr (PStr s)"
| "wire (PEnum l v) = Inr (PStr v)"
| "wire (PDatetime dt) =
     (case dt of
        Naive _ \<Rightarrow> Inl (Manifest TracePersistenceError ''Persisted datetimes must include a timezone.'')
      | Aware t \<Rightarrow> Inr (PStr (iso_micro t)))"
| "wire (PList xs) = bindR (seqR (map wire xs)) (\<lambda>ys. Inr (PList ys))"
| "wire (PTuple xs) = bindR (seqR (map wire xs)) (\<lambda>ys. Inr (PList ys))"
| "wire (PSet xs) = bindR (seqR (map wire xs)) (\<lambda>ys. Inr (PList (sort_key py_str ys)))"
| "wire (PDict kvs) = bindR (seq_items (map (map_prod id wire) kvs)) (\<lambda>d. Inr (PDict d))"
| "wire (PObj c kvs) = bindR (seq_items (map (map_prod id wire) kvs)) (\<lambda>d. Inr (PDict d))"

definition assert_item_size :: "string \<Rightarrow> string \<Rightarrow> nat \<Rightarrow> unit result" where
  "assert_item_size document label maximum_bytes =
     (if length document > maximum_bytes
      then Inl (Manifest ItemSizeLimitError
             (''Serialized '' @ label @ '' is '' @ show_nat (length document) @ '' bytes; maximum is ''
              @ show_nat maximum_bytes @ ''.''))
      else Inr ())"

definition envelope :: "string \<Rightarrow> pyval \<Rightarrow> pyval" where
  "envelope schema_version payload =
     PDict [(''storage_schema_version'', PStr STORAGE_SCHEMA_VERSION),
            (''record_schema_version'', PStr schema_version), (''payload'', payload)]"

definition encode_record :: "string \<Rightarrow> pyval \<Rightarrow> string \<Rightarrow> string result" where
  "encode_record schema_version payload label =
     bindR (wire payload) (\<lambda>p.
     bindR (canonical_json (envelope schema_version p)) (\<lambda>document.
     bindR (assert_item_size document label MAX_PERSISTED_ITEM_BYTES) (\<lambda>_.
     Inr document)))"

definition persistence_error :: "string \<Rightarrow> 'a result" where
  "persistence_error m = Inl (Manifest TracePersistenceError m)"

definition version_error :: "string \<Rightarrow> 'a result" where
  "version_error m = Inl (Manifest SerializationVersionError m)"

definition decode_record :: "reader \<Rightarrow> string \<Rightarrow> string \<Rightarrow> string \<Rightarrow> pydict result" where
  "decode_record rd document expected_schema label =
     (case json_loads (rd_float rd) document of
        Inl _ \<Rightarrow> persistence_error (''Stored '' @ label @ '' is not valid JSON.'')
      | Inr v \<Rightarrow>
          (case v of
             PDict env \<Rightarrow>
               if \<not> py_eq (get_none env ''storage_schema_version'') (PStr STORAGE_SCHEMA_VERSION)
                 then version_error (''Stored '' @ label @ '' uses an unsupported storage schema version.'')
               else if \<not> py_eq (get_none env ''record_schema_version'') (PStr expected_schema)
                 then version_error (''Stored '' @ label @ '' uses an unsupported record schema version.'')
               else
                 (case get_none env ''payload'' of
                    PDict payload \<Rightarrow> Inr payload
                  | _ \<Rightarrow> persistence_error (''Stored '' @ label @ '' payload must be an object.''))
           | _ \<Rightarrow> persistence_error (''Stored '' @ label @ '' must be a JSON object.'')))"

definition construct :: "string \<Rightarrow> 'a result \<Rightarrow> 'a result" where
  "construct label r =
     (case r of
        Inl (PyExc k _) \<Rightarrow>
          if k \<in> {KeyError, TypeError, ValueError}
          then persistence_error (''Stored '' @ label @ '' payload is invalid.'') else r
      | _ \<Rightarrow> r)"

definition read_datetime :: "reader \<Rightarrow> pyval \<Rightarrow> pyval result" where
  "read_datetime rd v =
     (case v of
        PStr s \<Rightarrow>
          bindR (fromisoformat (rd_iso rd) (replace_Z s)) (\<lambda>parsed.
            case parsed of
              Naive _ \<Rightarrow> value_error ''Datetime must include a timezone.''
            | Aware t \<Rightarrow> bindR (astimezone_utc t) (\<lambda>u. Inr (instant_val u)))
      | _ \<Rightarrow> value_error ''Datetime must be a string.'')"

section \<open>The trajectory state\<close>

text \<open>\<open>payload.pop("events", None)\<close> and \<open>payload.pop("decisions", None)\<close>.\<close>

definition without_histories :: "pyval \<Rightarrow> pyval" where
  "without_histories v =
     (case v of PDict d \<Rightarrow> PDict (dpop ''decisions'' (dpop ''events'' d)) | _ \<Rightarrow> v)"

definition encode_state_json :: "trajectory_state \<Rightarrow> string result" where
  "encode_state_json s =
     bindR (wire (state_obj s)) (\<lambda>payload.
       encode_record STATE_SCHEMA_VERSION (without_histories payload) ''trace state'')"

definition prepared_action_of :: "reader \<Rightarrow> pyval \<Rightarrow> pyval result" where
  "prepared_action_of rd v = object ''PreparedAction''
     [(''prepared_action_id'', subscript v ''prepared_action_id''),
      (''trace_id'', subscript v ''trace_id''), (''tool_name'', subscript v ''tool_name''),
      (''resource_id'', subscript v ''resource_id''), (''amount_minor'', subscript v ''amount_minor''),
      (''currency'', subscript v ''currency''),
      (''prepared_by'', bindR (subscript v ''prepared_by'') (as_enum ''AgentName'' agent_name_of)),
      (''arguments'', bindR (bindR (subscript v ''arguments'') (to_dict rd)) (\<lambda>d. Inr (PDict d))),
      (''action_hash'', subscript v ''action_hash''), (''state_hash'', subscript v ''state_hash''),
      (''mandate_id'', subscript v ''mandate_id''), (''policy_version'', subscript v ''policy_version''),
      (''spend_committed_at_prepare_minor'', subscript v ''spend_committed_at_prepare_minor''),
      (''spend_reserved_before_minor'', subscript v ''spend_reserved_before_minor''),
      (''spend_reserved_after_minor'', subscript v ''spend_reserved_after_minor''),
      (''status'', bindR (subscript v ''status'') (as_enum ''CommitmentStatus'' commitment_status_of)),
      (''expires_at'', bindR (subscript v ''expires_at'') (read_datetime rd))]"

definition effect_members :: "pyval list \<Rightarrow> pyval result" where
  "effect_members xs =
     bindR (seqR (map (as_enum ''EffectClass'' effect_class_of) xs)) (\<lambda>es.
       Inr (effect_set (set (filter (\<lambda>c. effect_val c \<in> set es) effects_by_value))))"

definition mandate_of :: "pyval \<Rightarrow> pyval result" where
  "mandate_of v = object ''ShipmentMandate''
     [(''mandate_id'', subscript v ''mandate_id''), (''order_id'', subscript v ''order_id''),
      (''mode'', bindR (subscript v ''mode'') (as_enum ''GovernanceMode'' governance_mode_of)),
      (''currency'', subscript v ''currency''),
      (''spend_ceiling_minor'', subscript v ''spend_ceiling_minor''),
      (''approval_threshold_minor'', subscript v ''approval_threshold_minor''),
      (''cargo_class'', subscript v ''cargo_class''),
      (''allowed_effect_classes'',
        bindR (bindR (subscript v ''allowed_effect_classes'') iterate) effect_members),
      (''policy_version'', subscript v ''policy_version'')]"

definition scenario_of :: "pyval \<Rightarrow> pyval result" where
  "scenario_of v = object ''ScenarioConfig''
     [(''name'', bindR (subscript v ''name'') (as_enum ''ScenarioName'' scenario_name_of)),
      (''prior_committed_minor'', subscript v ''prior_committed_minor''),
      (''attempted_weight_kg'', subscript v ''attempted_weight_kg''),
      (''preferred_vehicle_id'', subscript v ''preferred_vehicle_id''),
      (''preferred_quote_id'', subscript v ''preferred_quote_id'')]"

definition effect_record_of :: "pyval \<Rightarrow> pyval result" where
  "effect_record_of v = object ''EffectRecord''
     [(''tool_name'', subscript v ''tool_name''),
      (''effect_class'', bindR (subscript v ''effect_class'') (as_enum ''EffectClass'' effect_class_of)),
      (''resource_id'', subscript v ''resource_id''), (''actor'', subscript v ''actor'')]"

text \<open>The fields of the dataclasses that are rebuilt by keyword, with their defaults.\<close>

abbreviation required :: "string list \<Rightarrow> (string \<times> pyval option) list" where
  "required \<equiv> map (\<lambda>k. (k, None))"

definition order_params :: "(string \<times> pyval option) list" where
  "order_params = required [''order_id'', ''sku_id'', ''quantity'', ''cargo_class'', ''destination_zone'',
     ''currency'', ''spend_ceiling_minor'']"

definition inventory_params :: "(string \<times> pyval option) list" where
  "inventory_params = required [''fact_id'', ''sku_id'', ''available_quantity'', ''shipment_weight_kg'',
     ''source_id''] @ [(''source_hash'', Some (PStr []))]"

definition fact_params :: "(string \<times> pyval option) list" where
  "fact_params = required [''fact_id'', ''name'', ''value'', ''unit'', ''source_id'', ''source_hash'',
     ''created_by_tool'']"

definition vehicle_params :: "(string \<times> pyval option) list" where
  "vehicle_params = required [''vehicle_id'', ''capacity_kg'', ''refrigerated'', ''available'']"

definition quote_params :: "(string \<times> pyval option) list" where
  "quote_params = required [''quote_id'', ''carrier_id'', ''amount_minor'', ''currency'',
     ''cold_chain_certified'', ''lane_supported''] @
     [(''quote_issuer'', Some (PStr ''synthetic_carrier_adapter''))]"

text \<open>\<open>{key: build(record) for key, record in payload.get(name, {}).items()}\<close>\<close>

definition each_item :: "(pyval \<Rightarrow> pyval result) \<Rightarrow> pyval \<Rightarrow> pyval result" where
  "each_item f v =
     bindR (items_of v) (\<lambda>d. bindR (seq_items (map (map_prod id f) d)) (\<lambda>d'. Inr (PDict d')))"

definition build_state :: "reader \<Rightarrow> pyval list \<Rightarrow> pyval list \<Rightarrow> pydict \<Rightarrow> pyval result" where
  "build_state rd events decisions p =
     bindR (if get_none p ''mandate'' = PNone then Inr PNone else mandate_of (get_none p ''mandate''))
       (\<lambda>mandate.
     bindR (if get_none p ''scenario_config'' = PNone then Inr PNone
            else scenario_of (get_none p ''scenario_config'')) (\<lambda>scenario_config.
     bindR (optional (from_kwargs ''Order'' order_params) (get_none p ''order'')) (\<lambda>order.
     bindR (optional (from_kwargs ''InventoryFact'' inventory_params) (get_none p ''inventory_fact''))
       (\<lambda>inventory.
     bindR (each_item (from_kwargs ''NumericFact'' fact_params) (get_or p ''facts'' (PDict []))) (\<lambda>facts.
     bindR (optional (from_kwargs ''Vehicle'' vehicle_params) (get_none p ''selected_vehicle''))
       (\<lambda>selected_vehicle.
     bindR (optional (from_kwargs ''CarrierQuote'' quote_params) (get_none p ''selected_quote''))
       (\<lambda>selected_quote.
     bindR (each_item (prepared_action_of rd) (get_or p ''prepared_actions'' (PDict [])))
       (\<lambda>prepared_actions.
     bindR (bindR (iterate (get_or p ''effect_history'' (PList []))) (\<lambda>xs. seqR (map effect_record_of xs)))
       (\<lambda>effect_history.
     object ''TrajectoryState''
       [(''trace_id'', item p ''trace_id''), (''order_id'', item p ''order_id''),
        (''status'', bindR (item p ''status'') (as_enum ''RunStatus'' run_status_of)),
        (''current_agent'',
          optional (as_enum ''AgentName'' agent_name_of) (get_none p ''current_agent'')),
        (''mode'', bindR (item p ''mode'') (as_enum ''GovernanceMode'' governance_mode_of)),
        (''scenario'', bindR (item p ''scenario'') (as_enum ''ScenarioName'' scenario_name_of)),
        (''scenario_config'', Inr scenario_config), (''mandate'', Inr mandate),
        (''policy_version'', item p ''policy_version''),
        (''workflow_stage'',
          bindR (item p ''workflow_stage'') (as_enum ''WorkflowStage'' workflow_stage_of)),
        (''order'', Inr order), (''inventory_fact'', Inr inventory), (''facts'', Inr facts),
        (''selected_vehicle'', Inr selected_vehicle), (''selected_quote'', Inr selected_quote),
        (''dispatch_plan_id'', Inr (get_none p ''dispatch_plan_id'')),
        (''carrier_selection_id'', Inr (get_none p ''carrier_selection_id'')),
        (''prepared_actions'', Inr prepared_actions),
        (''confirmed_booking_id'', Inr (get_none p ''confirmed_booking_id'')),
        (''pending_approval_id'', Inr (get_none p ''pending_approval_id'')),
        (''spend_committed_minor'', item p ''spend_committed_minor''),
        (''spend_reserved_minor'', item p ''spend_reserved_minor''),
        (''decisions'', Inr (PList decisions)),
        (''guide_attempts'',
          bindR (to_dict rd (get_or p ''guide_attempts'' (PDict []))) (\<lambda>d. Inr (PDict d))),
        (''effect_history'', Inr (PList effect_history)),
        (''quoted_by'', Inr (get_none p ''quoted_by'')),
        (''prepared_by'', optional (as_enum ''AgentName'' agent_name_of) (get_none p ''prepared_by'')),
        (''approved_by'', Inr (get_none p ''approved_by'')),
        (''notification_id'', Inr (get_none p ''notification_id'')),
        (''events'', Inr (PList events)),
        (''next_sequence'', item p ''next_sequence''),
        (''tool_call_count'', item p ''tool_call_count''), (''error'', Inr (get_none p ''error'')),
        (''terminal_reason'', Inr (get_none p ''terminal_reason'')),
        (''storage_revision'', Inr (get_or p ''storage_revision'' (PInt 0)))])))))))))"

definition decode_state_json ::
  "reader \<Rightarrow> pyval list \<Rightarrow> pyval list \<Rightarrow> string \<Rightarrow> pyval result" where
  "decode_state_json rd events decisions document =
     bindR (decode_record rd document STATE_SCHEMA_VERSION ''trace state'') (\<lambda>payload.
       construct ''trace state'' (build_state rd events decisions payload))"

section \<open>The other records\<close>

definition encode_event_json :: "trace_event \<Rightarrow> string result" where
  "encode_event_json e = encode_record EVENT_RECORD_SCHEMA_VERSION (event_obj e) ''trace event''"

definition build_event :: "reader \<Rightarrow> pydict \<Rightarrow> pyval result" where
  "build_event rd p = object ''TraceEvent''
     [(''event_id'', item p ''event_id''), (''trace_id'', item p ''trace_id''),
      (''sequence'', item p ''sequence''),
      (''event_type'', bindR (item p ''event_type'') (as_enum ''EventType'' event_type_of)),
      (''summary'', item p ''summary''),
      (''details'', bindR (to_dict rd (get_or p ''details'' (PDict []))) (\<lambda>d. Inr (PDict d))),
      (''agent'', optional (as_enum ''AgentName'' agent_name_of) (get_none p ''agent'')),
      (''tool_name'', Inr (get_none p ''tool_name'')),
      (''effect_class'', optional (as_enum ''EffectClass'' effect_class_of) (get_none p ''effect_class'')),
      (''occurred_at'', bindR (item p ''occurred_at'') (read_datetime rd)),
      (''schema_version'', item p ''schema_version''), (''previous_hash'', item p ''previous_hash''),
      (''event_hash'', item p ''event_hash''),
      (''idempotency_key'', Inr (get_none p ''idempotency_key''))]"

definition decode_event_json :: "reader \<Rightarrow> string \<Rightarrow> pyval result" where
  "decode_event_json rd document =
     bindR (decode_record rd document EVENT_RECORD_SCHEMA_VERSION ''trace event'') (\<lambda>payload.
       construct ''trace event'' (build_event rd payload))"

definition encode_decision_json :: "decision \<Rightarrow> string result" where
  "encode_decision_json d = encode_record DECISION_RECORD_SCHEMA_VERSION (decision_obj d) ''decision''"

definition signal_of :: "pyval \<Rightarrow> pyval result" where
  "signal_of v = object ''PolicySignal''
     [(''family'', subscript v ''family''), (''policy_id'', subscript v ''policy_id''),
      (''outcome'', bindR (subscript v ''outcome'') (as_enum ''DecisionOutcome'' decision_outcome_of)),
      (''reason_code'', subscript v ''reason_code''), (''because'', subscript v ''because''),
      (''guidance'', bindR (items_of v) (\<lambda>d. Inr (get_none d ''guidance'')))]"

definition build_decision :: "reader \<Rightarrow> pydict \<Rightarrow> pyval result" where
  "build_decision rd p =
     bindR (bindR (bindR (item p ''reasons'') iterate) (\<lambda>xs. seqR (map signal_of xs))) (\<lambda>reasons.
     object ''Decision''
       [(''decision_id'', item p ''decision_id''), (''request_id'', item p ''request_id''),
        (''trace_id'', item p ''trace_id''), (''proposal_id'', item p ''proposal_id''),
        (''agent'', bindR (item p ''agent'') (as_enum ''AgentName'' agent_name_of)),
        (''tool_name'', item p ''tool_name''),
        (''effect_class'',
          optional (as_enum ''EffectClass'' effect_class_of) (get_none p ''effect_class'')),
        (''policy_outcome'',
          bindR (item p ''policy_outcome'') (as_enum ''DecisionOutcome'' decision_outcome_of)),
        (''applied_outcome'',
          bindR (item p ''applied_outcome'') (as_enum ''DecisionOutcome'' decision_outcome_of)),
        (''enforced'', item p ''enforced''), (''reason_code'', item p ''reason_code''),
        (''because'', item p ''because''), (''reasons'', Inr (PTuple reasons)),
        (''guidance'', Inr (get_none p ''guidance'')),
        (''policy_version'', item p ''policy_version''), (''engine_name'', item p ''engine_name''),
        (''evaluation_ms'', item p ''evaluation_ms''),
        (''policy_bundle_hash'', Inr (get_none p ''policy_bundle_hash'')),
        (''created_at'', bindR (item p ''created_at'') (read_datetime rd))])"

definition decode_decision_json :: "reader \<Rightarrow> string \<Rightarrow> pyval result" where
  "decode_decision_json rd document =
     bindR (decode_record rd document DECISION_RECORD_SCHEMA_VERSION ''decision'') (\<lambda>payload.
       construct ''decision'' (build_decision rd payload))"

definition encode_approval_json :: "approval_record \<Rightarrow> string result" where
  "encode_approval_json a = encode_record APPROVAL_RECORD_SCHEMA_VERSION (approval_obj a) ''approval''"

definition build_approval :: "reader \<Rightarrow> pydict \<Rightarrow> pyval result" where
  "build_approval rd p = object ''ApprovalRecord''
     [(''approval_id'', item p ''approval_id''), (''trace_id'', item p ''trace_id''),
      (''prepared_action_id'', item p ''prepared_action_id''),
      (''action_hash'', item p ''action_hash''), (''state_hash'', item p ''state_hash''),
      (''policy_version'', item p ''policy_version''), (''reason_code'', item p ''reason_code''),
      (''status'', bindR (item p ''status'') (as_enum ''ApprovalStatus'' approval_status_of)),
      (''created_at'', bindR (item p ''created_at'') (read_datetime rd)),
      (''expires_at'', bindR (item p ''expires_at'') (read_datetime rd)),
      (''version'', item p ''version''),
      (''decided_at'', optional (read_datetime rd) (get_none p ''decided_at'')),
      (''decision'',
        optional (as_enum ''ApprovalDecision'' approval_decision_of) (get_none p ''decision'')),
      (''approver_label'', Inr (get_none p ''approver_label'')),
      (''comment'', Inr (get_none p ''comment'')),
      (''decision_idempotency_key'', Inr (get_none p ''decision_idempotency_key''))]"

definition decode_approval_json :: "reader \<Rightarrow> string \<Rightarrow> pyval result" where
  "decode_approval_json rd document =
     bindR (decode_record rd document APPROVAL_RECORD_SCHEMA_VERSION ''approval'') (\<lambda>payload.
       construct ''approval'' (build_approval rd payload))"

definition encode_head_json :: "ledger_head \<Rightarrow> string result" where
  "encode_head_json h = encode_record HEAD_RECORD_SCHEMA_VERSION (head_obj h) ''ledger head''"

definition build_head :: "reader \<Rightarrow> pydict \<Rightarrow> pyval result" where
  "build_head rd p = object ''LedgerHead''
     [(''trace_id'', item p ''trace_id''), (''sequence'', item p ''sequence''),
      (''event_count'', item p ''event_count''), (''event_hash'', item p ''event_hash''),
      (''schema_version'', item p ''schema_version''),
      (''updated_at'', bindR (item p ''updated_at'') (read_datetime rd))]"

definition decode_head_json :: "reader \<Rightarrow> string \<Rightarrow> pyval result" where
  "decode_head_json rd document =
     bindR (decode_record rd document HEAD_RECORD_SCHEMA_VERSION ''ledger head'') (\<lambda>payload.
       construct ''ledger head'' (build_head rd payload))"

text \<open>\<open>__post_init__\<close> of the storage records: the named fields have to be true.\<close>

definition check_fields :: "string list \<Rightarrow> string \<Rightarrow> pyval \<Rightarrow> pyval result" where
  "check_fields ks message v =
     (case v of
        PObj c d \<Rightarrow> if list_all (\<lambda>k. truthy (get_none d k)) ks then Inr v else value_error message
      | _ \<Rightarrow> Inr v)"

definition encode_replay_json :: "replay_record \<Rightarrow> string result" where
  "encode_replay_json r = encode_record REPLAY_RECORD_SCHEMA_VERSION (replay_obj r) ''replay record''"

definition build_replay :: "reader \<Rightarrow> pydict \<Rightarrow> pyval result" where
  "build_replay rd p =
     bindR (object ''ReplayRecord''
       [(''trace_id'', item p ''trace_id''),
        (''kind'', bindR (item p ''kind'') (as_enum ''ReplayKind'' replay_kind_of)),
        (''key_hash'', item p ''key_hash''), (''fingerprint'', item p ''fingerprint''),
        (''result_reference'', item p ''result_reference''),
        (''created_at'', bindR (item p ''created_at'') (read_datetime rd))])
     (check_fields [''trace_id'', ''key_hash'', ''fingerprint'']
       ''A replay record requires trace, key, and fingerprint values.'')"

definition decode_replay_json :: "reader \<Rightarrow> string \<Rightarrow> pyval result" where
  "decode_replay_json rd document =
     bindR (decode_record rd document REPLAY_RECORD_SCHEMA_VERSION ''replay record'') (\<lambda>payload.
       construct ''replay record'' (build_replay rd payload))"

definition encode_effect_json :: "effect_receipt \<Rightarrow> string result" where
  "encode_effect_json r = encode_record EFFECT_RECORD_SCHEMA_VERSION (receipt_obj r) ''effect receipt''"

definition build_effect :: "reader \<Rightarrow> pydict \<Rightarrow> pyval result" where
  "build_effect rd p =
     bindR (object ''EffectReceipt''
       [(''trace_id'', item p ''trace_id''), (''tool_name'', item p ''tool_name''),
        (''key_hash'', item p ''key_hash''), (''fingerprint'', item p ''fingerprint''),
        (''result'', bindR (bindR (item p ''result'') (to_dict rd)) (\<lambda>d. Inr (PDict d))),
        (''created_at'', bindR (item p ''created_at'') (read_datetime rd))])
     (check_fields [''trace_id'', ''tool_name'', ''key_hash'']
       ''An effect receipt requires trace, tool, and key values.'')"

definition decode_effect_json :: "reader \<Rightarrow> string \<Rightarrow> pyval result" where
  "decode_effect_json rd document =
     bindR (decode_record rd document EFFECT_RECORD_SCHEMA_VERSION ''effect receipt'') (\<lambda>payload.
       construct ''effect receipt'' (build_effect rd payload))"

end
