(* ===== verification/Codec_Properties.thy ===== *)
theory Codec_Properties
  imports Codec
begin

text \<open>
  What is stored comes back: for every kind of record the decoder undoes the encoder, up to
  the order of dictionary keys.  The contract of one codec is the locale \<open>record_codec\<close>, and
  every codec of \<open>packages/storage/codec.py\<close> interprets it.
\<close>

section \<open>Values on their way through a document\<close>

lemma readable_normalize: "readable fl v \<Longrightarrow> normalize v = Inr v"
proof (induction v)
  case (PList xs)
  then have "map normalize xs = map Inr xs" by (auto simp: list_all_iff)
  then show ?case by (simp add: seqR_Inr_iff)
next
  case (PDict kvs)
  then have "map (map_prod id normalize) kvs = map (map_prod id Inr) kvs"
    by (force simp: list_all_iff snds.simps)
  then show ?case by (simp add: seq_items_Inr_iff)
qed (auto simp: reads_float_def split: pyfloat.splits)

lemma wire_items:
  assumes "\<And>k v n. (k, v) \<in> set kvs \<Longrightarrow> f v = Inr n \<Longrightarrow> g v = Inr n"
    and "map (map_prod id f) kvs = map (map_prod id Inr) ys"
  shows "map (map_prod id g) kvs = map (map_prod id Inr) ys"
  using assms
proof (induction kvs arbitrary: ys)
  case (Cons p kvs)
  obtain k v where p: "p = (k, v)" by (cases p)
  from Cons.prems(2) p obtain w zs where ys: "ys = (k, w) # zs" "f v = Inr w"
    "map (map_prod id f) kvs = map (map_prod id Inr) zs"
    by (cases ys) (auto simp: id_def)
  then have "map (map_prod id g) kvs = map (map_prod id Inr) zs"
    by (intro Cons.IH [OF _ ys(3)]) (use Cons.prems(1) in auto)
  moreover have "g v = Inr w" using Cons.prems(1) [of k v w] p ys(2) by simp
  ultimately show ?case using p ys(1) by (simp add: id_def)
qed simp

text \<open>Where normalisation for the ledger succeeds, normalisation for storage agrees with it.\<close>

lemma normalize_wire: "normalize v = Inr n \<Longrightarrow> wire v = Inr n"
proof (induction v arbitrary: n)
  case (PList xs)
  then obtain ys where ys: "map normalize xs = map Inr ys" "n = PList ys" by (auto simp: seqR_Inr_iff)
  then have "map wire xs = map Inr ys"
    using PList.IH by (auto simp: list_eq_iff_nth_eq)
  then show ?case using ys by (simp add: seqR_Inr_iff)
next
  case (PTuple xs)
  then obtain ys where ys: "map normalize xs = map Inr ys" "n = PList ys" by (auto simp: seqR_Inr_iff)
  then have "map wire xs = map Inr ys"
    using PTuple.IH by (auto simp: list_eq_iff_nth_eq)
  then show ?case using ys by (simp add: seqR_Inr_iff)
next
  case (PDict kvs)
  then obtain ys where ys: "map (map_prod id normalize) kvs = map (map_prod id Inr) ys" "n = PDict ys"
    by (auto simp: seq_items_Inr_iff)
  have "map (map_prod id wire) kvs = map (map_prod id Inr) ys"
    by (rule wire_items [OF _ ys(1)]) (use PDict.IH in \<open>auto simp: snds.simps\<close>)
  then show ?case using ys by (simp add: seq_items_Inr_iff)
next
  case (PObj c kvs)
  then obtain ys where ys: "map (map_prod id normalize) kvs = map (map_prod id Inr) ys" "n = PDict ys"
    by (auto simp: seq_items_Inr_iff)
  have "map (map_prod id wire) kvs = map (map_prod id Inr) ys"
    by (rule wire_items [OF _ ys(1)]) (use PObj.IH in \<open>auto simp: snds.simps\<close>)
  then show ?case using ys by (simp add: seq_items_Inr_iff)
qed (auto split: pyfloat.splits pydatetime.splits)

section \<open>Looking up in a document\<close>

lemma dget_sorted:
  assumes "distinct (map fst d)"
  shows "dget (sorted_dict d) k = map_option key_sorted (dget d k)"
proof -
  let ?e = "map (map_prod id key_sorted) d"
  have d: "distinct (map fst ?e)" using assms by (simp add: o_def)
  have "dget (sort_key fst ?e) = dget ?e"
    by (subst map_of_inject_set) (use d in simp_all)
  then show ?thesis by (simp add: dget_map_values)
qed

lemma item_sorted:
  "distinct (map fst d) \<Longrightarrow>
   item (sorted_dict d) k = (case dget d k of Some v \<Rightarrow> Inr (key_sorted v) | None \<Rightarrow> Inl (PyExc KeyError k))"
  by (auto simp: item_def dget_sorted split: option.split)

lemma get_or_sorted:
  "distinct (map fst d) \<Longrightarrow>
   get_or (sorted_dict d) k x = (case dget d k of Some v \<Rightarrow> key_sorted v | None \<Rightarrow> x)"
  by (auto simp: get_or_def dget_sorted split: option.split)

lemma wire_opt: "(\<And>a. wire (f a) = Inr (g a)) \<Longrightarrow> wire (opt_val f x) = Inr (opt_val g x)"
  by (cases x) simp_all

lemma key_sorted_opt [simp]: "key_sorted (opt_str x) = opt_str x"
  by (cases x) simp_all

lemma readable_opt [simp]: "readable fl (opt_str x)"
  by (cases x) simp_all

lemma wire_enum [simp]: "wire (enum_val c v) = Inr (PStr v)"
  by (simp add: enum_val_def)

lemma wire_opt_str [simp]: "wire (opt_str x) = Inr (opt_str x)"
  by (cases x) simp_all

lemma wire_opt_enum [simp]:
  "wire (opt_val (\<lambda>a. enum_val c (f a)) x) = Inr (opt_str (map_option f x))"
  by (cases x) simp_all

lemma enum_values_nonempty [simp]:
  "agent_name_value a \<noteq> []" "effect_class_value c \<noteq> []" "approval_decision_value d \<noteq> []"
  by (cases a; simp) (cases c; simp; fail | cases d; simp)+

lemma replay_kind_of_value [simp]: "replay_kind_of (replay_kind_value k) = Some k"
  by (cases k) (simp_all add: replay_kind_of_def)

text \<open>Members come back from their values, absent members from nothing.\<close>

lemma as_enum_value: "find_member (val m) = Some m \<Longrightarrow> as_enum cls find_member (PStr (val m)) = Inr (enum_val cls (val m))"
  by (simp add: as_enum_def)

lemma optional_enum:
  assumes "\<And>m. find_member (val m) = Some m" "\<And>m. val m \<noteq> []"
  shows "optional (as_enum cls find_member) (opt_str (map_option val x))
    = Inr (opt_val (\<lambda>m. enum_val cls (val m)) x)"
  using assms by (cases x) (simp_all add: optional_def as_enum_def)

lemmas enum_back [simp] =
  as_enum_value [of agent_name_of agent_name_value, OF agent_name_of_value]
  as_enum_value [of effect_class_of effect_class_value, OF effect_class_of_value]
  as_enum_value [of run_status_of run_status_value, OF run_status_of_value]
  as_enum_value [of governance_mode_of governance_mode_value, OF governance_mode_of_value]
  as_enum_value [of scenario_name_of scenario_name_value, OF scenario_name_of_value]
  as_enum_value [of decision_outcome_of decision_outcome_value, OF decision_outcome_of_value]
  as_enum_value [of commitment_status_of commitment_status_value, OF commitment_status_of_value]
  as_enum_value [of approval_status_of approval_status_value, OF approval_status_of_value]
  as_enum_value [of workflow_stage_of workflow_stage_value, OF workflow_stage_of_value]
  as_enum_value [of event_type_of event_type_value, OF event_type_of_value]
  as_enum_value [of replay_kind_of replay_kind_value, OF replay_kind_of_value]
  optional_enum [of agent_name_of agent_name_value, OF agent_name_of_value enum_values_nonempty(1)]
  optional_enum [of effect_class_of effect_class_value, OF effect_class_of_value enum_values_nonempty(2)]
  optional_enum [of approval_decision_of approval_decision_value,
    OF approval_decision_of_value enum_values_nonempty(3)]

lemma read_instant [simp]: "representable t \<Longrightarrow> read_datetime rd (PStr (iso_micro t)) = Inr (instant_val t)"
  by (simp add: read_datetime_def iso_micro_read astimezone_utc_def)

text \<open>A value that a document can hold, and the form in which it comes back.\<close>

definition stored :: "reader \<Rightarrow> pyval \<Rightarrow> bool" where
  "stored rd v \<longleftrightarrow> (case wire v of Inr n \<Rightarrow> readable (rd_float rd) n | Inl _ \<Rightarrow> False)"

definition stored_form :: "pyval \<Rightarrow> pyval" where
  "stored_form v = (case wire v of Inr n \<Rightarrow> key_sorted n | Inl _ \<Rightarrow> v)"

definition stored_dict :: "pydict \<Rightarrow> pydict" where
  "stored_dict d = (case stored_form (PDict d) of PDict d' \<Rightarrow> d' | _ \<Rightarrow> d)"

lemma storedE:
  assumes "stored rd (PDict d)"
  obtains d' where "wire (PDict d) = Inr (PDict d')" "readable (rd_float rd) (PDict d')"
    "key_sorted (PDict d') = PDict (stored_dict d)"
proof -
  obtain n where n: "wire (PDict d) = Inr n" "readable (rd_float rd) n"
    using assms by (auto simp: stored_def split: sum.splits)
  moreover obtain d' where "n = PDict d'" using n(1) by auto
  ultimately show ?thesis using that by (simp add: stored_dict_def stored_form_def)
qed

section \<open>One codec\<close>

text \<open>
  The encoder's document decodes to the given object; it is refused if and only if it exceeds
  the item limit.
\<close>

definition survives :: "string \<Rightarrow> string result \<Rightarrow> (string \<Rightarrow> pyval result) \<Rightarrow> pyval \<Rightarrow> bool" where
  "survives label encoded decode v \<longleftrightarrow>
     (\<exists>document. decode document = Inr v \<and>
        encoded = bindR (assert_item_size document label MAX_PERSISTED_ITEM_BYTES) (\<lambda>_. Inr document))"

lemma survivesD: "survives label encoded decode v \<Longrightarrow> encoded = Inr document \<Longrightarrow> decode document = Inr v"
  by (auto simp: survives_def assert_item_size_def split: if_splits)

lemma envelope_sorted:
  "key_sorted (envelope schema (PDict d)) =
     PDict [(''payload'', PDict (sorted_dict d)), (''record_schema_version'', PStr schema),
       (''storage_schema_version'', PStr STORAGE_SCHEMA_VERSION)]"
  by (simp add: envelope_def less_char_def)

lemma encode_survives:
  assumes w: "wire payload = Inr (PDict d)" and d: "readable (rd_float rd) (PDict d)"
    and b: "build (sorted_dict d) = Inr v"
  shows "survives label (encode_record schema payload label)
    (\<lambda>document. bindR (decode_record rd document schema label) (\<lambda>p. construct label (build p))) v"
proof -
  let ?e = "envelope schema (PDict d)"
  have e: "readable (rd_float rd) ?e" using d by (simp add: envelope_def)
  have "decode_record rd (json_dumps json_quote ?e) schema label = Inr (sorted_dict d)"
    using json_loads_dumps [OF e] by (simp add: decode_record_def envelope_sorted)
  moreover have "canonical_json ?e = Inr (json_dumps json_quote ?e)"
    by (simp add: canonical_json_def readable_normalize [OF e])
  ultimately show ?thesis
    using b w by (auto simp: survives_def encode_record_def construct_def intro!: exI [of _ "json_dumps json_quote ?e"])
qed

text \<open>
  The contract of a codec: the objects it can store become dictionaries that JSON can carry,
  and the builder makes the object again from what is read.  \<open>kept\<close> is the record as it comes
  back.
\<close>

locale record_codec =
  fixes schema label :: string
    and obj :: "'r \<Rightarrow> pyval"
    and build :: "reader \<Rightarrow> pydict \<Rightarrow> pyval result"
    and storable :: "reader \<Rightarrow> 'r \<Rightarrow> bool"
    and kept :: "'r \<Rightarrow> 'r"
  assumes carried: "storable rd r \<Longrightarrow>
    \<exists>d. wire (obj r) = Inr (PDict d) \<and> readable (rd_float rd) (PDict d) \<and>
        build rd (sorted_dict d) = Inr (obj (kept r))"
begin

lemma round_trip:
  assumes "storable rd r"
  shows "survives label (encode_record schema (obj r) label)
    (\<lambda>document. bindR (decode_record rd document schema label) (\<lambda>p. construct label (build rd p)))
    (obj (kept r))"
  using carried [OF assms] by (auto intro!: encode_survives)

lemma same_document:
  assumes "storable rd r" "storable rd r'" "encode_record schema (obj r) label = Inr doc"
    and "encode_record schema (obj r') label = Inr doc"
  shows "obj (kept r) = obj (kept r')"
  using survivesD [OF round_trip [OF assms(1)] assms(3)] survivesD [OF round_trip [OF assms(2)] assms(4)]
  by simp

end

lemma readable_dict [simp]:
  "readable fl (PDict kvs) \<longleftrightarrow> distinct (map fst kvs) \<and> (\<forall>p \<in> set kvs. readable fl (snd p))"
  by (auto simp: list_all_iff)

declare readable.simps(11) [simp del]

declare key_sorted.simps(11) [simp del]

subsection \<open>Events\<close>

definition event_storable :: "reader \<Rightarrow> trace_event \<Rightarrow> bool" where
  "event_storable rd e \<longleftrightarrow> stored rd (PDict (te_details e)) \<and> representable (te_occurred_at e)"

definition stored_event :: "trace_event \<Rightarrow> trace_event" where
  "stored_event e = e\<lparr>te_details := stored_dict (te_details e)\<rparr>"

interpretation event_codec: record_codec EVENT_RECORD_SCHEMA_VERSION "''trace event''" event_obj
  build_event event_storable stored_event
proof
  fix rd e assume "event_storable rd e"
  then have e: "stored rd (PDict (te_details e))" "representable (te_occurred_at e)"
    by (simp_all add: event_storable_def)
  obtain d where d: "wire (PDict (te_details e)) = Inr (PDict d)" "readable (rd_float rd) (PDict d)"
    "key_sorted (PDict d) = PDict (stored_dict (te_details e))"
    using storedE [OF e(1)] .
  let ?d = "[(''event_id'', PStr (te_event_id e)), (''trace_id'', PStr (te_trace_id e)),
      (''sequence'', PInt (te_sequence e)),
      (''event_type'', PStr (event_type_value (te_event_type e))),
      (''summary'', PStr (te_summary e)), (''details'', PDict d),
      (''agent'', opt_str (map_option agent_name_value (te_agent e))),
      (''tool_name'', opt_str (te_tool_name e)),
      (''effect_class'', opt_str (map_option effect_class_value (te_effect_class e))),
      (''occurred_at'', PStr (iso_micro (te_occurred_at e))),
      (''schema_version'', PStr (te_schema_version e)),
      (''previous_hash'', PStr (te_previous_hash e)), (''event_hash'', PStr (te_event_hash e)),
      (''idempotency_key'', opt_str (te_idempotency_key e))]"
  have k: "distinct (map fst ?d)" by simp
  have "wire (event_obj e) = Inr (PDict ?d)"
    using d(1) by (simp add: event_obj_def del: wire.simps(11))
  moreover have "build_event rd (sorted_dict ?d) = Inr (event_obj (stored_event e))"
    using e(2) d(3) unfolding build_event_def item_sorted [OF k] get_or_sorted [OF k]
    by (simp add: object_def to_dict_def event_obj_def stored_event_def)
  moreover have "readable (rd_float rd) (PDict ?d)" using d(2) k by simp
  ultimately show "\<exists>d. wire (event_obj e) = Inr (PDict d) \<and> readable (rd_float rd) (PDict d) \<and>
      build_event rd (sorted_dict d) = Inr (event_obj (stored_event e))"
    by blast
qed

subsection \<open>Approvals\<close>

definition approval_storable :: "reader \<Rightarrow> approval_record \<Rightarrow> bool" where
  "approval_storable rd a \<longleftrightarrow>
     representable (ar_created_at a) \<and> representable (ar_expires_at a) \<and>
     (case ar_decided_at a of None \<Rightarrow> True | Some t \<Rightarrow> representable t)"

lemma wire_opt_instant [simp]:
  "wire (opt_val (\<lambda>t. instant_val t) x) = Inr (opt_str (map_option iso_micro x))"
  by (cases x) simp_all

lemma iso_micro_nonempty [simp]: "iso_micro t \<noteq> []"
  by (simp add: iso_micro_def)

lemma optional_instant:
  "(case x of None \<Rightarrow> True | Some t \<Rightarrow> representable t) \<Longrightarrow>
   optional (read_datetime rd) (opt_str (map_option iso_micro x)) = Inr (opt_val (\<lambda>t. instant_val t) x)"
  by (cases x) (simp_all add: optional_def)

interpretation approval_codec: record_codec APPROVAL_RECORD_SCHEMA_VERSION "''approval''" approval_obj
  build_approval approval_storable id
proof
  fix rd a assume a: "approval_storable rd a"
  let ?d = "[(''approval_id'', PStr (ar_approval_id a)), (''trace_id'', PStr (ar_trace_id a)),
      (''prepared_action_id'', PStr (ar_prepared_action_id a)),
      (''action_hash'', PStr (ar_action_hash a)), (''state_hash'', PStr (ar_state_hash a)),
      (''policy_version'', PStr (ar_policy_version a)),
      (''reason_code'', PStr (ar_reason_code a)),
      (''status'', PStr (approval_status_value (ar_status a))),
      (''created_at'', PStr (iso_micro (ar_created_at a))),
      (''expires_at'', PStr (iso_micro (ar_expires_at a))), (''version'', PInt (ar_version a)),
      (''decided_at'', opt_str (map_option iso_micro (ar_decided_at a))),
      (''decision'', opt_str (map_option approval_decision_value (ar_decision a))),
      (''approver_label'', opt_str (ar_approver_label a)),
      (''comment'', opt_str (ar_comment a)),
      (''decision_idempotency_key'', opt_str (ar_decision_idempotency_key a))]"
  have k: "distinct (map fst ?d)" by simp
  have "wire (approval_obj a) = Inr (PDict ?d)" by (simp add: approval_obj_def)
  moreover have "build_approval rd (sorted_dict ?d) = Inr (approval_obj (id a))"
    using a unfolding build_approval_def item_sorted [OF k] get_or_sorted [OF k] approval_storable_def
    by (simp add: object_def approval_obj_def optional_instant)
  moreover have "readable (rd_float rd) (PDict ?d)" using k by simp
  ultimately show "\<exists>d. wire (approval_obj a) = Inr (PDict d) \<and> readable (rd_float rd) (PDict d) \<and>
      build_approval rd (sorted_dict d) = Inr (approval_obj (id a))"
    by blast
qed

subsection \<open>Ledger heads\<close>

definition head_storable :: "reader \<Rightarrow> ledger_head \<Rightarrow> bool" where
  "head_storable rd h \<longleftrightarrow> representable (lh_updated_at h)"

interpretation head_codec: record_codec HEAD_RECORD_SCHEMA_VERSION "''ledger head''" head_obj
  build_head head_storable id
proof
  fix rd h assume h: "head_storable rd h"
  let ?d = "[(''trace_id'', PStr (lh_trace_id h)), (''sequence'', PInt (lh_sequence h)),
      (''event_count'', PInt (lh_event_count h)), (''event_hash'', PStr (lh_event_hash h)),
      (''schema_version'', PStr (lh_schema_version h)),
      (''updated_at'', PStr (iso_micro (lh_updated_at h)))]"
  have k: "distinct (map fst ?d)" by simp
  have "wire (head_obj h) = Inr (PDict ?d)" by (simp add: head_obj_def)
  moreover have "build_head rd (sorted_dict ?d) = Inr (head_obj (id h))"
    using h unfolding build_head_def item_sorted [OF k] head_storable_def
    by (simp add: object_def head_obj_def)
  moreover have "readable (rd_float rd) (PDict ?d)" using k by simp
  ultimately show "\<exists>d. wire (head_obj h) = Inr (PDict d) \<and> readable (rd_float rd) (PDict d) \<and>
      build_head rd (sorted_dict d) = Inr (head_obj (id h))"
    by blast
qed

subsection \<open>Replay records\<close>

text \<open>The constructor's own checks hold of every record that was constructed.\<close>

definition replay_storable :: "reader \<Rightarrow> replay_record \<Rightarrow> bool" where
  "replay_storable rd r \<longleftrightarrow> representable (rr_created_at r) \<and>
     rr_trace_id r \<noteq> [] \<and> rr_key_hash r \<noteq> [] \<and> rr_fingerprint r \<noteq> []"

interpretation replay_codec: record_codec REPLAY_RECORD_SCHEMA_VERSION "''replay record''" replay_obj
  build_replay replay_storable id
proof
  fix rd r assume r: "replay_storable rd r"
  let ?d = "[(''trace_id'', PStr (rr_trace_id r)), (''kind'', PStr (replay_kind_value (rr_kind r))),
      (''key_hash'', PStr (rr_key_hash r)), (''fingerprint'', PStr (rr_fingerprint r)),
      (''result_reference'', PStr (rr_result_reference r)),
      (''created_at'', PStr (iso_micro (rr_created_at r)))]"
  have k: "distinct (map fst ?d)" by simp
  have "wire (replay_obj r) = Inr (PDict ?d)" by (simp add: replay_obj_def)
  moreover have "build_replay rd (sorted_dict ?d) = Inr (replay_obj (id r))"
    using r unfolding build_replay_def item_sorted [OF k] replay_storable_def
    by (simp add: object_def replay_obj_def check_fields_def)
  moreover have "readable (rd_float rd) (PDict ?d)" using k by simp
  ultimately show "\<exists>d. wire (replay_obj r) = Inr (PDict d) \<and> readable (rd_float rd) (PDict d) \<and>
      build_replay rd (sorted_dict d) = Inr (replay_obj (id r))"
    by blast
qed

subsection \<open>Effect receipts\<close>

definition receipt_storable :: "reader \<Rightarrow> effect_receipt \<Rightarrow> bool" where
  "receipt_storable rd r \<longleftrightarrow> stored rd (PDict (rc_result r)) \<and> representable (rc_created_at r) \<and>
     rc_trace_id r \<noteq> [] \<and> rc_tool_name r \<noteq> [] \<and> rc_key_hash r \<noteq> []"

definition stored_receipt :: "effect_receipt \<Rightarrow> effect_receipt" where
  "stored_receipt r = r\<lparr>rc_result := stored_dict (rc_result r)\<rparr>"

interpretation receipt_codec: record_codec EFFECT_RECORD_SCHEMA_VERSION "''effect receipt''" receipt_obj
  build_effect receipt_storable stored_receipt
proof
  fix rd r assume r: "receipt_storable rd r"
  then obtain d where d: "wire (PDict (rc_result r)) = Inr (PDict d)" "readable (rd_float rd) (PDict d)"
    "key_sorted (PDict d) = PDict (stored_dict (rc_result r))"
    using storedE unfolding receipt_storable_def by metis
  let ?d = "[(''trace_id'', PStr (rc_trace_id r)), (''tool_name'', PStr (rc_tool_name r)),
      (''key_hash'', PStr (rc_key_hash r)), (''fingerprint'', PStr (rc_fingerprint r)),
      (''result'', PDict d), (''created_at'', PStr (iso_micro (rc_created_at r)))]"
  have k: "distinct (map fst ?d)" by simp
  have "wire (receipt_obj r) = Inr (PDict ?d)"
    using d(1) by (simp add: receipt_obj_def del: wire.simps(11))
  moreover have "build_effect rd (sorted_dict ?d) = Inr (receipt_obj (stored_receipt r))"
    using r d(3) unfolding build_effect_def item_sorted [OF k] receipt_storable_def
    by (simp add: object_def to_dict_def receipt_obj_def stored_receipt_def check_fields_def)
  moreover have "readable (rd_float rd) (PDict ?d)" using d(2) k by simp
  ultimately show "\<exists>d. wire (receipt_obj r) = Inr (PDict d) \<and> readable (rd_float rd) (PDict d) \<and>
      build_effect rd (sorted_dict d) = Inr (receipt_obj (stored_receipt r))"
    by blast
qed

section \<open>Nested objects\<close>

text \<open>A nested object travels as a non-empty dictionary from which the decoder rebuilds \<open>w\<close>.\<close>

definition carries :: "reader \<Rightarrow> pyval \<Rightarrow> (pyval \<Rightarrow> pyval result) \<Rightarrow> pyval \<Rightarrow> bool" where
  "carries rd v dec w \<longleftrightarrow>
     (\<exists>d. d \<noteq> [] \<and> wire v = Inr (PDict d) \<and> readable (rd_float rd) (PDict d) \<and>
        dec (PDict (sorted_dict d)) = Inr w)"

lemma carriesI:
  "wire v = Inr (PDict d) \<Longrightarrow> d \<noteq> [] \<Longrightarrow> readable (rd_float rd) (PDict d) \<Longrightarrow>
   dec (PDict (sorted_dict d)) = Inr w \<Longrightarrow> carries rd v dec w"
  by (auto simp: carries_def)

lemma carriesE:
  assumes "carries rd v dec w"
  obtains n where "wire v = Inr n" "readable (rd_float rd) n" "dec (key_sorted n) = Inr w"
    "truthy (key_sorted n)" "key_sorted n \<noteq> PNone"
proof -
  obtain d where d: "d \<noteq> []" "wire v = Inr (PDict d)" "readable (rd_float rd) (PDict d)"
    "dec (PDict (sorted_dict d)) = Inr w"
    using assms by (auto simp: carries_def)
  have "sorted_dict d \<noteq> []" using d(1) by (metis length_0_conv length_map length_sort)
  then show ?thesis using d that [of "PDict d"] by (simp add: key_sorted.simps(11))
qed

lemma carries_list:
  assumes "\<And>x. x \<in> set xs \<Longrightarrow> carries rd (f x) dec (g x)"
  obtains vs where "seqR (map wire (map f xs)) = Inr vs" "list_all (readable (rd_float rd)) vs"
    "seqR (map dec (map key_sorted vs)) = Inr (map g xs)"
  using assms
proof (induction xs arbitrary: thesis)
  case (Cons x xs)
  obtain n where n: "wire (f x) = Inr n" "readable (rd_float rd) n" "dec (key_sorted n) = Inr (g x)"
    using Cons.prems(2) [of x] by (auto elim: carriesE)
  obtain vs where "seqR (map wire (map f xs)) = Inr vs" "list_all (readable (rd_float rd)) vs"
    "seqR (map dec (map key_sorted vs)) = Inr (map g xs)"
    using Cons.IH [OF _ Cons.prems(2)] by auto
  then show ?case using n Cons.prems(1) [of "n # vs"] by simp
qed simp

lemma carries_items:
  assumes "\<And>k x. (k, x) \<in> set d \<Longrightarrow> carries rd (f x) dec (g x)"
  obtains e where "seq_items (map (map_prod id wire) (map (map_prod id f) d)) = Inr e"
    "map fst e = map fst d" "\<forall>p \<in> set e. readable (rd_float rd) (snd p)"
    "map (map_prod id (dec \<circ> key_sorted)) e = map (map_prod id (Inr \<circ> g)) d"
  using assms
proof (induction d arbitrary: thesis)
  case (Cons p d)
  obtain k x where p: "p = (k, x)" by (cases p)
  obtain n where n: "wire (f x) = Inr n" "readable (rd_float rd) n" "dec (key_sorted n) = Inr (g x)"
    using Cons.prems(2) [of k x] p by (auto elim: carriesE)
  have rest: "carries rd (f y) dec (g y)" if "(l, y) \<in> set d" for l y
    using Cons.prems(2) [of l y] that by simp
  obtain e where "seq_items (map (map_prod id wire) (map (map_prod id f) d)) = Inr e"
    "map fst e = map fst d" "\<forall>p \<in> set e. readable (rd_float rd) (snd p)"
    "map (map_prod id (dec \<circ> key_sorted)) e = map (map_prod id (Inr \<circ> g)) d"
    by (rule Cons.IH [OF _ rest])
  then show ?case using n p Cons.prems(1) [of "(k, n) # e"] by (simp add: id_def o_def)
qed simp

lemma carries_dict:
  assumes "\<And>k x. (k, x) \<in> set d \<Longrightarrow> carries rd (f x) dec (g x)" "distinct (map fst d)"
  obtains e where "wire (dict_val f d) = Inr (PDict e)" "readable (rd_float rd) (PDict e)"
    "each_item dec (key_sorted (PDict e)) = Inr (dict_val g (sort_key fst d))"
proof -
  obtain e where e: "seq_items (map (map_prod id wire) (map (map_prod id f) d)) = Inr e"
    "map fst e = map fst d" "\<forall>p \<in> set e. readable (rd_float rd) (snd p)"
    "map (map_prod id (dec \<circ> key_sorted)) e = map (map_prod id (Inr \<circ> g)) d"
    using carries_items [OF assms(1)] .
  have "map (map_prod id dec) (sorted_dict e) = sort_key fst (map (map_prod id (dec \<circ> key_sorted)) e)"
    by (simp add: sort_key_map_prod prod.map_comp o_def) (simp add: id_def)
  also have "\<dots> = map (map_prod id (Inr \<circ> g)) (sort_key fst d)"
    unfolding e(4) by (rule sort_key_map_prod)
  finally have "seq_items (map (map_prod id dec) (sorted_dict e)) = Inr (map (map_prod id g) (sort_key fst d))"
    unfolding seq_items_Inr_iff by (simp add: prod.map_comp)
  then show ?thesis
    using that [of e] e assms(2)
    by (simp add: dict_val_def each_item_def items_of_def key_sorted.simps(11) del: map_map)
qed

lemma carries_optional:
  assumes "\<And>a. carries rd (f a) dec (g a)"
  obtains n where "wire (opt_val f x) = Inr n" "readable (rd_float rd) n"
    "optional dec (key_sorted n) = Inr (opt_val g x)"
proof (cases x)
  case None
  then show ?thesis using that [of PNone] by (simp add: optional_def)
next
  case (Some a)
  obtain n where "wire (f a) = Inr n" "readable (rd_float rd) n" "dec (key_sorted n) = Inr (g a)"
    "truthy (key_sorted n)"
    using assms [of a] by (rule carriesE)
  then show ?thesis using that [of n] Some by (simp add: optional_def)
qed

lemma carries_present:
  assumes "\<And>a. carries rd (f a) dec (g a)"
  obtains n where "wire (opt_val f x) = Inr n" "readable (rd_float rd) n"
    "(if key_sorted n = PNone then Inr PNone else dec (key_sorted n)) = Inr (opt_val g x)"
proof (cases x)
  case None
  then show ?thesis using that [of PNone] by simp
next
  case (Some a)
  obtain n where "wire (f a) = Inr n" "readable (rd_float rd) n" "dec (key_sorted n) = Inr (g a)"
    "key_sorted n \<noteq> PNone"
    using assms [of a] by (rule carriesE)
  then show ?thesis using that [of n] Some by simp
qed

lemma subscript_sorted:
  "distinct (map fst d) \<Longrightarrow>
   subscript (PDict (sorted_dict d)) k
     = (case dget d k of Some v \<Rightarrow> Inr (key_sorted v) | None \<Rightarrow> Inl (PyExc KeyError k))"
  by (simp add: subscript_def item_sorted)

subsection \<open>Decisions\<close>

definition guidance_storable :: "reader \<Rightarrow> pydict option \<Rightarrow> bool" where
  "guidance_storable rd g \<longleftrightarrow> (case g of None \<Rightarrow> True | Some d \<Rightarrow> stored rd (PDict d))"

lemma guidance_carried:
  assumes "guidance_storable rd g"
  obtains n where "wire (opt_val PDict g) = Inr n" "readable (rd_float rd) n"
    "key_sorted n = opt_val PDict (map_option stored_dict g)"
proof (cases g)
  case None
  then show ?thesis using that [of PNone] by simp
next
  case (Some d)
  then have "stored rd (PDict d)" using assms by (simp add: guidance_storable_def)
  then obtain d' where "wire (PDict d) = Inr (PDict d')" "readable (rd_float rd) (PDict d')"
    "key_sorted (PDict d') = PDict (stored_dict d)"
    by (rule storedE)
  then show ?thesis using that [of "PDict d'"] Some by (simp del: wire.simps(11))
qed

definition stored_signal :: "policy_signal \<Rightarrow> policy_signal" where
  "stored_signal g = g\<lparr>ps_guidance := map_option stored_dict (ps_guidance g)\<rparr>"

lemma signal_carried:
  assumes "guidance_storable rd (ps_guidance g)"
  shows "carries rd (signal_obj g) signal_of (signal_obj (stored_signal g))"
proof -
  obtain n where n: "wire (opt_val PDict (ps_guidance g)) = Inr n" "readable (rd_float rd) n"
    "key_sorted n = opt_val PDict (map_option stored_dict (ps_guidance g))"
    using guidance_carried [OF assms] .
  let ?d = "[(''family'', PStr (ps_family g)), (''policy_id'', PStr (ps_policy_id g)),
      (''outcome'', PStr (decision_outcome_value (ps_outcome g))),
      (''reason_code'', PStr (ps_reason_code g)), (''because'', PStr (ps_because g)), (''guidance'', n)]"
  have k: "distinct (map fst ?d)" by simp
  show ?thesis
  proof (rule carriesI)
    show "wire (signal_obj g) = Inr (PDict ?d)" using n(1) by (simp add: signal_obj_def)
    show "readable (rd_float rd) (PDict ?d)" using n(2) k by simp
    show "signal_of (PDict (sorted_dict ?d)) = Inr (signal_obj (stored_signal g))"
      using n(3) unfolding signal_of_def subscript_sorted [OF k] items_of_def pyval.case bindR_simps
        get_or_sorted [OF k]
      by (simp add: object_def signal_obj_def stored_signal_def)
  qed simp
qed

definition decision_storable :: "reader \<Rightarrow> decision \<Rightarrow> bool" where
  "decision_storable rd d \<longleftrightarrow>
     representable (dc_created_at d) \<and> reads_float (rd_float rd) (dc_evaluation_ms d) \<and>
     guidance_storable rd (dc_guidance d) \<and>
     (\<forall>g \<in> set (dc_reasons d). guidance_storable rd (ps_guidance g))"

definition stored_decision :: "decision \<Rightarrow> decision" where
  "stored_decision d = d\<lparr>dc_reasons := map stored_signal (dc_reasons d),
     dc_guidance := map_option stored_dict (dc_guidance d)\<rparr>"

interpretation decision_codec: record_codec DECISION_RECORD_SCHEMA_VERSION "''decision''" decision_obj
  build_decision decision_storable stored_decision
proof
  fix rd d assume d: "decision_storable rd d"
  then have dd: "representable (dc_created_at d)" "reads_float (rd_float rd) (dc_evaluation_ms d)"
    "guidance_storable rd (dc_guidance d)"
    by (simp_all add: decision_storable_def)
  have sig: "carries rd (signal_obj g) signal_of (signal_obj (stored_signal g))"
    if "g \<in> set (dc_reasons d)" for g
    using d that by (simp add: decision_storable_def signal_carried)
  obtain n where n: "wire (opt_val PDict (dc_guidance d)) = Inr n" "readable (rd_float rd) n"
    "key_sorted n = opt_val PDict (map_option stored_dict (dc_guidance d))"
    using guidance_carried [OF dd(3)] .
  obtain vs where vs: "seqR (map wire (map signal_obj (dc_reasons d))) = Inr vs"
    "list_all (readable (rd_float rd)) vs"
    "seqR (map signal_of (map key_sorted vs)) = Inr (map (\<lambda>g. signal_obj (stored_signal g)) (dc_reasons d))"
    using carries_list [OF sig] .
  let ?d = "[(''decision_id'', PStr (dc_decision_id d)), (''request_id'', PStr (dc_request_id d)),
      (''trace_id'', PStr (dc_trace_id d)), (''proposal_id'', PStr (dc_proposal_id d)),
      (''agent'', PStr (agent_name_value (dc_agent d))), (''tool_name'', PStr (dc_tool_name d)),
      (''effect_class'', opt_str (map_option effect_class_value (dc_effect_class d))),
      (''policy_outcome'', PStr (decision_outcome_value (dc_policy_outcome d))),
      (''applied_outcome'', PStr (decision_outcome_value (dc_applied_outcome d))),
      (''enforced'', PBool (dc_enforced d)), (''reason_code'', PStr (dc_reason_code d)),
      (''because'', PStr (dc_because d)), (''reasons'', PList vs), (''guidance'', n),
      (''policy_version'', PStr (dc_policy_version d)), (''engine_name'', PStr (dc_engine_name d)),
      (''evaluation_ms'', PFloat (dc_evaluation_ms d)),
      (''policy_bundle_hash'', opt_str (dc_policy_bundle_hash d)),
      (''created_at'', PStr (iso_micro (dc_created_at d)))]"
  have k: "distinct (map fst ?d)" by simp
  have "wire (decision_obj d) = Inr (PDict ?d)"
    using n(1) vs(1) by (simp add: decision_obj_def del: map_map)
  moreover have "build_decision rd (sorted_dict ?d) = Inr (decision_obj (stored_decision d))"
    using dd(1) n(3) vs(3) unfolding build_decision_def item_sorted [OF k] get_or_sorted [OF k]
    by (simp add: object_def decision_obj_def stored_decision_def iterate_def o_def del: map_map)
      (simp add: o_def)
  moreover have "readable (rd_float rd) (PDict ?d)"
    using n(2) vs(2) dd(2) k by (simp add: list_all_iff)
  ultimately show "\<exists>e. wire (decision_obj d) = Inr (PDict e) \<and> readable (rd_float rd) (PDict e) \<and>
      build_decision rd (sorted_dict e) = Inr (decision_obj (stored_decision d))"
    by blast
qed

end
