(* ===== verification/State_Codec.thy ===== *)
theory State_Codec
  imports Codec_Properties
begin

text \<open>
  The codec of the trajectory state: its nested objects travel one by one, and the state that
  is decoded beside its own events and decisions is the state that was encoded.  The theory
  ends with the storage claims of all records.
\<close>

section \<open>The trajectory state\<close>

lemma kwargs_sorted:
  assumes k: "distinct (map fst d)" and p: "map fst d = map fst params"
  shows "from_kwargs cls params (PDict (sorted_dict d)) = Inr (PObj cls (map (map_prod id key_sorted) d))"
proof -
  have keys: "fst ` set (sorted_dict d) = set (map fst params)"
    using p [symmetric] by (simp add: image_image)
  then have "list_all (\<lambda>q. dmember (fst q) params) (sorted_dict d)"
    "list_all (\<lambda>q. snd q \<noteq> None \<or> dmember (fst q) (sorted_dict d)) params"
    by (auto simp: list_all_iff dmember_def map_of_eq_None_iff simp del: set_sort)
  moreover have entry: "(fst q, get_or (sorted_dict d) (fst q) (h q)) = map_prod id key_sorted v"
    if "i < length d" "params ! i = q" "d ! i = v" for i q v and h :: "string \<times> pyval option \<Rightarrow> pyval"
  proof -
    have "fst q = fst v" using p that by (metis length_map nth_map)
    moreover have "dget d (fst v) = Some (snd v)"
      using k that by (metis map_of_is_SomeI nth_mem prod.collapse)
    ultimately show ?thesis by (cases v) (simp add: get_or_sorted [OF k])
  qed
  have "map (\<lambda>q. (fst q, get_or (sorted_dict d) (fst q) (h q))) params = map (map_prod id key_sorted) d"
    for h
  proof (intro nth_equalityI)
    show len: "length (map (\<lambda>q. (fst q, get_or (sorted_dict d) (fst q) (h q))) params)
        = length (map (map_prod id key_sorted) d)"
      using arg_cong [OF p, of length] by simp
    fix i assume i: "i < length (map (\<lambda>q. (fst q, get_or (sorted_dict d) (fst q) (h q))) params)"
    show "map (\<lambda>q. (fst q, get_or (sorted_dict d) (fst q) (h q))) params ! i
        = map (map_prod id key_sorted) d ! i"
      using entry [of i "params ! i" "d ! i" h] len i by simp
  qed
  ultimately show ?thesis by (simp add: from_kwargs_def)
qed

lemma kwargs_carried:
  assumes "obj = PObj cls d" "d \<noteq> []" "distinct (map fst d)" "map fst d = map fst params"
    and "\<forall>p \<in> set d. wire (snd p) = Inr (snd p) \<and> readable (rd_float rd) (snd p) \<and> key_sorted (snd p) = snd p"
  shows "carries rd obj (from_kwargs cls params) obj"
proof (rule carriesI)
  have "map (map_prod id wire) d = map (map_prod id Inr) d"
    and same: "map (map_prod id key_sorted) d = d"
    using assms(5) by (auto simp: map_prod_def split: prod.splits intro!: map_idI)
  then show "wire obj = Inr (PDict d)" using assms(1) by (simp add: seq_items_Inr_iff)
  show "from_kwargs cls params (PDict (sorted_dict d)) = Inr obj"
    using kwargs_sorted [OF assms(3,4)] same assms(1) by simp
qed (use assms in auto)

lemmas plain_objects =
  kwargs_carried [OF order_obj_def, where params = order_params]
  kwargs_carried [OF inventory_obj_def, where params = inventory_params]
  kwargs_carried [OF fact_obj_def, where params = fact_params]
  kwargs_carried [OF vehicle_obj_def, where params = vehicle_params]
  kwargs_carried [OF quote_obj_def, where params = quote_params]

lemma plain_carried:
  "carries rd (order_obj x1) (from_kwargs ''Order'' order_params) (order_obj x1)"
  "carries rd (inventory_obj x2) (from_kwargs ''InventoryFact'' inventory_params) (inventory_obj x2)"
  "carries rd (fact_obj x3) (from_kwargs ''NumericFact'' fact_params) (fact_obj x3)"
  "carries rd (vehicle_obj x4) (from_kwargs ''Vehicle'' vehicle_params) (vehicle_obj x4)"
  "carries rd (quote_obj x5) (from_kwargs ''CarrierQuote'' quote_params) (quote_obj x5)"
  by (rule plain_objects;
      simp add: order_params_def inventory_params_def fact_params_def vehicle_params_def quote_params_def)+

definition stored_action :: "prepared_action \<Rightarrow> prepared_action" where
  "stored_action p = p\<lparr>pa_arguments := stored_dict (pa_arguments p)\<rparr>"

lemma prepared_carried:
  assumes "stored rd (PDict (pa_arguments p))" "representable (pa_expires_at p)"
  shows "carries rd (prepared_obj p) (prepared_action_of rd) (prepared_obj (stored_action p))"
proof -
  obtain d where d: "wire (PDict (pa_arguments p)) = Inr (PDict d)" "readable (rd_float rd) (PDict d)"
    "key_sorted (PDict d) = PDict (stored_dict (pa_arguments p))"
    using storedE [OF assms(1)] .
  let ?d = "[(''prepared_action_id'', PStr (pa_prepared_action_id p)),
      (''trace_id'', PStr (pa_trace_id p)), (''tool_name'', PStr (pa_tool_name p)),
      (''resource_id'', PStr (pa_resource_id p)), (''amount_minor'', PInt (pa_amount_minor p)),
      (''currency'', PStr (pa_currency p)),
      (''prepared_by'', PStr (agent_name_value (pa_prepared_by p))),
      (''arguments'', PDict d), (''action_hash'', PStr (pa_action_hash p)),
      (''state_hash'', PStr (pa_state_hash p)), (''mandate_id'', PStr (pa_mandate_id p)),
      (''policy_version'', PStr (pa_policy_version p)),
      (''spend_committed_at_prepare_minor'', PInt (pa_spend_committed_at_prepare_minor p)),
      (''spend_reserved_before_minor'', PInt (pa_spend_reserved_before_minor p)),
      (''spend_reserved_after_minor'', PInt (pa_spend_reserved_after_minor p)),
      (''status'', PStr (commitment_status_value (pa_status p))),
      (''expires_at'', PStr (iso_micro (pa_expires_at p)))]"
  have k: "distinct (map fst ?d)" by simp
  show ?thesis
  proof (rule carriesI)
    show "wire (prepared_obj p) = Inr (PDict ?d)"
      using d(1) by (simp add: prepared_obj_def del: wire.simps(11))
    show "readable (rd_float rd) (PDict ?d)" using d(2) k by simp
    show "prepared_action_of rd (PDict (sorted_dict ?d)) = Inr (prepared_obj (stored_action p))"
      using d(3) assms(2) unfolding prepared_action_of_def subscript_sorted [OF k]
      by (simp add: object_def prepared_obj_def stored_action_def to_dict_def)
  qed simp
qed

lemma effects_sorted:
  "sort_key py_str (map (PStr \<circ> effect_class_value) (filter P effects_by_value))
    = map (PStr \<circ> effect_class_value) (filter P effects_by_value)"
proof -
  have "sorted (map (py_str \<circ> (PStr \<circ> effect_class_value)) effects_by_value)"
    by (simp add: effects_by_value_def py_str_def less_char_def)
  then have "sorted (map py_str (map (PStr \<circ> effect_class_value) (filter P effects_by_value)))"
    by (simp add: sorted_filter [of "py_str \<circ> (PStr \<circ> effect_class_value)", unfolded o_assoc]
        sorted_filter)
  then show ?thesis by (rule sort_key_id_if_sorted)
qed

lemma effects_complete: "c \<in> set effects_by_value"
  by (cases c) (simp_all add: effects_by_value_def)

lemma effect_val_eq: "effect_val a = effect_val b \<longleftrightarrow> a = b"
  by (auto simp: enum_val_def)

lemma wire_effects:
  "wire (effect_set S) = Inr (PList (map (PStr \<circ> effect_class_value) (filter (\<lambda>c. c \<in> S) effects_by_value)))"
proof -
  let ?cs = "filter (\<lambda>c. c \<in> S) effects_by_value"
  have "seqR (map wire (map effect_val ?cs)) = Inr (map (PStr \<circ> effect_class_value) ?cs)"
    by (simp add: seqR_Inr_iff)
  then show ?thesis by (simp add: effect_set_def effects_sorted del: map_map)
qed

lemma effects_back: "effect_members (map (PStr \<circ> effect_class_value) (filter (\<lambda>c. c \<in> S) effects_by_value))
    = Inr (effect_set S)"
proof -
  let ?cs = "filter (\<lambda>c. c \<in> S) effects_by_value"
  have "seqR (map (as_enum ''EffectClass'' effect_class_of) (map (PStr \<circ> effect_class_value) ?cs))
      = Inr (map effect_val ?cs)"
    by (simp add: seqR_Inr_iff)
  moreover have "set (filter (\<lambda>c. effect_val c \<in> set (map effect_val ?cs)) effects_by_value) = S"
    using effects_complete effect_val_eq by auto
  ultimately show ?thesis by (simp add: effect_members_def del: map_map set_map set_filter)
qed

lemma mandate_carried: "carries rd (mandate_obj m) mandate_of (mandate_obj m)"
proof -
  let ?es = "map (PStr \<circ> effect_class_value)
    (filter (\<lambda>c. c \<in> sm_allowed_effect_classes m) effects_by_value)"
  let ?d = "[(''mandate_id'', PStr (sm_mandate_id m)), (''order_id'', PStr (sm_order_id m)),
      (''mode'', PStr (governance_mode_value (sm_mode m))), (''currency'', PStr (sm_currency m)),
      (''spend_ceiling_minor'', PInt (sm_spend_ceiling_minor m)),
      (''approval_threshold_minor'', PInt (sm_approval_threshold_minor m)),
      (''cargo_class'', PStr (sm_cargo_class m)), (''allowed_effect_classes'', PList ?es),
      (''policy_version'', PStr (sm_policy_version m))]"
  have k: "distinct (map fst ?d)" by simp
  have es: "map key_sorted ?es = ?es" by simp
  show ?thesis
  proof (rule carriesI)
    show "wire (mandate_obj m) = Inr (PDict ?d)" by (simp add: mandate_obj_def wire_effects)
    show "readable (rd_float rd) (PDict ?d)" using k by (simp add: list_all_iff)
    show "mandate_of (PDict (sorted_dict ?d)) = Inr (mandate_obj m)"
      unfolding mandate_of_def subscript_sorted [OF k]
      using effects_back [of "sm_allowed_effect_classes m"]
      by (simp add: object_def mandate_obj_def iterate_def es del: map_map)
  qed simp
qed

lemma scenario_carried: "carries rd (scenario_obj c) scenario_of (scenario_obj c)"
proof -
  let ?d = "[(''name'', PStr (scenario_name_value (sc_name c))),
      (''prior_committed_minor'', PInt (sc_prior_committed_minor c)),
      (''attempted_weight_kg'', PInt (sc_attempted_weight_kg c)),
      (''preferred_vehicle_id'', PStr (sc_preferred_vehicle_id c)),
      (''preferred_quote_id'', PStr (sc_preferred_quote_id c))]"
  have k: "distinct (map fst ?d)" by simp
  show ?thesis
    by (rule carriesI [of _ ?d])
      (use k in \<open>simp_all add: scenario_obj_def scenario_of_def object_def subscript_def item_def\<close>)
qed

lemma effect_carried: "carries rd (effect_obj r) effect_record_of (effect_obj r)"
proof -
  let ?d = "[(''tool_name'', PStr (er_tool_name r)),
      (''effect_class'', PStr (effect_class_value (er_effect_class r))),
      (''resource_id'', PStr (er_resource_id r)), (''actor'', PStr (er_actor r))]"
  have k: "distinct (map fst ?d)" by simp
  show ?thesis
    by (rule carriesI [of _ ?d])
      (use k in \<open>simp_all add: effect_obj_def effect_record_of_def object_def subscript_def item_def\<close>)
qed

subsection \<open>The whole state\<close>

definition wires :: "pyval \<Rightarrow> bool" where
  "wires v \<longleftrightarrow> (case wire v of Inr _ \<Rightarrow> True | Inl _ \<Rightarrow> False)"

definition state_storable :: "reader \<Rightarrow> trajectory_state \<Rightarrow> bool" where
  "state_storable rd s \<longleftrightarrow>
     distinct (map fst (ts_facts s)) \<and> distinct (map fst (ts_prepared_actions s)) \<and>
     distinct (map fst (ts_guide_attempts s)) \<and>
     (\<forall>(_, p) \<in> set (ts_prepared_actions s).
        stored rd (PDict (pa_arguments p)) \<and> representable (pa_expires_at p)) \<and>
     wires (PList (map event_obj (ts_events s))) \<and> wires (PList (map decision_obj (ts_decisions s)))"

definition stored_state :: "trajectory_state \<Rightarrow> trajectory_state" where
  "stored_state s = s\<lparr>ts_facts := sort_key fst (ts_facts s),
     ts_prepared_actions := map (map_prod id stored_action) (sort_key fst (ts_prepared_actions s)),
     ts_guide_attempts := sort_key fst (ts_guide_attempts s)\<rparr>"

lemma wiresE:
  assumes "wires v"
  obtains n where "wire v = Inr n"
  using assms by (auto simp: wires_def split: sum.splits)

text \<open>The document's fields, given what the nested objects became.\<close>

definition state_fields :: "trajectory_state \<Rightarrow> pyval list \<Rightarrow> pydict" where
  "state_fields s vs =
     [(''trace_id'', PStr (ts_trace_id s)), (''order_id'', PStr (ts_order_id s)),
      (''status'', PStr (run_status_value (ts_status s))),
      (''current_agent'', opt_str (map_option agent_name_value (ts_current_agent s))),
      (''mode'', PStr (governance_mode_value (ts_mode s))),
      (''scenario'', PStr (scenario_name_value (ts_scenario s))),
      (''scenario_config'', vs ! 0), (''mandate'', vs ! 1),
      (''policy_version'', PStr (ts_policy_version s)),
      (''workflow_stage'', PStr (workflow_stage_value (ts_workflow_stage s))),
      (''order'', vs ! 2), (''inventory_fact'', vs ! 3), (''facts'', vs ! 4),
      (''selected_vehicle'', vs ! 5), (''selected_quote'', vs ! 6),
      (''dispatch_plan_id'', opt_str (ts_dispatch_plan_id s)),
      (''carrier_selection_id'', opt_str (ts_carrier_selection_id s)),
      (''prepared_actions'', vs ! 7),
      (''confirmed_booking_id'', opt_str (ts_confirmed_booking_id s)),
      (''pending_approval_id'', opt_str (ts_pending_approval_id s)),
      (''spend_committed_minor'', PInt (ts_spend_committed_minor s)),
      (''spend_reserved_minor'', PInt (ts_spend_reserved_minor s)),
      (''guide_attempts'', dict_val (PInt \<circ> int) (ts_guide_attempts s)),
      (''effect_history'', vs ! 8),
      (''quoted_by'', opt_str (ts_quoted_by s)),
      (''prepared_by'', opt_str (map_option agent_name_value (ts_prepared_by s))),
      (''approved_by'', opt_str (ts_approved_by s)),
      (''notification_id'', opt_str (ts_notification_id s)),
      (''next_sequence'', PInt (ts_next_sequence s)),
      (''tool_call_count'', PInt (int (ts_tool_call_count s))),
      (''error'', opt_str (ts_error s)), (''terminal_reason'', opt_str (ts_terminal_reason s)),
      (''storage_revision'', PInt (ts_storage_revision s))]"

lemma state_fields_distinct: "distinct (map fst (state_fields s vs))"
  by (simp add: state_fields_def)

lemma counters_readable: "distinct (map fst d) \<Longrightarrow> readable fl (dict_val (PInt \<circ> f) d)"
  by (auto simp: dict_val_def o_def)

lemma state_fields_readable:
  assumes "readable fl c" "readable fl m" "readable fl o'" "readable fl i" "readable fl f" "readable fl v"
    "readable fl q" "readable fl p" "readable fl h" "distinct (map fst (ts_guide_attempts s))"
  shows "readable fl (PDict (state_fields s [c, m, o', i, f, v, q, p, h]))"
  unfolding readable_dict
proof (intro conjI state_fields_distinct)
  show "\<forall>x \<in> set (state_fields s [c, m, o', i, f, v, q, p, h]). readable fl (snd x)"
    using assms(1-9) counters_readable [OF assms(10), of fl int]
    by (simp add: state_fields_def del: readable_dict)
qed

lemma wire_counters: "wire (dict_val (PInt \<circ> f) d) = Inr (dict_val (PInt \<circ> f) d)"
proof -
  have "map (map_prod id wire) (map (map_prod id (PInt \<circ> f)) d) = map (map_prod id Inr) (map (map_prod id (PInt \<circ> f)) d)"
    by auto
  then show ?thesis by (simp add: dict_val_def seq_items_Inr_iff del: map_map)
qed

lemma counters_sorted: "key_sorted (dict_val (PInt \<circ> f) d) = dict_val (PInt \<circ> f) (sort_key fst d)"
proof -
  have "map (map_prod id key_sorted) (map (map_prod id (PInt \<circ> f)) d) = map (map_prod id (PInt \<circ> f)) d" by auto
  then show ?thesis by (simp add: dict_val_def key_sorted.simps(11) sort_key_map_prod del: map_map)
qed

lemma state_written:
  assumes "wire (opt_val scenario_obj (ts_scenario_config s)) = Inr c"
    "wire (opt_val mandate_obj (ts_mandate s)) = Inr m" "wire (opt_val order_obj (ts_order s)) = Inr o'"
    "wire (opt_val inventory_obj (ts_inventory_fact s)) = Inr i" "wire (dict_val fact_obj (ts_facts s)) = Inr f"
    "wire (opt_val vehicle_obj (ts_selected_vehicle s)) = Inr v" "wire (opt_val quote_obj (ts_selected_quote s)) = Inr q"
    "wire (dict_val prepared_obj (ts_prepared_actions s)) = Inr p"
    "wire (PList (map effect_obj (ts_effect_history s))) = Inr h"
    "wires (PList (map event_obj (ts_events s)))" "wires (PList (map decision_obj (ts_decisions s)))"
  shows "\<exists>n. wire (state_obj s) = Inr n \<and>
    without_histories n = PDict (state_fields s [c, m, o', i, f, v, q, p, h])"
proof -
  obtain es where "wire (PList (map event_obj (ts_events s))) = Inr es" using assms(10) by (rule wiresE)
  moreover obtain ds where "wire (PList (map decision_obj (ts_decisions s))) = Inr ds"
    using assms(11) by (rule wiresE)
  ultimately show ?thesis
    using assms(1-9) wire_counters [of int "ts_guide_attempts s"]
    by (simp add: state_obj_def without_histories_def state_fields_def dpop_def del: wire.simps(8))
qed

lemma state_read:
  assumes c: "(if key_sorted c = PNone then Inr PNone else scenario_of (key_sorted c))
      = Inr (opt_val scenario_obj (ts_scenario_config s))"
    and m: "(if key_sorted m = PNone then Inr PNone else mandate_of (key_sorted m))
      = Inr (opt_val mandate_obj (ts_mandate s))"
    and o: "optional (from_kwargs ''Order'' order_params) (key_sorted o') = Inr (opt_val order_obj (ts_order s))"
    and i: "optional (from_kwargs ''InventoryFact'' inventory_params) (key_sorted i)
      = Inr (opt_val inventory_obj (ts_inventory_fact s))"
    and f: "each_item (from_kwargs ''NumericFact'' fact_params) (key_sorted f) = Inr (dict_val fact_obj fs)"
    and v: "optional (from_kwargs ''Vehicle'' vehicle_params) (key_sorted v)
      = Inr (opt_val vehicle_obj (ts_selected_vehicle s))"
    and q: "optional (from_kwargs ''CarrierQuote'' quote_params) (key_sorted q)
      = Inr (opt_val quote_obj (ts_selected_quote s))"
    and p: "each_item (prepared_action_of rd) (key_sorted p) = Inr (dict_val prepared_obj ps)"
    and h: "bindR (iterate (key_sorted h)) (\<lambda>xs. seqR (map effect_record_of xs))
      = Inr (map effect_obj (ts_effect_history s))"
  shows "build_state rd (map event_obj (ts_events s)) (map decision_obj (ts_decisions s))
      (sorted_dict (state_fields s [c, m, o', i, f, v, q, p, h]))
    = Inr (state_obj (s\<lparr>ts_facts := fs, ts_prepared_actions := ps,
        ts_guide_attempts := sort_key fst (ts_guide_attempts s)\<rparr>))"
proof -
  let ?d = "state_fields s [c, m, o', i, f, v, q, p, h]"
  note look = item_sorted [OF state_fields_distinct] get_or_sorted [OF state_fields_distinct]
  have nested: "get_none (sorted_dict ?d) ''scenario_config'' = key_sorted c"
    "get_none (sorted_dict ?d) ''mandate'' = key_sorted m"
    "get_none (sorted_dict ?d) ''order'' = key_sorted o'"
    "get_none (sorted_dict ?d) ''inventory_fact'' = key_sorted i"
    "get_or (sorted_dict ?d) ''facts'' (PDict []) = key_sorted f"
    "get_none (sorted_dict ?d) ''selected_vehicle'' = key_sorted v"
    "get_none (sorted_dict ?d) ''selected_quote'' = key_sorted q"
    "get_or (sorted_dict ?d) ''prepared_actions'' (PDict []) = key_sorted p"
    "get_or (sorted_dict ?d) ''effect_history'' (PList []) = key_sorted h"
    unfolding look by (simp_all add: state_fields_def)
  have guided: "bindR (to_dict rd (get_or (sorted_dict ?d) ''guide_attempts'' (PDict []))) (\<lambda>d. Inr (PDict d))
      = Inr (dict_val (PInt \<circ> int) (sort_key fst (ts_guide_attempts s)))"
    unfolding look by (simp add: state_fields_def counters_sorted) (simp add: dict_val_def to_dict_def)
  show ?thesis
    unfolding build_state_def nested guided
    unfolding c m o i f v q p h bindR_simps
    unfolding look
    by (simp add: state_fields_def object_def state_obj_def)
qed

lemma state_survives:
  assumes "state_storable rd s"
  shows "survives ''trace state'' (encode_state_json s)
    (decode_state_json rd (map event_obj (ts_events s)) (map decision_obj (ts_decisions s)))
    (state_obj (stored_state s))"
proof -
  have prep: "carries rd (prepared_obj p) (prepared_action_of rd) (prepared_obj (stored_action p))"
    if "(k, p) \<in> set (ts_prepared_actions s)" for k p
    using assms that by (auto simp: state_storable_def intro: prepared_carried)
  have dist: "distinct (map fst (ts_facts s))" "distinct (map fst (ts_prepared_actions s))"
    "distinct (map fst (ts_guide_attempts s))"
    and hist: "wires (PList (map event_obj (ts_events s)))" "wires (PList (map decision_obj (ts_decisions s)))"
    using assms by (simp_all add: state_storable_def)
  obtain c where c: "wire (opt_val scenario_obj (ts_scenario_config s)) = Inr c" "readable (rd_float rd) c"
    "(if key_sorted c = PNone then Inr PNone else scenario_of (key_sorted c))
      = Inr (opt_val scenario_obj (ts_scenario_config s))"
    using carries_present [OF scenario_carried] .
  obtain m where m: "wire (opt_val mandate_obj (ts_mandate s)) = Inr m" "readable (rd_float rd) m"
    "(if key_sorted m = PNone then Inr PNone else mandate_of (key_sorted m))
      = Inr (opt_val mandate_obj (ts_mandate s))"
    using carries_present [OF mandate_carried] .
  obtain o' where o: "wire (opt_val order_obj (ts_order s)) = Inr o'" "readable (rd_float rd) o'"
    "optional (from_kwargs ''Order'' order_params) (key_sorted o') = Inr (opt_val order_obj (ts_order s))"
    using carries_optional [OF plain_carried(1)] .
  obtain i where i: "wire (opt_val inventory_obj (ts_inventory_fact s)) = Inr i" "readable (rd_float rd) i"
    "optional (from_kwargs ''InventoryFact'' inventory_params) (key_sorted i)
      = Inr (opt_val inventory_obj (ts_inventory_fact s))"
    using carries_optional [OF plain_carried(2)] .
  obtain f where f: "wire (dict_val fact_obj (ts_facts s)) = Inr (PDict f)" "readable (rd_float rd) (PDict f)"
    "each_item (from_kwargs ''NumericFact'' fact_params) (key_sorted (PDict f))
      = Inr (dict_val fact_obj (sort_key fst (ts_facts s)))"
    using carries_dict [OF plain_carried(3) dist(1)] .
  obtain v where v: "wire (opt_val vehicle_obj (ts_selected_vehicle s)) = Inr v" "readable (rd_float rd) v"
    "optional (from_kwargs ''Vehicle'' vehicle_params) (key_sorted v)
      = Inr (opt_val vehicle_obj (ts_selected_vehicle s))"
    using carries_optional [OF plain_carried(4)] .
  obtain q where q: "wire (opt_val quote_obj (ts_selected_quote s)) = Inr q" "readable (rd_float rd) q"
    "optional (from_kwargs ''CarrierQuote'' quote_params) (key_sorted q)
      = Inr (opt_val quote_obj (ts_selected_quote s))"
    using carries_optional [OF plain_carried(5)] .
  obtain p where p: "wire (dict_val prepared_obj (ts_prepared_actions s)) = Inr (PDict p)"
    "readable (rd_float rd) (PDict p)"
    "each_item (prepared_action_of rd) (key_sorted (PDict p))
      = Inr (dict_val (\<lambda>a. prepared_obj (stored_action a)) (sort_key fst (ts_prepared_actions s)))"
    using carries_dict [OF prep dist(2)] .
  obtain vs where h: "seqR (map wire (map effect_obj (ts_effect_history s))) = Inr vs"
    "list_all (readable (rd_float rd)) vs"
    "seqR (map effect_record_of (map key_sorted vs)) = Inr (map effect_obj (ts_effect_history s))"
    using carries_list [OF effect_carried] .
  let ?d = "state_fields s [c, m, o', i, PDict f, v, q, PDict p, PList vs]"
  have h': "wire (PList (map effect_obj (ts_effect_history s))) = Inr (PList vs)"
    "bindR (iterate (key_sorted (PList vs))) (\<lambda>xs. seqR (map effect_record_of xs))
      = Inr (map effect_obj (ts_effect_history s))"
    using h(1,3) by (simp_all add: iterate_def del: map_map)
  have ps: "dict_val (\<lambda>a. prepared_obj (stored_action a)) (sort_key fst (ts_prepared_actions s))
      = dict_val prepared_obj (map (map_prod id stored_action) (sort_key fst (ts_prepared_actions s)))"
    by (auto simp: dict_val_def)
  obtain n where n: "wire (state_obj s) = Inr n" "without_histories n = PDict ?d"
    using state_written [OF c(1) m(1) o(1) i(1) f(1) v(1) q(1) p(1) h'(1) hist] by blast
  have readable: "readable (rd_float rd) (PDict ?d)"
    by (rule state_fields_readable [OF c(2) m(2) o(2) i(2) f(2) v(2) q(2) p(2) _ dist(3)])
      (use h(2) in \<open>simp add: list_all_iff\<close>)
  have wired: "wire (PDict ?d) = Inr (PDict ?d)"
    by (rule normalize_wire [OF readable_normalize [OF readable]])
  have built: "build_state rd (map event_obj (ts_events s)) (map decision_obj (ts_decisions s)) (sorted_dict ?d)
      = Inr (state_obj (stored_state s))"
    using state_read [OF c(3) m(3) o(3) i(3) f(3) v(3) q(3) p(3) [unfolded ps] h'(2)]
    by (simp add: stored_state_def)
  show ?thesis
    using encode_survives [where build = "build_state rd (map event_obj (ts_events s)) (map decision_obj (ts_decisions s))",
        OF wired readable built, of "''trace state''" STATE_SCHEMA_VERSION] n
    by (simp add: encode_state_json_def decode_state_json_def [abs_def])
qed

section \<open>Hashes of stored events\<close>

lemma sort_key_idem: "sort_key f (sort_key f xs) = sort_key f xs"
  by (rule sort_key_id_if_sorted) simp

lemma key_sorted_idem: "key_sorted (key_sorted v) = key_sorted v"
proof (induction v)
  case (PDict kvs)
  have "map (map_prod id key_sorted) (map (map_prod id key_sorted) kvs) = map (map_prod id key_sorted) kvs"
    using PDict.IH by (auto simp: snds.simps)
  then show ?case
    by (simp add: key_sorted.simps(11) sort_key_map_prod [of key_sorted, symmetric] sort_key_idem del: map_map)
qed (auto simp: snds.simps)

lemma dumps_sorted: "readable fl v \<Longrightarrow> json_dumps json_quote (key_sorted v) = json_dumps json_quote v"
  using dumps_print [of fl v] dumps_print [of fl "key_sorted v"] readable_sorted [of fl v]
  by (simp add: key_sorted_idem)

text \<open>The text of a dictionary is put together from the texts of its values.\<close>

lemma seq_items_after:
  "seq_items (map (map_prod id (\<lambda>v. bindR (f v) (\<lambda>n. Inr (g n)))) kvs)
    = bindR (seq_items (map (map_prod id f) kvs)) (\<lambda>d. Inr (map (map_prod id g) d))"
proof (induction kvs)
  case (Cons p kvs)
  show ?case
    using Cons.IH by (cases "f (snd p)"; cases "seq_items (map (map_prod id f) kvs)") (simp_all add: id_def)
qed simp

lemma canonical_items:
  "canonical_json (PDict kvs) = bindR (seq_items (map (map_prod id canonical_json) kvs)) (\<lambda>ts.
     Inr (''{'' @ join '','' (map (\<lambda>p. json_quote (fst p) @ '':'' @ snd p) (sort_key fst ts)) @ ''}''))"
proof -
  have "canonical_json = (\<lambda>v. bindR (normalize v) (\<lambda>n. Inr (json_dumps json_quote n)))"
    by (rule ext) (simp add: canonical_json_def)
  then show ?thesis
    using seq_items_after [of normalize "json_dumps json_quote" kvs]
    by (cases "seq_items (map (map_prod id normalize) kvs)") (simp_all add: canonical_json_def)
qed

lemma stored_canonical:
  assumes "stored rd (PDict d)" "canonical_json (PDict d) = Inr t"
  shows "canonical_json (PDict (stored_dict d)) = Inr t"
proof -
  obtain n where n: "normalize (PDict d) = Inr n" "t = json_dumps json_quote n"
    using assms(2) by (auto simp: canonical_json_def)
  obtain d' where d': "wire (PDict d) = Inr (PDict d')" "readable (rd_float rd) (PDict d')"
    "key_sorted (PDict d') = PDict (stored_dict d)"
    using storedE [OF assms(1)] .
  have "n = PDict d'" using normalize_wire [OF n(1)] d'(1) by simp
  then show ?thesis
    using readable_normalize [OF readable_sorted [OF d'(2)]] dumps_sorted [OF d'(2)] n(2) d'(3)
    by (simp add: canonical_json_def)
qed

lemma stored_event_hash:
  assumes "event_storable rd e" "calculate_event_hash e = Inr h"
  shows "calculate_event_hash (stored_event e) = Inr h"
proof -
  obtain t where t: "canonical_json (PDict (te_details e)) = Inr t"
    using assms(2)
    by (auto simp: calculate_event_hash_def hash_payload_def event_hash_payload_def canonical_items)
  then have "canonical_json (PDict (stored_dict (te_details e))) = Inr t"
    using assms(1) by (intro stored_canonical [of rd]) (simp_all add: event_storable_def)
  with t have "canonical_json (event_hash_payload (stored_event e)) = canonical_json (event_hash_payload e)"
    unfolding event_hash_payload_def
    by (subst (1 2) canonical_items) (simp add: stored_event_def)
  then show ?thesis using assms(2) by (simp add: calculate_event_hash_def hash_payload_def)
qed

section \<open>Claims\<close>

lemma mistaken_document:
  assumes "stored rd payload" "wire payload = Inr (PDict d)"
    and "encode_record schema payload label = Inr document" "expected \<noteq> schema"
  shows "decode_record rd document expected label'
    = version_error (''Stored '' @ label' @ '' uses an unsupported record schema version.'')"
proof -
  let ?e = "envelope schema (PDict d)"
  have e: "readable (rd_float rd) ?e" using assms(1,2) by (simp add: stored_def envelope_def)
  have "document = json_dumps json_quote ?e"
    using assms(2,3) readable_normalize [OF e]
    by (auto simp: encode_record_def canonical_json_def assert_item_size_def split: if_splits)
  then show ?thesis
    using json_loads_dumps [OF e] assms(4) by (simp add: decode_record_def envelope_sorted)
qed

text \<open>
  C38. An event whose stored hash is the hash of its content survives storage: unless the document
  exceeds the item limit, decoding the encoded event gives the event back, with the keys of its
  details in order, and the hash recomputed from what came back is still the stored one.\<close>

theorem stored_events_keep_their_hash:
  assumes "event_storable rd e" "calculate_event_hash e = Inr (te_event_hash e)"
  shows "survives ''trace event'' (encode_event_json e) (decode_event_json rd) (event_obj (stored_event e)) \<and>
    calculate_event_hash (stored_event e) = Inr (te_event_hash (stored_event e))"
  using event_codec.round_trip [OF assms(1)] stored_event_hash [OF assms]
  by (simp add: encode_event_json_def decode_event_json_def [abs_def] stored_event_def)

definition sample_reader :: reader where
  "sample_reader = \<lparr>rd_float = (\<lambda>_. FNan), rd_iso = (\<lambda>_. value_error ''Invalid isoformat string''),
     rd_pairs = (\<lambda>_. value_error ''dictionary update sequence'')\<rparr>"

definition sample_event :: trace_event where
  "sample_event =
     \<lparr>te_event_id = ''e1'', te_trace_id = ''t1'', te_sequence = 1, te_event_type = ET_TOOL_SUCCEEDED,
      te_summary = ''booked'', te_details = [(''weight'', PInt 40), (''amount'', PInt 900)],
      te_agent = Some CARRIER, te_tool_name = Some ''prepare_booking'',
      te_effect_class = Some EC_REVERSIBLE_WRITE, te_occurred_at = 1700000000000000,
      te_schema_version = ''ledger-event-v1'', te_previous_hash = ''p'', te_event_hash = ''h'',
      te_idempotency_key = None\<rparr>"

lemma sample_instant: "representable 1700000000000000"
  by (simp add: representable_def civil_from_days_def month_and_day_def month_start_def month_days_def)

theorem stored_events_keep_their_hash_witness:
  "\<exists>e. event_storable sample_reader e \<and> calculate_event_hash e = Inr (te_event_hash e) \<and>
     survives ''trace event'' (encode_event_json e) (decode_event_json sample_reader)
       (event_obj (stored_event e)) \<and>
     calculate_event_hash (stored_event e) = Inr (te_event_hash (stored_event e))"
proof -
  have "\<exists>h. calculate_event_hash sample_event = Inr h"
    by (simp add: calculate_event_hash_def hash_payload_def canonical_json_def event_hash_payload_def
        sample_event_def enum_val_def)
  then obtain h where h: "calculate_event_hash sample_event = Inr h" ..
  let ?e = "sample_event\<lparr>te_event_hash := h\<rparr>"
  have ok: "calculate_event_hash ?e = Inr (te_event_hash ?e)"
    using h by (simp add: calculate_event_hash_def event_hash_payload_def)
  have st: "event_storable sample_reader ?e"
    by (simp add: event_storable_def sample_event_def stored_def sample_instant)
  show ?thesis using stored_events_keep_their_hash [OF st ok] ok st by blast
qed

definition sample_head :: ledger_head where
  "sample_head = \<lparr>lh_trace_id = ''t1'', lh_sequence = 1, lh_event_count = 1, lh_event_hash = ''h'',
     lh_schema_version = ''ledger-event-v1'', lh_updated_at = 1700000000000000\<rparr>"

definition sample_receipt :: effect_receipt where
  "sample_receipt = \<lparr>rc_trace_id = ''t1'', rc_tool_name = ''confirm_booking'', rc_key_hash = ''k'',
     rc_fingerprint = ''f'', rc_result = [(''booking_id'', PStr ''b1'')], rc_created_at = 1700000000000000\<rparr>"

definition sample_replay :: replay_record where
  "sample_replay = \<lparr>rr_trace_id = ''t1'', rr_kind = RK_EVENT, rr_key_hash = ''k'', rr_fingerprint = ''f'',
     rr_result_reference = ''e1'', rr_created_at = 1700000000000000\<rparr>"

definition sample_approval :: approval_record where
  "sample_approval = \<lparr>ar_approval_id = ''a1'', ar_trace_id = ''t1'', ar_prepared_action_id = ''p1'',
     ar_action_hash = ''ah'', ar_state_hash = ''sh'', ar_policy_version = ''demo-v1'',
     ar_reason_code = ''SPEND-002'', ar_status = AS_APPROVED, ar_created_at = 1700000000000000,
     ar_expires_at = 1700000000000000, ar_version = 2, ar_decided_at = Some 1700000000000000,
     ar_decision = Some AD_APPROVE, ar_approver_label = Some ''lead'', ar_comment = None,
     ar_decision_idempotency_key = Some ''k''\<rparr>"

definition sample_decision :: decision where
  "sample_decision = \<lparr>dc_decision_id = ''d1'', dc_request_id = ''r1'', dc_trace_id = ''t1'',
     dc_proposal_id = ''q1'', dc_agent = CARRIER, dc_tool_name = ''confirm_booking'',
     dc_effect_class = Some EC_FINANCIAL_COMMIT, dc_policy_outcome = DO_GUIDE, dc_applied_outcome = DO_GUIDE,
     dc_enforced = True, dc_reason_code = ''PROV-001'', dc_because = ''weight'',
     dc_reasons = [\<lparr>ps_family = ''provenance'', ps_policy_id = ''PROV-001'', ps_outcome = DO_GUIDE,
        ps_reason_code = ''PROV-001'', ps_because = ''weight'',
        ps_guidance = Some [(''weight'', PInt 40), (''source'', PStr ''f1'')]\<rparr>],
     dc_guidance = Some [(''weight'', PInt 40)], dc_policy_version = ''demo-v1'',
     dc_engine_name = ''reference'', dc_evaluation_ms = FFinite (1 / 2) ''0.5'',
     dc_policy_bundle_hash = None, dc_created_at = 1700000000000000\<rparr>"

definition sample_action :: prepared_action where
  "sample_action = \<lparr>pa_prepared_action_id = ''p1'', pa_trace_id = ''t1'', pa_tool_name = ''confirm_booking'',
     pa_resource_id = ''q1'', pa_amount_minor = 900, pa_currency = ''INR'', pa_prepared_by = CARRIER,
     pa_arguments = [(''quote_id'', PStr ''q1''), (''amount_minor'', PInt 900)], pa_action_hash = ''ah'',
     pa_state_hash = ''sh'', pa_mandate_id = ''m1'', pa_policy_version = ''demo-v1'',
     pa_spend_committed_at_prepare_minor = 0, pa_spend_reserved_before_minor = 0,
     pa_spend_reserved_after_minor = 900, pa_status = CS_PREPARED, pa_expires_at = 1700000000000000\<rparr>"

definition sample_state :: trajectory_state where
  "sample_state = (new_trajectory ''t1'' ''o1'')\<lparr>ts_prepared_actions := [(''p1'', sample_action)],
     ts_guide_attempts := [(''b'', 2), (''a'', 1)], ts_events := [sample_event],
     ts_decisions := [sample_decision], ts_current_agent := Some CARRIER\<rparr>"

definition half_reader :: reader where
  "half_reader = sample_reader\<lparr>rd_float := (\<lambda>r. FFinite (1 / 2) r)\<rparr>"

lemma sample_float: "reads_float (rd_float half_reader) (FFinite (1 / 2) ''0.5'')"
  by (simp add: half_reader_def reads_float_def read_number_def int_part_def take_sign_def digits_of_def
      fraction_part_def exponent_part_def is_digit_def Let_def)

lemma samples_storable:
  "decision_storable half_reader sample_decision"
  "approval_storable half_reader sample_approval"
  "head_storable half_reader sample_head"
  "replay_storable half_reader sample_replay"
  "receipt_storable half_reader sample_receipt"
  "stored half_reader (PDict (pa_arguments sample_action))"
  by (simp_all add: decision_storable_def sample_decision_def sample_instant sample_float guidance_storable_def
      stored_def approval_storable_def sample_approval_def head_storable_def sample_head_def
      replay_storable_def sample_replay_def receipt_storable_def sample_receipt_def sample_action_def)

lemma sample_state_storable: "state_storable half_reader sample_state"
proof -
  have "wires (PList [event_obj sample_event])" "wires (PList [decision_obj sample_decision])"
    by (simp_all add: wires_def event_obj_def sample_event_def decision_obj_def sample_decision_def
        signal_obj_def)
  moreover have "representable (pa_expires_at sample_action)"
    by (simp add: sample_action_def sample_instant)
  ultimately show ?thesis
    using samples_storable(6)
    by (simp add: state_storable_def sample_state_def new_trajectory_def)
qed

text \<open>
  C39. Every other record survives storage as well: the trajectory state read back beside its
  own events and decisions, decisions, approvals, ledger heads, replay records and effect
  receipts decode to what was encoded, up to the order of dictionary keys, unless the document
  exceeds the item limit.\<close>

theorem stored_records_come_back:
  "(state_storable rd s \<longrightarrow>
      survives ''trace state'' (encode_state_json s)
        (decode_state_json rd (map event_obj (ts_events s)) (map decision_obj (ts_decisions s)))
        (state_obj (stored_state s))) \<and>
   (decision_storable rd d \<longrightarrow>
      survives ''decision'' (encode_decision_json d) (decode_decision_json rd)
        (decision_obj (stored_decision d))) \<and>
   (approval_storable rd a \<longrightarrow>
      survives ''approval'' (encode_approval_json a) (decode_approval_json rd) (approval_obj a)) \<and>
   (head_storable rd h \<longrightarrow>
      survives ''ledger head'' (encode_head_json h) (decode_head_json rd) (head_obj h)) \<and>
   (replay_storable rd r \<longrightarrow>
      survives ''replay record'' (encode_replay_json r) (decode_replay_json rd) (replay_obj r)) \<and>
   (receipt_storable rd c \<longrightarrow>
      survives ''effect receipt'' (encode_effect_json c) (decode_effect_json rd)
        (receipt_obj (stored_receipt c)))"
  using state_survives decision_codec.round_trip [of rd d] approval_codec.round_trip [of rd a]
    head_codec.round_trip [of rd h] replay_codec.round_trip [of rd r] receipt_codec.round_trip [of rd c]
  by (simp add: encode_decision_json_def decode_decision_json_def [abs_def] encode_approval_json_def
      decode_approval_json_def [abs_def] encode_head_json_def decode_head_json_def [abs_def]
      encode_replay_json_def decode_replay_json_def [abs_def] encode_effect_json_def
      decode_effect_json_def [abs_def])

theorem stored_records_come_back_witness:
  "survives ''trace state'' (encode_state_json sample_state)
     (decode_state_json half_reader [event_obj sample_event] [decision_obj sample_decision])
     (state_obj (stored_state sample_state)) \<and>
   survives ''decision'' (encode_decision_json sample_decision) (decode_decision_json half_reader)
     (decision_obj (stored_decision sample_decision)) \<and>
   survives ''approval'' (encode_approval_json sample_approval) (decode_approval_json half_reader)
     (approval_obj sample_approval) \<and>
   survives ''ledger head'' (encode_head_json sample_head) (decode_head_json half_reader)
     (head_obj sample_head) \<and>
   survives ''replay record'' (encode_replay_json sample_replay) (decode_replay_json half_reader)
     (replay_obj sample_replay) \<and>
   survives ''effect receipt'' (encode_effect_json sample_receipt) (decode_effect_json half_reader)
     (receipt_obj (stored_receipt sample_receipt))"
  using stored_records_come_back [of half_reader sample_state sample_decision sample_approval sample_head
      sample_replay sample_receipt] samples_storable sample_state_storable
  by (simp add: sample_state_def)

text \<open>
  C40. A document is never taken for another kind of record: decoding a stored document against
  any schema but its own raises \<open>SerializationVersionError\<close>.\<close>

theorem documents_keep_their_kind:
  assumes "stored rd payload" "wire payload = Inr (PDict d)"
    and "encode_record schema payload label = Inr document" "expected \<noteq> schema"
  shows "decode_record rd document expected label' = Inl (Manifest SerializationVersionError
    (''Stored '' @ label' @ '' uses an unsupported record schema version.''))"
  using mistaken_document [OF assms] by (simp add: version_error_def)

definition sample_payload :: pyval where
  "sample_payload = PDict [(''sequence'', PInt 1), (''trace_id'', PStr ''t1'')]"

lemma sample_payload_encoded: "\<exists>document. encode_record EVENT_RECORD_SCHEMA_VERSION sample_payload ''trace event'' = Inr document"
  by (simp add: sample_payload_def encode_record_def canonical_json_def envelope_def json_quote_def
      esc_char_def assert_item_size_def less_char_def STORAGE_SCHEMA_VERSION_def MAX_PERSISTED_ITEM_BYTES_def
      EVENT_RECORD_SCHEMA_VERSION_def show_int_def show_nat.simps)

theorem documents_keep_their_kind_witness:
  "\<exists>document. encode_record EVENT_RECORD_SCHEMA_VERSION sample_payload ''trace event'' = Inr document \<and>
     decode_record sample_reader document HEAD_RECORD_SCHEMA_VERSION ''ledger head''
       = Inl (Manifest SerializationVersionError
           ''Stored ledger head uses an unsupported record schema version.'')"
proof -
  obtain doc where doc: "encode_record EVENT_RECORD_SCHEMA_VERSION sample_payload ''trace event'' = Inr doc"
    using sample_payload_encoded ..
  show ?thesis
    using documents_keep_their_kind [of sample_reader sample_payload _ EVENT_RECORD_SCHEMA_VERSION "''trace event''" doc
        HEAD_RECORD_SCHEMA_VERSION "''ledger head''"] doc
    by (simp add: sample_payload_def stored_def HEAD_RECORD_SCHEMA_VERSION_def EVENT_RECORD_SCHEMA_VERSION_def)
qed

end
