(* ===== verification/Dynamo_Store.thy ===== *)
theory Dynamo_Store
  imports State_Codec Memory_Store
begin

text \<open>
  \<open>packages/storage/dynamodb.py\<close>: the trace repository over one DynamoDB table.  The client is an
  argument: a record of the calls that the store makes on it, over a table state of any type.  The
  writing operations mutate the caller's trajectory object (\<open>dn_state\<close>) before the transaction and
  undo this when the transaction fails.
\<close>

section \<open>Items and the client\<close>

text \<open>\<open>{"S": value}\<close> and \<open>{"N": str(value)}\<close>.\<close>

datatype attribute = AttrS string | AttrN int

type_synonym item = "(string, attribute) dict"

text \<open>
  The two kinds of write that a transaction holds: \<open>Put\<close> with \<open>attribute_not_exists(PK)\<close>, and
  \<open>Update\<close> of one key with the attributes to set and the attribute value it is conditional on.
\<close>

datatype write_action =
    PutNew item
  | UpdateIf string string item "string \<times> attribute"

record 'd client =
  cl_get :: "string \<Rightarrow> string \<Rightarrow> bool \<Rightarrow> 'd \<Rightarrow> item option result"
  cl_query :: "string \<Rightarrow> string \<Rightarrow> (string \<times> string) option \<Rightarrow> 'd
    \<Rightarrow> (item list \<times> (string \<times> string) option) result"
  cl_transact :: "write_action list \<Rightarrow> 'd \<Rightarrow> unit result \<times> 'd"
  cl_put :: "item \<Rightarrow> 'd \<Rightarrow> unit result \<times> 'd"
  cl_update :: "string \<Rightarrow> string \<Rightarrow> item \<Rightarrow> (string \<times> attribute) option \<Rightarrow> 'd \<Rightarrow> unit result \<times> 'd"
  cl_delete :: "(string \<times> string) list \<Rightarrow> 'd \<Rightarrow> unit result \<times> 'd"
  cl_describe :: "'d \<Rightarrow> unit result"

record 'd dynamo =
  dy_table_name :: string
  dy_endpoint :: "string option"
  dy_region :: string
  dy_namespace :: string
  dy_client :: "'d client"
  dy_reader :: reader

record 'd dyn_sys =
  dn_state :: trajectory_state
  dn_table :: 'd
  dn_world :: world

type_synonym ('d, 'a) dop = "('d dyn_sys, exc, 'a) SE"

abbreviation set_state :: "(trajectory_state \<Rightarrow> trajectory_state) \<Rightarrow> ('d, unit) dop" where
  "set_state f \<equiv> updM (\<lambda>s. s\<lparr>dn_state := f (dn_state s)\<rparr>)"

definition now_utc :: "('d, int) dop" where
  "now_utc s =
     (Inr (wd_clock (dn_world s) (wd_clock_pos (dn_world s))),
      s\<lparr>dn_world := (dn_world s)\<lparr>wd_clock_pos := Suc (wd_clock_pos (dn_world s))\<rparr>\<rparr>)"

definition new_uuid :: "('d, string) dop" where
  "new_uuid s =
     (Inr (wd_uuids (dn_world s) (wd_uuid_pos (dn_world s))),
      s\<lparr>dn_world := (dn_world s)\<lparr>wd_uuid_pos := Suc (wd_uuid_pos (dn_world s))\<rparr>\<rparr>)"

text \<open>A read of the table, and a write to it.\<close>

definition readM :: "('d \<Rightarrow> 'a result) \<Rightarrow> ('d, 'a) dop" where
  "readM f s = (f (dn_table s), s)"

definition writeM :: "('d \<Rightarrow> unit result \<times> 'd) \<Rightarrow> ('d, unit) dop" where
  "writeM f s = (case f (dn_table s) of (r, d) \<Rightarrow> (r, s\<lparr>dn_table := d\<rparr>))"

definition transact :: "'d dynamo \<Rightarrow> write_action list \<Rightarrow> ('d, unit) dop" where
  "transact dy acts = writeM (cl_transact (dy_client dy) acts)"

section \<open>Typed records\<close>

text \<open>
  The records of the model are typed.  A stored object whose fields do not have the types of the
  dataclass, which no encoder writes, is reported as a \<open>TypeError\<close> where it is read.
\<close>

definition ill_typed :: "'a result" where
  "ill_typed = Inl (PyExc TypeError ''ill-typed stored record'')"

definition as_str :: "pyval \<Rightarrow> string result" where
  "as_str v = (case v of PStr s \<Rightarrow> Inr s | _ \<Rightarrow> ill_typed)"

definition as_int :: "pyval \<Rightarrow> int result" where
  "as_int v = (case v of PInt i \<Rightarrow> Inr i | _ \<Rightarrow> ill_typed)"

definition as_map :: "pyval \<Rightarrow> pydict result" where
  "as_map v = (case v of PDict d \<Rightarrow> Inr d | _ \<Rightarrow> ill_typed)"

definition as_instant :: "pyval \<Rightarrow> int result" where
  "as_instant v = (case v of PDatetime (Aware t) \<Rightarrow> Inr t | _ \<Rightarrow> ill_typed)"

definition as_member :: "(string \<Rightarrow> 'm option) \<Rightarrow> pyval \<Rightarrow> 'm result" where
  "as_member find_member v =
     (case v of
        PEnum _ s \<Rightarrow> (case find_member s of Some m \<Rightarrow> Inr m | None \<Rightarrow> ill_typed)
      | _ \<Rightarrow> ill_typed)"

definition as_opt :: "(pyval \<Rightarrow> 'a result) \<Rightarrow> pyval \<Rightarrow> 'a option result" where
  "as_opt f v = (if v = PNone then Inr None else bindR (f v) (\<lambda>a. Inr (Some a)))"

definition field :: "pyval \<Rightarrow> string \<Rightarrow> (pyval \<Rightarrow> 'a result) \<Rightarrow> 'a result" where
  "field v k f = (case v of PObj _ d \<Rightarrow> bindR (item d k) f | _ \<Rightarrow> ill_typed)"

definition typed_event :: "pyval \<Rightarrow> trace_event result" where
  "typed_event v =
     bindR (field v ''event_id'' as_str) (\<lambda>a. bindR (field v ''trace_id'' as_str) (\<lambda>b.
     bindR (field v ''sequence'' as_int) (\<lambda>c. bindR (field v ''event_type'' (as_member event_type_of)) (\<lambda>d.
     bindR (field v ''summary'' as_str) (\<lambda>e. bindR (field v ''details'' as_map) (\<lambda>f.
     bindR (field v ''agent'' (as_opt (as_member agent_name_of))) (\<lambda>g.
     bindR (field v ''tool_name'' (as_opt as_str)) (\<lambda>h.
     bindR (field v ''effect_class'' (as_opt (as_member effect_class_of))) (\<lambda>i.
     bindR (field v ''occurred_at'' as_instant) (\<lambda>j. bindR (field v ''schema_version'' as_str) (\<lambda>k.
     bindR (field v ''previous_hash'' as_str) (\<lambda>l. bindR (field v ''event_hash'' as_str) (\<lambda>m.
     bindR (field v ''idempotency_key'' (as_opt as_str)) (\<lambda>n.
     Inr \<lparr>te_event_id = a, te_trace_id = b, te_sequence = c, te_event_type = d, te_summary = e,
          te_details = f, te_agent = g, te_tool_name = h, te_effect_class = i, te_occurred_at = j,
          te_schema_version = k, te_previous_hash = l, te_event_hash = m,
          te_idempotency_key = n\<rparr>))))))))))))))"

definition typed_head :: "pyval \<Rightarrow> ledger_head result" where
  "typed_head v =
     bindR (field v ''trace_id'' as_str) (\<lambda>a. bindR (field v ''sequence'' as_int) (\<lambda>b.
     bindR (field v ''event_count'' as_int) (\<lambda>c. bindR (field v ''event_hash'' as_str) (\<lambda>d.
     bindR (field v ''schema_version'' as_str) (\<lambda>e. bindR (field v ''updated_at'' as_instant) (\<lambda>f.
     Inr \<lparr>lh_trace_id = a, lh_sequence = b, lh_event_count = c, lh_event_hash = d,
          lh_schema_version = e, lh_updated_at = f\<rparr>))))))"

definition typed_replay :: "pyval \<Rightarrow> replay_record result" where
  "typed_replay v =
     bindR (field v ''trace_id'' as_str) (\<lambda>a. bindR (field v ''kind'' (as_member replay_kind_of)) (\<lambda>b.
     bindR (field v ''key_hash'' as_str) (\<lambda>c. bindR (field v ''fingerprint'' as_str) (\<lambda>d.
     bindR (field v ''result_reference'' as_str) (\<lambda>e. bindR (field v ''created_at'' as_instant) (\<lambda>f.
     Inr \<lparr>rr_trace_id = a, rr_kind = b, rr_key_hash = c, rr_fingerprint = d, rr_result_reference = e,
          rr_created_at = f\<rparr>))))))"

definition typed_receipt :: "pyval \<Rightarrow> effect_receipt result" where
  "typed_receipt v =
     bindR (field v ''trace_id'' as_str) (\<lambda>a. bindR (field v ''tool_name'' as_str) (\<lambda>b.
     bindR (field v ''key_hash'' as_str) (\<lambda>c. bindR (field v ''fingerprint'' as_str) (\<lambda>d.
     bindR (field v ''result'' as_map) (\<lambda>e. bindR (field v ''created_at'' as_instant) (\<lambda>f.
     Inr \<lparr>rc_trace_id = a, rc_tool_name = b, rc_key_hash = c, rc_fingerprint = d, rc_result = e,
          rc_created_at = f\<rparr>))))))"

definition typed_approval :: "pyval \<Rightarrow> approval_record result" where
  "typed_approval v =
     bindR (field v ''approval_id'' as_str) (\<lambda>a. bindR (field v ''trace_id'' as_str) (\<lambda>b.
     bindR (field v ''prepared_action_id'' as_str) (\<lambda>c. bindR (field v ''action_hash'' as_str) (\<lambda>d.
     bindR (field v ''state_hash'' as_str) (\<lambda>e. bindR (field v ''policy_version'' as_str) (\<lambda>f.
     bindR (field v ''reason_code'' as_str) (\<lambda>g.
     bindR (field v ''status'' (as_member approval_status_of)) (\<lambda>h.
     bindR (field v ''created_at'' as_instant) (\<lambda>i. bindR (field v ''expires_at'' as_instant) (\<lambda>j.
     bindR (field v ''version'' as_int) (\<lambda>k. bindR (field v ''decided_at'' (as_opt as_instant)) (\<lambda>l.
     bindR (field v ''decision'' (as_opt (as_member approval_decision_of))) (\<lambda>m.
     bindR (field v ''approver_label'' (as_opt as_str)) (\<lambda>n.
     bindR (field v ''comment'' (as_opt as_str)) (\<lambda>p.
     bindR (field v ''decision_idempotency_key'' (as_opt as_str)) (\<lambda>q.
     Inr \<lparr>ar_approval_id = a, ar_trace_id = b, ar_prepared_action_id = c, ar_action_hash = d,
          ar_state_hash = e, ar_policy_version = f, ar_reason_code = g, ar_status = h,
          ar_created_at = i, ar_expires_at = j, ar_version = k, ar_decided_at = l, ar_decision = m,
          ar_approver_label = n, ar_comment = p, ar_decision_idempotency_key = q\<rparr>))))))))))))))))"

section \<open>Configuration\<close>

text \<open>\<open>str.strip\<close> on UTF-8 bytes.\<close>

fun lstrip :: "string \<Rightarrow> string" where
  "lstrip [] = []"
| "lstrip (a # b # c # s) =
     (if ascii_space a then lstrip (b # c # s)
      else if space2 a b then lstrip (c # s)
      else if space3 a b c then lstrip s
      else a # b # c # s)"
| "lstrip [a, b] = (if ascii_space a then lstrip [b] else if space2 a b then [] else [a, b])"
| "lstrip [a] = (if ascii_space a then [] else [a])"

text \<open>The same from the end, on the reversed text.\<close>

fun lstrip_rev :: "string \<Rightarrow> string" where
  "lstrip_rev [] = []"
| "lstrip_rev (a # b # c # s) =
     (if ascii_space a then lstrip_rev (b # c # s)
      else if space2 b a then lstrip_rev (c # s)
      else if space3 c b a then lstrip_rev s
      else a # b # c # s)"
| "lstrip_rev [a, b] = (if ascii_space a then lstrip_rev [b] else if space2 b a then [] else [a, b])"
| "lstrip_rev [a] = (if ascii_space a then [] else [a])"

definition strip :: "string \<Rightarrow> string" where
  "strip s = rev (lstrip_rev (rev (lstrip s)))"

definition getenv :: "(string, string) dict \<Rightarrow> string \<Rightarrow> string \<Rightarrow> string" where
  "getenv env k dflt = (case dget env k of Some v \<Rightarrow> v | None \<Rightarrow> dflt)"

text \<open>\<open>argument or fallback\<close> for an optional text.\<close>

definition or_else :: "string option \<Rightarrow> string \<Rightarrow> string" where
  "or_else x y = (case x of Some v \<Rightarrow> if v = [] then y else v | None \<Rightarrow> y)"

definition table_name_ok :: "string \<Rightarrow> bool" where
  "table_name_ok n \<longleftrightarrow>
     3 \<le> length n \<and> length n \<le> 255 \<and>
     list_all (\<lambda>c. alnum c \<or> c \<in> {CHR ''_'', CHR ''.'', CHR ''-''}) n"

definition new_dynamo ::
  "(string, string) dict \<Rightarrow> string option \<Rightarrow> string option \<Rightarrow> string option \<Rightarrow> string option
    \<Rightarrow> 'd client \<Rightarrow> reader \<Rightarrow> 'd dynamo result" where
  "new_dynamo env table_name endpoint_url region_name namespace cl rd =
     (let mode = map lower_char (strip (getenv env ''MANIFEST_DEPLOYMENT_MODE'' ''local''));
          table = or_else table_name (getenv env ''MANIFEST_DYNAMODB_TABLE'' ''manifest-local'');
          endpoint = or_else endpoint_url (getenv env ''MANIFEST_DYNAMODB_ENDPOINT'' []) in
      if mode \<noteq> ''local'' \<and> mode \<noteq> ''aws''
        then Inl (config_error ''MANIFEST_DEPLOYMENT_MODE must be local or aws.'')
      else if mode = ''aws'' \<and> endpoint \<noteq> []
        then Inl (config_error ''AWS deployment must not configure MANIFEST_DYNAMODB_ENDPOINT.'')
      else if mode = ''aws'' \<and> (dget env ''AWS_ACCESS_KEY_ID'' = Some ''local'' \<or>
                               dget env ''AWS_SECRET_ACCESS_KEY'' = Some ''local'')
        then Inl (config_error ''AWS deployment must use its instance role, not local credentials.'')
      else
        bindR (validate_namespace False
                 (or_else namespace (getenv env ''MANIFEST_DEMO_NAMESPACE'' ''local-demo''))) (\<lambda>ns.
        if \<not> table_name_ok table
        then Inl (config_error ''DynamoDB table name must use 3-255 safe table-name characters.'')
        else Inr \<lparr>dy_table_name = table,
                  dy_endpoint = (if mode = ''aws'' then None
                    else Some (if endpoint = [] then ''http://127.0.0.1:18000'' else endpoint)),
                  dy_region = or_else region_name (getenv env ''AWS_DEFAULT_REGION'' ''us-east-1''),
                  dy_namespace = ns, dy_client = cl, dy_reader = rd\<rparr>))"

definition dynamo_startup :: "'d dynamo \<Rightarrow> ('d, unit) dop" where
  "dynamo_startup dy =
     catchM (readM (cl_describe (dy_client dy)))
       (\<lambda>_. raiseM (Manifest StorageUnavailableError
              (''DynamoDB table '' @ dy_table_name dy @ '' is unavailable.'')))"

definition dynamo_describe :: "'d dynamo \<Rightarrow> pydict" where
  "dynamo_describe dy =
     [(''storage_backend'', PStr ''dynamodb''),
      (''storage_mode'', PStr (if dy_endpoint dy \<noteq> None \<and> dy_endpoint dy \<noteq> Some []
         then ''dynamodb_local'' else ''dynamodb_aws'')),
      (''consistent_reads'', PBool True), (''table_name'', PStr (dy_table_name dy)),
      (''endpoint'', opt_str (dy_endpoint dy)), (''namespace'', PStr (dy_namespace dy))]"

section \<open>Items, actions and reads\<close>

definition META_SK :: string where "META_SK = ''META''"

definition HEAD_SK :: string where "HEAD_SK = ''HEAD''"

definition POINTER_SK :: string where "POINTER_SK = ''POINTER''"

definition trace_item :: "string \<Rightarrow> string \<Rightarrow> string \<Rightarrow> string \<Rightarrow> (string \<times> int) list \<Rightarrow> item result" where
  "trace_item tid sk record_type document numbers =
     bindR (trace_pk tid) (\<lambda>pk.
     let base = [(''PK'', AttrS pk), (''SK'', AttrS sk), (''RecordType'', AttrS record_type),
                 (''TraceId'', AttrS tid), (''Document'', AttrS document)];
         it = fold (\<lambda>(k, n). dput k (AttrN n)) numbers base
     in Inr (if sk = HEAD_SK then dput ''Sequence'' (AttrN 0) it else it))"

definition meta_update_action :: "trajectory_state \<Rightarrow> int \<Rightarrow> write_action result" where
  "meta_update_action st old_revision =
     bindR (trace_pk (ts_trace_id st)) (\<lambda>pk.
     bindR (encode_state_json st) (\<lambda>document.
     Inr (UpdateIf pk META_SK
       [(''Document'', AttrS document), (''Revision'', AttrN (ts_storage_revision st))]
       (''Revision'', AttrN old_revision))))"

definition head_update_action :: "string \<Rightarrow> ledger_head \<Rightarrow> int \<Rightarrow> write_action result" where
  "head_update_action tid new_head expected =
     bindR (trace_pk tid) (\<lambda>pk.
     bindR (encode_head_json new_head) (\<lambda>document.
     Inr (UpdateIf pk HEAD_SK
       [(''Document'', AttrS document), (''Sequence'', AttrN (lh_sequence new_head))]
       (''Sequence'', AttrN expected))))"

definition approval_update_action ::
  "string \<times> string \<Rightarrow> string \<Rightarrow> int \<Rightarrow> int \<Rightarrow> write_action" where
  "approval_update_action key document version expected =
     UpdateIf (fst key) (snd key)
       [(''Document'', AttrS document), (''Version'', AttrN version)] (''Version'', AttrN expected)"

definition document_of :: "item \<Rightarrow> string result" where
  "document_of it =
     (case dget it ''Document'' of Some (AttrS d) \<Rightarrow> Inr d | _ \<Rightarrow> Inl (PyExc KeyError ''Document''))"

definition get_record :: "'d dynamo \<Rightarrow> string \<Rightarrow> string \<Rightarrow> ('d, item option) dop" where
  "get_record dy pk sk = readM (cl_get (dy_client dy) pk sk True)"

text \<open>
  The paging loop of \<open>_query\<close>.  It ends when a page carries no last key; \<open>None\<close> stands for a
  loop that never ends.
\<close>

partial_function (option) query_pages ::
  "'d client \<Rightarrow> string \<Rightarrow> string \<Rightarrow> (string \<times> string) option \<Rightarrow> item list \<Rightarrow> 'd \<Rightarrow> item list result option"
where
  "query_pages cl pk prefix start items d =
     (case cl_query cl pk prefix start d of
        Inl e \<Rightarrow> Some (Inl e)
      | Inr page \<Rightarrow>
          (case snd page of
             None \<Rightarrow> Some (Inr (items @ fst page))
           | Some k \<Rightarrow> query_pages cl pk prefix (Some k) (items @ fst page) d))"

declare query_pages.simps [code]

definition query_items :: "'d dynamo \<Rightarrow> string \<Rightarrow> string \<Rightarrow> ('d, item list) dop" where
  "query_items dy pk prefix =
     readM (\<lambda>d. case query_pages (dy_client dy) pk prefix None [] d of
                  Some r \<Rightarrow> r
                | None \<Rightarrow> Inl (PyExc RuntimeError ''the query does not return''))"

definition event_objects :: "'d dynamo \<Rightarrow> string \<Rightarrow> ('d, pyval list) dop" where
  "event_objects dy tid =
     bindM (liftR (trace_pk tid)) (\<lambda>pk.
     bindM (query_items dy pk ''EVENT#'') (\<lambda>its.
     liftR (seqR (map (\<lambda>it. bindR (document_of it) (decode_event_json (dy_reader dy))) its))))"

definition read_events :: "'d dynamo \<Rightarrow> string \<Rightarrow> ('d, trace_event list) dop" where
  "read_events dy tid =
     bindM (event_objects dy tid) (\<lambda>vs. liftR (seqR (map typed_event vs)))"

definition read_decisions :: "'d dynamo \<Rightarrow> string \<Rightarrow> ('d, pyval list) dop" where
  "read_decisions dy tid =
     bindM (liftR (trace_pk tid)) (\<lambda>pk.
     bindM (query_items dy pk ''DECISION#'') (\<lambda>its.
     liftR (seqR (map (\<lambda>it. bindR (document_of it) (decode_decision_json (dy_reader dy))) its))))"

definition head_from :: "reader \<Rightarrow> item \<Rightarrow> ledger_head result" where
  "head_from rd it = bindR (bindR (document_of it) (decode_head_json rd)) typed_head"

definition read_head :: "'d dynamo \<Rightarrow> string \<Rightarrow> ('d, ledger_head) dop" where
  "read_head dy tid =
     bindM (liftR (trace_pk tid)) (\<lambda>pk.
     bindM (get_record dy pk HEAD_SK) (\<lambda>found.
     case found of
       Some it \<Rightarrow> liftR (head_from (dy_reader dy) it)
     | None \<Rightarrow>
         bindM (get_record dy pk META_SK) (\<lambda>meta.
         case meta of
           None \<Rightarrow> raiseM (not_found tid)
         | Some _ \<Rightarrow> raiseM (Manifest LedgerAppendError (''Trace '' @ tid @ '' has no ledger head.'')))))"

definition verify_stored :: "'d dynamo \<Rightarrow> string \<Rightarrow> ('d, verification_result) dop" where
  "verify_stored dy tid =
     bindM (read_events dy tid) (\<lambda>es. bindM (read_head dy tid) (\<lambda>h. returnM (verify_chain tid es h)))"

text \<open>The state object of a stored trace and its revision.\<close>

definition with_field :: "string \<Rightarrow> pyval \<Rightarrow> pyval \<Rightarrow> pyval" where
  "with_field k x v = (case v of PObj c d \<Rightarrow> PObj c (dput k x d) | _ \<Rightarrow> v)"

definition revision_of :: "item \<Rightarrow> int result" where
  "revision_of it =
     (case dget it ''Revision'' of Some (AttrN n) \<Rightarrow> Inr n | _ \<Rightarrow> Inl (PyExc KeyError ''Revision''))"

definition load_stored :: "'d dynamo \<Rightarrow> string \<Rightarrow> bool \<Rightarrow> ('d, pyval \<times> int) dop" where
  "load_stored dy tid consistent =
     bindM (liftR (trace_pk tid)) (\<lambda>pk.
     bindM (readM (cl_get (dy_client dy) pk META_SK consistent)) (\<lambda>found.
     case found of
       None \<Rightarrow> raiseM (not_found tid)
     | Some meta \<Rightarrow>
         bindM (event_objects dy tid) (\<lambda>events.
         bindM (read_decisions dy tid) (\<lambda>decisions.
         bindM (liftR (bindR (document_of meta) (decode_state_json (dy_reader dy) events decisions)))
           (\<lambda>st.
         bindM (liftR (revision_of meta)) (\<lambda>revision.
         returnM (with_field ''storage_revision'' (PInt revision) st, revision)))))))"

section \<open>Traces and events\<close>

definition create_stored :: "'d dynamo \<Rightarrow> ('d, stored_trace) dop" where
  "create_stored dy =
     bindM (getM dn_state) (\<lambda>st.
     if ts_events st \<noteq> [] \<or> ts_next_sequence st \<noteq> 1
     then raiseM (Manifest TraceSequenceError ''A new trace must have no events.'')
     else
       thenM (set_state (ts_storage_revision_update (\<lambda>_. 0)))
       (bindM now_utc (\<lambda>now.
        bindM (getM dn_state) (\<lambda>st.
        let tid = ts_trace_id st in
        bindM (liftR (bindR (encode_state_json st) (\<lambda>doc. trace_item tid META_SK ''trace'' doc [(''Revision'', 0)])))
          (\<lambda>meta.
        bindM (liftR (bindR (encode_head_json (genesis_head tid now)) (\<lambda>doc. trace_item tid HEAD_SK ''head'' doc [])))
          (\<lambda>head.
        bindM (liftR (bindR (namespace_pk (dy_namespace dy)) (\<lambda>npk.
                      bindR (namespace_trace_sk tid) (\<lambda>nsk.
                      Inr [(''PK'', AttrS npk), (''SK'', AttrS nsk),
                           (''RecordType'', AttrS ''namespace_trace''), (''TraceId'', AttrS tid)]))))
          (\<lambda>pointer.
        thenM (catchM (transact dy [PutNew meta, PutNew head, PutNew pointer])
                (\<lambda>_. raiseM (Manifest TraceSequenceError (''Trace '' @ tid @ '' already exists.''))))
        (liftR (make_stored_trace st 0)))))))))"

text \<open>The look-up of an idempotency key: the replay entry to write, or the event recorded for it.\<close>

definition recorded_event ::
  "'d dynamo \<Rightarrow> event_description \<Rightarrow> ('d, (string \<times> string) option \<times> trace_event option) dop" where
  "recorded_event dy d =
     (case ed_idempotency_key d of
        None \<Rightarrow> returnM (None, None)
      | Some key \<Rightarrow>
          bindM (getM (\<lambda>s. ts_trace_id (dn_state s))) (\<lambda>tid.
          bindM (liftR (event_description_fingerprint tid d key)) (\<lambda>fp.
          bindM (liftR (opaque_key_hash key)) (\<lambda>replay_key.
          bindM (liftR (trace_pk tid)) (\<lambda>pk.
          bindM (liftR (event_replay_sk replay_key)) (\<lambda>sk.
          bindM (get_record dy pk sk) (\<lambda>existing.
          case existing of
            None \<Rightarrow> returnM (Some (replay_key, fp), None)
          | Some it \<Rightarrow>
              bindM (liftR (bindR (bindR (document_of it) (decode_replay_json (dy_reader dy))) typed_replay))
                (\<lambda>replay.
              if rr_fingerprint replay \<noteq> fp
              then raiseM (Manifest LedgerIdempotencyConflictError
                     ''A ledger idempotency key was reused with different event fields.'')
              else
                bindM (liftR (bindR (py_int (PStr (rr_result_reference replay))) event_sk)) (\<lambda>esk.
                bindM (get_record dy pk esk) (\<lambda>found.
                case found of
                  None \<Rightarrow> raiseM (Manifest LedgerAppendError ''A ledger replay points to a missing event.'')
                | Some it' \<Rightarrow>
                    bindM (liftR (bindR (bindR (document_of it') (decode_event_json (dy_reader dy))) typed_event))
                      (\<lambda>e. returnM (Some (replay_key, fp), Some e))))))))))))"

text \<open>What an append sends: the event, the revision to go back to and the transaction.\<close>

record append_plan =
  ap_event :: trace_event
  ap_old_revision :: int
  ap_actions :: "write_action list"

definition replay_action :: "string \<Rightarrow> (string \<times> string) option \<Rightarrow> int \<Rightarrow> ('d, write_action list) dop" where
  "replay_action tid entry sequence =
     (case entry of
        Some (replay_key, fp) \<Rightarrow>
          if replay_key \<noteq> [] \<and> fp \<noteq> [] then
            bindM now_utc (\<lambda>now.
            bindM (liftR (bindR (make_replay_record tid RK_EVENT replay_key fp (show_int sequence) now) (\<lambda>r.
                          bindR (event_replay_sk replay_key) (\<lambda>sk.
                          bindR (encode_replay_json r) (\<lambda>doc. trace_item tid sk ''event_replay'' doc [])))))
              (\<lambda>it. returnM [PutNew it]))
          else returnM []
      | None \<Rightarrow> returnM [])"

text \<open>The transaction for event \<open>e\<close>, made from the object that already holds it.\<close>

definition plan_actions ::
  "string \<Rightarrow> (string \<times> string) option \<Rightarrow> ledger_head \<Rightarrow> ledger_head \<Rightarrow> int \<Rightarrow> trace_event
    \<Rightarrow> ('d, append_plan) dop" where
  "plan_actions tid entry head new_head old_revision e =
     bindM (liftR (bindR (event_sk (te_sequence e)) (\<lambda>sk.
                   bindR (encode_event_json e) (\<lambda>doc. trace_item tid sk ''event'' doc [])))) (\<lambda>it.
     bindM (liftR (head_update_action tid new_head (lh_sequence head))) (\<lambda>head_action.
     bindM (getM dn_state) (\<lambda>st.
     bindM (liftR (meta_update_action st old_revision)) (\<lambda>meta_action.
     bindM (replay_action tid entry (te_sequence e)) (\<lambda>replays.
     returnM \<lparr>ap_event = e, ap_old_revision = old_revision,
       ap_actions = [PutNew it, head_action, meta_action] @ replays\<rparr>)))))"

text \<open>An append up to its transaction: the look-up, then the event and its transaction.\<close>

definition plan_append ::
  "'d dynamo \<Rightarrow> event_description \<Rightarrow> (string \<times> string) option \<Rightarrow> ('d, append_plan) dop" where
  "plan_append dy d entry =
     bindM (getM (\<lambda>s. ts_trace_id (dn_state s))) (\<lambda>tid.
     bindM (read_head dy tid) (\<lambda>head.
     bindM (getM dn_state) (\<lambda>st.
     if ts_next_sequence st \<noteq> lh_sequence head + 1
     then raiseM (Manifest TraceSequenceError
            (''Trace '' @ tid @ '' expected sequence '' @ show_int (lh_sequence head + 1) @
             '', received '' @ show_int (ts_next_sequence st) @ ''.''))
     else
       bindM now_utc (\<lambda>now.
       bindM new_uuid (\<lambda>uid.
       let unhashed = new_event tid d head uid now in
       bindM (liftR (calculate_event_hash unhashed)) (\<lambda>h.
       let e = unhashed\<lparr>te_event_hash := h\<rparr>;
           new_head = \<lparr>lh_trace_id = tid, lh_sequence = te_sequence e,
                       lh_event_count = lh_event_count head + 1, lh_event_hash = h,
                       lh_schema_version = LEDGER_SCHEMA_VERSION, lh_updated_at = now\<rparr> in
       thenM (set_state (\<lambda>st. st\<lparr>ts_events := ts_events st @ [e],
                                  ts_next_sequence := ts_next_sequence st + 1,
                                  ts_storage_revision := ts_storage_revision st + 1\<rparr>))
       (plan_actions tid entry head new_head (ts_storage_revision st) e)))))))"

definition prepare_append ::
  "'d dynamo \<Rightarrow> event_description \<Rightarrow> ('d, trace_event + append_plan) dop" where
  "prepare_append dy d =
     bindM (recorded_event dy d) (\<lambda>(entry, recorded).
     case recorded of
       Some e \<Rightarrow> returnM (Inl e)
     | None \<Rightarrow> bindM (plan_append dy d entry) (\<lambda>plan. returnM (Inr plan)))"

definition conflict :: "string \<Rightarrow> exc" where
  "conflict tid = Manifest TraceRevisionConflictError (''Trace '' @ tid @ '' changed concurrently.'')"

definition commit_append :: "'d dynamo \<Rightarrow> append_plan \<Rightarrow> ('d, trace_event) dop" where
  "commit_append dy plan =
     thenM (catchM (transact dy (ap_actions plan))
       (\<lambda>_. bindM (getM (\<lambda>s. ts_trace_id (dn_state s))) (\<lambda>tid.
        thenM (set_state (\<lambda>st. st\<lparr>ts_events := butlast (ts_events st),
                                   ts_next_sequence := ts_next_sequence st - 1,
                                   ts_storage_revision := ap_old_revision plan\<rparr>))
        (raiseM (conflict tid)))))
     (returnM (ap_event plan))"

definition append_stored :: "'d dynamo \<Rightarrow> event_description \<Rightarrow> ('d, trace_event) dop" where
  "append_stored dy d =
     bindM (prepare_append dy d) (\<lambda>r. case r of Inl e \<Rightarrow> returnM e | Inr plan \<Rightarrow> commit_append dy plan)"

section \<open>Decisions, approvals and receipts\<close>

definition append_stored_decision :: "'d dynamo \<Rightarrow> decision \<Rightarrow> ('d, unit) dop" where
  "append_stored_decision dy dc =
     bindM (getM (\<lambda>s. ts_storage_revision (dn_state s))) (\<lambda>old_revision.
     thenM (set_state (\<lambda>st. st\<lparr>ts_decisions := ts_decisions st @ [dc],
                                ts_storage_revision := ts_storage_revision st + 1\<rparr>))
     (bindM (getM dn_state) (\<lambda>st.
      bindM (liftR (bindR (decision_sk (Aware (dc_created_at dc)) (dc_decision_id dc)) (\<lambda>sk.
                    bindR (encode_decision_json dc) (\<lambda>doc.
                    trace_item (ts_trace_id st) sk ''decision'' doc [])))) (\<lambda>it.
      bindM (liftR (meta_update_action st old_revision)) (\<lambda>meta_action.
      catchM (transact dy [PutNew it, meta_action])
        (\<lambda>_. thenM (set_state (\<lambda>st. st\<lparr>ts_decisions := butlast (ts_decisions st),
                                         ts_storage_revision := old_revision\<rparr>))
          (raiseM (conflict (ts_trace_id st)))))))))"

definition approval_common :: "approval_record \<Rightarrow> string \<Rightarrow> item" where
  "approval_common a document =
     [(''RecordType'', AttrS ''approval''), (''Document'', AttrS document),
      (''Version'', AttrN (ar_version a)), (''TraceId'', AttrS (ar_trace_id a))]"

definition keyed :: "string \<Rightarrow> string \<Rightarrow> item \<Rightarrow> item" where
  "keyed pk sk rest = [(''PK'', AttrS pk), (''SK'', AttrS sk)] @ rest"

definition approval_conflict :: "string \<Rightarrow> exc" where
  "approval_conflict m = Manifest ApprovalPersistenceConflictError m"

definition add_stored_approval :: "'d dynamo \<Rightarrow> approval_record \<Rightarrow> ('d, unit) dop" where
  "add_stored_approval dy a =
     bindM (getM (\<lambda>s. ts_storage_revision (dn_state s))) (\<lambda>old_revision.
     thenM (set_state (\<lambda>st. st\<lparr>ts_storage_revision := ts_storage_revision st + 1\<rparr>))
     (bindM (getM dn_state) (\<lambda>st.
      bindM (liftR (bindR (encode_approval_json a) (\<lambda>document.
        let common = approval_common a document in
        bindR (trace_pk (ts_trace_id st)) (\<lambda>pk.
        bindR (approval_sk (ar_approval_id a)) (\<lambda>sk.
        bindR (approval_pointer_pk (ar_approval_id a)) (\<lambda>ppk.
        bindR (namespace_pk (dy_namespace dy)) (\<lambda>npk.
        bindR (namespace_approval_sk (Aware (ar_created_at a)) (ar_approval_id a)) (\<lambda>nsk.
        bindR (meta_update_action st old_revision) (\<lambda>meta_action.
        Inr [PutNew (keyed pk sk common), PutNew (keyed ppk POINTER_SK common),
             PutNew (keyed npk nsk ((''ApprovalId'', AttrS (ar_approval_id a)) # common)),
             meta_action])))))))))
        (\<lambda>actions.
      catchM (transact dy actions)
        (\<lambda>_. thenM (set_state (ts_storage_revision_update (\<lambda>_. old_revision)))
          (raiseM (approval_conflict ''Approval could not be created.'')))))))"

definition approval_from :: "reader \<Rightarrow> item \<Rightarrow> approval_record result" where
  "approval_from rd it = bindR (bindR (document_of it) (decode_approval_json rd)) typed_approval"

definition read_approval :: "'d dynamo \<Rightarrow> string \<Rightarrow> ('d, approval_record) dop" where
  "read_approval dy approval_id =
     bindM (liftR (approval_pointer_pk approval_id)) (\<lambda>pk.
     bindM (get_record dy pk POINTER_SK) (\<lambda>found.
     case found of
       None \<Rightarrow> raiseM (Manifest ApprovalNotFoundError (''Approval '' @ approval_id @ '' was not found.''))
     | Some it \<Rightarrow> liftR (approval_from (dy_reader dy) it)))"

definition replace_stored_approval :: "'d dynamo \<Rightarrow> approval_record \<Rightarrow> ('d, unit) dop" where
  "replace_stored_approval dy a =
     bindM (read_approval dy (ar_approval_id a)) (\<lambda>current.
     let expected = ar_version a - 1; changed = approval_conflict ''Approval version changed concurrently.'' in
     if ar_version current \<noteq> expected then raiseM changed
     else
       bindM (liftR (bindR (encode_approval_json a) (\<lambda>document.
         bindR (namespace_approval_sk (Aware (ar_created_at a)) (ar_approval_id a)) (\<lambda>nsk.
         bindR (trace_pk (ar_trace_id a)) (\<lambda>pk.
         bindR (approval_sk (ar_approval_id a)) (\<lambda>sk.
         bindR (approval_pointer_pk (ar_approval_id a)) (\<lambda>ppk.
         bindR (namespace_pk (dy_namespace dy)) (\<lambda>npk.
         Inr (map (\<lambda>key. approval_update_action key document (ar_version a) expected)
                [(pk, sk), (ppk, POINTER_SK), (npk, nsk)]))))))))) (\<lambda>actions.
       catchM (transact dy actions) (\<lambda>_. raiseM changed)))"

definition list_stored_approvals ::
  "'d dynamo \<Rightarrow> string option \<Rightarrow> approval_status option \<Rightarrow> ('d, approval_record list) dop" where
  "list_stored_approvals dy trace_id status =
     bindM (liftR (namespace_pk (dy_namespace dy))) (\<lambda>npk.
     bindM (query_items dy npk ''APPROVAL#'') (\<lambda>its.
     bindM (liftR (seqR (map (approval_from (dy_reader dy)) its))) (\<lambda>approvals.
     returnM (sort_key (\<lambda>a. (ar_created_at a, ar_approval_id a))
       (filter (\<lambda>a. (case trace_id of None \<Rightarrow> True | Some t \<Rightarrow> ar_trace_id a = t) \<and>
                    (case status of None \<Rightarrow> True | Some x \<Rightarrow> ar_status a = x)) approvals)))))"

definition stored_replay_fingerprint :: "'d dynamo \<Rightarrow> string \<Rightarrow> string \<Rightarrow> ('d, string option) dop" where
  "stored_replay_fingerprint dy approval_id key =
     bindM (read_approval dy approval_id) (\<lambda>a.
     bindM (liftR (bindR (opaque_key_hash key) (\<lambda>k.
       bindR (trace_pk (ar_trace_id a)) (\<lambda>pk. bindR (approval_replay_sk k) (\<lambda>sk. Inr (pk, sk)))))) (\<lambda>(pk, sk).
     bindM (get_record dy pk sk) (\<lambda>found.
     case found of
       None \<Rightarrow> returnM None
     | Some it \<Rightarrow>
         bindM (liftR (bindR (bindR (document_of it) (decode_replay_json (dy_reader dy))) typed_replay))
           (\<lambda>r. returnM (Some (rr_fingerprint r))))))"

definition record_stored_replay :: "'d dynamo \<Rightarrow> string \<Rightarrow> string \<Rightarrow> string \<Rightarrow> ('d, unit) dop" where
  "record_stored_replay dy approval_id key fingerprint =
     bindM (read_approval dy approval_id) (\<lambda>a.
     bindM (liftR (opaque_key_hash key)) (\<lambda>k.
     bindM now_utc (\<lambda>now.
     bindM (liftR (bindR (make_replay_record (ar_trace_id a) RK_APPROVAL k fingerprint approval_id now) (\<lambda>r.
                   bindR (approval_replay_sk k) (\<lambda>sk.
                   bindR (encode_replay_json r) (\<lambda>doc.
                   trace_item (ar_trace_id a) sk ''approval_replay'' doc []))))) (\<lambda>it.
     catchM (writeM (cl_put (dy_client dy) it))
       (\<lambda>_. bindM (stored_replay_fingerprint dy approval_id key) (\<lambda>existing.
            if existing \<noteq> Some fingerprint then raiseM (approval_conflict ''Approval replay key conflict.'')
            else returnM ()))))))"

definition read_receipt :: "'d dynamo \<Rightarrow> string \<Rightarrow> string \<Rightarrow> ('d, effect_receipt option) dop" where
  "read_receipt dy tid key_hash =
     bindM (liftR (bindR (trace_pk tid) (\<lambda>pk. bindR (effect_sk key_hash) (\<lambda>sk. Inr (pk, sk))))) (\<lambda>(pk, sk).
     bindM (get_record dy pk sk) (\<lambda>found.
     case found of
       None \<Rightarrow> returnM None
     | Some it \<Rightarrow>
         if it = [] then returnM None
         else bindM (liftR (bindR (bindR (document_of it) (decode_effect_json (dy_reader dy))) typed_receipt))
                (\<lambda>r. returnM (Some r))))"

definition put_stored_receipt :: "'d dynamo \<Rightarrow> effect_receipt \<Rightarrow> ('d, effect_receipt) dop" where
  "put_stored_receipt dy r =
     bindM (liftR (bindR (effect_sk (rc_key_hash r)) (\<lambda>sk.
                   bindR (encode_effect_json r) (\<lambda>doc. trace_item (rc_trace_id r) sk ''effect'' doc []))))
       (\<lambda>it.
     catchM (thenM (writeM (cl_put (dy_client dy) it)) (returnM r))
       (\<lambda>_. bindM (read_receipt dy (rc_trace_id r) (rc_key_hash r)) (\<lambda>existing.
            case existing of
              Some e \<Rightarrow>
                if rc_fingerprint e = rc_fingerprint r then returnM e
                else raiseM (Manifest EffectReceiptConflictError ''An effect idempotency key conflict occurred.'')
            | None \<Rightarrow>
                raiseM (Manifest EffectReceiptConflictError ''An effect idempotency key conflict occurred.''))))"

section \<open>Tampering, transitions and reset\<close>

definition tamper_stored :: "'d dynamo \<Rightarrow> string \<Rightarrow> int \<Rightarrow> string \<Rightarrow> ('d, tamper_result) dop" where
  "tamper_stored dy tid sequence replacement =
     bindM (load_stored dy tid True) (\<lambda>(st, _).
     bindM (liftR (field st ''status'' (as_member run_status_of))) (\<lambda>status.
     bindM (liftR (field st ''events'' (\<lambda>v. case v of PList es \<Rightarrow> Inr es | _ \<Rightarrow> ill_typed))) (\<lambda>es.
     bindM (liftR (if es = [] then Inr None
                   else bindR (field (last es) ''event_type'' (as_member event_type_of)) (\<lambda>t. Inr (Some t))))
       (\<lambda>last_type.
     if status \<notin> {RS_COMPLETED, RS_CANCELLED, RS_BLOCKED} \<and>
        last_type \<notin> Some ` {ET_RUN_COMPLETED, ET_RUN_CANCELLED, ET_RUN_FAILED}
     then raiseM (Manifest LedgerTamperValidationError ''Only a terminal disposable trace may be tampered with.'')
     else if blank replacement
       then raiseM (Manifest LedgerTamperValidationError ''The replacement summary must not be empty.'')
     else
       bindM (liftR (bindR (trace_pk tid) (\<lambda>pk. bindR (event_sk sequence) (\<lambda>sk. Inr (pk, sk))))) (\<lambda>(pk, sk).
       bindM (get_record dy pk sk) (\<lambda>found.
       case found of
         None \<Rightarrow> raiseM (Manifest LedgerTamperValidationError
                    (''Trace '' @ tid @ '' has no event at sequence '' @ show_int sequence @ ''.''))
       | Some it \<Rightarrow>
           bindM (liftR (bindR (bindR (document_of it) (decode_event_json (dy_reader dy))) typed_event)) (\<lambda>e.
           bindM (liftR (encode_event_json (e\<lparr>te_summary := replacement\<rparr>))) (\<lambda>doc.
           thenM (writeM (cl_update (dy_client dy) pk sk [(''Document'', AttrS doc)] None))
           (returnM \<lparr>tr_trace_id = tid, tr_sequence = sequence, tr_field = ''summary'',
                     tr_status = ''tampered_for_demo''\<rparr>)))))))))"

definition commit_stored_transition :: "'d dynamo \<Rightarrow> trace_transition \<Rightarrow> ('d, stored_trace) dop" where
  "commit_stored_transition dy t =
     (if tt_events t \<noteq> [] \<or> tt_decisions t \<noteq> [] \<or> tt_approval_upserts t \<noteq> [] \<or>
         tt_replay_records t \<noteq> [] \<or> tt_effect_receipts t \<noteq> []
      then raiseM (config_error ''Composite transitions are not used by the runtime adapter.'')
      else
        let st = (tt_state t)\<lparr>ts_storage_revision := tt_expected_revision t + 1\<rparr> in
        thenM (catchM
          (bindM (liftR (bindR (trace_pk (tt_trace_id t)) (\<lambda>pk.
                         bindR (encode_state_json st) (\<lambda>doc. Inr (pk, doc))))) (\<lambda>(pk, doc).
           writeM (cl_update (dy_client dy) pk META_SK
             [(''Document'', AttrS doc), (''Revision'', AttrN (ts_storage_revision st))]
             (Some (''Revision'', AttrN (tt_expected_revision t))))))
          (\<lambda>_. raiseM (conflict (tt_trace_id t))))
        (liftR (make_stored_trace st (ts_storage_revision st))))"

definition text_attr :: "item \<Rightarrow> string \<Rightarrow> string result" where
  "text_attr it k = (case dget it k of Some (AttrS s) \<Rightarrow> Inr s | _ \<Rightarrow> Inl (PyExc KeyError k))"

definition key_of :: "item \<Rightarrow> (string \<times> string) result" where
  "key_of it = bindR (text_attr it ''PK'') (\<lambda>pk. bindR (text_attr it ''SK'') (\<lambda>sk. Inr (pk, sk)))"

text \<open>\<open>for offset in range(0, len(keys), 25)\<close>\<close>

function delete_batches :: "'d dynamo \<Rightarrow> (string \<times> string) list \<Rightarrow> ('d, unit) dop" where
  "delete_batches dy keys =
     (if keys = [] then returnM ()
      else thenM (writeM (cl_delete (dy_client dy) (take 25 keys))) (delete_batches dy (drop 25 keys)))"
  by pat_completeness auto
termination
  by (relation "measure (length \<circ> snd)") auto

declare delete_batches.simps [simp del]

fun partition_items :: "'d dynamo \<Rightarrow> string list \<Rightarrow> ('d, (string \<times> string) list) dop" where
  "partition_items dy [] = returnM []"
| "partition_items dy (tid # tids) =
     bindM (liftR (trace_pk tid)) (\<lambda>pk.
     bindM (query_items dy pk []) (\<lambda>its.
     bindM (liftR (seqR (map key_of its))) (\<lambda>ks.
     bindM (partition_items dy tids) (\<lambda>rest. returnM (ks @ rest)))))"

definition reset_namespace :: "'d dynamo \<Rightarrow> ('d, nat) dop" where
  "reset_namespace dy =
     bindM (liftR (namespace_pk (dy_namespace dy))) (\<lambda>npk.
     bindM (query_items dy npk []) (\<lambda>pointers.
     bindM (liftR (seqR (map (\<lambda>it. text_attr it ''TraceId'')
       (filter (\<lambda>it. dget it ''RecordType'' = Some (AttrS ''namespace_trace'')) pointers)))) (\<lambda>tids.
     bindM (liftR (seqR (map (\<lambda>it. text_attr it ''ApprovalId'')
       (filter (\<lambda>it. dmember ''ApprovalId'' it) pointers)))) (\<lambda>approval_ids.
     bindM (partition_items dy tids) (\<lambda>trace_keys.
     bindM (liftR (seqR (map (\<lambda>a. bindR (approval_pointer_pk a) (\<lambda>pk. Inr (pk, POINTER_SK))) approval_ids)))
       (\<lambda>pointer_keys.
     bindM (liftR (seqR (map key_of pointers))) (\<lambda>namespace_keys.
     thenM (delete_batches dy (trace_keys @ pointer_keys @ namespace_keys))
     (returnM (length tids)))))))))"

section \<open>Selection of a repository\<close>

datatype 'd repository = MemoryRepository | DynamoRepository "'d dynamo"

text \<open>\<open>validate_startup\<close> of the memory store does nothing.\<close>

definition build_trace_repository_from_env ::
  "(string, string) dict \<Rightarrow> 'd client \<Rightarrow> reader \<Rightarrow> ('d, 'd repository) dop" where
  "build_trace_repository_from_env env cl rd =
     (let backend = map lower_char (strip (getenv env ''MANIFEST_STORAGE_BACKEND'' ''memory'')) in
      if backend = ''memory'' then returnM MemoryRepository
      else if backend = ''dynamodb'' then
        bindM (liftR (new_dynamo env None None None None cl rd)) (\<lambda>dy.
        thenM (dynamo_startup dy) (returnM (DynamoRepository dy)))
      else raiseM (config_error (''Storage backend '' @ (if backend = [] then ''<empty>'' else backend) @
             '' is not supported.'')))"

end
