(* ===== verification/Dynamo_Contract.thy ===== *)
theory Dynamo_Contract
  imports Dynamo_Store
begin

text \<open>
  What the durable store relies on of DynamoDB, as documented for the service: consistent reads,
  pages of a query in key order, conditional writes and all-or-nothing transactions.  A call that
  raises may still have been carried out, since a response can be lost.  The paging loop of
  \<open>_query\<close> is shown to end with all items under this contract.
\<close>

section \<open>Tables\<close>

type_synonym table = "string \<times> string \<Rightarrow> item option"

definition item_key :: "item \<Rightarrow> string \<times> string" where
  "item_key it =
     (case (dget it ''PK'', dget it ''SK'') of
        (Some (AttrS pk), Some (AttrS sk)) \<Rightarrow> (pk, sk)
      | _ \<Rightarrow> ([], []))"

fun action_key :: "write_action \<Rightarrow> string \<times> string" where
  "action_key (PutNew it) = item_key it"
| "action_key (UpdateIf pk sk sets c) = (pk, sk)"

fun action_ok :: "write_action \<Rightarrow> table \<Rightarrow> bool" where
  "action_ok (PutNew it) t = (t (item_key it) = None)"
| "action_ok (UpdateIf pk sk sets (k, v)) t =
     (case t (pk, sk) of None \<Rightarrow> False | Some it \<Rightarrow> dget it k = Some v)"

definition set_attrs :: "item \<Rightarrow> item \<Rightarrow> item" where
  "set_attrs sets it = fold (\<lambda>(k, v). dput k v) sets it"

text \<open>The item that an action leaves at its key.\<close>

fun action_item :: "write_action \<Rightarrow> table \<Rightarrow> item" where
  "action_item (PutNew it) t = it"
| "action_item (UpdateIf pk sk sets c) t = set_attrs sets (case t (pk, sk) of None \<Rightarrow> [] | Some it \<Rightarrow> it)"

definition apply_action :: "write_action \<Rightarrow> table \<Rightarrow> table" where
  "apply_action a t = t(action_key a \<mapsto> action_item a t)"

definition transaction :: "write_action list \<Rightarrow> table \<Rightarrow> table option" where
  "transaction acts t =
     (if distinct (map action_key acts) \<and> list_all (\<lambda>a. action_ok a t) acts
      then Some (fold apply_action acts t) else None)"

text \<open>The sort keys of a partition from where a query starts.\<close>

definition partition_keys :: "table \<Rightarrow> string \<Rightarrow> string \<Rightarrow> string list" where
  "partition_keys t pk prefix = sorted_list_of_set {sk. t (pk, sk) \<noteq> None \<and> starts_with prefix sk}"

definition keys_after :: "(string \<times> string) option \<Rightarrow> string list \<Rightarrow> string list" where
  "keys_after start ks = (case start of None \<Rightarrow> ks | Some (_, k) \<Rightarrow> filter (\<lambda>sk. k < sk) ks)"

definition items_at :: "table \<Rightarrow> string \<Rightarrow> string list \<Rightarrow> item list" where
  "items_at t pk ks = map (\<lambda>sk. the (t (pk, sk))) ks"

definition page_ok ::
  "table \<Rightarrow> string \<Rightarrow> string \<Rightarrow> (string \<times> string) option \<Rightarrow> item list \<times> (string \<times> string) option \<Rightarrow> bool" where
  "page_ok t pk prefix start page \<longleftrightarrow>
     (let ks = keys_after start (partition_keys t pk prefix) in
      case snd page of
        None \<Rightarrow> fst page = items_at t pk ks
      | Some (p, k) \<Rightarrow>
          (\<exists>n. 0 < n \<and> n \<le> length ks \<and> fst page = items_at t pk (take n ks) \<and> p = pk \<and> k = ks ! (n - 1)))"

text \<open>An outcome of a write: carried out when it returns, and possibly when it raises.\<close>

definition write_outcome :: "table option \<Rightarrow> table \<Rightarrow> unit result \<Rightarrow> table \<Rightarrow> bool" where
  "write_outcome applied t r t' \<longleftrightarrow>
     (case r of Inr _ \<Rightarrow> applied = Some t' | Inl _ \<Rightarrow> t' = t \<or> applied = Some t')"

definition updated :: "string \<Rightarrow> string \<Rightarrow> item \<Rightarrow> (string \<times> attribute) option \<Rightarrow> table \<Rightarrow> table option" where
  "updated pk sk sets c t =
     (case c of
        Some cond \<Rightarrow> transaction [UpdateIf pk sk sets cond] t
      | None \<Rightarrow> Some (apply_action (UpdateIf pk sk sets ([], AttrN 0)) t))"

definition dynamo_contract :: "'d client \<Rightarrow> ('d \<Rightarrow> table) \<Rightarrow> bool" where
  "dynamo_contract cl tbl \<longleftrightarrow>
     (\<forall>d. finite (dom (tbl d))) \<and>
     (\<forall>d pk sk found. cl_get cl pk sk True d = Inr found \<longrightarrow> found = tbl d (pk, sk)) \<and>
     (\<forall>d pk prefix start page. cl_query cl pk prefix start d = Inr page \<longrightarrow>
        page_ok (tbl d) pk prefix start page) \<and>
     (\<forall>d acts. write_outcome (transaction acts (tbl d)) (tbl d)
        (fst (cl_transact cl acts d)) (tbl (snd (cl_transact cl acts d)))) \<and>
     (\<forall>d it. write_outcome (transaction [PutNew it] (tbl d)) (tbl d)
        (fst (cl_put cl it d)) (tbl (snd (cl_put cl it d)))) \<and>
     (\<forall>d pk sk sets c. write_outcome (updated pk sk sets c (tbl d)) (tbl d)
        (fst (cl_update cl pk sk sets c d)) (tbl (snd (cl_update cl pk sk sets c d))))"

lemma contractD:
  assumes "dynamo_contract cl tbl"
  shows "finite (dom (tbl d))"
    "cl_get cl pk sk True d = Inr found \<Longrightarrow> found = tbl d (pk, sk)"
    "cl_query cl pk prefix start d = Inr page \<Longrightarrow> page_ok (tbl d) pk prefix start page"
    "cl_transact cl acts d = (r, d') \<Longrightarrow> write_outcome (transaction acts (tbl d)) (tbl d) r (tbl d')"
    "cl_put cl it d = (r, d') \<Longrightarrow> write_outcome (transaction [PutNew it] (tbl d)) (tbl d) r (tbl d')"
    "cl_update cl pk sk sets c d = (r, d') \<Longrightarrow>
       write_outcome (updated pk sk sets c (tbl d)) (tbl d) r (tbl d')"
proof -
  note C = assms [unfolded dynamo_contract_def]
  show "finite (dom (tbl d))" using C by blast
  show "cl_get cl pk sk True d = Inr found \<Longrightarrow> found = tbl d (pk, sk)" using C by blast
  show "cl_query cl pk prefix start d = Inr page \<Longrightarrow> page_ok (tbl d) pk prefix start page" using C by blast
  show "cl_transact cl acts d = (r, d') \<Longrightarrow> write_outcome (transaction acts (tbl d)) (tbl d) r (tbl d')"
    using C by (metis fst_conv snd_conv)
  show "cl_put cl it d = (r, d') \<Longrightarrow> write_outcome (transaction [PutNew it] (tbl d)) (tbl d) r (tbl d')"
    using C by (metis fst_conv snd_conv)
  show "cl_update cl pk sk sets c d = (r, d') \<Longrightarrow>
      write_outcome (updated pk sk sets c (tbl d)) (tbl d) r (tbl d')"
    using C by (metis fst_conv snd_conv)
qed

section \<open>Paging\<close>

lemma filter_greater_drop:
  assumes "sorted_wrt (<) (xs :: 'a :: linorder list)" "0 < n" "n \<le> length xs"
  shows "filter (\<lambda>x. xs ! (n - 1) < x) xs = drop n xs"
proof -
  let ?k = "xs ! (n - 1)"
  have xs: "xs = take n xs @ drop n xs" by simp
  have lo: "\<not> ?k < x" if x: "x \<in> set (take n xs)" for x
  proof -
    obtain i where i: "i < n" "i < length xs" "x = xs ! i"
      using x unfolding in_set_conv_nth by auto
    show ?thesis
    proof (cases "i = n - 1")
      case False
      then have "i < n - 1" using i(1) by simp
      then have "xs ! i < ?k" using sorted_wrt_nth_less [OF assms(1), of i "n - 1"] assms(2,3) by linarith
      then show ?thesis using i(3) by simp
    qed (use i in simp)
  qed
  have hi: "?k < x" if x: "x \<in> set (drop n xs)" for x
  proof -
    obtain i where i: "n \<le> i" "i < length xs" "x = xs ! i"
      using x unfolding in_set_conv_nth by (auto simp: less_diff_conv) (metis add.commute le_add1)
    then show ?thesis using sorted_wrt_nth_less [OF assms(1), of "n - 1" i] assms(2) by simp
  qed
  have "filter (\<lambda>x. ?k < x) (take n xs) = []" "filter (\<lambda>x. ?k < x) (drop n xs) = drop n xs"
    using lo hi by (simp_all add: filter_empty_conv filter_id_conv)
  then show ?thesis using filter_append [of "\<lambda>x. ?k < x" "take n xs" "drop n xs"] by simp
qed

lemma partition_keys_sorted: "sorted_wrt (<) (partition_keys t pk prefix)"
  by (simp add: partition_keys_def)

lemma keys_after_sorted: "sorted_wrt (<) (keys_after start (partition_keys t pk prefix))"
  by (auto simp: keys_after_def partition_keys_sorted sorted_wrt_filter split: option.split)

lemma keys_after_next:
  assumes "sorted_wrt (<) ks" "0 < n" "n \<le> length (keys_after start ks)"
  shows "keys_after (Some (p, keys_after start ks ! (n - 1))) ks = drop n (keys_after start ks)"
proof -
  let ?r = "keys_after start ks"
  let ?k = "?r ! (n - 1)"
  have "?k \<in> set ?r" using assms(2,3) by (intro nth_mem) simp
  then have "filter (\<lambda>sk. ?k < sk) ks = filter (\<lambda>sk. ?k < sk) ?r"
    by (auto simp: keys_after_def split: option.splits intro!: filter_cong)
  moreover have "sorted_wrt (<) ?r"
    using assms(1) by (auto simp: keys_after_def sorted_wrt_filter split: option.split)
  ultimately show ?thesis
    using filter_greater_drop [OF _ assms(2,3)] by (simp add: keys_after_def)
qed

lemma query_pages_complete:
  assumes "dynamo_contract cl tbl"
  shows "\<exists>r. query_pages cl pk prefix start acc d = Some r \<and>
    (\<forall>its. r = Inr its \<longrightarrow>
       its = acc @ items_at (tbl d) pk (keys_after start (partition_keys (tbl d) pk prefix))) \<and>
    (\<forall>e. r = Inl e \<longrightarrow> (\<exists>k. cl_query cl pk prefix k d = Inl e))"
proof (induction "length (keys_after start (partition_keys (tbl d) pk prefix))"
    arbitrary: start acc rule: less_induct)
  case less
  let ?ks = "partition_keys (tbl d) pk prefix"
  show ?case
  proof (cases "cl_query cl pk prefix start d")
    case (Inl e)
    then show ?thesis by (subst query_pages.simps) auto
  next
    case (Inr page)
    note ok = contractD(3) [OF assms Inr]
    show ?thesis
    proof (cases "snd page")
      case None
      then show ?thesis
        using Inr ok by (subst query_pages.simps) (simp add: page_ok_def Let_def)
    next
      case (Some pk')
      obtain p k where pk': "pk' = (p, k)" by (cases pk')
      obtain n where n: "0 < n" "n \<le> length (keys_after start ?ks)"
        "fst page = items_at (tbl d) pk (take n (keys_after start ?ks))"
        "k = keys_after start ?ks ! (n - 1)"
        using ok Some pk' by (auto simp: page_ok_def Let_def)
      have rest: "keys_after (Some (p, k)) ?ks = drop n (keys_after start ?ks)"
        using keys_after_next [OF partition_keys_sorted n(1,2)] n(4) by simp
      then have "length (keys_after (Some (p, k)) ?ks) < length (keys_after start ?ks)"
        using n(1,2) by simp
      from less [OF this, of "acc @ fst page"] obtain r where
        r: "query_pages cl pk prefix (Some (p, k)) (acc @ fst page) d = Some r"
          "\<And>its. r = Inr its \<Longrightarrow>
            its = (acc @ fst page) @ items_at (tbl d) pk (keys_after (Some (p, k)) ?ks)"
          "\<And>e. r = Inl e \<Longrightarrow> \<exists>k. cl_query cl pk prefix k d = Inl e"
        by blast
      have "query_pages cl pk prefix start acc d = Some r"
        using Inr Some pk' r(1) by (subst query_pages.simps) simp
      moreover have "items_at (tbl d) pk (take n (keys_after start ?ks))
          @ items_at (tbl d) pk (drop n (keys_after start ?ks)) = items_at (tbl d) pk (keys_after start ?ks)"
        by (simp add: items_at_def flip: map_append)
      ultimately show ?thesis using r(2,3) n(3) rest by auto
    qed
  qed
qed

lemma query_items_complete:
  assumes "dynamo_contract (dy_client dy) tbl" "query_items dy pk prefix s = (Inr its, s')"
  shows "its = items_at (tbl (dn_table s)) pk (partition_keys (tbl (dn_table s)) pk prefix)" "s' = s"
  using assms(2) query_pages_complete [OF assms(1), of pk prefix None "[]" "dn_table s"]
  by (auto simp: query_items_def readM_def keys_after_def)

end
