(* ===== verification/Dynamo_Ledger.thy ===== *)
theory Dynamo_Ledger
  imports Dynamo_Contract
begin

text \<open>
  The ledgers that a DynamoDB table holds, and several writers that share the table.  The view of
  a table is one event list per trace; every step of any writer leaves the view as it is, starts
  an empty ledger or appends one event that continues the chain.
\<close>

section \<open>Keys\<close>

definition pk_of :: "string \<Rightarrow> string" where
  "pk_of tid = ''TRACE#'' @ tid"

definition ekey :: "nat \<Rightarrow> string" where
  "ekey n = ''EVENT#'' @ zfill 12 (show_nat n)"

definition rkey :: "string \<Rightarrow> string" where
  "rkey k = ''REPLAY#EVENT#'' @ sha256_hex k"

text \<open>The keys under which the events and heads of traces are stored.\<close>

definition ledger_key :: "string \<times> string \<Rightarrow> bool" where
  "ledger_key k \<longleftrightarrow> starts_with ''TRACE#'' (fst k) \<and> (snd k = HEAD_SK \<or> starts_with ''EVENT#'' (snd k))"

lemma trace_pk_Inr: "trace_pk tid = Inr pk \<Longrightarrow> pk = pk_of tid"
  by (auto simp: trace_pk_def pk_of_def dest: safe_identifier_Inr)

lemma event_sk_Inr: "event_sk n = Inr sk \<Longrightarrow> sk = ekey (nat n) \<and> 1 \<le> n \<and> n < 10 ^ 12"
  by (auto simp: event_sk_def ekey_def split: if_splits)

lemma pk_of_inject [simp]: "pk_of a = pk_of b \<longleftrightarrow> a = b"
  by (simp add: pk_of_def)

lemma ekey_inject [simp]: "ekey a = ekey b \<longleftrightarrow> a = b"
  by (auto simp: ekey_def dest: zfill_inject)

lemma ekey_less_iff:
  assumes "a < 10 ^ 12" "b < 10 ^ 12"
  shows "ekey a < ekey b \<longleftrightarrow> a < b"
  using digits_less_iff [of "zfill 12 (show_nat a)" "zfill 12 (show_nat b)"]
    zfill_length [of 12, OF _ assms(1)] zfill_length [of 12, OF _ assms(2)]
  by (simp add: ekey_def del: append_Cons append.simps)

lemma key_kinds [simp]:
  "starts_with ''TRACE#'' (pk_of tid)" "starts_with ''EVENT#'' (ekey n)"
  "\<not> starts_with ''EVENT#'' HEAD_SK" "\<not> starts_with ''EVENT#'' META_SK" "META_SK \<noteq> HEAD_SK"
  "\<not> starts_with ''EVENT#'' (rkey k)" "rkey k \<noteq> HEAD_SK"
  "ekey n \<noteq> HEAD_SK" "HEAD_SK \<noteq> ekey n" "META_SK \<noteq> ekey n" "ekey n \<noteq> META_SK"
  "rkey k \<noteq> ekey n" "ekey n \<noteq> rkey k"
  by (simp_all add: pk_of_def ekey_def HEAD_SK_def META_SK_def rkey_def starts_with_def)

lemma ledger_keys [simp]: "ledger_key (pk_of tid, HEAD_SK)" "ledger_key (pk_of tid, ekey n)"
  by (simp_all add: ledger_key_def)

section \<open>Records\<close>

definition event_from :: "reader \<Rightarrow> item \<Rightarrow> trace_event result" where
  "event_from rd it = bindR (bindR (document_of it) (decode_event_json rd)) typed_event"

lemma typed_event_obj: "typed_event (event_obj e) = Inr e"
  by (cases "te_agent e"; cases "te_tool_name e"; cases "te_effect_class e"; cases "te_idempotency_key e")
    (simp_all add: typed_event_def event_obj_def field_def as_str_def as_int_def as_member_def as_map_def
      as_opt_def as_instant_def enum_val_def item_def)

lemma typed_head_obj: "typed_head (head_obj h) = Inr h"
  by (simp add: typed_head_def head_obj_def field_def as_str_def as_int_def as_instant_def item_def)

lemma event_read_back:
  assumes "event_storable rd e" "encode_event_json e = Inr doc" "dget it ''Document'' = Some (AttrS doc)"
  shows "event_from rd it = Inr (stored_event e)"
proof -
  have "decode_event_json rd doc = Inr (event_obj (stored_event e))"
    using survivesD [OF event_codec.round_trip [OF assms(1)]] assms(2)
    by (simp add: encode_event_json_def decode_event_json_def)
  then show ?thesis using assms(3) by (simp add: event_from_def document_of_def typed_event_obj)
qed

lemma head_read_back:
  assumes "representable (lh_updated_at h)" "encode_head_json h = Inr doc"
    and "dget it ''Document'' = Some (AttrS doc)"
  shows "head_from rd it = Inr h"
proof -
  have "decode_head_json rd doc = Inr (head_obj h)"
    using survivesD [OF head_codec.round_trip [of rd h]] assms(1,2)
    by (simp add: encode_head_json_def decode_head_json_def head_storable_def)
  then show ?thesis using assms(3) by (simp add: head_from_def document_of_def typed_head_obj)
qed

section \<open>Transactions\<close>

lemma action_item_other:
  "action_key a \<noteq> action_key b \<Longrightarrow> action_item a (apply_action b t) = action_item a t"
  by (cases a) (auto simp: apply_action_def)

lemma fold_actions_other: "k \<notin> action_key ` set acts \<Longrightarrow> fold apply_action acts t k = t k"
  by (induction acts arbitrary: t) (simp_all add: apply_action_def)

lemma fold_actions_item:
  "distinct (map action_key acts) \<Longrightarrow> a \<in> set acts \<Longrightarrow>
   fold apply_action acts t (action_key a) = Some (action_item a t)"
proof (induction acts arbitrary: t)
  case (Cons b acts)
  show ?case
  proof (cases "a = b")
    case True
    then have "action_key a \<notin> action_key ` set acts" using Cons.prems(1) by simp
    then show ?thesis using True by (simp add: fold_actions_other) (simp add: apply_action_def)
  next
    case False
    then have a: "a \<in> set acts" using Cons.prems(2) by simp
    then have "action_key a \<noteq> action_key b" using Cons.prems(1) by (metis distinct.simps(2) image_eqI list.set_map list.simps(9))
    then show ?thesis using Cons.IH [OF _ a] Cons.prems(1) by (simp add: action_item_other)
  qed
qed simp

lemma transactionD:
  assumes "transaction acts t = Some t'"
  shows "a \<in> set acts \<Longrightarrow> action_ok a t" "a \<in> set acts \<Longrightarrow> t' (action_key a) = Some (action_item a t)"
    "k \<notin> action_key ` set acts \<Longrightarrow> t' k = t k"
proof -
  have *: "distinct (map action_key acts)" "\<forall>a \<in> set acts. action_ok a t" "t' = fold apply_action acts t"
    using assms by (simp_all add: transaction_def list_all_iff split: if_splits)
  show "a \<in> set acts \<Longrightarrow> action_ok a t" using *(2) by simp
  show "a \<in> set acts \<Longrightarrow> t' (action_key a) = Some (action_item a t)"
    using fold_actions_item [OF *(1)] *(3) by simp
  show "k \<notin> action_key ` set acts \<Longrightarrow> t' k = t k" using fold_actions_other *(3) by simp
qed

lemma transaction_dom: "transaction acts t = Some t' \<Longrightarrow> t k \<noteq> None \<Longrightarrow> t' k \<noteq> None"
  by (cases "k \<in> action_key ` set acts") (auto dest: transactionD(2,3))

lemma set_attrs_get:
  "dget (set_attrs [(a, v), (b, w)] it) k = (if k = b then Some w else if k = a then Some v else dget it k)"
  by (simp add: set_attrs_def)

lemma trace_item_Inr:
  assumes "trace_item tid sk rt doc ns = Inr it" "list_all (\<lambda>(k, n). k = ''Revision'') ns"
  shows "item_key it = (pk_of tid, sk)" "dget it ''Document'' = Some (AttrS doc)"
    "sk = HEAD_SK \<Longrightarrow> dget it ''Sequence'' = Some (AttrN 0)"
proof -
  obtain pk where pk: "trace_pk tid = Inr pk" using assms(1) by (cases "trace_pk tid") (auto simp: trace_item_def)
  have keep: "dget (fold (\<lambda>(k, n). dput k (AttrN n)) ns b) k' = dget b k'" if "k' \<noteq> ''Revision''" for b k'
    using assms(2) that by (induction ns arbitrary: b) auto
  show "item_key it = (pk_of tid, sk)" "dget it ''Document'' = Some (AttrS doc)"
    "sk = HEAD_SK \<Longrightarrow> dget it ''Sequence'' = Some (AttrN 0)"
    using assms(1) pk trace_pk_Inr [OF pk]
    by (auto simp: trace_item_def Let_def item_key_def keep split: if_splits)
qed


section \<open>The ledgers of a table\<close>

type_synonym ledgers = "string \<Rightarrow> trace_event list option"

definition event_keys :: "trace_event list \<Rightarrow> string list" where
  "event_keys es = List.map_filter te_idempotency_key es"

text \<open>
  The head item describes the history, each event lies under its number and no other event item
  exists, the history is linked, and each idempotency key of an event has its replay entry and
  occurs once.
\<close>

definition trace_stored :: "reader \<Rightarrow> table \<Rightarrow> string \<Rightarrow> trace_event list \<Rightarrow> ledger_head \<Rightarrow> bool" where
  "trace_stored rd t tid es h \<longleftrightarrow>
     (\<exists>it. t (pk_of tid, HEAD_SK) = Some it \<and> head_from rd it = Inr h \<and>
        dget it ''Sequence'' = Some (AttrN (int (length es)))) \<and>
     (\<forall>i < length es. \<exists>it. t (pk_of tid, ekey (Suc i)) = Some it \<and> event_from rd it = Inr (es ! i)) \<and>
     (\<forall>sk. starts_with ''EVENT#'' sk \<longrightarrow> t (pk_of tid, sk) \<noteq> None \<longrightarrow> (\<exists>i < length es. sk = ekey (Suc i))) \<and>
     linked tid 1 GENESIS_HASH es \<and> head_ok h es \<and> length es < 10 ^ 12 \<and>
     distinct (event_keys es) \<and> (\<forall>k \<in> set (event_keys es). t (pk_of tid, rkey k) \<noteq> None)"

lemma trace_storedD:
  assumes "trace_stored rd t tid es h"
  shows "\<exists>it. t (pk_of tid, HEAD_SK) = Some it \<and> head_from rd it = Inr h \<and>
      dget it ''Sequence'' = Some (AttrN (int (length es)))"
    and "i < length es \<Longrightarrow> \<exists>it. t (pk_of tid, ekey (Suc i)) = Some it \<and> event_from rd it = Inr (es ! i)"
    and "starts_with ''EVENT#'' sk \<Longrightarrow> t (pk_of tid, sk) \<noteq> None \<Longrightarrow> \<exists>i < length es. sk = ekey (Suc i)"
    and "linked tid 1 GENESIS_HASH es" "head_ok h es" "length es < 10 ^ 12" "distinct (event_keys es)"
    and "k \<in> set (event_keys es) \<Longrightarrow> t (pk_of tid, rkey k) \<noteq> None"
  using assms unfolding trace_stored_def by simp_all

definition no_trace :: "table \<Rightarrow> string \<Rightarrow> bool" where
  "no_trace t tid \<longleftrightarrow>
     t (pk_of tid, HEAD_SK) = None \<and> (\<forall>sk. starts_with ''EVENT#'' sk \<longrightarrow> t (pk_of tid, sk) = None)"

definition holds_ledgers :: "reader \<Rightarrow> table \<Rightarrow> ledgers \<Rightarrow> bool" where
  "holds_ledgers rd t L \<longleftrightarrow>
     (\<forall>tid. case L tid of None \<Rightarrow> no_trace t tid | Some es \<Rightarrow> \<exists>h. trace_stored rd t tid es h)"

text \<open>What a step may do to the ledgers.\<close>

inductive ledger_step :: "ledgers \<Rightarrow> ledgers \<Rightarrow> bool" where
  unchanged: "ledger_step L L"
| started: "L tid = None \<Longrightarrow> ledger_step L (L(tid \<mapsto> []))"
| extended: "L tid = Some es \<Longrightarrow> event_ok tid (int (length es) + 1) (end_hash GENESIS_HASH es) e \<Longrightarrow>
    (\<forall>k. te_idempotency_key e = Some k \<longrightarrow> k \<notin> set (event_keys es)) \<Longrightarrow>
    ledger_step L (L(tid \<mapsto> es @ [e]))"

lemma ledger_step_prefix:
  "ledger_step L L' \<Longrightarrow> L tid = Some es \<Longrightarrow> \<exists>es'. L' tid = Some (es @ es')"
  by (erule ledger_step.cases) auto

definition ledger_same :: "table \<Rightarrow> table \<Rightarrow> bool" where
  "ledger_same t t' \<longleftrightarrow> (\<forall>k. ledger_key k \<longrightarrow> t' k = t k) \<and> dom t \<subseteq> dom t'"

lemma ledger_same_refl [simp]: "ledger_same t t"
  by (simp add: ledger_same_def)

lemma ledger_same_trans: "ledger_same t u \<Longrightarrow> ledger_same u v \<Longrightarrow> ledger_same t v"
  unfolding ledger_same_def by (metis subset_trans)

lemma same_event_keys:
  "ledger_same t t' \<Longrightarrow> starts_with ''EVENT#'' sk \<Longrightarrow> t' (pk_of tid, sk) = t (pk_of tid, sk)"
  by (simp add: ledger_same_def ledger_key_def)

lemma same_replays: "ledger_same t t' \<Longrightarrow> t k \<noteq> None \<Longrightarrow> t' k \<noteq> None"
  by (auto simp: ledger_same_def)

lemma same_head: "ledger_same t t' \<Longrightarrow> t' (pk_of tid, HEAD_SK) = t (pk_of tid, HEAD_SK)"
  by (simp add: ledger_same_def)

lemma trace_stored_same:
  assumes "ledger_same t t'" "trace_stored rd t tid es h"
  shows "trace_stored rd t' tid es h"
proof -
  note c = trace_storedD [OF assms(2)]
  have e: "t' (pk_of tid, ekey n) = t (pk_of tid, ekey n)" for n
    by (rule same_event_keys [OF assms(1)]) simp
  show ?thesis
    unfolding trace_stored_def same_head [OF assms(1)] e
  proof (intro conjI allI impI ballI)
    fix sk assume "starts_with ''EVENT#'' sk" "t' (pk_of tid, sk) \<noteq> None"
    then show "\<exists>i < length es. sk = ekey (Suc i)" using c(3) same_event_keys [OF assms(1)] by simp
  next
    fix k assume "k \<in> set (event_keys es)"
    then show "t' (pk_of tid, rkey k) \<noteq> None" by (intro same_replays [OF assms(1)] c(8))
  qed (use c in simp_all)
qed

lemma no_trace_same: "ledger_same t t' \<Longrightarrow> no_trace t tid \<Longrightarrow> no_trace t' tid"
  by (simp add: no_trace_def same_head same_event_keys)

lemma holds_ledgersD:
  "holds_ledgers rd t L \<Longrightarrow> L tid = None \<Longrightarrow> no_trace t tid"
  "holds_ledgers rd t L \<Longrightarrow> L tid = Some es \<Longrightarrow> \<exists>h. trace_stored rd t tid es h"
  unfolding holds_ledgers_def by (drule spec [of _ tid], simp)+

lemma holds_ledgersI:
  assumes "\<And>tid. L tid = None \<Longrightarrow> no_trace t tid"
    and "\<And>tid es. L tid = Some es \<Longrightarrow> \<exists>h. trace_stored rd t tid es h"
  shows "holds_ledgers rd t L"
  using assms by (simp add: holds_ledgers_def split: option.split)

lemma holds_ledgers_same: "ledger_same t t' \<Longrightarrow> holds_ledgers rd t L \<Longrightarrow> holds_ledgers rd t' L"
  by (rule holds_ledgersI) (blast dest: holds_ledgersD no_trace_same trace_stored_same)+

lemma trace_stored_unique:
  assumes T: "trace_stored rd t tid es h" and T': "trace_stored rd t tid es' h'"
  shows "es = es' \<and> h = h'"
proof -
  have *: "length es = length es'" "h = h'" using trace_storedD(1) [OF T] trace_storedD(1) [OF T'] by auto
  have "es ! i = es' ! i" if "i < length es" for i
    using trace_storedD(2) [OF T that] trace_storedD(2) [OF T', of i] that *(1) by auto
  with * show ?thesis by (simp add: list_eq_iff_nth_eq)
qed

section \<open>The writes of an append\<close>

text \<open>What the ledger relies on of the transaction that stores event \<open>e\<close> as number \<open>n + 1\<close>.\<close>

definition appends :: "reader \<Rightarrow> string \<Rightarrow> nat \<Rightarrow> trace_event \<Rightarrow> write_action list \<Rightarrow> bool" where
  "appends rd tid n e acts \<longleftrightarrow>
     (\<exists>it h doc rest.
        acts = PutNew it # UpdateIf (pk_of tid) HEAD_SK
          [(''Document'', AttrS doc), (''Sequence'', AttrN (int (Suc n)))] (''Sequence'', AttrN (int n)) # rest \<and>
        item_key it = (pk_of tid, ekey (Suc n)) \<and> event_from rd it = Inr e \<and>
        (\<forall>hd. dget hd ''Document'' = Some (AttrS doc) \<longrightarrow> head_from rd hd = Inr h) \<and>
        lh_sequence h = int (Suc n) \<and> lh_event_count h = int (Suc n) \<and>
        lh_event_hash h = te_event_hash e \<and> lh_schema_version h = LEDGER_SCHEMA_VERSION \<and>
        (\<forall>a \<in> set rest. \<not> ledger_key (action_key a)) \<and>
        (\<forall>k. te_idempotency_key e = Some k \<longrightarrow> (\<exists>r. PutNew r \<in> set rest \<and> item_key r = (pk_of tid, rkey k)))) \<and>
     event_ok tid (int (Suc n)) (te_previous_hash e) e \<and> Suc n < 10 ^ 12"

lemma event_keys_simps [simp]:
  "event_keys [] = []"
  "event_keys (es @ [e]) = event_keys es @ (case te_idempotency_key e of None \<Rightarrow> [] | Some k \<Rightarrow> [k])"
  by (simp_all add: event_keys_def List.map_filter_def split: option.split)

lemma append_stored_trace:
  assumes A: "appends rd tid n e acts" and T: "trace_stored rd t tid es h"
    and prev: "n = length es \<Longrightarrow> te_previous_hash e = end_hash GENESIS_HASH es"
    and tr: "transaction acts t = Some t'"
  shows "n = length es" "\<exists>h'. trace_stored rd t' tid (es @ [e]) h'"
    "\<forall>k. te_idempotency_key e = Some k \<longrightarrow> k \<notin> set (event_keys es)"
proof -
  obtain it h' doc rest where a:
    "acts = PutNew it # UpdateIf (pk_of tid) HEAD_SK
       [(''Document'', AttrS doc), (''Sequence'', AttrN (int (Suc n)))] (''Sequence'', AttrN (int n)) # rest"
    (is "_ = _ # ?u # rest")
    "item_key it = (pk_of tid, ekey (Suc n))" "event_from rd it = Inr e"
    "\<And>hd. dget hd ''Document'' = Some (AttrS doc) \<Longrightarrow> head_from rd hd = Inr h'"
    "lh_sequence h' = int (Suc n)" "lh_event_count h' = int (Suc n)"
    "lh_event_hash h' = te_event_hash e" "lh_schema_version h' = LEDGER_SCHEMA_VERSION"
    "\<forall>a \<in> set rest. \<not> ledger_key (action_key a)"
    "\<And>k. te_idempotency_key e = Some k \<Longrightarrow> \<exists>r. PutNew r \<in> set rest \<and> item_key r = (pk_of tid, rkey k)"
    and ok: "event_ok tid (int (Suc n)) (te_previous_hash e) e" and n: "Suc n < 10 ^ 12"
    using A unfolding appends_def by blast
  obtain hit where hit: "t (pk_of tid, HEAD_SK) = Some hit"
      "dget hit ''Sequence'' = Some (AttrN (int (length es)))"
    and linked: "linked tid 1 GENESIS_HASH es" and head: "head_ok h es"
    using trace_storedD(1,4,5) [OF T] by auto
  have "action_ok ?u t" using transactionD(1) [OF tr, of ?u] a(1) by simp
  then show len: "n = length es" using hit by simp
  have new_head: "t' (pk_of tid, HEAD_SK) = Some (action_item ?u t)"
    using transactionD(2) [OF tr, of ?u] a(1) by simp
  have doc: "dget (action_item ?u t) ''Document'' = Some (AttrS doc)"
    "dget (action_item ?u t) ''Sequence'' = Some (AttrN (int (length (es @ [e]))))"
    using hit len by (simp_all add: set_attrs_get)
  have new_event: "t' (pk_of tid, ekey (Suc n)) = Some it"
    using transactionD(2) [OF tr, of "PutNew it"] a(1,2) by simp
  have other: "t' k = t k" if "ledger_key k" "k \<noteq> (pk_of tid, HEAD_SK)" "k \<noteq> (pk_of tid, ekey (Suc n))" for k
    using transactionD(3) [OF tr, of k] a(1,2,9) that by auto
  have fresh: "k \<notin> set (event_keys es)" if k: "te_idempotency_key e = Some k" for k
  proof -
    obtain r where r: "PutNew r \<in> set rest" "item_key r = (pk_of tid, rkey k)" using a(10) [OF k] by blast
    have "action_ok (PutNew r) t" using transactionD(1) [OF tr, of "PutNew r"] a(1) r(1) by simp
    then show ?thesis using trace_storedD(8) [OF T, of k] r(2) by auto
  qed
  show "\<forall>k. te_idempotency_key e = Some k \<longrightarrow> k \<notin> set (event_keys es)" using fresh by blast
  show "\<exists>h'. trace_stored rd t' tid (es @ [e]) h'"
  proof (intro exI [of _ h'])
    show "trace_stored rd t' tid (es @ [e]) h'"
      unfolding trace_stored_def
    proof (intro conjI allI impI ballI)
      show "\<exists>it. t' (pk_of tid, HEAD_SK) = Some it \<and> head_from rd it = Inr h' \<and>
          dget it ''Sequence'' = Some (AttrN (int (length (es @ [e]))))"
        using new_head doc a(4) by blast
    next
      fix i assume "i < length (es @ [e])"
      then consider "i = n" | "i < length es" using len by fastforce
      then show "\<exists>it. t' (pk_of tid, ekey (Suc i)) = Some it \<and> event_from rd it = Inr ((es @ [e]) ! i)"
      proof cases
        case 1
        then show ?thesis using new_event a(3) len by simp
      next
        case 2
        then have "t' (pk_of tid, ekey (Suc i)) = t (pk_of tid, ekey (Suc i))" using len by (intro other) simp_all
        then show ?thesis using trace_storedD(2) [OF T 2] 2 by (simp add: nth_append)
      qed
    next
      fix sk assume sk: "starts_with ''EVENT#'' sk" "t' (pk_of tid, sk) \<noteq> None"
      show "\<exists>i < length (es @ [e]). sk = ekey (Suc i)"
      proof (cases "sk = ekey (Suc n)")
        case False
        have "sk \<noteq> HEAD_SK" using sk(1) by auto
        then have "t' (pk_of tid, sk) = t (pk_of tid, sk)"
          using sk(1) False by (intro other) (simp_all add: ledger_key_def)
        then show ?thesis using trace_storedD(3) [OF T sk(1)] sk(2) by (auto intro: less_SucI)
      qed (use len in auto)
    next
      show "linked tid 1 GENESIS_HASH (es @ [e])"
        using linked ok prev [OF len] len by (simp add: linked_append)
      show "head_ok h' (es @ [e])" using a(5-8) len by (simp add: head_ok_def)
      show "length (es @ [e]) < 10 ^ 12" using n len by simp
      show "distinct (event_keys (es @ [e]))"
        using trace_storedD(7) [OF T] fresh by (auto split: option.split)
    next
      fix k assume "k \<in> set (event_keys (es @ [e]))"
      then consider "k \<in> set (event_keys es)" | "te_idempotency_key e = Some k"
        by (auto split: option.splits)
      then show "t' (pk_of tid, rkey k) \<noteq> None"
      proof cases
        case 1
        then show ?thesis by (intro transaction_dom [OF tr] trace_storedD(8) [OF T])
      next
        case 2
        then obtain r where "PutNew r \<in> set rest" "item_key r = (pk_of tid, rkey k)" using a(10) by blast
        then show ?thesis using transactionD(2) [OF tr, of "PutNew r"] a(1) by simp
      qed
    qed
  qed
qed

end
