(* ===== verification/Dynamo_Cluster.thy ===== *)
theory Dynamo_Cluster
  imports Dynamo_Ledger
begin

text \<open>
  Several writers over one table.  An append is three steps (look-up, plan, commit), between
  which other writers may act; every other operation is one step, since its writes never touch a
  ledger whatever it has read.  The ledgers of the table go through \<open>ledger_step\<close> only.
\<close>

section \<open>Operations that leave the ledgers alone\<close>

definition plain :: "string \<Rightarrow> bool" where
  "plain sk \<longleftrightarrow> sk \<noteq> HEAD_SK \<and> \<not> starts_with ''EVENT#'' sk"

lemma plain_keys:
  "plain META_SK" "plain POINTER_SK"
  "decision_sk t i = Inr sk \<Longrightarrow> plain sk" "approval_sk i = Inr sk \<Longrightarrow> plain sk"
  "namespace_approval_sk t i = Inr sk \<Longrightarrow> plain sk" "namespace_trace_sk i = Inr sk \<Longrightarrow> plain sk"
  "approval_replay_sk h = Inr sk \<Longrightarrow> plain sk" "event_replay_sk h = Inr sk \<Longrightarrow> plain sk"
  "effect_sk h = Inr sk \<Longrightarrow> plain sk"
  by (auto simp: plain_def HEAD_SK_def META_SK_def POINTER_SK_def starts_with_def decision_sk_def
      approval_sk_def namespace_approval_sk_def namespace_trace_sk_def approval_replay_sk_def
      event_replay_sk_def effect_sk_def)

lemma plain_not_ledger: "plain (snd k) \<Longrightarrow> \<not> ledger_key k"
  by (simp add: plain_def ledger_key_def)

definition neutral :: "write_action list \<Rightarrow> bool" where
  "neutral acts \<longleftrightarrow> (\<forall>a \<in> set acts. plain (snd (action_key a)))"

lemma neutral_simps [simp]:
  "neutral []" "neutral (a # acts) \<longleftrightarrow> plain (snd (action_key a)) \<and> neutral acts"
  by (simp_all add: neutral_def)

lemma neutral_transaction:
  assumes "transaction acts t = Some t'" "neutral acts"
  shows "ledger_same t t'"
  unfolding ledger_same_def
proof (intro conjI allI impI)
  fix k assume "ledger_key k"
  then have "k \<notin> action_key ` set acts" using assms(2) plain_not_ledger [of k] by (auto simp: neutral_def)
  then show "t' k = t k" by (rule transactionD(3) [OF assms(1)])
next
  show "dom t \<subseteq> dom t'" using transaction_dom [OF assms(1)] by auto
qed

lemma neutral_outcome:
  "write_outcome (transaction acts t) t r t' \<Longrightarrow> neutral acts \<Longrightarrow> ledger_same t t'"
  using neutral_transaction [of acts t t'] by (auto simp: write_outcome_def split: sum.splits)

lemma item_key_keyed [simp]: "item_key (keyed pk sk rest) = (pk, sk)"
  by (simp add: item_key_def keyed_def)

lemma plain_meta_action: "meta_update_action st r = Inr a \<Longrightarrow> plain (snd (action_key a))"
  by (auto simp: meta_update_action_def plain_keys)

lemma trace_item_key: "trace_item tid sk rt doc [] = Inr it \<Longrightarrow> item_key it = (pk_of tid, sk)"
  by (erule trace_item_Inr(1)) simp

lemmas plain_writes = trace_item_key plain_meta_action plain_keys(3-)

lemma plain_approval_action: "plain (snd key) \<Longrightarrow> plain (snd (action_key (approval_update_action key d v e)))"
  by (simp add: approval_update_action_def)

text \<open>The table keeps its ledgers and the clock stays.\<close>

definition quiet :: "('d \<Rightarrow> table) \<Rightarrow> table \<Rightarrow> (nat \<Rightarrow> int) \<Rightarrow> 'd dyn_sys \<Rightarrow> bool" where
  "quiet tbl t clock s \<longleftrightarrow> ledger_same t (tbl (dn_table s)) \<and> wd_clock (dn_world s) = clock"

lemma quiet_reads [keeps]:
  "keepsI (quiet tbl t clock) (readM f)" "keepsI (quiet tbl t clock) now_utc"
  "keepsI (quiet tbl t clock) new_uuid" "keepsI (quiet tbl t clock) (set_state g)"
  by (simp_all add: keepsI_def readM_def now_utc_def new_uuid_def quiet_def)

lemma quiet_writeM:
  assumes "\<And>d r d'. f d = (r, d') \<Longrightarrow> ledger_same (tbl d) (tbl d')"
  shows "keepsI (quiet tbl t clock) (writeM f)"
  unfolding keepsI_def writeM_def quiet_def
  by (auto split: prod.split intro: ledger_same_trans dest: assms)

lemma quiet_transact:
  "dynamo_contract (dy_client dy) tbl \<Longrightarrow> neutral acts \<Longrightarrow> keepsI (quiet tbl t clock) (transact dy acts)"
  unfolding transact_def by (rule quiet_writeM) (blast dest: contractD(4) intro: neutral_outcome)

lemma quiet_put:
  "dynamo_contract (dy_client dy) tbl \<Longrightarrow> plain (snd (item_key it)) \<Longrightarrow>
   keepsI (quiet tbl t clock) (writeM (cl_put (dy_client dy) it))"
  by (rule quiet_writeM, drule contractD(5), assumption, erule neutral_outcome) simp

lemma quiet_update:
  "dynamo_contract (dy_client dy) tbl \<Longrightarrow> plain sk \<Longrightarrow>
   keepsI (quiet tbl t clock) (writeM (cl_update (dy_client dy) pk sk sets (Some c)))"
  by (rule quiet_writeM, drule contractD(6), assumption, simp only: updated_def option.case, erule neutral_outcome)
    simp

text \<open>The continuation of a pure step sees its result.\<close>

lemma keepsI_liftR_bind: "(\<And>a. r = Inr a \<Longrightarrow> keepsI I (f a)) \<Longrightarrow> keepsI I (bindM (liftR r) f)"
  by (cases r) (auto simp: keepsI_def)

lemma keepsI_case_prod: "(\<And>a b. p = (a, b) \<Longrightarrow> keepsI I (f a b)) \<Longrightarrow> keepsI I (case p of (a, b) \<Rightarrow> f a b)"
  by (cases p) simp

lemma quiet_get_record [keeps]: "keepsI (quiet tbl t clock) (get_record dy pk sk)"
  by (simp add: get_record_def quiet_reads)

lemma quiet_query [keeps]: "keepsI (quiet tbl t clock) (query_items dy pk prefix)"
  by (simp add: query_items_def quiet_reads)

lemma quiet_read_approval [keeps]: "keepsI (quiet tbl t clock) (read_approval dy i)"
  unfolding read_approval_def by (intro keeps)

lemma quiet_fingerprint [keeps]: "keepsI (quiet tbl t clock) (stored_replay_fingerprint dy i k)"
  unfolding stored_replay_fingerprint_def by (intro keepsI_case_prod keeps)

lemma quiet_read_receipt [keeps]: "keepsI (quiet tbl t clock) (read_receipt dy tid k)"
  unfolding read_receipt_def by (intro keepsI_case_prod keeps)

datatype store_op =
    AppendDecision decision
  | AddApproval approval_record
  | ReplaceApproval approval_record
  | RecordReplay string string string
  | PutReceipt effect_receipt
  | CommitTransition trace_transition

primrec perform :: "'d dynamo \<Rightarrow> store_op \<Rightarrow> ('d, unit) dop" where
  "perform dy (AppendDecision dc) = append_stored_decision dy dc"
| "perform dy (AddApproval a) = add_stored_approval dy a"
| "perform dy (ReplaceApproval a) = replace_stored_approval dy a"
| "perform dy (RecordReplay i k f) = record_stored_replay dy i k f"
| "perform dy (PutReceipt r) = thenM (put_stored_receipt dy r) (returnM ())"
| "perform dy (CommitTransition t) = thenM (commit_stored_transition dy t) (returnM ())"

lemma perform_quiet:
  assumes "dynamo_contract (dy_client dy) tbl"
  shows "keepsI (quiet tbl t clock) (perform dy op)"
proof (cases op)
  case (AppendDecision dc)
  then show ?thesis
    by (auto simp: append_stored_decision_def intro!: keepsI_liftR_bind keeps
        quiet_transact [OF assms] dest!: plain_writes)
next
  case (AddApproval a)
  then show ?thesis
    by (auto simp: add_stored_approval_def Let_def plain_keys(1,2) dest!: plain_writes
        intro!: keepsI_liftR_bind keeps quiet_transact [OF assms])
next
  case (ReplaceApproval a)
  then show ?thesis
    by (auto simp: replace_stored_approval_def Let_def plain_keys(1,2) dest!: plain_writes
        intro!: keepsI_liftR_bind keeps quiet_transact [OF assms] plain_approval_action)
next
  case (RecordReplay i k f)
  then show ?thesis
    by (auto simp: record_stored_replay_def plain_keys(1,2) dest!: plain_writes
        intro!: keepsI_liftR_bind keeps quiet_put [OF assms])
next
  case (PutReceipt r)
  then show ?thesis
    by (auto simp: put_stored_receipt_def plain_keys(1,2) dest!: plain_writes
        intro!: keepsI_liftR_bind keeps quiet_put [OF assms])
next
  case (CommitTransition tr)
  then show ?thesis
    by (auto simp: commit_stored_transition_def Let_def plain_keys(1,2) dest!: plain_writes
        intro!: keepsI_liftR_bind keepsI_case_prod keeps quiet_update [OF assms])
qed


section \<open>The steps of an append and of a creation\<close>

text \<open>\<open>ends m s Q\<close>: the outcome of \<open>m\<close> from \<open>s\<close> satisfies \<open>Q\<close>; computed from the inside out.\<close>

definition ends :: "('s, 'e, 'a) SE \<Rightarrow> 's \<Rightarrow> ('e + 'a \<Rightarrow> 's \<Rightarrow> bool) \<Rightarrow> bool" where
  "ends m s Q \<longleftrightarrow> (case m s of (r, t) \<Rightarrow> Q r t)"

lemma endsD: "ends m s Q \<Longrightarrow> m s = (r, t) \<Longrightarrow> Q r t"
  by (simp add: ends_def)

lemma ends_simps [simp]:
  "ends (returnM a) s Q \<longleftrightarrow> Q (Inr a) s" "ends (raiseM e) s Q \<longleftrightarrow> Q (Inl e) s"
  "ends (getM f) s Q1 \<longleftrightarrow> Q1 (Inr (f s)) s" "ends (updM u) s Q2 \<longleftrightarrow> Q2 (Inr ()) (u s)"
  "ends (liftR r) s Q \<longleftrightarrow> Q r s"
  "ends (readM g) d Q3 \<longleftrightarrow> Q3 (g (dn_table d)) d"
  by (simp_all add: ends_def readM_def)

lemma ends_bindM [simp]:
  "ends (bindM m f) s Q \<longleftrightarrow> ends m s (\<lambda>r t. case r of Inl e \<Rightarrow> Q (Inl e) t | Inr a \<Rightarrow> ends (f a) t Q)"
  by (auto simp: ends_def bindM_def split: prod.splits sum.splits)

lemma ends_thenM [simp]:
  "ends (thenM m k) s Q \<longleftrightarrow> ends m s (\<lambda>r t. case r of Inl e \<Rightarrow> Q (Inl e) t | Inr a \<Rightarrow> ends k t Q)"
  by (simp add: thenM_def)

lemma ends_catchM [simp]:
  "ends (catchM m h) s Q \<longleftrightarrow> ends m s (\<lambda>r t. case r of Inl e \<Rightarrow> ends (h e) t Q | Inr a \<Rightarrow> Q (Inr a) t)"
  by (auto simp: ends_def catchM_def split: prod.splits sum.splits)

lemma ends_now [simp]: "ends now_utc s Q \<longleftrightarrow> (\<exists>t. now_utc s = (Inr (wd_clock (dn_world s) (wd_clock_pos (dn_world s))), t) \<and>
    Q (Inr (wd_clock (dn_world s) (wd_clock_pos (dn_world s)))) t)"
  by (simp add: ends_def now_utc_def)

text \<open>A transaction either leaves the table or is carried out; a transaction that returns was.\<close>

lemma transact_outcome:
  assumes "dynamo_contract (dy_client dy) tbl" "transact dy acts s = (r, s')"
  shows "dn_state s' = dn_state s" "dn_world s' = dn_world s"
    "tbl (dn_table s') = tbl (dn_table s) \<or> transaction acts (tbl (dn_table s)) = Some (tbl (dn_table s'))"
    "r = Inr u \<Longrightarrow> transaction acts (tbl (dn_table s)) = Some (tbl (dn_table s'))"
proof -
  obtain d where d: "cl_transact (dy_client dy) acts (dn_table s) = (r, d)" "s' = s\<lparr>dn_table := d\<rparr>"
    using assms(2) by (auto simp: transact_def writeM_def split: prod.splits)
  then show "dn_state s' = dn_state s" "dn_world s' = dn_world s" by simp_all
  show "tbl (dn_table s') = tbl (dn_table s) \<or> transaction acts (tbl (dn_table s)) = Some (tbl (dn_table s'))"
    "r = Inr u \<Longrightarrow> transaction acts (tbl (dn_table s)) = Some (tbl (dn_table s'))"
    using contractD(4) [OF assms(1) d(1)] d(2) by (auto simp: write_outcome_def split: sum.splits)
qed

lemma commit_append_table:
  assumes "dynamo_contract (dy_client dy) tbl" "commit_append dy plan s = (r, s')"
  shows "dn_world s' = dn_world s"
    "tbl (dn_table s') = tbl (dn_table s) \<or>
     transaction (ap_actions plan) (tbl (dn_table s)) = Some (tbl (dn_table s'))"
proof -
  obtain r1 s1 where m: "transact dy (ap_actions plan) s = (r1, s1)" by fastforce
  have "ends (commit_append dy plan) s (\<lambda>r t. dn_table t = dn_table s1 \<and> dn_world t = dn_world s1)"
    unfolding commit_append_def by (simp add: ends_def [of "transact dy (ap_actions plan)"] m split: sum.split)
  from endsD [OF this assms(2)] show "dn_world s' = dn_world s"
    "tbl (dn_table s') = tbl (dn_table s) \<or>
     transaction (ap_actions plan) (tbl (dn_table s)) = Some (tbl (dn_table s'))"
    using transact_outcome [OF assms(1) m] by simp_all
qed


lemma ends_transact:
  assumes "dynamo_contract (dy_client dy) tbl"
    and "\<And>r d. write_outcome (transaction acts (tbl (dn_table s))) (tbl (dn_table s)) r (tbl d) \<Longrightarrow>
      Q r (s\<lparr>dn_table := d\<rparr>)"
  shows "ends (transact dy acts) s Q"
  using contractD(4) [OF assms(1), of acts "dn_table s"] assms(2)
  by (auto simp: ends_def transact_def writeM_def split: prod.split)

definition creates :: "reader \<Rightarrow> string \<Rightarrow> write_action list \<Rightarrow> bool" where
  "creates rd tid acts \<longleftrightarrow>
     (\<exists>meta head pointer h.
        acts = [PutNew meta, PutNew head, PutNew pointer] \<and>
        plain (snd (item_key meta)) \<and> plain (snd (item_key pointer)) \<and>
        item_key head = (pk_of tid, HEAD_SK) \<and> head_from rd head = Inr h \<and> head_ok h [] \<and>
        dget head ''Sequence'' = Some (AttrN 0))"

lemma create_stored_outcome:
  assumes C: "dynamo_contract (dy_client dy) tbl" and T: "\<And>n. representable (wd_clock (dn_world s) n)"
    and m: "create_stored dy s = (r, s')"
  shows "wd_clock (dn_world s') = wd_clock (dn_world s) \<and>
    (tbl (dn_table s') = tbl (dn_table s) \<or>
     (\<exists>tid acts. creates (dy_reader dy) tid acts \<and>
        transaction acts (tbl (dn_table s)) = Some (tbl (dn_table s'))))"
    (is "?Q s'")
proof -
  let ?st = "dn_state s\<lparr>ts_storage_revision := 0\<rparr>"
  let ?now = "wd_clock (dn_world s) (wd_clock_pos (dn_world s))"
  have acts: "creates (dy_reader dy) tid [PutNew meta, PutNew head, PutNew pointer]"
    if "trace_item tid META_SK ''trace'' doc [(''Revision'', 0)] = Inr meta"
      "encode_head_json (genesis_head tid ?now) = Inr hdoc" "trace_item tid HEAD_SK ''head'' hdoc [] = Inr head"
      "namespace_trace_sk tid = Inr nsk"
      "pointer = [(''PK'', AttrS npk), (''SK'', AttrS nsk), (''RecordType'', AttrS x), (''TraceId'', AttrS y)]"
    for tid meta head pointer doc hdoc npk nsk x y
  proof -
    have meta: "item_key meta = (pk_of tid, META_SK)" using trace_item_Inr(1) [OF that(1)] by simp
    have head: "item_key head = (pk_of tid, HEAD_SK)" "dget head ''Document'' = Some (AttrS hdoc)"
      "dget head ''Sequence'' = Some (AttrN 0)"
      using trace_item_Inr [OF that(3)] by simp_all
    have "head_from (dy_reader dy) head = Inr (genesis_head tid ?now)"
      using T by (intro head_read_back [OF _ that(2) head(2)]) (simp add: genesis_head_def)
    moreover have "item_key pointer = (npk, nsk)" by (simp add: that(5) item_key_def)
    ultimately show ?thesis
      using meta head plain_keys(1) plain_keys(6) [OF that(4)]
      by (auto simp: creates_def head_ok_def genesis_head_def)
  qed
  have e: "ends (create_stored dy) s (\<lambda>r. ?Q)"
    by (auto simp: create_stored_def Let_def now_utc_def write_outcome_def split: sum.splits
        intro!: ends_transact [OF C]) (blast dest: acts [OF _ _ _ _ refl])+
  show ?thesis by (rule endsD [OF e m])
qed


lemma read_head_ledger:
  assumes C: "dynamo_contract (dy_client dy) tbl" and H: "holds_ledgers (dy_reader dy) (tbl (dn_table s)) L"
    and m: "read_head dy tid s = (Inr h, s')"
  shows "s' = s \<and> (\<exists>es. L tid = Some es \<and> trace_stored (dy_reader dy) (tbl (dn_table s)) tid es h)"
proof -
  obtain pk where pk: "trace_pk tid = Inr pk" using m by (cases "trace_pk tid") (auto simp: read_head_def)
  obtain it where it: "cl_get (dy_client dy) pk HEAD_SK True (dn_table s) = Inr (Some it)"
    "head_from (dy_reader dy) it = Inr h" "s' = s"
    using m pk
    by (auto simp: read_head_def get_record_def readM_def bindM_def monad_defs split: sum.splits option.splits)
  have t: "tbl (dn_table s) (pk_of tid, HEAD_SK) = Some it"
    using contractD(2) [OF C it(1)] trace_pk_Inr [OF pk] by simp
  show ?thesis
  proof (cases "L tid")
    case None
    then show ?thesis using holds_ledgersD(1) [OF H] t by (simp add: no_trace_def)
  next
    case (Some es)
    obtain h' where h': "trace_stored (dy_reader dy) (tbl (dn_table s)) tid es h'"
      using holds_ledgersD(2) [OF H Some] ..
    then have "h' = h" using trace_storedD(1) [OF h'] t it(2) by auto
    then show ?thesis using Some h' it(3) by blast
  qed
qed

lemma replay_action_writes:
  assumes "replay_action tid entry n s = (Inr rs, s')"
  shows "\<forall>a \<in> set rs. plain (snd (action_key a))"
    "entry = Some (sha256_hex k, fp) \<Longrightarrow> fp \<noteq> [] \<Longrightarrow> \<exists>it. PutNew it \<in> set rs \<and> item_key it = (pk_of tid, rkey k)"
proof -
  have key: "event_replay_sk h = Inr sk \<Longrightarrow> sk = ''REPLAY#EVENT#'' @ h" for h sk
    by (auto simp: event_replay_sk_def storage_hash_def split: if_splits)
  have ne: "sha256_hex k \<noteq> []" by (metis list.size(3) sha256_hex_shape(1) zero_neq_numeral)
  show "\<forall>a \<in> set rs. plain (snd (action_key a))"
    using assms
    by (auto simp: replay_action_def bindM_Inr liftR_def now_utc_def split: option.splits if_splits prod.splits
        dest!: plain_writes)
  show "\<exists>it. PutNew it \<in> set rs \<and> item_key it = (pk_of tid, rkey k)"
    if "entry = Some (sha256_hex k, fp)" "fp \<noteq> []"
    using assms that ne
    by (auto simp: replay_action_def bindM_Inr liftR_def now_utc_def rkey_def dest!: key trace_item_key)
qed


definition based :: "ledgers \<Rightarrow> string \<Rightarrow> nat \<Rightarrow> string \<Rightarrow> bool" where
  "based L tid n prev \<longleftrightarrow>
     (\<exists>es. L tid = Some es \<and> n \<le> length es \<and> (n = length es \<longrightarrow> prev = end_hash GENESIS_HASH es))"

definition entry_ok :: "event_description \<Rightarrow> (string \<times> string) option \<Rightarrow> bool" where
  "entry_ok d entry \<longleftrightarrow>
     (\<forall>k. ed_idempotency_key d = Some k \<longrightarrow> (\<exists>fp. entry = Some (sha256_hex k, fp) \<and> fp \<noteq> []))"

definition plan_ok :: "reader \<Rightarrow> ledgers \<Rightarrow> append_plan \<Rightarrow> bool" where
  "plan_ok rd L plan \<longleftrightarrow>
     (\<exists>tid n e. appends rd tid n e (ap_actions plan) \<and> based L tid n (te_previous_hash e))"

lemma quiet_read_head [keeps]: "keepsI (quiet tbl t clock) (read_head dy tid)"
  unfolding read_head_def by (intro keeps)

lemma steady_plan:
  "keepsI (\<lambda>s. dn_table s = d \<and> wd_clock (dn_world s) = clock) (plan_append dy x entry)"
proof -
  let ?I = "\<lambda>s. dn_table s = d \<and> wd_clock (dn_world s) = clock"
  have b: "keepsI ?I (readM f)" "keepsI ?I now_utc" "keepsI ?I new_uuid" "keepsI ?I (set_state g)" for f g
    by (simp_all add: keepsI_def readM_def now_utc_def new_uuid_def)
  have "keepsI ?I (read_head dy tid)" for tid
    unfolding read_head_def get_record_def by (intro keeps b)
  moreover have "keepsI ?I (replay_action tid entry n)" for tid n
    unfolding replay_action_def by (intro keeps keepsI_case_prod b)
  ultimately show ?thesis unfolding plan_append_def plan_actions_def by (intro keeps b)
qed

lemma plan_append_plan:
  assumes C: "dynamo_contract (dy_client dy) tbl" and H: "holds_ledgers (dy_reader dy) (tbl (dn_table s)) L"
    and T: "\<And>n. representable (wd_clock (dn_world s) n)"
    and D: "stored (dy_reader dy) (PDict (ed_details d))" and E: "entry_ok d entry"
    and m: "plan_append dy d entry s = (Inr plan, s')"
  shows "plan_ok (dy_reader dy) L plan"
proof -
  let ?tid = "ts_trace_id (dn_state s)"
  let ?now = "wd_clock (dn_world s) (wd_clock_pos (dn_world s))"
  let ?uid = "wd_uuids (dn_world s) (wd_uuid_pos (dn_world s))"
  obtain head where head: "read_head dy ?tid s = (Inr head, s)"
    using m read_head_ledger [OF C H] by (auto simp: plan_append_def bindM_Inr)
  let ?x = "new_event ?tid d head ?uid ?now"
  obtain hash where hash: "calculate_event_hash ?x = Inr hash"
    using m head by (auto simp: plan_append_def bindM_Inr now_utc_def new_uuid_def Let_def liftR_def split: if_splits)
  let ?e = "?x\<lparr>te_event_hash := hash\<rparr>"
  let ?h = "\<lparr>lh_trace_id = ?tid, lh_sequence = te_sequence ?e, lh_event_count = lh_event_count head + 1,
      lh_event_hash = hash, lh_schema_version = LEDGER_SCHEMA_VERSION, lh_updated_at = ?now\<rparr>"
  obtain es where es: "L ?tid = Some es" "trace_stored (dy_reader dy) (tbl (dn_table s)) ?tid es head"
    using read_head_ledger [OF C H head] by blast
  have ok: "head_ok head es" by (rule trace_storedD(5) [OF es(2)])
  have seq: "te_sequence ?e = int (Suc (length es))" using ok by (simp add: new_event_def head_ok_def)
  have hh: "calculate_event_hash ?e = Inr hash"
    using hash by simp
  have st: "event_storable (dy_reader dy) ?e"
    using D T by (simp add: event_storable_def new_event_def)
  have core: "plan_ok (dy_reader dy) L plan"
    if r: "event_sk (te_sequence ?e) = Inr sk" "encode_event_json ?e = Inr doc"
      "trace_item ?tid sk ''event'' doc [] = Inr it"
      "head_update_action ?tid ?h (lh_sequence head) = Inr head_action"
      "meta_update_action st rev = Inr meta_action"
      "replay_action ?tid entry (te_sequence ?e) u = (Inr rs, u')"
      "ap_actions plan = [PutNew it, head_action, meta_action] @ rs"
    for sk doc it head_action st rev meta_action rs u u' plan
  proof -
    have item: "event_from (dy_reader dy) it = Inr (stored_event ?e)"
      by (rule event_read_back [OF st r(2) trace_item_Inr(2) [OF r(3)]]) simp
    have key: "item_key it = (pk_of ?tid, ekey (Suc (length es)))" "Suc (length es) < 10 ^ 12"
      using trace_item_key [OF r(3)] event_sk_Inr [OF r(1)] seq by auto
    obtain hdoc where act: "head_action = UpdateIf (pk_of ?tid) HEAD_SK
        [(''Document'', AttrS hdoc), (''Sequence'', AttrN (int (Suc (length es))))] (''Sequence'', AttrN (int (length es)))"
      and hdoc: "encode_head_json ?h = Inr hdoc"
      using r(4) seq ok by (auto simp: head_update_action_def head_ok_def dest: trace_pk_Inr)
    have heads: "\<forall>hd. dget hd ''Document'' = Some (AttrS hdoc) \<longrightarrow> head_from (dy_reader dy) hd = Inr ?h"
      using head_read_back [OF _ hdoc] T by simp
    have "appends (dy_reader dy) ?tid (length es) (stored_event ?e) (ap_actions plan)"
      unfolding appends_def
    proof (intro conjI exI [of _ it] exI [of _ ?h] exI [of _ hdoc] exI [of _ "meta_action # rs"])
      show "ap_actions plan = PutNew it # UpdateIf (pk_of ?tid) HEAD_SK
          [(''Document'', AttrS hdoc), (''Sequence'', AttrN (int (Suc (length es))))]
          (''Sequence'', AttrN (int (length es))) # meta_action # rs"
        using r(7) act by simp
      show "\<forall>a \<in> set (meta_action # rs). \<not> ledger_key (action_key a)"
        using replay_action_writes(1) [OF r(6)] plain_meta_action [OF r(5)] plain_not_ledger by auto
      show "\<forall>k. te_idempotency_key (stored_event ?e) = Some k \<longrightarrow>
          (\<exists>it. PutNew it \<in> set (meta_action # rs) \<and> item_key it = (pk_of ?tid, rkey k))"
        using E replay_action_writes(2) [OF r(6)]
        by (fastforce simp: stored_event_def new_event_def entry_ok_def)
      show "event_ok ?tid (int (Suc (length es))) (te_previous_hash (stored_event ?e)) (stored_event ?e)"
        using stored_event_hash [OF st hh] seq by (simp add: event_ok_def stored_event_def new_event_def)
    qed (use item key heads seq ok in \<open>simp_all add: stored_event_def head_ok_def\<close>)
    moreover have "based L ?tid (length es) (te_previous_hash (stored_event ?e))"
      using es(1) ok by (simp add: based_def stored_event_def new_event_def head_ok_def)
    ultimately show ?thesis unfolding plan_ok_def by blast
  qed
  show ?thesis
    using m head hash
    by (auto simp: plan_append_def plan_actions_def bindM_Inr thenM_Inr now_utc_def new_uuid_def Let_def liftR_def split: if_splits)
      (rule core; (assumption | simp))
qed


lemma steady_recorded: "keepsI (\<lambda>s. s = s0) (recorded_event dy d)"
proof -
  have "keepsI (\<lambda>s. s = s0) (get_record dy pk sk)" for pk sk
    by (simp add: keepsI_def get_record_def readM_def)
  then show ?thesis unfolding recorded_event_def by (intro keeps)
qed

lemma fingerprint_not_empty: "event_description_fingerprint tid d key = Inr fp \<Longrightarrow> fp \<noteq> []"
  by (auto simp: event_description_fingerprint_def hash_payload_def sha256_text_def HASH_PREFIX_def)

lemma recorded_event_entry:
  assumes "recorded_event dy d s = (Inr (entry, None), s')"
  shows "entry_ok d entry"
proof (cases "ed_idempotency_key d")
  case (Some key)
  have fp: "fp \<noteq> []" if "event_description_fingerprint (ts_trace_id (dn_state s)) d key = Inr fp" for fp
    by (rule fingerprint_not_empty [OF that])
  show ?thesis
    using assms Some fp
    by (auto simp: recorded_event_def bindM_Inr liftR_def entry_ok_def opaque_key_hash_def
        split: option.splits if_splits)
qed (simp add: entry_ok_def)

section \<open>The cluster\<close>

datatype pending =
    Idle
  | Looked event_description "(string \<times> string) option"
  | Planned append_plan

record writer =
  wr_state :: trajectory_state
  wr_pending :: pending

record 'd cluster =
  cu_table :: 'd
  cu_world :: world
  cu_writers :: "nat \<Rightarrow> writer"

text \<open>A writer enters the store with its own object and leaves with what has become of it.\<close>

definition enter :: "nat \<Rightarrow> 'd cluster \<Rightarrow> 'd dyn_sys" where
  "enter w c = \<lparr>dn_state = wr_state (cu_writers c w), dn_table = cu_table c, dn_world = cu_world c\<rparr>"

definition leave :: "nat \<Rightarrow> pending \<Rightarrow> 'd dyn_sys \<Rightarrow> 'd cluster \<Rightarrow> 'd cluster" where
  "leave w p s c =
     c\<lparr>cu_table := dn_table s, cu_world := dn_world s,
       cu_writers := (cu_writers c)(w := \<lparr>wr_state = dn_state s, wr_pending = p\<rparr>)\<rparr>"

abbreviation pending_of :: "'d cluster \<Rightarrow> nat \<Rightarrow> pending" where
  "pending_of c w \<equiv> wr_pending (cu_writers c w)"

definition after_look :: "event_description \<Rightarrow> ((string \<times> string) option \<times> trace_event option) result \<Rightarrow> pending" where
  "after_look d r = (case r of Inr (entry, None) \<Rightarrow> Looked d entry | _ \<Rightarrow> Idle)"

definition after_plan :: "append_plan result \<Rightarrow> pending" where
  "after_plan r = (case r of Inr plan \<Rightarrow> Planned plan | Inl _ \<Rightarrow> Idle)"

inductive cluster_step :: "'d dynamo \<Rightarrow> 'd cluster \<Rightarrow> 'd cluster \<Rightarrow> bool" for dy where
  edit: "pending_of c w = Idle \<Longrightarrow> cluster_step dy c (leave w Idle ((enter w c)\<lparr>dn_state := st\<rparr>) c)"
| create: "pending_of c w = Idle \<Longrightarrow> create_stored dy (enter w c) = (r, s) \<Longrightarrow>
    cluster_step dy c (leave w Idle s c)"
| other: "pending_of c w = Idle \<Longrightarrow> perform dy op (enter w c) = (r, s) \<Longrightarrow>
    cluster_step dy c (leave w Idle s c)"
| look: "pending_of c w = Idle \<Longrightarrow> stored (dy_reader dy) (PDict (ed_details d)) \<Longrightarrow>
    recorded_event dy d (enter w c) = (x, s) \<Longrightarrow> cluster_step dy c (leave w (after_look d x) s c)"
| plan: "pending_of c w = Looked d entry \<Longrightarrow> plan_append dy d entry (enter w c) = (y, s) \<Longrightarrow>
    cluster_step dy c (leave w (after_plan y) s c)"
| commit: "pending_of c w = Planned plan \<Longrightarrow> commit_append dy plan (enter w c) = (z, s) \<Longrightarrow>
    cluster_step dy c (leave w Idle s c)"

abbreviation cluster_steps :: "'d dynamo \<Rightarrow> 'd cluster \<Rightarrow> 'd cluster \<Rightarrow> bool" where
  "cluster_steps dy \<equiv> (cluster_step dy)\<^sup>*\<^sup>*"

section \<open>Refinement\<close>

fun pending_ok :: "reader \<Rightarrow> ledgers \<Rightarrow> pending \<Rightarrow> bool" where
  "pending_ok rd L Idle \<longleftrightarrow> True"
| "pending_ok rd L (Looked d entry) \<longleftrightarrow> stored rd (PDict (ed_details d)) \<and> entry_ok d entry"
| "pending_ok rd L (Planned plan) \<longleftrightarrow> plan_ok rd L plan"

definition cluster_holds :: "'d dynamo \<Rightarrow> ('d \<Rightarrow> table) \<Rightarrow> 'd cluster \<Rightarrow> ledgers \<Rightarrow> bool" where
  "cluster_holds dy tbl c L \<longleftrightarrow>
     holds_ledgers (dy_reader dy) (tbl (cu_table c)) L \<and>
     (\<forall>n. representable (wd_clock (cu_world c) n)) \<and>
     (\<forall>w. pending_ok (dy_reader dy) L (pending_of c w))"

lemma based_step: "ledger_step L L' \<Longrightarrow> based L tid n prev \<Longrightarrow> based L' tid n prev"
  by (erule ledger_step.cases) (auto simp: based_def)

lemma pending_ok_step: "ledger_step L L' \<Longrightarrow> pending_ok rd L p \<Longrightarrow> pending_ok rd L' p"
  by (cases p) (auto simp: plan_ok_def dest: based_step)

lemma leave_holds:
  assumes "cluster_holds dy tbl c L" "ledger_step L L'"
    and "holds_ledgers (dy_reader dy) (tbl (dn_table s)) L'" "wd_clock (dn_world s) = wd_clock (cu_world c)"
    and "pending_ok (dy_reader dy) L' p"
  shows "cluster_holds dy tbl (leave w p s c) L'"
  using assms pending_ok_step [OF assms(2)] by (auto simp: cluster_holds_def leave_def)

lemma local_views:
  assumes "\<And>sk. t' (pk_of tid, sk) = t (pk_of tid, sk)"
  shows "trace_stored rd t' tid es h = trace_stored rd t tid es h" "no_trace t' tid = no_trace t tid"
  unfolding trace_stored_def no_trace_def by (simp_all only: assms)

text \<open>A change to one trace.\<close>

lemma holds_ledgers_upd:
  assumes H: "holds_ledgers rd t L" and T: "trace_stored rd t' tid es h" and dom: "dom t \<subseteq> dom t'"
    and other: "\<And>k. ledger_key k \<Longrightarrow> fst k \<noteq> pk_of tid \<Longrightarrow> t' k = t k"
  shows "holds_ledgers rd t' (L(tid \<mapsto> es))"
proof -
  define u where "u = (\<lambda>k. if fst k = pk_of tid then t k else t' k)"
  have "u k \<noteq> None" if "t k \<noteq> None" for k
    using that subsetD [OF dom, of k] by (cases "fst k = pk_of tid") (auto simp: u_def)
  then have "ledger_same t u" using other by (simp add: ledger_same_def u_def dom_def subset_iff)
  then have u: "holds_ledgers rd u L" by (rule holds_ledgers_same [OF _ H])
  have same: "no_trace t' x = no_trace u x" "trace_stored rd t' x es' h' = trace_stored rd u x es' h'"
    if "x \<noteq> tid" for x es' h'
    using local_views(1) [of t' x u rd es' h'] local_views(2) [of t' x u] that by (simp_all add: u_def)
  show ?thesis
  proof (rule holds_ledgersI)
    fix x assume "(L(tid \<mapsto> es)) x = None"
    then have "x \<noteq> tid" "L x = None" by (auto split: if_splits)
    then show "no_trace t' x" using holds_ledgersD(1) [OF u] same(1) by simp
  next
    fix x es' assume x: "(L(tid \<mapsto> es)) x = Some es'"
    show "\<exists>h. trace_stored rd t' x es' h"
    proof (cases "x = tid")
      case False
      then have "L x = Some es'" using x by simp
      then show ?thesis using holds_ledgersD(2) [OF u] same(2) [OF False] by simp
    qed (use x T in auto)
  qed
qed

lemma creates_starts:
  assumes "holds_ledgers rd t L" "creates rd tid acts" "transaction acts t = Some t'"
  shows "L tid = None \<and> holds_ledgers rd t' (L(tid \<mapsto> []))"
proof -
  obtain meta head pointer h where a: "acts = [PutNew meta, PutNew head, PutNew pointer]"
    "plain (snd (item_key meta))" "plain (snd (item_key pointer))" "item_key head = (pk_of tid, HEAD_SK)"
    "head_from rd head = Inr h" "head_ok h []" "dget head ''Sequence'' = Some (AttrN 0)"
    using assms(2) unfolding creates_def by blast
  have "t (pk_of tid, HEAD_SK) = None" using transactionD(1) [OF assms(3), of "PutNew head"] a(1,4) by simp
  then have none: "L tid = None"
    using holds_ledgersD(2) [OF assms(1), of tid] trace_storedD(1) by (cases "L tid") fastforce+
  have new: "t' (pk_of tid, HEAD_SK) = Some head"
    using transactionD(2) [OF assms(3), of "PutNew head"] a(1,4) by simp
  have other: "t' k = t k" if "ledger_key k" "k \<noteq> (pk_of tid, HEAD_SK)" for k
    using that plain_not_ledger [of "item_key meta"] plain_not_ledger [of "item_key pointer"] a(1-4)
    by (intro transactionD(3) [OF assms(3)]) auto
  have "t' (pk_of tid, sk) = None" if "starts_with ''EVENT#'' sk" for sk
  proof -
    have "sk \<noteq> HEAD_SK" using that by auto
    then show ?thesis
      using holds_ledgersD(1) [OF assms(1) none] other [of "(pk_of tid, sk)"] that
      by (simp add: no_trace_def ledger_key_def)
  qed
  then have "trace_stored rd t' tid [] h"
    unfolding trace_stored_def using new a(5-7) by simp
  moreover have "dom t \<subseteq> dom t'" using transaction_dom [OF assms(3)] by auto
  ultimately show ?thesis using none other by (intro conjI holds_ledgers_upd [OF assms(1)]) auto
qed

lemma plan_extends:
  assumes "holds_ledgers rd t L" "appends rd tid n e acts" "based L tid n (te_previous_hash e)"
    and "transaction acts t = Some t'"
  shows "\<exists>L'. ledger_step L L' \<and> holds_ledgers rd t' L'"
proof -
  obtain es where es: "L tid = Some es" "n = length es \<Longrightarrow> te_previous_hash e = end_hash GENESIS_HASH es"
    using assms(3) unfolding based_def by blast
  obtain h where h: "trace_stored rd t tid es h" using holds_ledgersD(2) [OF assms(1) es(1)] ..
  note new = append_stored_trace [OF assms(2) h es(2) assms(4)]
  obtain h' where h': "trace_stored rd t' tid (es @ [e]) h'" using new(2) ..
  have ok: "event_ok tid (int (length es) + 1) (end_hash GENESIS_HASH es) e"
    using assms(2) es(2) [OF new(1)] new(1) unfolding appends_def by (simp add: add.commute)
  have other: "t' k = t k" if "ledger_key k" "fst k \<noteq> pk_of tid" for k
  proof (rule transactionD(3) [OF assms(4)])
    show "k \<notin> action_key ` set acts" using assms(2) that unfolding appends_def by auto
  qed
  have "dom t \<subseteq> dom t'" using transaction_dom [OF assms(4)] by auto
  then have "holds_ledgers rd t' (L(tid \<mapsto> es @ [e]))"
    using other by (rule holds_ledgers_upd [OF assms(1) h'])
  then show ?thesis using extended [where L = L, OF es(1) ok] new(3) by blast
qed

lemma cluster_step_holds:
  assumes C: "dynamo_contract (dy_client dy) tbl" and H: "cluster_holds dy tbl c L"
    and step: "cluster_step dy c c'"
  shows "\<exists>L'. ledger_step L L' \<and> cluster_holds dy tbl c' L'"
proof -
  let ?t = "tbl (cu_table c)"
  have h: "holds_ledgers (dy_reader dy) ?t L" and T: "\<And>n. representable (wd_clock (cu_world c) n)"
    and P: "\<And>w. pending_ok (dy_reader dy) L (pending_of c w)"
    using H by (simp_all add: cluster_holds_def)
  have stay: "\<exists>L'. ledger_step L L' \<and> cluster_holds dy tbl (leave w p s c) L'"
    if "dn_table s = cu_table c" "wd_clock (dn_world s) = wd_clock (cu_world c)" "pending_ok (dy_reader dy) L p"
    for w p s
    using leave_holds [OF H unchanged _ that(2,3), of w] h that(1) unchanged by auto
  from step show ?thesis
  proof cases
    case (edit w st)
    then show ?thesis by (simp add: stay enter_def)
  next
    case (create w r s)
    note o = create_stored_outcome [OF C _ create(3), unfolded enter_def dyn_sys.simps, OF T]
    then consider "tbl (dn_table s) = ?t"
      | tid acts where "creates (dy_reader dy) tid acts" "transaction acts ?t = Some (tbl (dn_table s))"
      by auto
    then show ?thesis
    proof cases
      case 1
      then show ?thesis using leave_holds [OF H unchanged, of s Idle w] h o create(1) by (auto intro: unchanged)
    next
      case (2 tid acts)
      from creates_starts [OF h 2] show ?thesis
        using leave_holds [OF H started, of tid s Idle w] o create(1) by (auto intro: started)
    qed
  next
    case (other w op r s)
    have "quiet tbl ?t (wd_clock (cu_world c)) (enter w c)" by (simp add: quiet_def enter_def)
    then have q: "quiet tbl ?t (wd_clock (cu_world c)) s"
      by (rule keepsID [OF perform_quiet [OF C] _ other(3)])
    then have "holds_ledgers (dy_reader dy) (tbl (dn_table s)) L"
      using holds_ledgers_same [OF _ h] by (simp add: quiet_def)
    then show ?thesis
      using leave_holds [OF H unchanged, of s Idle w] q other(1) by (auto simp: quiet_def intro: unchanged)
  next
    case (look w d x s)
    have "s = enter w c" using keepsID [OF steady_recorded refl look(4)] .
    moreover have "pending_ok (dy_reader dy) L (after_look d x)"
      using look(3,4) recorded_event_entry [of dy d "enter w c"]
      by (auto simp: after_look_def split: sum.split prod.split option.split)
    ultimately show ?thesis using look(1) by (simp add: stay enter_def)
  next
    case (plan w d entry y s)
    have st: "dn_table s = cu_table c \<and> wd_clock (dn_world s) = wd_clock (cu_world c)"
      by (rule keepsID [OF steady_plan _ plan(3)]) (simp add: enter_def)
    have "plan_ok (dy_reader dy) L p" if "y = Inr p" for p
      using plan_append_plan [OF C, of "enter w c" L d entry p s] h T P [of w] plan(2,3) that
      by (simp add: enter_def)
    then have "pending_ok (dy_reader dy) L (after_plan y)" by (auto simp: after_plan_def split: sum.split)
    then show ?thesis using plan(1) st by (simp add: stay)
  next
    case (commit w plan z s)
    note o = commit_append_table [OF C commit(3), unfolded enter_def dyn_sys.simps]
    from o(2) show ?thesis
    proof
      assume "tbl (dn_table s) = ?t"
      then show ?thesis
        using leave_holds [OF H unchanged, of s Idle w] h o(1) commit(1) by (auto intro: unchanged)
    next
      assume tr: "transaction (ap_actions plan) ?t = Some (tbl (dn_table s))"
      have "plan_ok (dy_reader dy) L plan" using P [of w] commit(2) by simp
      then obtain L' where "ledger_step L L'" "holds_ledgers (dy_reader dy) (tbl (dn_table s)) L'"
        using plan_extends [OF h _ _ tr] unfolding plan_ok_def by blast
      then show ?thesis
        using leave_holds [OF H, of L' s Idle w] o(1) commit(1) by auto
    qed
  qed
qed

end
