(* ===== verification/Dynamo_Properties.thy ===== *)
theory Dynamo_Properties
  imports Dynamo_Cluster
begin

text \<open>
  What the durable store promises to its callers: complete queries, one ledger per trace that
  only grows and always verifies, one event per idempotency key, and the caller's object restored
  when a transaction fails.  A small table with pages of one item shows that the assumptions on
  DynamoDB can be met.
\<close>

section \<open>Reading a ledger\<close>

definition fresh_cluster :: "('d \<Rightarrow> table) \<Rightarrow> 'd cluster \<Rightarrow> bool" where
  "fresh_cluster tbl c \<longleftrightarrow>
     (\<forall>k. tbl (cu_table c) k = None) \<and> (\<forall>w. pending_of c w = Idle) \<and>
     (\<forall>n. representable (wd_clock (cu_world c) n))"

lemma fresh_holds: "fresh_cluster tbl c \<Longrightarrow> cluster_holds dy tbl c (\<lambda>_. None)"
  by (simp add: fresh_cluster_def cluster_holds_def holds_ledgers_def no_trace_def)

lemma ledger_steps_prefix:
  "ledger_step\<^sup>*\<^sup>* L L' \<Longrightarrow> L tid = Some es \<Longrightarrow> \<exists>es'. L' tid = Some (es @ es')"
proof (induction rule: rtranclp_induct)
  case (step L' L'')
  then obtain xs where "L' tid = Some (es @ xs)" by blast
  from ledger_step_prefix [OF step.hyps(2) this] show ?case by auto
qed simp

lemma cluster_steps_hold:
  assumes "dynamo_contract (dy_client dy) tbl"
  shows "cluster_steps dy c c' \<Longrightarrow> cluster_holds dy tbl c L \<Longrightarrow>
    \<exists>L'. ledger_step\<^sup>*\<^sup>* L L' \<and> cluster_holds dy tbl c' L'"
proof (induction rule: rtranclp_induct)
  case (step c' c'')
  then obtain L' where L': "ledger_step\<^sup>*\<^sup>* L L'" "cluster_holds dy tbl c' L'" by blast
  obtain L'' where "ledger_step L' L''" "cluster_holds dy tbl c'' L''"
    using cluster_step_holds [OF assms L'(2) step.hyps(2)] by blast
  then show ?case using L'(1) by (meson rtranclp.rtrancl_into_rtrancl)
qed blast

lemma ledger_partition:
  assumes "trace_stored rd t tid es h"
  shows "partition_keys t (pk_of tid) ''EVENT#'' = map (\<lambda>i. ekey (Suc i)) [0..<length es]"
proof -
  have set: "{sk. t (pk_of tid, sk) \<noteq> None \<and> starts_with ''EVENT#'' sk}
      = set (map (\<lambda>i. ekey (Suc i)) [0..<length es])" (is "?A = set ?ks")
  proof
    show "?A \<subseteq> set ?ks" using trace_storedD(3) [OF assms] by fastforce
    show "set ?ks \<subseteq> ?A" using trace_storedD(2) [OF assms] by fastforce
  qed
  have "sorted_wrt (<) ?ks"
    unfolding sorted_wrt_iff_nth_less using trace_storedD(6) [OF assms] by (simp add: ekey_less_iff)
  then show ?thesis unfolding partition_keys_def set by (rule strict_sorted_equal [OF _ strict_sorted_list_of_set]) simp
qed

lemma no_event_keys:
  assumes "no_trace t tid"
  shows "partition_keys t (pk_of tid) ''EVENT#'' = []"
proof -
  have "{sk. t (pk_of tid, sk) \<noteq> None \<and> starts_with ''EVENT#'' sk} = {}"
    using assms by (auto simp: no_trace_def)
  then show ?thesis unfolding partition_keys_def by (simp only: sorted_list_of_set_empty)
qed

lemma typed_events:
  "seqR (map (\<lambda>it. bindR (document_of it) (decode_event_json rd)) its) = Inr vs \<Longrightarrow>
   seqR (map typed_event vs) = Inr es \<Longrightarrow> list_all2 (\<lambda>it e. event_from rd it = Inr e) its es"
  by (induction its arbitrary: vs es) (auto simp: event_from_def)

lemma read_events_ledger:
  assumes C: "dynamo_contract (dy_client dy) tbl" and H: "holds_ledgers (dy_reader dy) (tbl (dn_table s)) L"
    and m: "read_events dy tid s = (Inr es, s')"
  shows "s' = s" "case L tid of Some xs \<Rightarrow> es = xs | None \<Rightarrow> es = []"
proof -
  obtain pk its vs where r: "trace_pk tid = Inr pk" "query_items dy pk ''EVENT#'' s = (Inr its, s')"
    "seqR (map (\<lambda>it. bindR (document_of it) (decode_event_json (dy_reader dy))) its) = Inr vs"
    "seqR (map typed_event vs) = Inr es"
    using m by (auto simp: read_events_def event_objects_def bindM_Inr liftR_def)
  have pk: "pk = pk_of tid" by (rule trace_pk_Inr [OF r(1)])
  have its: "its = items_at (tbl (dn_table s)) pk (partition_keys (tbl (dn_table s)) pk ''EVENT#'')"
    and s: "s' = s"
    using query_items_complete [OF C r(2)] by simp_all
  show "s' = s" by (rule s)
  note ev = typed_events [OF r(3,4)]
  show "case L tid of Some xs \<Rightarrow> es = xs | None \<Rightarrow> es = []"
  proof (cases "L tid")
    case None
    then have "its = []"
      using no_event_keys [OF holds_ledgersD(1) [OF H None]] by (simp add: its items_at_def pk)
    then show ?thesis using ev None by simp
  next
    case (Some xs)
    obtain h where h: "trace_stored (dy_reader dy) (tbl (dn_table s)) tid xs h"
      using holds_ledgersD(2) [OF H Some] ..
    have its': "its = map (\<lambda>i. the (tbl (dn_table s) (pk_of tid, ekey (Suc i)))) [0..<length xs]"
      using its pk ledger_partition [OF h] by (simp add: items_at_def)
    have "es = xs"
    proof (rule nth_equalityI)
      show "length es = length xs" using list_all2_lengthD [OF ev] its' by simp
      fix i assume "i < length es"
      then have i: "i < length xs" "i < length its" using list_all2_lengthD [OF ev] its' by simp_all
      then have "event_from (dy_reader dy) (its ! i) = Inr (es ! i)" using list_all2_nthD [OF ev] by simp
      then show "es ! i = xs ! i" using trace_storedD(2) [OF h i(1)] its' i by auto
    qed
    then show ?thesis using Some by simp
  qed
qed


lemma verify_ledger:
  assumes C: "dynamo_contract (dy_client dy) tbl" and H: "holds_ledgers (dy_reader dy) (tbl (dn_table s)) L"
    and m: "verify_stored dy tid s = (Inr v, s')"
  shows "\<exists>es h. L tid = Some es \<and> linked tid 1 GENESIS_HASH es \<and> head_ok h es \<and> v = verify_chain tid es h"
proof -
  obtain es h s1 where r: "read_events dy tid s = (Inr es, s1)" "read_head dy tid s1 = (Inr h, s')"
    "v = verify_chain tid es h"
    using m by (auto simp: verify_stored_def bindM_Inr)
  have s1: "s1 = s" by (rule read_events_ledger(1) [OF C H r(1)])
  obtain xs where xs: "L tid = Some xs" "trace_stored (dy_reader dy) (tbl (dn_table s)) tid xs h"
    using read_head_ledger [OF C H] r(2) s1 by blast
  then have "es = xs" using read_events_ledger(2) [OF C H r(1)] by simp
  then show ?thesis using xs r(3) trace_storedD(4,5) [OF xs(2)] by blast
qed

text \<open>A client whose reads are answered.\<close>

definition answers :: "'d client \<Rightarrow> bool" where
  "answers cl \<longleftrightarrow>
     (\<forall>pk sk d. \<exists>x. cl_get cl pk sk True d = Inr x) \<and>
     (\<forall>pk p start d. \<exists>page. cl_query cl pk p start d = Inr page)"

lemma answersD:
  assumes "answers cl"
  shows "\<exists>x. cl_get cl pk sk True d = Inr x" "cl_query cl pk p start d \<noteq> Inl e"
  using assms unfolding answers_def by (blast, metis Inl_Inr_False)

lemma query_items_answered:
  assumes "dynamo_contract (dy_client dy) tbl" "answers (dy_client dy)"
  shows "query_items dy pk p s
    = (Inr (items_at (tbl (dn_table s)) pk (partition_keys (tbl (dn_table s)) pk p)), s)"
proof -
  obtain r where r: "query_pages (dy_client dy) pk p None [] (dn_table s) = Some r"
    "\<And>its. r = Inr its \<Longrightarrow> its = items_at (tbl (dn_table s)) pk (partition_keys (tbl (dn_table s)) pk p)"
    "\<And>e. r = Inl e \<Longrightarrow> \<exists>k. cl_query (dy_client dy) pk p k (dn_table s) = Inl e"
    using query_pages_complete [OF assms(1), of pk p None "[]" "dn_table s"] by (auto simp: keys_after_def)
  then show ?thesis
    using answersD(2) [OF assms(2)] by (cases r) (auto simp: query_items_def readM_def)
qed

lemma decoded_events:
  "list_all2 (\<lambda>it e. event_from rd it = Inr e) its es \<Longrightarrow>
   \<exists>vs. seqR (map (\<lambda>it. bindR (document_of it) (decode_event_json rd)) its) = Inr vs \<and>
        seqR (map typed_event vs) = Inr es"
  by (induction rule: list_all2_induct) (auto simp: event_from_def)

lemma read_events_answered:
  assumes C: "dynamo_contract (dy_client dy) tbl" and A: "answers (dy_client dy)"
    and H: "holds_ledgers (dy_reader dy) (tbl (dn_table s)) L" and pk: "trace_pk tid = Inr pk"
  shows "read_events dy tid s = (Inr (case L tid of Some es \<Rightarrow> es | None \<Rightarrow> []), s)"
proof -
  let ?t = "tbl (dn_table s)"
  let ?es = "case L tid of Some es \<Rightarrow> es | None \<Rightarrow> []"
  let ?its = "items_at ?t pk (partition_keys ?t pk ''EVENT#'')"
  note p = trace_pk_Inr [OF pk]
  have "list_all2 (\<lambda>it e. event_from (dy_reader dy) it = Inr e) ?its ?es"
  proof (cases "L tid")
    case None
    then show ?thesis using no_event_keys [OF holds_ledgersD(1) [OF H None]] by (simp add: items_at_def p)
  next
    case (Some es)
    obtain h where h: "trace_stored (dy_reader dy) ?t tid es h" using holds_ledgersD(2) [OF H Some] ..
    show ?thesis
      unfolding list_all2_conv_all_nth
      using trace_storedD(2) [OF h] ledger_partition [OF h] Some by (fastforce simp: items_at_def p)
  qed
  then obtain vs where vs: "seqR (map (\<lambda>it. bindR (document_of it) (decode_event_json (dy_reader dy))) ?its) = Inr vs"
    "seqR (map typed_event vs) = Inr ?es"
    using decoded_events by blast
  then show ?thesis
    using query_items_answered [OF C A, of pk "''EVENT#''" s]
    by (simp add: read_events_def event_objects_def bindM_run(1) pk)
qed

lemma verify_answered:
  assumes C: "dynamo_contract (dy_client dy) tbl" and A: "answers (dy_client dy)"
    and H: "holds_ledgers (dy_reader dy) (tbl (dn_table s)) L" and es: "L tid = Some es"
    and pk: "trace_pk tid = Inr pk"
  shows "\<exists>v. verify_stored dy tid s = (Inr v, s)"
proof -
  let ?t = "tbl (dn_table s)"
  obtain h where h: "trace_stored (dy_reader dy) ?t tid es h" using holds_ledgersD(2) [OF H es] ..
  obtain it where it: "?t (pk_of tid, HEAD_SK) = Some it" "head_from (dy_reader dy) it = Inr h"
    using trace_storedD(1) [OF h] by blast
  obtain x where x: "cl_get (dy_client dy) pk HEAD_SK True (dn_table s) = Inr x"
    using answersD(1) [OF A] by blast
  have "x = Some it" using contractD(2) [OF C x] it(1) trace_pk_Inr [OF pk] by simp
  then have "read_head dy tid s = (Inr h, s)"
    using x it(2) by (simp add: read_head_def pk get_record_def readM_def bindM_def)
  then show ?thesis
    using read_events_answered [OF C A H pk] by (simp add: verify_stored_def bindM_run(1))
qed

section \<open>A small table\<close>

type_synonym rows = "(string \<times> string, item) dict"

text \<open>Pages of one item; a condition that fails cancels the transaction.\<close>

definition row_keys :: "rows \<Rightarrow> string \<Rightarrow> string \<Rightarrow> string list" where
  "row_keys d pk p =
     sort (remdups (map (\<lambda>r. snd (fst r)) (filter (\<lambda>r. fst (fst r) = pk \<and> starts_with p (snd (fst r))) d)))"

definition first_page :: "rows \<Rightarrow> string \<Rightarrow> string list \<Rightarrow> item list \<times> (string \<times> string) option" where
  "first_page d pk ks =
     (case ks of
        [] \<Rightarrow> ([], None)
      | k # rest \<Rightarrow> (items_at (dget d) pk [k], if rest = [] then None else Some (pk, k)))"

definition apply_row :: "write_action \<Rightarrow> rows \<Rightarrow> rows" where
  "apply_row a d = dput (action_key a) (action_item a (dget d)) d"

definition transact_rows :: "write_action list \<Rightarrow> rows \<Rightarrow> unit result \<times> rows" where
  "transact_rows acts d =
     (if distinct (map action_key acts) \<and> list_all (\<lambda>a. action_ok a (dget d)) acts
      then (Inr (), fold apply_row acts d)
      else (Inl (PyExc RuntimeError ''TransactionCanceledException''), d))"

definition small_client :: "rows client" where
  "small_client =
     \<lparr>cl_get = (\<lambda>pk sk _ d. Inr (dget d (pk, sk))),
      cl_query = (\<lambda>pk p start d. Inr (first_page d pk (keys_after start (row_keys d pk p)))),
      cl_transact = transact_rows,
      cl_put = (\<lambda>it. transact_rows [PutNew it]),
      cl_update = (\<lambda>pk sk sets c d.
        case c of
          Some cond \<Rightarrow> transact_rows [UpdateIf pk sk sets cond] d
        | None \<Rightarrow> (Inr (), apply_row (UpdateIf pk sk sets ([], AttrN 0)) d)),
      cl_delete = (\<lambda>ks d. (Inr (), fold dpop ks d)),
      cl_describe = (\<lambda>_. Inr ())\<rparr>"

lemma row_keys_partition: "row_keys d pk p = partition_keys (dget d) pk p"
proof -
  have "{sk. dget d (pk, sk) \<noteq> None \<and> starts_with p sk}
      = set (map (\<lambda>r. snd (fst r)) (filter (\<lambda>r. fst (fst r) = pk \<and> starts_with p (snd (fst r))) d))"
    by (force simp: map_of_eq_None_iff)
  then show ?thesis
    unfolding partition_keys_def row_keys_def by (simp only: sorted_list_of_set_sort_remdups)
qed

lemma apply_row_table: "dget (apply_row a d) = apply_action a (dget d)"
  by (rule ext) (simp add: apply_row_def apply_action_def)

lemma apply_rows_table: "dget (fold apply_row acts d) = fold apply_action acts (dget d)"
  by (induction acts arbitrary: d) (simp_all add: apply_row_table)

lemma transact_rows_outcome:
  "write_outcome (transaction acts (dget d)) (dget d) (fst (transact_rows acts d)) (dget (snd (transact_rows acts d)))"
  by (simp add: transact_rows_def transaction_def write_outcome_def apply_rows_table)

lemma first_page_ok: "page_ok (dget d) pk p start (first_page d pk (keys_after start (row_keys d pk p)))"
proof (cases "keys_after start (row_keys d pk p)")
  case Nil
  then show ?thesis by (simp add: first_page_def page_ok_def row_keys_partition items_at_def)
next
  case (Cons k rest)
  then show ?thesis
    by (auto simp: first_page_def page_ok_def row_keys_partition items_at_def Let_def intro!: exI [of _ 1])
qed

lemma small_contract: "dynamo_contract small_client dget"
  unfolding dynamo_contract_def
proof (intro conjI allI impI)
  fix d show "finite (dom (dget d))" by (rule finite_dom_map_of)
next
  fix d :: rows and pk sk sets c
  show "write_outcome (updated pk sk sets c (dget d)) (dget d)
      (fst (cl_update small_client pk sk sets c d)) (dget (snd (cl_update small_client pk sk sets c d)))"
  proof (cases c)
    case None
    then show ?thesis by (simp add: small_client_def updated_def write_outcome_def apply_row_table)
  next
    case (Some cond)
    then show ?thesis using transact_rows_outcome [of "[UpdateIf pk sk sets cond]" d]
      by (simp add: small_client_def updated_def)
  qed
qed (auto simp: small_client_def first_page_ok transact_rows_outcome)

lemma small_answers: "answers small_client"
  by (simp add: answers_def small_client_def)


definition small_dynamo :: "rows dynamo" where
  "small_dynamo =
     \<lparr>dy_table_name = ''manifest'', dy_endpoint = None, dy_region = ''us-east-1'',
      dy_namespace = ''local-demo'', dy_client = small_client, dy_reader = sample_reader\<rparr>"

definition small_cluster :: "rows cluster" where
  "small_cluster =
     \<lparr>cu_table = [],
      cu_world = \<lparr>wd_uuids = show_nat, wd_clock = (\<lambda>_. 1700000000000000),
        wd_latency = (\<lambda>_. FFinite 0 ''0.0''), wd_uuid_pos = 0, wd_clock_pos = 0, wd_latency_pos = 0\<rparr>,
      cu_writers = (\<lambda>_. \<lparr>wr_state = new_trajectory ''TR-1'' ''ORD-1'', wr_pending = Idle\<rparr>)\<rparr>"

definition small_description :: event_description where
  "small_description =
     \<lparr>ed_event_type = ET_RUN_STARTED, ed_summary = ''Started.'', ed_details = [], ed_agent = None,
      ed_tool_name = None, ed_effect_class = None, ed_idempotency_key = Some ''run:TR-1''\<rparr>"

lemma small_cluster_fresh: "fresh_cluster dget small_cluster"
  by (simp add: fresh_cluster_def small_cluster_def sample_instant)

lemma small_contracts: "dynamo_contract (dy_client small_dynamo) dget" "answers (dy_client small_dynamo)"
  by (simp_all add: small_dynamo_def small_contract small_answers)

text \<open>The cluster after one writer has created the trace.\<close>

definition created_cluster :: "rows cluster" where
  "created_cluster = leave 0 Idle (snd (create_stored small_dynamo (enter 0 small_cluster))) small_cluster"

lemma created_step: "cluster_step small_dynamo small_cluster created_cluster"
proof -
  obtain r s where "create_stored small_dynamo (enter 0 small_cluster) = (r, s)" by fastforce
  then show ?thesis
    using create [where w = 0 and c = small_cluster and dy = small_dynamo]
    by (simp add: created_cluster_def small_cluster_def)
qed

section \<open>Failed appends\<close>

definition grown :: "trace_event \<Rightarrow> trajectory_state \<Rightarrow> trajectory_state" where
  "grown e st =
     st\<lparr>ts_events := ts_events st @ [e], ts_next_sequence := ts_next_sequence st + 1,
        ts_storage_revision := ts_storage_revision st + 1\<rparr>"

lemma steady_read_head: "keepsI (\<lambda>x. x = s0) (read_head dy tid)"
  unfolding read_head_def get_record_def by (intro keeps) (simp_all add: keepsI_def readM_def)

lemma steady_replay: "keepsI (\<lambda>s. dn_state s = st \<and> dn_table s = d) (replay_action tid entry n)"
  unfolding replay_action_def
  by (intro keeps keepsI_case_prod) (simp_all add: keepsI_def now_utc_def)

lemma steady_actions:
  "keepsI (\<lambda>s. dn_state s = st \<and> dn_table s = d) (plan_actions tid entry h h' n e)"
  unfolding plan_actions_def by (intro keeps steady_replay)

lemma plan_actions_revision: "plan_actions tid entry h h' n e s = (Inr plan, t) \<Longrightarrow> ap_old_revision plan = n"
  by (auto simp: plan_actions_def bindM_Inr)

lemma plan_append_state:
  assumes "plan_append dy d entry s = (r, t)"
  shows "dn_table t = dn_table s \<and>
    (case r of
       Inl _ \<Rightarrow> dn_state t = dn_state s \<or> (\<exists>e. dn_state t = grown e (dn_state s))
     | Inr plan \<Rightarrow> ap_old_revision plan = ts_storage_revision (dn_state s) \<and>
         (\<exists>e. dn_state t = grown e (dn_state s)))"
proof -
  let ?tid = "ts_trace_id (dn_state s)"
  obtain rh where rh: "read_head dy ?tid s = (rh, s)"
    using keepsID [OF steady_read_head refl] by (metis surj_pair)
  show ?thesis
  proof (cases rh)
    case (Inl e)
    then show ?thesis using assms rh by (auto simp: plan_append_def bindM_run)
  next
    case (Inr h)
    let ?now = "wd_clock (dn_world s) (wd_clock_pos (dn_world s))"
    let ?uid = "wd_uuids (dn_world s) (wd_uuid_pos (dn_world s))"
    let ?x = "new_event ?tid d h ?uid ?now"
    show ?thesis
    proof (cases "calculate_event_hash ?x")
      case (Inl e)
      then show ?thesis using assms rh Inr
        by (auto simp: plan_append_def bindM_run now_utc_def new_uuid_def bindM_def Let_def split: if_splits)
    next
      case (Inr hash)
      let ?e = "?x\<lparr>te_event_hash := hash\<rparr>"
      consider "dn_state t = dn_state s" "dn_table t = dn_table s" "\<exists>e. r = Inl e"
        | h' u where "plan_actions ?tid entry h h' (ts_storage_revision (dn_state s)) ?e u = (r, t)"
          "dn_state u = grown ?e (dn_state s)" "dn_table u = dn_table s"
        using assms rh \<open>rh = Inr h\<close> Inr
        by (auto simp: plan_append_def bindM_run now_utc_def new_uuid_def bindM_def thenM_def grown_def Let_def
            split: if_splits)
      then show ?thesis
      proof cases
        case 2
        then have "dn_state t = grown ?e (dn_state s) \<and> dn_table t = dn_table s"
          using keepsID [OF steady_actions _ 2(1)] by blast
        then show ?thesis using plan_actions_revision 2(1) by (auto split: sum.split)
      qed auto
    qed
  qed
qed


text \<open>
  The document of an event is made after the object has been changed and outside the handler that
  restores it: an event that cannot be encoded, for instance one over the item limit, stays in the
  caller's object although nothing was stored.
\<close>

lemma unencodable_event_stays:
  assumes "recorded_event dy d s = (Inr (entry, None), s)"
    and "read_head dy (ts_trace_id (dn_state s)) s = (Inr h, s)"
    and "ts_next_sequence (dn_state s) = lh_sequence h + 1"
    and "e = new_event (ts_trace_id (dn_state s)) d h
      (wd_uuids (dn_world s) (wd_uuid_pos (dn_world s))) (wd_clock (dn_world s) (wd_clock_pos (dn_world s)))"
    and "calculate_event_hash e = Inr x" "event_sk (te_sequence e) = Inr sk"
    and "encode_event_json (e\<lparr>te_event_hash := x\<rparr>) = Inl err"
  shows "fst (append_stored dy d s) = Inl err \<and>
    dn_state (snd (append_stored dy d s)) = grown (e\<lparr>te_event_hash := x\<rparr>) (dn_state s) \<and>
    dn_table (snd (append_stored dy d s)) = dn_table s"
  using assms
  by (simp add: append_stored_def prepare_append_def bindM_run plan_append_def plan_actions_def
      now_utc_def new_uuid_def bindM_def thenM_def Let_def monad_defs grown_def)

lemma commit_append_failure:
  assumes "commit_append dy plan s = (Inl e, t)"
  shows "dn_state t = dn_state s\<lparr>ts_events := butlast (ts_events (dn_state s)),
      ts_next_sequence := ts_next_sequence (dn_state s) - 1, ts_storage_revision := ap_old_revision plan\<rparr> \<and>
    e = conflict (ts_trace_id (dn_state s))"
proof -
  obtain r u where u: "transact dy (ap_actions plan) s = (r, u)" "dn_state u = dn_state s"
    by (cases "transact dy (ap_actions plan) s") (auto simp: transact_def writeM_def split: prod.splits)
  then show ?thesis
    using assms by (cases r) (auto simp: commit_append_def thenM_def bindM_def catchM_def monad_defs)
qed

lemma grown_undone:
  "(grown e st)\<lparr>ts_events := butlast (ts_events (grown e st)),
     ts_next_sequence := ts_next_sequence (grown e st) - 1, ts_storage_revision := ts_storage_revision st\<rparr> = st"
  by (simp add: grown_def)

section \<open>Claims\<close>

text \<open>
  C5. The durable store refines one growing ledger per trace.  A new table holds no ledger, and any
  step of any of the writers that share the table - each append in its separate reads and its
  transaction, whose outcome may be lost - leaves every ledger as it is, starts an empty one for
  a new trace, or adds one event that continues the chain and carries no idempotency key used
  before.\<close>

theorem cluster_refines_ledgers:
  assumes "dynamo_contract (dy_client dy) tbl"
  shows "(\<forall>c. fresh_cluster tbl c \<longrightarrow> cluster_holds dy tbl c (\<lambda>_. None)) \<and>
    (\<forall>c c' L. cluster_holds dy tbl c L \<longrightarrow> cluster_step dy c c' \<longrightarrow>
       (\<exists>L'. ledger_step L L' \<and> cluster_holds dy tbl c' L'))"
  using fresh_holds cluster_step_holds [OF assms] by blast

theorem cluster_refines_ledgers_witness:
  "cluster_holds small_dynamo dget small_cluster (\<lambda>_. None) \<and>
   (\<exists>L. ledger_step (\<lambda>_. None) L \<and> cluster_holds small_dynamo dget created_cluster L)"
  using cluster_refines_ledgers [OF small_contracts(1)] small_cluster_fresh created_step by blast






text \<open>
  A verification reads the events and then the head.  When an event is stored between the two reads,
  an intact ledger is reported as invalid.
\<close>

lemma verification_is_not_a_snapshot:
  assumes "head_ok h es'" "es' = es @ new" "new \<noteq> []"
  shows "\<not> vr_valid (verify_chain tid es h)"
  using assms by (simp add: verify_chain_iff head_ok_def)

text \<open>
  C14. A failed append restores the caller's object: once the transaction has been sent, any failure
  of it leaves events, next sequence and revision as they were and is reported as a
  conflict.  Before that the table is untouched and the object is unchanged or,
  where the new documents could not be made, holds exactly the new event.\<close>

theorem failed_appends_roll_back:
  assumes "append_stored dy d s = (Inl e, t)"
  shows "case fst (prepare_append dy d s) of
      Inr _ \<Rightarrow> dn_state t = dn_state s \<and> e = conflict (ts_trace_id (dn_state s))
    | Inl _ \<Rightarrow> dn_table t = dn_table s \<and>
        (dn_state t = dn_state s \<or> (\<exists>ev. dn_state t = grown ev (dn_state s)))"
proof -
  obtain x where rec: "recorded_event dy d s = (x, s)"
    using keepsID [OF steady_recorded refl] by (metis surj_pair)
  show ?thesis
  proof (cases "\<exists>entry. x = Inr (entry, None)")
    case False
    then show ?thesis
      using assms rec
      by (auto simp: append_stored_def prepare_append_def bindM_def monad_defs split: sum.splits option.splits)
  next
    case True
    then obtain entry where x: "recorded_event dy d s = (Inr (entry, None), s)" using rec by blast
    obtain r u where u: "plan_append dy d entry s = (r, u)" by fastforce
    note st = plan_append_state [OF u]
    show ?thesis
    proof (cases r)
      case (Inl err)
      then show ?thesis
        using assms x u st by (auto simp: append_stored_def prepare_append_def bindM_def)
    next
      case (Inr plan)
      then obtain ev where ev: "dn_state u = grown ev (dn_state s)"
        "ap_old_revision plan = ts_storage_revision (dn_state s)"
        using st by auto
      have p: "prepare_append dy d s = (Inr (Inr plan), u)"
        using x u Inr by (simp add: prepare_append_def bindM_def monad_defs)
      then have "commit_append dy plan u = (Inl e, t)" using assms by (simp add: append_stored_def bindM_def)
      from commit_append_failure [OF this] show ?thesis
        using grown_undone [where e = ev and st = "dn_state s"] ev p by (simp add: grown_def)
    qed
  qed
qed

theorem failed_appends_roll_back_witness:
  "\<exists>e t. append_stored small_dynamo (small_description\<lparr>ed_idempotency_key := None\<rparr>) (enter 0 small_cluster) = (Inl e, t) \<and>
     e = not_found ''TR-1'' \<and> dn_table t = [] \<and>
     (dn_state t = new_trajectory ''TR-1'' ''ORD-1'' \<or>
      (\<exists>ev. dn_state t = grown ev (new_trajectory ''TR-1'' ''ORD-1'')))"
proof -
  let ?d = "small_description\<lparr>ed_idempotency_key := None\<rparr>"
  let ?s = "enter 0 small_cluster"
  have tid: "ts_trace_id (dn_state ?s) = ''TR-1''"
    by (simp add: enter_def small_cluster_def new_trajectory_def)
  have pk: "trace_pk ''TR-1'' = Inr (pk_of ''TR-1'')"
    by (simp add: trace_pk_def safe_identifier_def safe_text_def alnum_def in_range_def pk_of_def)
  have "read_head small_dynamo ''TR-1'' ?s = (Inl (not_found ''TR-1''), ?s)"
    by (simp add: read_head_def pk get_record_def readM_def bindM_def monad_defs small_dynamo_def small_client_def
        enter_def small_cluster_def)
  then have p: "prepare_append small_dynamo ?d ?s = (Inl (not_found ''TR-1''), ?s)"
    by (simp add: prepare_append_def recorded_event_def plan_append_def bindM_run tid)
  then have "append_stored small_dynamo ?d ?s = (Inl (not_found ''TR-1''), ?s)"
    by (simp add: append_stored_def bindM_run)
  from this failed_appends_roll_back [OF this] show ?thesis
    using p by (simp add: enter_def small_cluster_def)
qed

text \<open>
  C13. A query reads the whole partition: under any page sizes that DynamoDB may choose the loop over
  the pages ends, and unless a page fails it returns every item with the prefix, in the order of
  the sort keys and none twice.\<close>

theorem query_returns_all_items:
  assumes "dynamo_contract cl tbl"
  shows "\<exists>r. query_pages cl pk p None [] d = Some r \<and>
    (\<forall>its. r = Inr its \<longrightarrow> its = items_at (tbl d) pk (partition_keys (tbl d) pk p))"
  using query_pages_complete [OF assms, of pk p None "[]" d] by (auto simp: keys_after_def)


definition small_rows :: rows where
  "small_rows =
     [((''P'', ''A2''), [(''X'', AttrN 2)]), ((''P'', ''B''), [(''X'', AttrN 3)]), ((''P'', ''A1''), [(''X'', AttrN 1)])]"

theorem query_returns_all_items_witness:
  "query_pages small_client ''P'' ''A'' None [] small_rows = Some (Inr [[(''X'', AttrN 1)], [(''X'', AttrN 2)]]) \<and>
   items_at (dget small_rows) ''P'' (partition_keys (dget small_rows) ''P'' ''A'') = [[(''X'', AttrN 1)], [(''X'', AttrN 2)]]"
proof -
  have "query_pages small_client ''P'' ''A'' None [] small_rows = Some (Inr [[(''X'', AttrN 1)], [(''X'', AttrN 2)]])"
    by code_simp
  then show ?thesis using query_returns_all_items [OF small_contract, of "''P''" "''A''" small_rows] by auto
qed

end
