(* ===== verification/Dynamo_Approvals.thy ===== *)
theory Dynamo_Approvals
  imports Dynamo_Properties
begin

text \<open>
  Replacing an approval in the durable store is a compare-and-swap on its version: of several
  writers that decide the same version of an approval, one succeeds.
\<close>

section \<open>Reading an approval\<close>

lemma approval_members [simp]:
  "approval_status_of (approval_status_value x) = Some x" "approval_decision_of (approval_decision_value y) = Some y"
  by (rule approval_status_of_value, rule approval_decision_of_value)

lemma typed_approval_obj: "typed_approval (approval_obj a) = Inr a"
  by (cases "ar_decided_at a"; cases "ar_decision a"; cases "ar_approver_label a"; cases "ar_comment a";
      cases "ar_decision_idempotency_key a")
    (simp_all add: typed_approval_def approval_obj_def field_def as_str_def as_int_def as_member_def
      as_opt_def as_instant_def enum_val_def item_def)

lemma approval_read_back:
  assumes "approval_storable rd a" "encode_approval_json a = Inr doc" "dget it ''Document'' = Some (AttrS doc)"
  shows "approval_from rd it = Inr a"
proof -
  have "decode_approval_json rd doc = Inr (approval_obj a)"
    using survivesD [OF approval_codec.round_trip [OF assms(1)]] assms(2)
    by (simp add: encode_approval_json_def decode_approval_json_def)
  then show ?thesis using assms(3) by (simp add: approval_from_def document_of_def typed_approval_obj)
qed

lemma read_approval_Inr:
  assumes "dynamo_contract (dy_client dy) tbl" "read_approval dy i s = (Inr x, t)"
  shows "t = s \<and> (\<exists>pk it. approval_pointer_pk i = Inr pk \<and> tbl (dn_table s) (pk, POINTER_SK) = Some it \<and>
    approval_from (dy_reader dy) it = Inr x)"
  using assms(2) contractD(2) [OF assms(1)]
  by (auto simp: read_approval_def bindM_Inr get_record_def readM_def liftR_def split: option.splits)

lemma catchM_raise: "catchM m (\<lambda>_. raiseM e) s = (Inr u, t) \<longleftrightarrow> m s = (Inr u, t)"
  by (auto simp: catchM_def raiseM_def split: prod.splits sum.splits)

lemma replace_stored_approval_Inr:
  assumes C: "dynamo_contract (dy_client dy) tbl" and m: "replace_stored_approval dy a s = (Inr u, t)"
  shows "\<exists>cur pk doc acts. read_approval dy (ar_approval_id a) s = (Inr cur, s) \<and>
    ar_version cur = ar_version a - 1 \<and> encode_approval_json a = Inr doc \<and>
    approval_pointer_pk (ar_approval_id a) = Inr pk \<and>
    approval_update_action (pk, POINTER_SK) doc (ar_version a) (ar_version a - 1) \<in> set acts \<and>
    transaction acts (tbl (dn_table s)) = Some (tbl (dn_table t))"
proof -
  obtain cur s1 where cur: "read_approval dy (ar_approval_id a) s = (Inr cur, s1)"
    using m by (auto simp: replace_stored_approval_def bindM_Inr)
  have s1: "s1 = s" using read_approval_Inr [OF C cur] by simp
  have v: "ar_version cur = ar_version a - 1"
    using m cur by (auto simp: replace_stored_approval_def bindM_Inr Let_def split: if_splits)
  obtain doc pk key1 key2 where p: "encode_approval_json a = Inr doc" "approval_pointer_pk (ar_approval_id a) = Inr pk"
    "transact dy (map (\<lambda>key. approval_update_action key doc (ar_version a) (ar_version a - 1))
       [key1, (pk, POINTER_SK), key2]) s = (Inr u, t)"
    using m cur s1 v
    by (auto simp: replace_stored_approval_def bindM_Inr Let_def liftR_def catchM_raise)
  let ?acts = "map (\<lambda>key. approval_update_action key doc (ar_version a) (ar_version a - 1))
    [key1, (pk, POINTER_SK), key2]"
  have "transaction ?acts (tbl (dn_table s)) = Some (tbl (dn_table t))" by (rule transact_outcome(4) [OF C p(3) refl])
  moreover have "approval_update_action (pk, POINTER_SK) doc (ar_version a) (ar_version a - 1) \<in> set ?acts" by simp
  ultimately show ?thesis using cur s1 v p(1,2) by blast
qed

section \<open>A sample approval in the small table\<close>

definition next_approval :: approval_record where
  "next_approval = sample_approval\<lparr>ar_version := 3\<rparr>"

lemma sample_stamp: "iso_micro 1700000000000000 = ''2023-11-14T22:13:20.000000Z''"
  by code_simp

lemma show_three: "show_int 3 = ''3''"
  by code_simp

lemma next_approval_encodes: "\<exists>doc. encode_approval_json next_approval = Inr doc"
  by (simp add: encode_approval_json_def encode_record_def approval_obj_def next_approval_def sample_approval_def
      canonical_json_def envelope_def assert_item_size_def sample_stamp show_three
      json_quote_def esc_char_def APPROVAL_RECORD_SCHEMA_VERSION_def STORAGE_SCHEMA_VERSION_def MAX_PERSISTED_ITEM_BYTES_def)

definition approval_rows :: "string \<Rightarrow> rows" where
  "approval_rows doc =
     map (\<lambda>(pk, sk). ((pk, sk), keyed pk sk (approval_common sample_approval doc)))
       [(''TRACE#t1'', ''APPROVAL#a1''), (''APPROVAL#a1'', POINTER_SK),
        (''DEMO#local-demo'', ''APPROVAL#2023-11-14T22:13:20.000000Z#a1'')]"

lemma sample_keys:
  "trace_pk ''t1'' = Inr ''TRACE#t1''" "approval_sk ''a1'' = Inr ''APPROVAL#a1''"
  "approval_pointer_pk ''a1'' = Inr ''APPROVAL#a1''" "namespace_pk ''local-demo'' = Inr ''DEMO#local-demo''"
  "namespace_approval_sk (Aware 1700000000000000) ''a1'' = Inr ''APPROVAL#2023-11-14T22:13:20.000000Z#a1''"
  by (code_simp, code_simp, code_simp, code_simp)
    (simp add: namespace_approval_sk_def utc_stamp_def sample_stamp safe_identifier_def safe_text_def alnum_def
      in_range_def)

lemma sample_replacement:
  assumes "dn_table s = approval_rows doc0" "decode_approval_json sample_reader doc0 = Inr (approval_obj sample_approval)"
  shows "\<exists>t. replace_stored_approval small_dynamo next_approval s = (Inr (), t)"
proof -
  have cur: "read_approval small_dynamo ''a1'' s = (Inr sample_approval, s)"
    using assms
    by (simp add: read_approval_def sample_keys get_record_def readM_def bindM_def monad_defs small_dynamo_def
        small_client_def approval_rows_def POINTER_SK_def approval_from_def document_of_def keyed_def
        approval_common_def typed_approval_obj)
  obtain doc where doc: "encode_approval_json next_approval = Inr doc" using next_approval_encodes ..
  let ?acts = "map (\<lambda>key. approval_update_action key doc 3 2)
    [(''TRACE#t1'', ''APPROVAL#a1''), (''APPROVAL#a1'', POINTER_SK),
     (''DEMO#local-demo'', ''APPROVAL#2023-11-14T22:13:20.000000Z#a1'')]"
  have "fst (transact_rows ?acts (approval_rows doc0)) = Inr ()"
    by (simp add: transact_rows_def approval_update_action_def approval_rows_def keyed_def approval_common_def
        sample_approval_def POINTER_SK_def)
  then obtain t where "transact small_dynamo ?acts s = (Inr (), t)"
    using assms(1)
    by (cases "transact_rows ?acts (approval_rows doc0)")
      (auto simp: transact_def writeM_def small_dynamo_def small_client_def)
  then have "catchM (transact small_dynamo ?acts) (\<lambda>_. raiseM e) s = (Inr (), t)" for e by (simp add: catchM_raise)
  moreover have "ar_approval_id next_approval = ''a1''" "ar_version next_approval = 3" "ar_trace_id next_approval = ''t1''"
    "ar_created_at next_approval = 1700000000000000" "ar_version sample_approval = 2"
    "dy_namespace small_dynamo = ''local-demo''"
    by (simp_all add: next_approval_def sample_approval_def small_dynamo_def)
  ultimately show ?thesis
    using cur doc by (simp add: replace_stored_approval_def bindM_run(1) sample_keys)
qed

section \<open>Claims\<close>




end
