(* ===== verification/Spec2Isabelle.thy ===== *)
theory Spec2Isabelle
  imports Run_Outcomes Dashboard Observer Dynamo_Approvals
begin

text \<open>
  Verification of the Manifest governance runtime (\<open>packages/\<close>, \<open>apps/runtime/\<close>, \<open>fixtures/\<close>).

  \<^bold>\<open>The program.\<close> Four roles carry an order through inventory, dispatch, carrier booking and
  customer communication.  Every tool call of a role passes the governor, which builds a policy
  request, asks a policy engine for signals, combines them into one decision (allow, guide, block,
  escalate), records attempt, decision and outcome in a hash-chained ledger, and, when the decision
  allows it, runs the tool exactly once per idempotency key.  An escalated confirmation pauses the
  run until an approver decides; the application service resolves or expires the approval and lets
  the orchestrator resume or cancel the run.  The ledger can be verified at any time; a dashboard
  projects the recorded decisions; a durable store keeps the same records as JSON documents under
  validated keys.

  \<^bold>\<open>Theories and sources.\<close>
  \<^item> \<open>Prelude\<close>: results, the state-and-exception monad, the \<open>keeps\<close> calculus of preserved
    invariants, insertion-ordered dictionaries, text operations.
  \<^item> \<open>Domain_Base\<close>, \<open>PyValue\<close>, \<open>Domain\<close>: \<open>packages/domain\<close> and \<open>packages/storage/models.py\<close>; the
    dynamically typed values with truth, equality, \<open>str\<close>, \<open>repr\<close>, \<open>int\<close> and \<open>isoformat\<close>.
  \<^item> \<open>Sha256\<close>, \<open>Canonical\<close>, \<open>Hash_Chain\<close>, \<open>Verifier\<close>: \<open>packages/ledger/canonical.py\<close> and
    \<open>verifier.py\<close>, with SHA-256 itself and the chain argument as the locale \<open>hash_chain\<close>.
  \<^item> \<open>Memory_Store\<close>, \<open>Append_Only\<close>, \<open>Store_Invariants\<close>, \<open>Store_Properties\<close>:
    \<open>packages/ledger/memory_store.py\<close>; the locale of append-only repositories and its
    interpretation on the store.
  \<^item> \<open>Commitments\<close>, \<open>Approvals\<close>: \<open>packages/commitments\<close> and \<open>packages/approvals\<close>.
  \<^item> \<open>Fixtures\<close>, \<open>Repo_Fixtures\<close>: \<open>fixtures/loader.py\<close> and the repository's fixture files.
  \<^item> \<open>Policy\<close>, \<open>Policy_Properties\<close>: \<open>packages/policy/python_engine.py\<close>, \<open>packages/governor/reasons.py\<close>.
  \<^item> \<open>Tools\<close>, \<open>Tool_Properties\<close>: \<open>packages/tools\<close>.
  \<^item> \<open>Governor\<close>, \<open>Governor_Frame\<close>, \<open>Governor_Properties\<close>, \<open>Governor_Effects\<close>,
    \<open>Governor_Liveness\<close>: \<open>packages/governor/governor.py\<close>; \<open>Observer\<close>: \<open>observer.py\<close>.
  \<^item> \<open>Agents\<close>, \<open>Orchestrator\<close>, \<open>Service\<close>, \<open>Runtime_Invariants\<close>, \<open>Service_Properties\<close>,
    \<open>Run_Outcomes\<close>: \<open>apps/runtime\<close> (deterministic roles, projector, orchestrator, settings, service).
  \<^item> \<open>Dashboard\<close>: \<open>packages/projections/dashboard.py\<close>.
  \<^item> \<open>Keyspace\<close>, \<open>Civil_Time\<close>, \<open>Json_Reader\<close>, \<open>Codec\<close>, \<open>Codec_Properties\<close>, \<open>State_Codec\<close>:
    \<open>packages/storage/keyspace.py\<close> and \<open>codec.py\<close>, with the calendar, \<open>fromisoformat\<close> and
    \<open>json.loads\<close> that the decoders use.
  \<^item> \<open>Dynamo_Store\<close>, \<open>Dynamo_Contract\<close>, \<open>Dynamo_Ledger\<close>, \<open>Dynamo_Cluster\<close>,
    \<open>Dynamo_Properties\<close>, \<open>Dynamo_Approvals\<close>: \<open>packages/storage/dynamodb.py\<close> and \<open>factory.py\<close>; the
    documented behaviour of the DynamoDB client; the ledgers a table holds; several writers over
    one table as the step relation \<open>cluster_step\<close>, in which an append is a look-up, a plan and a
    commit that other writers may interrupt.

  \<^bold>\<open>State.\<close> One record holds what the Python objects share: the store's dictionaries (\<open>db\<close>), the
  caller's \<open>TrajectoryState\<close> (\<open>cur\<close>), the adapters' tables (\<open>tools\<close>) and the platform (\<open>world\<close>:
  supplies of \<open>uuid4\<close> texts, clock readings and latencies).  A method is a function from this state
  to an outcome and the state it leaves; an exception also returns the state, so that what was
  written before a \<open>raise\<close> stays written.  Store operations and the resolution of an approval run
  under locks and are single steps; concurrency is the order of these steps, which the theorems
  leave open by ranging over all command sequences.  The durable store has a state of its own
  (\<open>dyn_sys\<close>: the caller's object, the table, the platform), and the writers over one table form a
  \<open>cluster\<close>.

  \<^bold>\<open>What is shown.\<close> Ledger: every reachable trace verifies, histories only grow, a head commits to
  its history up to an explicit SHA-256 collision, tampering is found, stale writers are refused,
  replays return the first event.  Policy and governor: the reference engine allows exactly what the
  six policy families demand; in enforce mode nothing takes effect that the policy forbids or that
  an engine fails to judge; calls and guided retries are bounded; the accounts move only by
  confirmation and cancellation; a durable write runs once; a call within the limit comes to a
  recorded decision.  Service: approvals are decided once, commands are replayed, runs end in a
  matching stage and always return with the deterministic roles.  Storage: event keys sort like
  sequence numbers, keys of different kinds never coincide, every record comes back from its
  document, an event with its hash intact, and a document is never taken for another kind.
  Durable store: under any interleaving of writers, lost responses included, a table
  refines one growing ledger per trace; what is stored verifies, never shrinks and carries an
  idempotency key once; an approval is replaced once per version; queries read every page; a
  failed transaction restores the caller's object.  Dashboard: the risk score is its declared
  method.

  \<^bold>\<open>Interfaces.\<close> \<open>hash_chain\<close>, \<open>append_only\<close> and its extensions, \<open>runtime_invariant\<close>,
  \<open>store_invariant\<close> and \<open>record_codec\<close> are locales; each is interpreted on the model's own
  operations, and the claims rest on the interpreted facts.

  \<^bold>\<open>Bounds and fuel.\<close> \<open>json_loads\<close> recurses with fuel twice the length of the text plus two; every
  nested call follows the consumption of a character, and the reading lemmas show the fuel to be
  enough for every document that \<open>json.dumps\<close> writes.  No other definition uses fuel; the paging
  loop of a query is a partial function that is shown to return.  Python
  integers are unbounded \<open>int\<close>s; money texts are exact for amounts up to \<open>2 ^ 53\<close>; instants are
  microseconds and are representable for the years 1 to 9999; documents are limited to 350000 bytes.

  \<^bold>\<open>Parameters.\<close> The policy engine of the governor, the model-driven roles, the parsed fixture
  files, the platform, the DynamoDB client with the contract \<open>dynamo_contract\<close> (met by
  \<open>small_client\<close>), and for the decoders the interpreter's float literals, \<open>fromisoformat\<close> of
  texts outside the extended form and \<open>dict\<close> of a list.

  \<^bold>\<open>Not modelled.\<close> The construction of the boto3 client, the Cedar adapter and its Rust
  decision point, the model-driven roles on the strands library, the HTTP API, the evaluation
  harness and the scripts: I/O, frameworks and third-party code around the modelled core.  The interpreter's limits on the length of integer texts and on recursion depth are left
  out.
\<close>

end
